(* ===== verification/Js_Prelude.thy ===== *)
theory Js_Prelude
  imports Main "HOL-Library.Word" "HOL-Library.Sublist" "HOL-Library.List_Lexorder"
    "HOL-Library.Multiset"
begin

text \<open>
  Shared ground of the development: JavaScript strings as lists of UTF-16 code units with the
  library operations the front end uses, insertion-ordered sets and maps, the stable comparator
  sort of \<^verbatim>\<open>Array.prototype.sort\<close>, the result of a server query, and the abstract view
  tree that the component theories render to.  Two interfaces live here because several
  components share them: \<open>comparator\<close> (what a sort asks of its comparison function) and
  \<open>membership_toggle\<close> (what every filter, favourite and multi-select toggle promises).
\<close>

named_theorems js_defs "definitions of the string library"
named_theorems view_defs "definitions of component views"
named_theorems inv_intros "preservation lemmas of the components' invariants"

section \<open>Strings\<close>

text \<open>
  A JavaScript string is a sequence of 16-bit code units; \<open>length\<close>, indices and slices
  count units, and the built-in string order compares units.  \<open>js\<close> embeds a literal.
\<close>

type_synonym code_unit = "16 word"
type_synonym jsstr = "code_unit list"

definition js :: "string \<Rightarrow> jsstr" where
  "js s = map of_char s"

lemma unat_of_char: "unat (of_char c :: 16 word) = of_char c"
proof -
  have "(of_char c :: nat) mod 256 = of_char c"
    by (rule of_char_mod_256)
  then have "(of_char c :: nat) < 256"
    by (metis mod_less_divisor zero_less_numeral)
  then have "(of_char c :: nat) < 2 ^ LENGTH(16)"
    by (rule order.strict_trans2) simp
  then have "unat (of_nat (of_char c) :: 16 word) = of_char c"
    by (simp only: unat_of_nat mod_less)
  then show ?thesis by (simp only: of_nat_of_char)
qed

lemma inj_of_char_word: "inj (of_char :: char \<Rightarrow> 16 word)"
  by (rule injI) (metis of_char_eqI unat_of_char)

lemma js_eq_iff [simp]: "js s = js t \<longleftrightarrow> s = t"
  by (simp add: js_def inj_of_char_word inj_map_eq_map)

lemma js_Nil [simp]: "js [] = []"
  by (simp add: js_def)

lemma js_eq_Nil [simp]: "js s = [] \<longleftrightarrow> s = []" "[] = js s \<longleftrightarrow> s = []"
  by (simp_all add: js_def)

lemma js_Cons: "js (c # s) = of_char c # js s"
  by (simp add: js_def)

lemma length_js [simp]: "length (js s) = length s"
  by (simp add: js_def)

text \<open>The white space that \<^verbatim>\<open>trim\<close> removes: the WhiteSpace and LineTerminator units.\<close>

definition is_ws :: "code_unit \<Rightarrow> bool" where
  "is_ws c \<longleftrightarrow> c \<in> set [9, 10, 11, 12, 13, 32, 160, 0x1680, 0x2000, 0x2001, 0x2002, 0x2003,
     0x2004, 0x2005, 0x2006, 0x2007, 0x2008, 0x2009, 0x200A, 0x2028, 0x2029, 0x202F, 0x205F,
     0x3000, 0xFEFF]"

definition trim :: "jsstr \<Rightarrow> jsstr" where
  "trim s = rev (dropWhile is_ws (rev (dropWhile is_ws s)))"

lemma dropWhile_idem: "dropWhile P (dropWhile P xs) = dropWhile P xs"
  by (induction xs) auto

lemma trim_hd: "trim s \<noteq> [] \<Longrightarrow> \<not> is_ws (hd (trim s))"
proof -
  assume ne: "trim s \<noteq> []"
  let ?d = "dropWhile is_ws s"
  have "suffix (rev (trim s)) (rev ?d)"
    by (simp add: trim_def suffix_dropWhile)
  then have "prefix (trim s) ?d"
    by (simp add: suffix_to_prefix)
  with ne have "hd (trim s) = hd ?d" and "?d \<noteq> []"
    by (auto simp: prefix_def simp del: dropWhile_eq_Nil_conv)
  then show ?thesis by (metis hd_dropWhile)
qed

lemma trim_last: "trim s \<noteq> [] \<Longrightarrow> \<not> is_ws (last (trim s))"
  unfolding trim_def by (simp add: last_rev hd_dropWhile)

lemma trim_id: "s = [] \<or> (\<not> is_ws (hd s) \<and> \<not> is_ws (last s)) \<Longrightarrow> trim s = s"
proof (elim disjE conjE)
  assume hd: "\<not> is_ws (hd s)" and last: "\<not> is_ws (last s)"
  show "trim s = s"
  proof (cases "s = []")
    case False
    then have "dropWhile is_ws s = s" using hd by (cases s) auto
    moreover have "dropWhile is_ws (rev s) = rev s"
      using False last by (cases "rev s") (auto simp: hd_rev [symmetric])
    ultimately show ?thesis by (simp add: trim_def)
  qed (simp add: trim_def)
qed (simp add: trim_def)

lemma trim_idem [simp]: "trim (trim s) = trim s"
  using trim_id [of "trim s"] trim_hd [of s] trim_last [of s] by blast

lemma trim_length: "length (trim s) \<le> length s"
  unfolding trim_def
  by (metis dual_order.trans length_dropWhile_le length_rev)

text \<open>Substring test, slices, splitting at one unit, joining.\<close>

definition str_includes :: "jsstr \<Rightarrow> jsstr \<Rightarrow> bool" where
  "str_includes s t = sublist t s"

definition slice :: "nat \<Rightarrow> nat \<Rightarrow> 'a list \<Rightarrow> 'a list" where
  "slice a b xs = take (b - a) (drop a xs)"

fun split_on :: "code_unit \<Rightarrow> jsstr \<Rightarrow> jsstr list" where
  "split_on d [] = [[]]"
| "split_on d (c # cs) =
     (if c = d then [] # split_on d cs
      else (case split_on d cs of [] \<Rightarrow> [[c]] | p # ps \<Rightarrow> (c # p) # ps))"

fun join :: "jsstr \<Rightarrow> jsstr list \<Rightarrow> jsstr" where
  "join sep [] = []"
| "join sep [s] = s"
| "join sep (s # t # ts) = s @ sep @ join sep (t # ts)"

lemma split_on_nonempty [simp]: "split_on d s \<noteq> []"
  by (cases s) (auto split: list.splits)

lemma split_on_free: "d \<notin> set s \<Longrightarrow> split_on d s = [s]"
  by (induction s) auto

lemma split_on_pieces: "p \<in> set (split_on d s) \<Longrightarrow> d \<notin> set p"
  by (induction s arbitrary: p) (auto split: if_splits list.splits)

lemma split_on_hd: "hd (split_on d s) = takeWhile (\<lambda>c. c \<noteq> d) s"
  by (induction s) (auto split: list.splits)

lemma join_Cons_unit: "join sep ((c # p) # ps) = c # join sep (p # ps)"
  by (cases ps) auto

lemma join_split_on: "join [d] (split_on d s) = s"
proof (induction s)
  case (Cons c cs)
  then show ?case
    by (cases "split_on d cs") (auto simp: join_Cons_unit)
qed simp

text \<open>Decimal rendering of numbers, and the two-digit padding of \<^verbatim>\<open>padStart(2, "0")\<close>.\<close>

fun digits :: "nat \<Rightarrow> jsstr" where
  "digits n = (if n < 10 then [of_nat (48 + n)] else digits (n div 10) @ [of_nat (48 + n mod 10)])"

declare digits.simps [simp del]

definition num_str :: "int \<Rightarrow> jsstr" where
  "num_str i = (if i < 0 then 45 # digits (nat (- i)) else digits (nat i))"

definition pad2 :: "jsstr \<Rightarrow> jsstr" where
  "pad2 s = replicate (2 - length s) 48 @ s"

lemma digits_nonempty [simp]: "digits n \<noteq> []"
  by (subst digits.simps) simp

lemma digits_range: "c \<in> set (digits n) \<Longrightarrow> 48 \<le> unat c \<and> unat c \<le> 57"
proof (induction n rule: digits.induct)
  case (1 n)
  have d: "48 \<le> unat (of_nat (48 + k) :: 16 word) \<and> unat (of_nat (48 + k) :: 16 word) \<le> 57"
    if "k < 10" for k :: nat
  proof -
    have "unat (of_nat (48 + k) :: 16 word) = 48 + k"
      using that by (simp only: unat_of_nat) simp
    with that show ?thesis by simp
  qed
  show ?case
  proof (cases "n < 10")
    case True
    with "1.prems" d [of n] show ?thesis by (auto simp: digits.simps [of n])
  next
    case False
    with "1.prems" "1.IH" d [of "n mod 10"] show ?thesis
      by (auto simp: digits.simps [of n])
  qed
qed

lemma unat_digit: "k < 10 \<Longrightarrow> unat (of_nat (48 + k) :: 16 word) = 48 + k"
  by (simp only: unat_of_nat) simp

text \<open>Reading a decimal numeral: the value of the digit units \<open>s\<close> read after digits of
  value \<open>acc\<close>.\<close>

definition read_digits :: "nat \<Rightarrow> jsstr \<Rightarrow> nat" where
  "read_digits acc s = fold (\<lambda>c a. 10 * a + (unat c - 48)) s acc"

lemma read_digits_append: "read_digits acc (s @ t) = read_digits (read_digits acc s) t"
  by (simp add: read_digits_def)

lemma read_digits_digits: "read_digits 0 (digits n) = n"
proof (induction n rule: digits.induct)
  case (1 n)
  show ?case
  proof (cases "n < 10")
    case True
    then show ?thesis
      using unat_digit [of n] by (subst digits.simps) (simp add: read_digits_def)
  next
    case False
    have "read_digits 0 (digits n) = read_digits (read_digits 0 (digits (n div 10))) [of_nat (48 + n mod 10)]"
      using False by (subst digits.simps) (simp add: read_digits_append)
    also have "\<dots> = 10 * (n div 10) + n mod 10"
      using 1 [OF False] unat_digit [of "n mod 10"] by (simp add: read_digits_def)
    finally show ?thesis by simp
  qed
qed

lemma digits_inj [simp]: "digits m = digits n \<longleftrightarrow> m = n"
  by (metis read_digits_digits)

text \<open>Punctuation outside ASCII that the views print.\<close>

definition em_dash :: jsstr where
  "em_dash = [0x2014]"

definition middle_dot :: jsstr where
  "middle_dot = [0xB7]"

definition black_star :: jsstr where
  "black_star = [0x2605]"

section \<open>Insertion-ordered sets and maps\<close>

text \<open>
  \<^verbatim>\<open>Set\<close> and \<^verbatim>\<open>Map\<close> iterate in insertion order: a set is the list of its members
  in that order, a map the list of its entries.
\<close>

definition set_add :: "'a \<Rightarrow> 'a list \<Rightarrow> 'a list" where
  "set_add x s = (if x \<in> set s then s else s @ [x])"

definition set_delete :: "'a \<Rightarrow> 'a list \<Rightarrow> 'a list" where
  "set_delete x s = filter (\<lambda>y. y \<noteq> x) s"

definition set_toggle :: "'a \<Rightarrow> 'a list \<Rightarrow> 'a list" where
  "set_toggle x s = (if x \<in> set s then set_delete x s else set_add x s)"

definition set_of_array :: "'a list \<Rightarrow> 'a list" where
  "set_of_array xs = fold set_add xs []"

lemma set_set_add [simp]: "set (set_add x s) = insert x (set s)"
  by (auto simp: set_add_def)

lemma set_set_delete [simp]: "set (set_delete x s) = set s - {x}"
  by (auto simp: set_delete_def)

lemma distinct_set_add: "distinct s \<Longrightarrow> distinct (set_add x s)"
  by (auto simp: set_add_def)

lemma distinct_set_delete: "distinct s \<Longrightarrow> distinct (set_delete x s)"
  by (simp add: set_delete_def)

lemma distinct_set_toggle: "distinct s \<Longrightarrow> distinct (set_toggle x s)"
  by (simp add: set_toggle_def distinct_set_add distinct_set_delete)

lemma set_set_toggle: "set (set_toggle x s) = (if x \<in> set s then set s - {x} else insert x (set s))"
  by (simp add: set_toggle_def)

lemma set_fold_set_add: "set (fold set_add xs s) = set s \<union> set xs"
  by (induction xs arbitrary: s) auto

lemma distinct_fold_set_add: "distinct s \<Longrightarrow> distinct (fold set_add xs s)"
  by (induction xs arbitrary: s) (auto simp: distinct_set_add)

lemma set_set_of_array [simp]: "set (set_of_array xs) = set xs"
  by (simp add: set_of_array_def set_fold_set_add)

lemma distinct_set_of_array [simp]: "distinct (set_of_array xs)"
  by (simp add: set_of_array_def distinct_fold_set_add)

text \<open>The grouping loop \<^verbatim>\<open>if (!m.has(k)) m.set(k, []); m.get(k).push(v)\<close>.\<close>

fun map_push :: "'k \<Rightarrow> 'v \<Rightarrow> ('k \<times> 'v list) list \<Rightarrow> ('k \<times> 'v list) list" where
  "map_push k v [] = [(k, [v])]"
| "map_push k v ((k', vs) # m) = (if k' = k then (k', vs @ [v]) # m else (k', vs) # map_push k v m)"

definition group_by :: "('v \<Rightarrow> 'k) \<Rightarrow> 'v list \<Rightarrow> ('k \<times> 'v list) list" where
  "group_by key xs = fold (\<lambda>x. map_push (key x) x) xs []"

lemma map_of_map_push:
  "map_of (map_push k v m) = (map_of m)(k \<mapsto> (case map_of m k of None \<Rightarrow> [] | Some vs \<Rightarrow> vs) @ [v])"
  by (induction k v m rule: map_push.induct) (auto split: option.splits)

lemma fst_map_push: "fst ` set (map_push k v m) = insert k (fst ` set m)"
  by (induction k v m rule: map_push.induct) auto

lemma distinct_map_push: "distinct (map fst m) \<Longrightarrow> distinct (map fst (map_push k v m))"
proof (induction k v m rule: map_push.induct)
  case (2 k v k' vs m)
  then show ?case using fst_map_push [of k v m] by auto
qed simp

lemma map_of_fold_push:
  "map_of (fold (\<lambda>x. map_push (key x) x) xs m) k =
     (if k \<in> key ` set xs \<or> map_of m k \<noteq> None
      then Some ((case map_of m k of None \<Rightarrow> [] | Some vs \<Rightarrow> vs) @ filter (\<lambda>x. key x = k) xs)
      else None)"
  by (induction xs arbitrary: m) (auto simp: map_of_map_push)

lemma map_of_group_by:
  "map_of (group_by key xs) k = (if k \<in> key ` set xs then Some (filter (\<lambda>x. key x = k) xs) else None)"
  by (simp add: group_by_def map_of_fold_push)

lemma distinct_group_by: "distinct (map fst (group_by key xs))"
proof -
  have "distinct (map fst m) \<Longrightarrow> distinct (map fst (fold (\<lambda>x. map_push (key x) x) xs m))" for m
    by (induction xs arbitrary: m) (auto simp: distinct_map_push)
  then show ?thesis by (simp add: group_by_def)
qed

lemma group_by_entry:
  "(k, vs) \<in> set (group_by key xs) \<longleftrightarrow> k \<in> key ` set xs \<and> vs = filter (\<lambda>x. key x = k) xs"
proof -
  have "(k, vs) \<in> set (group_by key xs) \<longleftrightarrow> map_of (group_by key xs) k = Some vs"
    by (simp add: distinct_group_by)
  then show ?thesis by (auto simp: map_of_group_by)
qed

lemma mset_map_push: "mset (concat (map snd (map_push k v m))) = add_mset v (mset (concat (map snd m)))"
  by (induction k v m rule: map_push.induct) auto

lemma mset_group_by: "mset (concat (map snd (group_by key xs))) = mset xs"
proof -
  have "mset (concat (map snd (fold (\<lambda>x. map_push (key x) x) xs m))) = mset xs + mset (concat (map snd m))" for m
    by (induction xs arbitrary: m) (simp_all add: mset_map_push)
  then show ?thesis by (simp add: group_by_def)
qed

lemma mset_concat_perm: "mset xs = mset ys \<Longrightarrow> mset (concat (map f xs)) = mset (concat (map f ys))"
proof -
  assume "mset xs = mset ys"
  then have "image_mset (mset \<circ> f) (mset xs) = image_mset (mset \<circ> f) (mset ys)" by simp
  moreover have "mset (concat (map f zs)) = sum_mset (image_mset (mset \<circ> f) (mset zs))" for zs
    by (induction zs) simp_all
  ultimately show ?thesis by simp
qed

lemma set_map_filter: "set (List.map_filter f xs) = {y. \<exists>x \<in> set xs. f x = Some y}"
  by (induction xs) (auto simp: List.map_filter_def)

lemma bex_pair_map: "(\<exists>x \<in> A. (g, i) = (case x of (a, b) \<Rightarrow> (a, h b))) \<longleftrightarrow> (\<exists>b. (g, b) \<in> A \<and> i = h b)"
  by force

section \<open>Comparator sort\<close>

text \<open>
  \<^verbatim>\<open>Array.prototype.sort\<close> is a stable sort by a comparison function whose sign is
  read.  For a consistent comparison function (the interface \<open>comparator\<close>) the sorted,
  stable permutation is unique, so insertion computes it.
\<close>

fun insert_by :: "('a \<Rightarrow> 'a \<Rightarrow> int) \<Rightarrow> 'a \<Rightarrow> 'a list \<Rightarrow> 'a list" where
  "insert_by cmp x [] = [x]"
| "insert_by cmp x (y # ys) = (if cmp x y \<le> 0 then x # y # ys else y # insert_by cmp x ys)"

definition sort_by :: "('a \<Rightarrow> 'a \<Rightarrow> int) \<Rightarrow> 'a list \<Rightarrow> 'a list" where
  "sort_by cmp xs = foldr (insert_by cmp) xs []"

lemma mset_insert_by: "mset (insert_by cmp x ys) = add_mset x (mset ys)"
  by (induction ys) auto

lemma mset_sort_by [simp]: "mset (sort_by cmp xs) = mset xs"
  by (induction xs) (auto simp: sort_by_def mset_insert_by)

lemma set_sort_by [simp]: "set (sort_by cmp xs) = set xs"
  by (metis mset_sort_by set_mset_mset)

lemma length_sort_by [simp]: "length (sort_by cmp xs) = length xs"
  by (metis mset_sort_by size_mset)

lemma distinct_sort_by [simp]: "distinct (sort_by cmp xs) = distinct xs"
  by (metis mset_sort_by mset_eq_imp_distinct_iff)

lemma sort_by_eq_Nil [simp]: "sort_by cmp xs = [] \<longleftrightarrow> xs = []"
  by (metis length_0_conv length_sort_by)

lemma sort_by_Cons: "sort_by cmp (x # xs) = insert_by cmp x (sort_by cmp xs)"
  by (simp add: sort_by_def)

locale comparator =
  fixes cmp :: "'a \<Rightarrow> 'a \<Rightarrow> int"
  assumes cmp_sign: "cmp x y < 0 \<longleftrightarrow> 0 < cmp y x"
    and cmp_trans: "cmp x y \<le> 0 \<Longrightarrow> cmp y z \<le> 0 \<Longrightarrow> cmp x z \<le> 0"
begin

abbreviation cle :: "'a \<Rightarrow> 'a \<Rightarrow> bool" where
  "cle x y \<equiv> cmp x y \<le> 0"

lemma cmp_total: "\<not> cle x y \<Longrightarrow> cle y x"
  using cmp_sign [of y x] by auto

lemma sorted_insert_by: "sorted_wrt cle ys \<Longrightarrow> sorted_wrt cle (insert_by cmp x ys)"
proof (induction ys)
  case (Cons y ys)
  have "set (insert_by cmp x ys) = insert x (set ys)"
    using mset_insert_by [of cmp x ys] by (metis set_mset_add_mset_insert set_mset_mset)
  with Cons show ?case
    by (auto dest: cmp_total intro: cmp_trans)
qed simp

lemma sorted_sort_by: "sorted_wrt cle (sort_by cmp xs)"
  by (induction xs) (simp_all add: sort_by_def sorted_insert_by)

lemma sort_by_sorted: "sorted_wrt cle xs \<Longrightarrow> sort_by cmp xs = xs"
proof (induction xs)
  case (Cons x xs)
  then show ?case by (cases xs) (auto simp: sort_by_def)
qed (simp add: sort_by_def)

lemma filter_insert_by:
  assumes "sorted_wrt cle ys"
    and "\<And>u v. P u \<Longrightarrow> P v \<Longrightarrow> cle u v"
  shows "filter P (insert_by cmp x ys) = (if P x then [x] else []) @ filter P ys"
  using assms
proof (induction ys)
  case (Cons y ys)
  show ?case
  proof (cases "cle x y")
    case False
    then have "\<not> (P x \<and> P y)" using Cons.prems(2) by blast
    then show ?thesis using False Cons by auto
  qed auto
qed simp

lemma sort_by_stable:
  assumes "\<And>u v. P u \<Longrightarrow> P v \<Longrightarrow> cle u v"
  shows "filter P (sort_by cmp xs) = filter P xs"
  by (induction xs) (simp_all add: sort_by_Cons filter_insert_by [OF sorted_sort_by assms] sort_by_def [of cmp "[]"])

end

text \<open>The default order of \<^verbatim>\<open>sort()\<close> on strings: code units, lexicographically.\<close>

definition unit_cmp :: "jsstr \<Rightarrow> jsstr \<Rightarrow> int" where
  "unit_cmp s t = (if s < t then -1 else if s = t then 0 else 1)"

interpretation unit_order: comparator unit_cmp
  by unfold_locales (auto simp: unit_cmp_def split: if_splits)

lemma comparator_key: "comparator cmp \<Longrightarrow> comparator (\<lambda>x y. cmp (f x) (f y))"
  unfolding comparator_def by blast

section \<open>The membership toggle interface\<close>

text \<open>
  Filter pills, favourites and the table multi-select all flip the membership of one key.  The
  interface fixes the operation, the set it represents and the representation invariant; what
  a client may rely on after any sequence of flips is proved here once.
\<close>

locale membership_toggle =
  fixes toggle :: "'k \<Rightarrow> 's \<Rightarrow> 's"
    and members :: "'s \<Rightarrow> 'k set"
    and ok :: "'s \<Rightarrow> bool"
  assumes ok_toggle: "ok s \<Longrightarrow> ok (toggle k s)"
    and members_toggle: "ok s \<Longrightarrow>
      members (toggle k s) = (if k \<in> members s then members s - {k} else insert k (members s))"
begin

lemma toggle_frame: "ok s \<Longrightarrow> j \<noteq> k \<Longrightarrow> j \<in> members (toggle k s) \<longleftrightarrow> j \<in> members s"
  by (simp add: members_toggle)

lemma toggle_flips: "ok s \<Longrightarrow> k \<in> members (toggle k s) \<longleftrightarrow> k \<notin> members s"
  by (simp add: members_toggle)

lemma toggle_twice: "ok s \<Longrightarrow> members (toggle k (toggle k s)) = members s"
  by (auto simp: members_toggle ok_toggle)

lemma toggle_commute:
  "ok s \<Longrightarrow> members (toggle j (toggle k s)) = members (toggle k (toggle j s))"
  by (auto simp: members_toggle ok_toggle)

lemma ok_toggles: "ok s \<Longrightarrow> ok (fold toggle ks s)"
  by (induction ks arbitrary: s) (auto simp: ok_toggle)

lemma members_toggles:
  "ok s \<Longrightarrow> k \<in> members (fold toggle ks s) \<longleftrightarrow> (k \<in> members s) \<noteq> odd (count_list ks k)"
proof (induction ks arbitrary: s)
  case (Cons j ks)
  then show ?case
    by (cases "j = k") (auto simp: ok_toggle toggle_flips toggle_frame)
qed simp

end

interpretation set_toggling: membership_toggle set_toggle set distinct
  by unfold_locales (simp_all add: distinct_set_toggle set_set_toggle)

section \<open>Query results and views\<close>

text \<open>What a component reads of a server query: its data, and the two status flags.\<close>

record 'a query =
  q_data :: "'a option"
  q_loading :: bool
  q_error :: bool

text \<open>
  A rendered view, without its presentation: texts, buttons (label, disabled flag, the event a
  click raises), inputs (value, disabled flag, the event of a change) and nesting.  A child
  guarded by \<^verbatim>\<open>cond && <X/>\<close> is \<open>show_if cond x\<close>.
\<close>

datatype 'e ui =
    Txt jsstr
  | Btn jsstr bool 'e
  | Inp jsstr bool "jsstr \<Rightarrow> 'e"
  | Box "'e ui list"

definition show_if :: "bool \<Rightarrow> 'e ui \<Rightarrow> 'e ui" where
  "show_if b u = Box (if b then [u] else [])"

primrec clicks :: "'e ui \<Rightarrow> 'e list" where
  "clicks (Txt t) = []"
| "clicks (Btn l d e) = (if d then [] else [e])"
| "clicks (Inp v d f) = []"
| "clicks (Box us) = concat (map clicks us)"

primrec edits :: "'e ui \<Rightarrow> 'e set" where
  "edits (Txt t) = {}"
| "edits (Btn l d e) = {}"
| "edits (Inp v d f) = (if d then {} else range f)"
| "edits (Box us) = \<Union> (set (map edits us))"

primrec shown :: "'e ui \<Rightarrow> jsstr list" where
  "shown (Txt t) = [t]"
| "shown (Btn l d e) = [l]"
| "shown (Inp v d f) = [v]"
| "shown (Box us) = concat (map shown us)"

text \<open>Every event the user can raise in a view.\<close>

definition raises :: "'e ui \<Rightarrow> 'e set" where
  "raises u = set (clicks u) \<union> edits u"

lemma raises_simps [simp]:
  "raises (Txt t) = {}"
  "raises (Btn l d e) = (if d then {} else {e})"
  "raises (Inp v d f) = (if d then {} else range f)"
  "raises (Box us) = \<Union> (raises ` set us)"
  by (auto simp: raises_def)

lemma raises_show_if [simp]: "raises (show_if b u) = (if b then raises u else {})"
  by (simp add: show_if_def)

lemma shown_show_if [simp]: "shown (show_if b u) = (if b then shown u else [])"
  by (simp add: show_if_def)

lemma clicks_show_if [simp]: "clicks (show_if b u) = (if b then clicks u else [])"
  by (simp add: show_if_def)

lemma shown_map_ui [simp]: "(shown (map_ui f u)) = shown u"
  by (induction u) (auto simp: comp_def intro: arg_cong [where f = concat])

lemma raises_map_ui [simp]: "raises (map_ui f u) = f ` raises u"
  by (induction u) auto

section \<open>Runs of an event-driven component\<close>

text \<open>
  A component is a state, its events and one handler per event.  The interface asks for an
  invariant of the initial state that every handler keeps; it then holds along every run.
\<close>

locale event_machine =
  fixes step :: "'e \<Rightarrow> 's \<Rightarrow> 's"
    and init :: "'s"
    and inv :: "'s \<Rightarrow> bool"
  assumes inv_init: "inv init"
    and inv_step: "inv s \<Longrightarrow> inv (step e s)"
begin

lemma inv_fold: "inv s \<Longrightarrow> inv (fold step es s)"
  by (induction es arbitrary: s) (auto intro: inv_step)

lemma inv_run: "inv (fold step es init)"
  by (rule inv_fold [OF inv_init])

end

text \<open>
  Where the environment owes something to the component, the invariant holds along the runs whose
  events are admissible; an unguarded machine is the case in which every event is.
\<close>

locale guarded_machine =
  fixes step :: "'e \<Rightarrow> 's \<Rightarrow> 's"
    and init :: "'s"
    and inv :: "'s \<Rightarrow> bool"
    and admissible :: "'e \<Rightarrow> bool"
  assumes start_inv: "inv init"
    and step_inv: "admissible e \<Longrightarrow> inv s \<Longrightarrow> inv (step e s)"
begin

lemma guarded_fold: "list_all admissible es \<Longrightarrow> inv s \<Longrightarrow> inv (fold step es s)"
  by (induction es arbitrary: s) (auto intro: step_inv)

lemma guarded_run: "list_all admissible es \<Longrightarrow> inv (fold step es init)"
  by (rule guarded_fold [OF _ start_inv])

end

sublocale event_machine \<subseteq> guarded_machine step init inv "\<lambda>e. True"
  by unfold_locales (rule inv_init, rule inv_step)

end
