(* ===== verification/Json_Text.thy ===== *)
theory Json_Text
  imports Js_Prelude Complex_Main
begin

text \<open>
  JSON, as far as the front end prints and reads it itself: the text \<^verbatim>\<open>JSON.stringify\<close> gives for
  an array of strings, and \<^verbatim>\<open>JSON.parse\<close> of any text.  A number read is the exact value of its
  literal, before it is rounded to a double.
\<close>

datatype json = JNull | JBool bool | JNum rat | JStr jsstr | JArr "json list" | JObj "(jsstr \<times> json) list"

section \<open>Printing\<close>

definition hex_unit :: "nat \<Rightarrow> code_unit" where
  "hex_unit d = of_nat (if d < 10 then 48 + d else 87 + d)"

definition unicode_escape :: "code_unit \<Rightarrow> jsstr" where
  "unicode_escape c =
     (let n = unat c
      in [92, 117, hex_unit (n div 4096), hex_unit (n div 256 mod 16), hex_unit (n div 16 mod 16), hex_unit (n mod 16)])"

definition high_surrogate :: "code_unit \<Rightarrow> bool" where
  "high_surrogate c \<longleftrightarrow> 0xD800 \<le> c \<and> c \<le> 0xDBFF"

definition low_surrogate :: "code_unit \<Rightarrow> bool" where
  "low_surrogate c \<longleftrightarrow> 0xDC00 \<le> c \<and> c \<le> 0xDFFF"

text \<open>The escapes of one letter: the unit escaped and the letter.\<close>

definition short_escapes :: "(code_unit \<times> code_unit) list" where
  "short_escapes = [(8, 98), (9, 116), (10, 110), (12, 102), (13, 114), (34, 34), (92, 92)]"

text \<open>Quoting a string: a pair of surrogates stays, a lone one is escaped.\<close>

fun quote_units :: "jsstr \<Rightarrow> jsstr" where
  "quote_units [] = []"
| "quote_units (c # s) =
     (case map_of short_escapes c of
        Some e \<Rightarrow> 92 # e # quote_units s
      | None \<Rightarrow>
          if c < 32 \<or> low_surrogate c then unicode_escape c @ quote_units s
          else if high_surrogate c
          then (case s of
                  [] \<Rightarrow> unicode_escape c
                | d # s' \<Rightarrow> if low_surrogate d then c # d # quote_units s' else unicode_escape c @ quote_units s)
          else c # quote_units s)"

definition quote :: "jsstr \<Rightarrow> jsstr" where
  "quote s = 34 # quote_units s @ [34]"

definition stringify :: "jsstr list \<Rightarrow> jsstr" where
  "stringify ss = 91 # join [44] (map quote ss) @ [93]"

lemma stringify_nonempty [simp]: "stringify ss \<noteq> []"
  by (simp add: stringify_def)

section \<open>Reading\<close>

definition json_ws :: "code_unit \<Rightarrow> bool" where
  "json_ws c \<longleftrightarrow> c = 9 \<or> c = 10 \<or> c = 13 \<or> c = 32"

definition skip_ws :: "jsstr \<Rightarrow> jsstr" where
  "skip_ws s = dropWhile json_ws s"

definition is_digit :: "code_unit \<Rightarrow> bool" where
  "is_digit c \<longleftrightarrow> 48 \<le> c \<and> c \<le> 57"

definition unhex :: "code_unit \<Rightarrow> nat option" where
  "unhex c =
     (if is_digit c then Some (unat c - 48)
      else if 65 \<le> c \<and> c \<le> 70 then Some (unat c - 55)
      else if 97 \<le> c \<and> c \<le> 102 then Some (unat c - 87)
      else None)"

definition unescape :: "code_unit \<Rightarrow> code_unit option" where
  "unescape e = (if e = 47 then Some 47 else map_of (map (\<lambda>(c, l). (l, c)) short_escapes) e)"

text \<open>The rest of a string literal after its opening quote: the string and what follows it.\<close>

fun read_string :: "jsstr \<Rightarrow> (jsstr \<times> jsstr) option" where
  "read_string [] = None"
| "read_string (c # s) =
     (if c = 34 then Some ([], s)
      else if c = 92 then
        (case s of
           [] \<Rightarrow> None
         | e # s1 \<Rightarrow>
             if e = 117 then
               (case s1 of
                  h1 # h2 # h3 # h4 # s2 \<Rightarrow>
                    (case (unhex h1, unhex h2, unhex h3, unhex h4) of
                       (Some a, Some b, Some d, Some f) \<Rightarrow>
                         map_option (apfst (Cons (of_nat (((a * 16 + b) * 16 + d) * 16 + f)))) (read_string s2)
                     | _ \<Rightarrow> None)
                | _ \<Rightarrow> None)
             else (case unescape e of
                     None \<Rightarrow> None
                   | Some u \<Rightarrow> map_option (apfst (Cons u)) (read_string s1)))
      else if c < 32 then None
      else map_option (apfst (Cons c)) (read_string s))"

text \<open>A number literal: sign, integer part without leading zeros, fraction, exponent.\<close>

definition read_fraction :: "jsstr \<Rightarrow> (rat \<times> jsstr) option" where
  "read_fraction s =
     (case s of
        [] \<Rightarrow> Some (0, s)
      | c # r \<Rightarrow>
          if c \<noteq> 46 then Some (0, s)
          else (let ds = takeWhile is_digit r
                in if ds = [] then None
                   else Some (of_nat (read_digits 0 ds) / 10 ^ length ds, dropWhile is_digit r)))"

definition read_exponent :: "jsstr \<Rightarrow> (int \<times> jsstr) option" where
  "read_exponent s =
     (case s of
        [] \<Rightarrow> Some (0, s)
      | c # r \<Rightarrow>
          if c \<noteq> 69 \<and> c \<noteq> 101 then Some (0, s)
          else (let (neg, r') = (case r of [] \<Rightarrow> (False, r) | d # t \<Rightarrow>
                       if d = 45 then (True, t) else if d = 43 then (False, t) else (False, r));
                    ds = takeWhile is_digit r'
                in if ds = [] then None
                   else Some ((if neg then - 1 else 1) * int (read_digits 0 ds), dropWhile is_digit r')))"

definition read_number :: "jsstr \<Rightarrow> (rat \<times> jsstr) option" where
  "read_number s =
     (let (neg, r) = (case s of [] \<Rightarrow> (False, s) | c # t \<Rightarrow> if c = 45 then (True, t) else (False, s));
          ds = takeWhile is_digit r
      in if ds = [] \<or> (hd ds = 48 \<and> length ds > 1) then None
         else (case read_fraction (dropWhile is_digit r) of
                 None \<Rightarrow> None
               | Some (f, r1) \<Rightarrow>
                   (case read_exponent r1 of
                      None \<Rightarrow> None
                    | Some (e, r2) \<Rightarrow>
                        Some ((if neg then - 1 else 1) * (of_nat (read_digits 0 ds) + f) *
                            (if 0 \<le> e then 10 ^ nat e else 1 / 10 ^ nat (- e)), r2))))"

text \<open>The entry of a key in an object replaces an earlier one of the same key.\<close>

fun put_entry :: "jsstr \<Rightarrow> json \<Rightarrow> (jsstr \<times> json) list \<Rightarrow> (jsstr \<times> json) list" where
  "put_entry k v [] = [(k, v)]"
| "put_entry k v ((k', v') # es) = (if k' = k then (k, v) # es else (k', v') # put_entry k v es)"

definition object_of :: "(jsstr \<times> json) list \<Rightarrow> json" where
  "object_of es = JObj (fold (\<lambda>(k, v). put_entry k v) es [])"

text \<open>
  A value, the elements of an array up to its bracket, the members of an object up to its brace.
  The first argument bounds the depth of the recursion; \<open>JSON_parse\<close> starts with a bound that
  is always enough (\<open>reads_stable\<close>).
\<close>

fun read_value :: "nat \<Rightarrow> jsstr \<Rightarrow> (json \<times> jsstr) option"
  and read_elements :: "nat \<Rightarrow> jsstr \<Rightarrow> (json list \<times> jsstr) option"
  and read_members :: "nat \<Rightarrow> jsstr \<Rightarrow> ((jsstr \<times> json) list \<times> jsstr) option" where
  "read_value 0 s = None"
| "read_value (Suc n) s =
     (case skip_ws s of
        [] \<Rightarrow> None
      | c # r \<Rightarrow>
          if c = 34 then map_option (apfst JStr) (read_string r)
          else if c = 91 then
            (if take 1 (skip_ws r) = [93] then Some (JArr [], tl (skip_ws r))
             else map_option (apfst JArr) (read_elements n r))
          else if c = 123 then
            (if take 1 (skip_ws r) = [125] then Some (JObj [], tl (skip_ws r))
             else map_option (apfst object_of) (read_members n r))
          else if take 4 (c # r) = js ''null'' then Some (JNull, drop 3 r)
          else if take 4 (c # r) = js ''true'' then Some (JBool True, drop 3 r)
          else if take 5 (c # r) = js ''false'' then Some (JBool False, drop 4 r)
          else map_option (apfst JNum) (read_number (c # r)))"
| "read_elements 0 s = None"
| "read_elements (Suc n) s =
     (case read_value n s of
        None \<Rightarrow> None
      | Some (v, r) \<Rightarrow>
          (case skip_ws r of
             [] \<Rightarrow> None
           | c # r' \<Rightarrow>
               if c = 93 then Some ([v], r')
               else if c = 44 then map_option (apfst (Cons v)) (read_elements n r')
               else None))"
| "read_members 0 s = None"
| "read_members (Suc n) s =
     (case skip_ws s of
        [] \<Rightarrow> None
      | q # r \<Rightarrow>
          if q \<noteq> 34 then None
          else (case read_string r of
              None \<Rightarrow> None
            | Some (k, r1) \<Rightarrow>
                (case skip_ws r1 of
                   [] \<Rightarrow> None
                 | d # r2 \<Rightarrow>
                     if d \<noteq> 58 then None
                     else (case read_value n r2 of
                         None \<Rightarrow> None
                       | Some (v, r3) \<Rightarrow>
                           (case skip_ws r3 of
                              [] \<Rightarrow> None
                            | c # r4 \<Rightarrow>
                                if c = 125 then Some ([(k, v)], r4)
                                else if c = 44 then map_option (apfst (Cons (k, v))) (read_members n r4)
                                else None)))))"

definition JSON_parse :: "jsstr \<Rightarrow> json option" where
  "JSON_parse s =
     (case read_value (2 * length s + 1) s of
        None \<Rightarrow> None
      | Some (v, r) \<Rightarrow> if skip_ws r = [] then Some v else None)"

section \<open>What is printed is read back\<close>

lemma unhex_hex_unit: "d < 16 \<Longrightarrow> unhex (hex_unit d) = Some d"
proof -
  have "list_all (\<lambda>d. unhex (hex_unit d) = Some d) [0, 1, 2, 3, 4, 5, 6, 7, 8, 9, 10, 11, 12, 13, 14, 15]"
    by (simp add: unhex_def hex_unit_def is_digit_def)
  moreover assume "d < 16"
  then have "d \<in> set [0, 1, 2, 3, 4, 5, 6, 7, 8, 9, 10, 11, 12, 13, 14, 15]"
    by (simp, presburger)
  ultimately show ?thesis by (simp only: list_all_iff)
qed

lemma four_digits:
  "((n div 4096 * 16 + n div 256 mod 16) * 16 + n div 16 mod 16) * 16 + n mod 16 = n" for n :: nat
proof -
  have "n div 4096 = n div 256 div 16" "n div 256 = n div 16 div 16"
    by (simp_all add: div_mult2_eq [symmetric])
  then show ?thesis by (simp only: div_mult_mod_eq)
qed

lemma unat_lt2p_16: "unat (c :: 16 word) < 65536"
  using unsigned_less [where 'a = nat, of c] by simp

lemma read_unicode_escape:
  "read_string (unicode_escape c @ t) = map_option (apfst (Cons c)) (read_string t)"
proof -
  have n: "unat c < 65536" using unat_lt2p_16 [of c] by simp
  then have "unat c div 4096 < 16" by simp
  moreover have "of_nat (((unat c div 4096 * 16 + unat c div 256 mod 16) * 16 + unat c div 16 mod 16) * 16
      + unat c mod 16) = c"
    by (simp only: four_digits) simp
  ultimately show ?thesis
    using n by (simp add: unicode_escape_def Let_def unhex_hex_unit)
qed

lemma map_of_short_escapes:
  "map_of short_escapes c = Some e \<Longrightarrow> e \<noteq> 117 \<and> unescape e = Some c"
  "map_of short_escapes c = None \<Longrightarrow> c \<noteq> 34 \<and> c \<noteq> 92"
  by (auto simp: short_escapes_def unescape_def split: if_splits)

lemma surrogate_plain:
  assumes "high_surrogate c \<or> low_surrogate c"
  shows "c \<noteq> 34 \<and> c \<noteq> 92 \<and> \<not> c < 32"
  using assms by (auto simp: high_surrogate_def low_surrogate_def word_less_nat_alt word_le_nat_alt)

lemma read_string_plain:
  "c \<noteq> 34 \<Longrightarrow> c \<noteq> 92 \<Longrightarrow> \<not> c < 32 \<Longrightarrow>
     read_string (c # t) = map_option (apfst (Cons c)) (read_string t)"
  by simp

lemma read_string_quote: "read_string (quote_units s @ 34 # t) = Some (s, t)"
proof (induction s rule: quote_units.induct)
  case (2 c s)
  show ?case
  proof (cases "map_of short_escapes c")
    case (Some e)
    then show ?thesis using map_of_short_escapes(1) [OF Some] 2(5) [OF Some] by simp
  next
    case None
    note plain = map_of_short_escapes(2) [OF None]
    show ?thesis
    proof (cases "c < 32 \<or> low_surrogate c")
      case True
      then show ?thesis using None 2(1) [OF None] by (simp add: read_unicode_escape del: read_string.simps(2))
    next
      case low: False
      show ?thesis
      proof (cases "high_surrogate c")
        case False
        then show ?thesis using None plain low 2(4) [OF None low] by simp
      next
        case high: True
        show ?thesis
        proof (cases s)
          case Nil
          then show ?thesis
            using None low high read_unicode_escape [of c "34 # t"] by simp
        next
          case (Cons d s')
          show ?thesis
          proof (cases "low_surrogate d")
            case True
            then show ?thesis
              using None low high Cons surrogate_plain [of c] surrogate_plain [of d] 2(2) [OF None low high Cons]
              by (simp add: read_string_plain del: read_string.simps(2))
          next
            case False
            then show ?thesis
              using None low high Cons 2(3) [OF None low high Cons]
              by (simp add: read_unicode_escape del: read_string.simps(2) quote_units.simps(2)) (simp add: read_unicode_escape)
          qed
        qed
      qed
    qed
  qed
qed simp

section \<open>Every reader consumes its input, and the bound is enough\<close>

lemma length_skip_ws [simp]: "length (skip_ws s) \<le> length s"
  by (simp add: skip_ws_def length_dropWhile_le)

lemma skip_ws_Cons: "skip_ws s = c # r \<Longrightarrow> length r < length s"
  using length_skip_ws [of s] by simp

lemma read_string_shorter: "read_string s = Some (t, r) \<Longrightarrow> length r < length s"
proof (induction s arbitrary: t r rule: length_induct)
  case (1 s)
  then have IH: "read_string s' = Some (t', r') \<Longrightarrow> length s' < length s \<Longrightarrow> length r' < length s'" for s' t' r'
    by blast
  from 1(2) show ?case
    by (cases s) (auto split: if_splits list.splits option.splits dest!: IH)
qed

lemma read_fraction_shorter: "read_fraction s = Some (f, r) \<Longrightarrow> length r \<le> length s"
  by (auto simp: read_fraction_def Let_def length_dropWhile_le le_SucI split: list.splits if_splits)

lemma read_exponent_shorter: "read_exponent s = Some (e, r) \<Longrightarrow> length r \<le> length s"
  by (auto simp: read_exponent_def Let_def length_dropWhile_le le_SucI split: list.splits if_splits prod.splits)

lemma dropWhile_shorter: "takeWhile P s \<noteq> [] \<Longrightarrow> length (dropWhile P s) < length s"
  by (cases s) (auto simp: length_dropWhile_le less_Suc_eq_le split: if_splits)

lemma read_number_shorter:
  assumes "read_number s = Some (v, r)"
  shows "length r < length s"
proof -
  obtain neg r0 where r0: "(case s of [] \<Rightarrow> (False, s) | c # t \<Rightarrow> if c = 45 then (True, t) else (False, s)) = (neg, r0)"
    by fastforce
  then have "length r0 \<le> length s" by (auto split: list.splits if_splits)
  moreover from assms r0 obtain f r1 e where "takeWhile is_digit r0 \<noteq> []"
    "read_fraction (dropWhile is_digit r0) = Some (f, r1)" "read_exponent r1 = Some (e, r)"
    by (auto simp: read_number_def Let_def split: if_splits option.splits)
  ultimately show ?thesis
    using read_fraction_shorter read_exponent_shorter dropWhile_shorter [of is_digit r0] by fastforce
qed

lemma reads_shorter:
  "read_value n s = Some (v, r) \<Longrightarrow> length r < length s"
  "read_elements n s = Some (vs, r) \<Longrightarrow> length r < length s"
  "read_members n s = Some (es, r) \<Longrightarrow> length r < length s"
proof (induction n arbitrary: s v vs es r)
  case (Suc n)
  { case 1
    then obtain c t where t: "skip_ws s = c # t" by (auto split: list.splits)
    have "length r \<le> length t"
      using 1
      by (auto simp: t le_diff_conv le_SucI dest!: read_string_shorter read_number_shorter
          dest: Suc [THEN less_imp_le] split: if_splits)
    then show ?case using skip_ws_Cons [OF t] by simp
  next
    case 2
    then show ?case
      by (fastforce dest: Suc skip_ws_Cons split: option.splits list.splits if_splits)
  next
    case 3
    then show ?case
      by (fastforce dest: Suc skip_ws_Cons read_string_shorter split: option.splits list.splits if_splits)
  }
qed simp_all

lemmas read_steps = read_value.simps(2) read_elements.simps(2) read_members.simps(2)

lemma reads_stable:
  "2 * length s < n \<Longrightarrow> read_value (Suc n) s = read_value n s"
  "2 * length s + 1 < n \<Longrightarrow> read_elements (Suc n) s = read_elements n s"
  "2 * length s + 1 < n \<Longrightarrow> read_members (Suc n) s = read_members n s"
proof (induction n arbitrary: s)
  case (Suc n)
  { case 1
    have "skip_ws s = c # r \<Longrightarrow> read_elements (Suc n) r = read_elements n r \<and> read_members (Suc n) r = read_members n r"
      for c r
      using 1 Suc(2,3) [of r] skip_ws_Cons [of s c r] by simp
    then show ?case
      by (simp add: read_value.simps(2) del: read_elements.simps read_members.simps split: list.split)
  next
    case 2
    have v: "read_value (Suc n) s = read_value n s"
      using 2 Suc(1) [of s] by simp
    have "read_value n s = Some (v, r) \<Longrightarrow> skip_ws r = c # r' \<Longrightarrow> read_elements (Suc n) r' = read_elements n r'"
      for v r c r'
      using 2 Suc(2) [of r'] reads_shorter(1) [of n s v r] skip_ws_Cons [of r c r'] by simp
    then show ?case
      unfolding read_elements.simps(2) [of "Suc n" s] read_elements.simps(2) [of n s] v
      by (simp del: read_elements.simps split: list.split option.split)
  next
    case 3
    have v: "read_value (Suc n) t = read_value n t" if "length t < length s" for t
      using 3 Suc(1) [of t] that by simp
    have m: "read_members (Suc n) t = read_members n t" if "length t < length s" for t
      using 3 Suc(3) [of t] that by simp
    show ?case
    proof (cases "skip_ws s")
      case Nil
      then show ?thesis by simp
    next
      case (Cons q r)
      then have r: "length r < length s" by (rule skip_ws_Cons)
      have v2: "read_value (Suc n) r2 = read_value n r2"
        if "read_string r = Some (k, r1)" "skip_ws r1 = d # r2" for k r1 d r2
        using read_string_shorter [OF that(1)] skip_ws_Cons [OF that(2)] r by (intro v) simp
      have m4: "read_members (Suc n) r4 = read_members n r4"
        if "read_string r = Some (k, r1)" "skip_ws r1 = d # r2" "read_value n r2 = Some (x, r3)" "skip_ws r3 = e # r4"
        for k r1 d r2 x r3 e r4
        using read_string_shorter [OF that(1)] skip_ws_Cons [OF that(2)] reads_shorter(1) [OF that(3)]
          skip_ws_Cons [OF that(4)] r by (intro m) simp
      show ?thesis
        using v2 m4
        by (simp add: Cons read_members.simps(2) [of "Suc n" s] read_members.simps(2) [of n s]
            del: read_members.simps read_value.simps split: list.split option.split)
    qed
  }
qed simp_all

lemma read_value_bound:
  assumes "2 * length s + 1 \<le> n"
  shows "read_value n s = read_value (2 * length s + 1) s"
  using assms
proof (induction n rule: dec_induct)
  case (step n)
  then show ?case using reads_stable(1) [of s n] by simp
qed simp

section \<open>The round trip\<close>

lemma read_value_quote: "read_value (Suc n) (quote s @ t) = Some (JStr s, t)"
  by (simp add: quote_def skip_ws_def json_ws_def read_string_quote del: read_string.simps)

lemma read_elements_quotes:
  assumes "ss \<noteq> []" and "length ss < n"
  shows "read_elements n (join [44] (map quote ss) @ 93 # t) = Some (map JStr ss, t)"
  using assms
proof (induction ss arbitrary: n rule: list_nonempty_induct)
  case (single s)
  then obtain m where "n = Suc (Suc m)" by (cases n; cases "n - 1") auto
  then show ?case
    by (simp add: read_value_quote skip_ws_def json_ws_def del: read_value.simps)
next
  case (cons s ss)
  then obtain m where n: "n = Suc (Suc m)" by (cases n; cases "n - 1") auto
  obtain u us where ss: "ss = u # us" using cons.hyps by (cases ss) auto
  have "read_elements (Suc m) (join [44] (map quote ss) @ 93 # t) = Some (map JStr ss, t)"
    using cons.IH [of "Suc m"] cons.prems n by simp
  then show ?case
    by (simp add: n ss read_elements.simps(2) [of "Suc m"] read_value_quote skip_ws_def json_ws_def
        del: read_value.simps read_elements.simps)
qed

lemma length_join_quote: "length ss \<le> length (join [44] (map quote ss))"
proof (induction ss)
  case (Cons s ss)
  then show ?case by (cases ss) (auto simp: quote_def)
qed simp

text \<open>Reading the printed text of an array of strings gives that array back.\<close>

lemma parse_stringify: "JSON_parse (stringify ss) = Some (JArr (map JStr ss))"
proof -
  define n where "n = 2 * length (stringify ss)"
  have n: "length ss < n" using length_join_quote [of ss] by (simp add: n_def stringify_def)
  have "read_value (Suc n) (stringify ss) = Some (JArr (map JStr ss), [])"
  proof (cases ss)
    case Nil
    then show ?thesis by (simp add: stringify_def skip_ws_def json_ws_def)
  next
    case (Cons s ss')
    have "take 1 (skip_ws (join [44] (map quote ss) @ [93])) \<noteq> [93]"
      by (cases ss') (simp_all add: Cons quote_def skip_ws_def json_ws_def)
    then show ?thesis
      using read_elements_quotes [of ss n "[]"] n Cons
      by (simp add: stringify_def skip_ws_def json_ws_def del: read_elements.simps join.simps)
  qed
  then show ?thesis by (simp add: JSON_parse_def n_def skip_ws_def)
qed

end
