(* ===== verification/Iso_Time.thy ===== *)
theory Iso_Time
  imports Js_Prelude
begin

text \<open>
  Time values as JavaScript's \<^verbatim>\<open>Date\<close> keeps them, milliseconds since the start of 1970 in UTC, and
  the text of \<^verbatim>\<open>toISOString\<close>.  The calendar is the proleptic Gregorian one of the language
  definition, with its formula for the first day of a year; a year is found by an estimate that
  is off by at most one (\<open>year_of_day_bounds\<close>).
\<close>

section \<open>The calendar\<close>

definition leap :: "int \<Rightarrow> bool" where
  "leap y \<longleftrightarrow> y mod 4 = 0 \<and> (y mod 100 \<noteq> 0 \<or> y mod 400 = 0)"

definition day_from_year :: "int \<Rightarrow> int" where
  "day_from_year y = 365 * (y - 1970) + (y - 1969) div 4 - (y - 1901) div 100 + (y - 1601) div 400"

definition days_in_year :: "int \<Rightarrow> int" where
  "days_in_year y = (if leap y then 366 else 365)"

definition year_of_day :: "int \<Rightarrow> int" where
  "year_of_day d =
     (let y = 1970 + 400 * d div 146097
      in if d < day_from_year y then y - 1 else if day_from_year (y + 1) \<le> d then y + 1 else y)"

text \<open>The first day of each month within the year, counted from 0.\<close>

definition month_starts :: "bool \<Rightarrow> int list" where
  "month_starts l = (if l then [0, 31, 60, 91, 121, 152, 182, 213, 244, 274, 305, 335]
     else [0, 31, 59, 90, 120, 151, 181, 212, 243, 273, 304, 334])"

definition civil_of_day :: "int \<Rightarrow> int \<times> nat \<times> int" where
  "civil_of_day d =
     (let y = year_of_day d; dy = d - day_from_year y; starts = month_starts (leap y);
          m = length (takeWhile (\<lambda>st. st \<le> dy) starts)
      in (y, m, dy - starts ! (m - 1) + 1))"

definition day_of_civil :: "int \<Rightarrow> nat \<Rightarrow> int \<Rightarrow> int" where
  "day_of_civil y m dt = day_from_year y + month_starts (leap y) ! (m - 1) + dt - 1"

lemma int_step_div: "(a + 1) div n = a div n + (if (a + 1) mod n = 0 then 1 else 0)" if "0 < n" for n :: int
proof -
  have a: "a = n * (a div n) + a mod n" by simp
  have r: "0 \<le> a mod n" "a mod n < n" using that by simp_all
  show ?thesis
  proof (cases "a mod n + 1 = n")
    case True
    then have "a + 1 = n * (a div n + 1)" using a by (metis add.assoc add.commute distrib_left mult.right_neutral)
    then show ?thesis using that by (metis mod_mult_self1_is_0 nonzero_mult_div_cancel_left less_irrefl)
  next
    case False
    then have "(a + 1) div n = a div n" "(a + 1) mod n = a mod n + 1"
      using int_div_pos_eq [of "a + 1" n "a div n" "a mod n + 1"] int_mod_pos_eq [of "a + 1" n "a div n" "a mod n + 1"] a r
      by simp_all
    then show ?thesis using r by simp
  qed
qed

lemma mod_shift: "(y - c) mod n = y mod n" if "c mod n = 0" for y :: int
  using that mod_diff_right_eq [of y c n] by simp

lemma day_from_next_year: "day_from_year (y + 1) = day_from_year y + days_in_year y"
proof -
  have a: "(y - 1968) div 4 = (y - 1969) div 4 + (if y mod 4 = 0 then 1 else 0)"
    using int_step_div [of 4 "y - 1969"] mod_shift [of 1968 4 y] by simp
  have b: "(y - 1900) div 100 = (y - 1901) div 100 + (if y mod 100 = 0 then 1 else 0)"
    using int_step_div [of 100 "y - 1901"] mod_shift [of 1900 100 y] by simp
  have c: "(y - 1600) div 400 = (y - 1601) div 400 + (if y mod 400 = 0 then 1 else 0)"
    using int_step_div [of 400 "y - 1601"] mod_shift [of 1600 400 y] by simp
  have d: "y mod 100 = 0" if "y mod 400 = 0"
    using that dvd_trans [of 100 400 y] by (simp add: mod_eq_0_iff_dvd)
  have d': "y mod 4 = 0" if "y mod 100 = 0"
    using that dvd_trans [of 4 100 y] by (simp add: mod_eq_0_iff_dvd)
  have e: "y + 1 - 1969 = y - 1968" "y + 1 - 1901 = y - 1900" "y + 1 - 1601 = y - 1600" "y + 1 - 1970 = y - 1970 + 1"
    by simp_all
  have "day_from_year (y + 1) = day_from_year y + 365 + (if y mod 4 = 0 then 1 else 0) -
      (if y mod 100 = 0 then 1 else 0) + (if y mod 400 = 0 then 1 else 0)"
    unfolding day_from_year_def e a b c by (simp only: distrib_left)
  also have "\<dots> = day_from_year y + days_in_year y"
    unfolding days_in_year_def leap_def
    by (cases "y mod 400 = 0"; cases "y mod 100 = 0"; cases "y mod 4 = 0")
      (use d d' in \<open>simp_all only: if_True if_False simp_thms\<close>)
  finally show ?thesis .
qed

lemma scaled_div: "n * (a div n) \<le> a" "a < n * (a div n) + n" if "0 < n" for n :: int
  using that pos_mod_sign [of n a] pos_mod_bound [of n a] mult_div_mod_eq [of n a] by linarith+

lemma quotient_bounds:
  fixes y p q r :: int
  assumes "4 * p \<le> y - 1969" "y - 1969 < 4 * p + 4" "100 * q \<le> y - 1901" "y - 1901 < 100 * q + 100"
    "400 * r \<le> y - 1601" "y - 1601 < 400 * r + 400"
  shows "146097 * (y - 1970) - 506 \<le> 400 * (365 * (y - 1970) + p - q + r) \<and>
    400 * (365 * (y - 1970) + p - q + r) \<le> 146097 * (y - 1970) + 589"
proof
qed (use assms in \<open>simp_all add: algebra_simps\<close>)

lemma day_from_year_bounds:
  "146097 * (y - 1970) - 506 \<le> 400 * day_from_year y \<and> 400 * day_from_year y \<le> 146097 * (y - 1970) + 589"
  unfolding day_from_year_def
  by (rule quotient_bounds) (simp_all only: scaled_div zero_less_numeral)

lemma estimate_bounds:
  fixes k d u v :: int
  assumes "146097 * k \<le> 400 * d" "400 * d < 146097 * k + 146097" "400 * u \<le> 146097 * (k - 1) + 589"
    "146097 * (k + 2) - 506 \<le> 400 * v"
  shows "u \<le> d \<and> d < v"
proof
qed (use assms in \<open>simp_all add: algebra_simps\<close>)

lemma year_of_day_bounds: "day_from_year (year_of_day d) \<le> d \<and> d < day_from_year (year_of_day d + 1)"
proof -
  define k where "k = 400 * d div 146097"
  have "day_from_year (1970 + (k - 1)) \<le> d \<and> d < day_from_year (1970 + (k + 2))"
  proof (rule estimate_bounds)
    show "146097 * k \<le> 400 * d" "400 * d < 146097 * k + 146097"
      unfolding k_def by (simp_all only: scaled_div zero_less_numeral)
    show "400 * day_from_year (1970 + (k - 1)) \<le> 146097 * (k - 1) + 589"
      using day_from_year_bounds [of "1970 + (k - 1)"] by (simp only: add_diff_cancel_left')
    show "146097 * (k + 2) - 506 \<le> 400 * day_from_year (1970 + (k + 2))"
      using day_from_year_bounds [of "1970 + (k + 2)"] by (simp only: add_diff_cancel_left')
  qed
  moreover have "1970 + (k - 1) = 1970 + k - 1" "1970 + (k + 2) = 1970 + k + 1 + 1" by simp_all
  ultimately have "day_from_year (1970 + k - 1) \<le> d" "d < day_from_year (1970 + k + 1 + 1)" by metis+
  then show ?thesis
    unfolding year_of_day_def k_def [symmetric] Let_def by (auto simp: not_less)
qed

lemma day_of_year_range: "0 \<le> d - day_from_year (year_of_day d)" "d - day_from_year (year_of_day d) < days_in_year (year_of_day d)"
  using year_of_day_bounds [of d] day_from_next_year [of "year_of_day d"] by auto

lemma month_of_day_range:
  assumes "0 \<le> dy" and "dy < (if l then 366 else 365)"
  defines "m \<equiv> length (takeWhile (\<lambda>st. st \<le> dy) (month_starts l))"
  shows "1 \<le> m \<and> m \<le> 12 \<and> 1 \<le> dy - month_starts l ! (m - 1) + 1 \<and> dy - month_starts l ! (m - 1) + 1 \<le> 31"
  using assms by (cases l) (simp_all add: month_starts_def split: if_splits)

lemma civil_of_day_range:
  assumes "civil_of_day d = (y, m, dt)"
  shows "1 \<le> m \<and> m \<le> 12 \<and> 1 \<le> dt \<and> dt \<le> 31 \<and> y = year_of_day d"
  using month_of_day_range [OF day_of_year_range(1) day_of_year_range(2) [unfolded days_in_year_def], of d] assms
  by (auto simp: civil_of_day_def Let_def)

lemma day_of_civil_of_day: "civil_of_day d = (y, m, dt) \<Longrightarrow> day_of_civil y m dt = d"
  by (auto simp: civil_of_day_def day_of_civil_def Let_def)

section \<open>The ISO text of a time\<close>

text \<open>A \<^verbatim>\<open>Date\<close> holds no time farther than \<open>8.64e15\<close> milliseconds from 1970: the constructor
  makes an invalid date of it, whose \<^verbatim>\<open>toISOString\<close> throws.\<close>

definition time_valid :: "int \<Rightarrow> bool" where
  "time_valid t \<longleftrightarrow> \<bar>t\<bar> \<le> 8640000000000000"

definition padn :: "nat \<Rightarrow> nat \<Rightarrow> jsstr" where
  "padn n k = replicate (n - length (digits k)) 48 @ digits k"

definition year_text :: "int \<Rightarrow> jsstr" where
  "year_text y =
     (if 0 \<le> y \<and> y \<le> 9999 then padn 4 (nat y)
      else if y < 0 then 45 # padn 6 (nat (- y)) else 43 # padn 6 (nat y))"

text \<open>The text after the year.\<close>

definition after_year :: "nat \<Rightarrow> nat \<Rightarrow> nat \<Rightarrow> nat \<Rightarrow> nat \<Rightarrow> nat \<Rightarrow> jsstr" where
  "after_year m dt h mi sec ms =
     45 # padn 2 m @ 45 # padn 2 dt @ 84 # padn 2 h @ 58 # padn 2 mi @ 58 # padn 2 sec @ 46 # padn 3 ms @ [90]"

definition iso_text :: "int \<Rightarrow> jsstr" where
  "iso_text t =
     (let r = nat (t mod 86400000)
      in case civil_of_day (t div 86400000) of (y, m, dt) \<Rightarrow>
           year_text y @ after_year m (nat dt) (r div 3600000) (r div 60000 mod 60) (r div 1000 mod 60) (r mod 1000))"

definition toISOString :: "int \<Rightarrow> jsstr option" where
  "toISOString t = (if time_valid t then Some (iso_text t) else None)"

text \<open>Reading such a text back: \<open>None\<close> for any other text.\<close>

definition read_padded :: "nat \<Rightarrow> jsstr \<Rightarrow> (nat \<times> jsstr) option" where
  "read_padded n s =
     (if n \<le> length s \<and> list_all (\<lambda>c. 48 \<le> c \<and> c \<le> 57) (take n s)
      then Some (read_digits 0 (take n s), drop n s) else None)"

definition read_mark :: "code_unit \<Rightarrow> jsstr \<Rightarrow> jsstr option" where
  "read_mark c s = (case s of [] \<Rightarrow> None | d # r \<Rightarrow> if d = c then Some r else None)"

text \<open>Numbers of the given widths, each after its mark.\<close>

fun read_fields :: "(code_unit \<times> nat) list \<Rightarrow> jsstr \<Rightarrow> (nat list \<times> jsstr) option" where
  "read_fields [] s = Some ([], s)"
| "read_fields ((c, n) # fs) s =
     (case read_mark c s of
        None \<Rightarrow> None
      | Some r \<Rightarrow>
          (case read_padded n r of
             None \<Rightarrow> None
           | Some (k, r') \<Rightarrow> map_option (apfst (Cons k)) (read_fields fs r')))"

definition read_year :: "jsstr \<Rightarrow> (int \<times> jsstr) option" where
  "read_year s =
     (case s of
        [] \<Rightarrow> None
      | c # r \<Rightarrow>
          if c = 45 then map_option (apfst (\<lambda>k. - int k)) (read_padded 6 r)
          else if c = 43 then map_option (apfst int) (read_padded 6 r)
          else map_option (apfst int) (read_padded 4 s))"

definition read_iso :: "jsstr \<Rightarrow> int option" where
  "read_iso s =
     (case read_year s of
        None \<Rightarrow> None
      | Some (y, r) \<Rightarrow>
          (case read_fields [(45, 2), (45, 2), (84, 2), (58, 2), (58, 2), (46, 3)] r of
             Some ([m, dt, h, mi, sec, ms], z) \<Rightarrow>
               if z = [90] \<and> 1 \<le> m \<and> m \<le> 12 \<and> 1 \<le> dt \<and> dt \<le> 31 \<and> h < 24 \<and> mi < 60 \<and> sec < 60
               then (let t = day_of_civil y m (int dt) * 86400000 + int (h * 3600000 + mi * 60000 + sec * 1000 + ms)
                     in if time_valid t then Some t else None)
               else None
           | _ \<Rightarrow> None))"

lemma length_digits: "k < 10 ^ n \<Longrightarrow> 0 < n \<Longrightarrow> length (digits k) \<le> n"
proof (induction n arbitrary: k)
  case (Suc n)
  show ?case
  proof (cases "k < 10")
    case True
    then show ?thesis by (simp add: digits.simps [of k])
  next
    case False
    then have "0 < n" using Suc.prems by (cases n) auto
    moreover have "k div 10 < 10 ^ n" using Suc.prems by (simp add: less_mult_imp_div_less mult.commute)
    ultimately show ?thesis using Suc.IH [of "k div 10"] False by (simp add: digits.simps [of k])
  qed
qed simp

lemma length_padn: "k < 10 ^ n \<Longrightarrow> 0 < n \<Longrightarrow> length (padn n k) = n"
  using length_digits [of k n] by (simp add: padn_def)

lemma read_digits_zeros: "read_digits 0 (replicate j 48 @ s) = read_digits 0 s"
  by (induction j) (simp_all add: read_digits_def)

lemma padn_digits: "c \<in> set (padn n k) \<Longrightarrow> 48 \<le> c \<and> c \<le> 57"
  using digits_range [of c k] by (auto simp: padn_def word_le_nat_alt)

lemma read_padded_padn: "k < 10 ^ n \<Longrightarrow> 0 < n \<Longrightarrow> read_padded n (padn n k @ s) = Some (k, s)"
  using padn_digits [of _ n k]
  by (simp add: read_padded_def length_padn list_all_iff)
    (simp add: padn_def read_digits_zeros read_digits_digits)

lemma read_mark_Cons [simp]: "read_mark c (c # r) = Some r"
  by (simp add: read_mark_def)

lemma read_fields_Cons:
  "k < 10 ^ n \<Longrightarrow> 0 < n \<Longrightarrow> read_fields ((c, n) # fs) (c # padn n k @ s) = map_option (apfst (Cons k)) (read_fields fs s)"
  by (simp add: read_padded_padn)

lemma read_after_year:
  assumes "m < 100" "dt < 100" "h < 100" "mi < 100" "sec < 100" "ms < 1000"
  shows "read_fields [(45, 2), (45, 2), (84, 2), (58, 2), (58, 2), (46, 3)] (after_year m dt h mi sec ms) =
    Some ([m, dt, h, mi, sec, ms], [90])"
  using assms by (simp add: after_year_def read_padded_padn)

lemma read_year_text:
  assumes "\<bar>y\<bar> < 1000000"
  shows "read_year (year_text y @ r) = Some (y, r)"
proof -
  have six: "read_padded 6 (padn 6 k @ r) = Some (k, r)" if "k < 1000000" for k
    using that by (intro read_padded_padn) simp_all
  have four: "read_year (padn 4 k @ r) = Some (int k, r)" if "k < 10000" for k
  proof -
    have p: "read_padded 4 (padn 4 k @ r) = Some (k, r)"
      using that by (intro read_padded_padn) simp_all
    obtain c s where c: "padn 4 k = c # s" by (cases "padn 4 k") (auto simp: padn_def)
    then have "48 \<le> c" using padn_digits [of c 4 k] by simp
    then have "c \<noteq> 45" "c \<noteq> 43" by auto
    then show ?thesis using p c by (simp add: read_year_def)
  qed
  have "nat y < 1000000" "nat (- y) < 1000000" "y \<le> 9999 \<Longrightarrow> nat y < 10000" using assms by auto
  then show ?thesis
    using six four by (auto simp: year_text_def read_year_def)
qed

lemma year_of_day_small:
  assumes "\<bar>d\<bar> \<le> 100000000"
  shows "\<bar>year_of_day d\<bar> < 1000000"
proof -
  have "day_from_year (year_of_day d) \<le> d" "d < day_from_year (year_of_day d + 1)"
    using year_of_day_bounds [of d] by auto
  moreover have "146097 * (year_of_day d - 1970) - 506 \<le> 400 * day_from_year (year_of_day d)"
    "400 * day_from_year (year_of_day d + 1) \<le> 146097 * (year_of_day d + 1 - 1970) + 589"
    using day_from_year_bounds by blast+
  moreover have "u \<le> d \<Longrightarrow> d < v \<Longrightarrow> 146097 * (y - 1970) - 506 \<le> 400 * u \<Longrightarrow>
      400 * v \<le> 146097 * (y + 1 - 1970) + 589 \<Longrightarrow> \<bar>y\<bar> < 1000000" for u v y
    using assms by (simp add: abs_if algebra_simps split: if_splits)
  ultimately show ?thesis by blast
qed

lemma time_of_day_parts: "r < 86400000 \<Longrightarrow>
    r div 3600000 * 3600000 + r div 60000 mod 60 * 60000 + r div 1000 mod 60 * 1000 + r mod 1000 = r" for r :: nat
proof -
  have e: "r div 60000 = r div 1000 div 60" "r div 3600000 = r div 1000 div 60 div 60"
    by (simp_all add: div_mult2_eq [symmetric])
  have "q * 3600000 + a * 60000 + b * 1000 + c = ((q * 60 + a) * 60 + b) * 1000 + c" for q a b c :: nat
    by (simp add: algebra_simps)
  then show ?thesis unfolding e by (simp only: div_mult_mod_eq)
qed

text \<open>The text of a time in the range of \<^verbatim>\<open>Date\<close> is read back as that time.\<close>

lemma read_iso_fields:
  assumes "read_year s = Some (y, q)"
    and "read_fields [(45, 2), (45, 2), (84, 2), (58, 2), (58, 2), (46, 3)] q = Some ([m, dt, h, mi, sec, ms], [90])"
    and "1 \<le> m" "m \<le> 12" "1 \<le> dt" "dt \<le> 31" "h < 24" "mi < 60" "sec < 60"
    and "day_of_civil y m (int dt) * 86400000 + int (h * 3600000 + mi * 60000 + sec * 1000 + ms) = t"
    and "time_valid t"
  shows "read_iso s = Some t"
  unfolding read_iso_def assms(1) option.case prod.case assms(2) list.case Let_def assms(10)
  using assms(3-9,11) by (simp only: simp_thms if_True)

lemma read_iso_text: "time_valid t \<Longrightarrow> read_iso (iso_text t) = Some t"
proof -
  assume valid: "time_valid t"
  define d r where "d = t div 86400000" and "r = nat (t mod 86400000)"
  define h mi sec ms where "h = r div 3600000" and "mi = r div 60000 mod 60" and "sec = r div 1000 mod 60"
    and "ms = r mod 1000"
  obtain y m dt where c: "civil_of_day d = (y, m, dt)" by (metis prod_cases3)
  note range = civil_of_day_range [OF c]
  then have b: "1 \<le> m" "m \<le> 12" "1 \<le> nat dt" "nat dt \<le> 31" "int (nat dt) = dt" by auto
  have r: "r < 86400000" by (simp add: r_def nat_less_iff)
  have t: "d * 86400000 + int r = t" by (simp add: d_def r_def)
  have "\<bar>d\<bar> \<le> 100000000" using valid t r by (simp add: time_valid_def abs_if split: if_splits)
  then have y: "\<bar>y\<bar> < 1000000" using range year_of_day_small by simp
  have hms: "h < 24" "mi < 60" "sec < 60" "ms < 1000"
    using r by (simp_all add: h_def mi_def sec_def ms_def less_mult_imp_div_less)
  have "h * 3600000 + mi * 60000 + sec * 1000 + ms = r"
    unfolding h_def mi_def sec_def ms_def by (rule time_of_day_parts [OF r])
  then have sum: "day_of_civil y m (int (nat dt)) * 86400000 + int (h * 3600000 + mi * 60000 + sec * 1000 + ms) = t"
    unfolding b(5) day_of_civil_of_day [OF c] using t by (simp only:)
  have f: "read_fields [(45, 2), (45, 2), (84, 2), (58, 2), (58, 2), (46, 3)] (after_year m (nat dt) h mi sec ms) =
      Some ([m, nat dt, h, mi, sec, ms], [90])"
    by (rule read_after_year) (use b hms in simp_all)
  have "iso_text t = year_text y @ after_year m (nat dt) h mi sec ms"
    unfolding iso_text_def Let_def d_def [symmetric] r_def [symmetric] c prod.case h_def mi_def sec_def ms_def ..
  then show ?thesis
    using read_iso_fields [OF read_year_text [OF y] f b(1-4) hms(1-3) sum valid] by simp
qed

lemma replicate_zeros: "replicate 2 x = [x, x]" "replicate 5 x = [x, x, x, x, x]"
  by (simp_all add: eval_nat_numeral)

lemma civil_samples: "civil_of_day 0 = (1970, 1, 1)" "civil_of_day 11016 = (2000, 2, 29)"
  "civil_of_day (- 719893) = (-1, 1, 1)"
  by code_simp+

lemma iso_text_samples:
  "iso_text 0 = js ''1970-01-01T00:00:00.000Z''"
  "iso_text 951868799999 = js ''2000-02-29T23:59:59.999Z''"
  by (simp_all add: iso_text_def civil_samples year_text_def after_year_def padn_def digits.simps js_def
      replicate_zeros)

end
