(* ===== verification/Auth_Store.thy ===== *)
theory Auth_Store
  imports Js_Prelude
begin

text \<open>
  The session state (\<^verbatim>\<open>frontend/src/stores/auth-store.ts\<close>), its types
  (\<^verbatim>\<open>types/auth.ts\<close>) and the role checks (\<^verbatim>\<open>lib/permissions.ts\<close>).  The two OIDC
  callbacks are closures over the identity provider; the store only keeps whether one is
  registered (\<open>Some ()\<close>) or not (\<open>None\<close>), what they do is the environment's.
\<close>

(* src: frontend/src/types/auth.ts 14-23 UserInfo *)
record user_info =
  username :: jsstr
  full_name :: "jsstr option"
  email :: jsstr
  role :: jsstr
  is_master :: bool
  teams :: "jsstr list"

(* src: frontend/src/types/auth.ts 1-12 AuthConfig *)
record auth_config =
  sso_enabled :: bool
  issuer_url :: jsstr
  client_id :: jsstr
  client_secret :: "jsstr option"
  audience :: jsstr
  ai_greeting :: "jsstr option"
  app_name :: "jsstr option"
  app_owner :: "jsstr option"
  ai_request_timeout_seconds :: "int option"

(* src: frontend/src/stores/auth-store.ts 5-19 AuthState *)
record auth_state =
  user :: "user_info option"
  token :: "jsstr option"
  isAuthenticated :: bool
  ssoEnabled :: bool
  oidcSignout :: "unit option"
  oidcSigninSilent :: "unit option"

(* src: frontend/src/stores/auth-store.ts 21-27 useAuthStore *)
definition init_auth :: auth_state where
  "init_auth = \<lparr>user = None, token = None, isAuthenticated = False, ssoEnabled = False,
     oidcSignout = None, oidcSigninSilent = None\<rparr>"

(* src: frontend/src/stores/auth-store.ts 28-28 setUser *)
definition setUser :: "user_info option \<Rightarrow> auth_state \<Rightarrow> auth_state" where
  "setUser u s = s\<lparr>user := u, isAuthenticated := u \<noteq> None\<rparr>"

(* src: frontend/src/stores/auth-store.ts 29-29 setToken *)
definition setToken :: "jsstr option \<Rightarrow> auth_state \<Rightarrow> auth_state" where
  "setToken t s = s\<lparr>token := t\<rparr>"

(* src: frontend/src/stores/auth-store.ts 30-30 logout *)
definition logout :: "auth_state \<Rightarrow> auth_state" where
  "logout s = s\<lparr>user := None, token := None, isAuthenticated := False\<rparr>"

(* src: frontend/src/stores/auth-store.ts 31-31 setSsoEnabled *)
definition setSsoEnabled :: "bool \<Rightarrow> auth_state \<Rightarrow> auth_state" where
  "setSsoEnabled b s = s\<lparr>ssoEnabled := b\<rparr>"

(* src: frontend/src/stores/auth-store.ts 32-32 setOidcSignout *)
definition setOidcSignout :: "unit option \<Rightarrow> auth_state \<Rightarrow> auth_state" where
  "setOidcSignout f s = s\<lparr>oidcSignout := f\<rparr>"

(* src: frontend/src/stores/auth-store.ts 33-34 setOidcSigninSilent *)
definition setOidcSigninSilent :: "unit option \<Rightarrow> auth_state \<Rightarrow> auth_state" where
  "setOidcSigninSilent f s = s\<lparr>oidcSigninSilent := f\<rparr>"

lemmas auth_ops = setUser_def setToken_def logout_def setSsoEnabled_def setOidcSignout_def
  setOidcSigninSilent_def

(* src: frontend/src/lib/permissions.ts 3-5 isAdmin *)
definition isAdmin :: "user_info option \<Rightarrow> bool" where
  "isAdmin u = (case u of None \<Rightarrow> False | Some i \<Rightarrow> role i = js ''admin'')"

(* src: frontend/src/lib/permissions.ts 8-10 canManageAccess *)
definition canManageAccess :: "user_info option \<Rightarrow> bool" where
  "canManageAccess u = (isAdmin u \<or> (case u of None \<Rightarrow> False | Some i \<Rightarrow> is_master i))"

text \<open>The setters as the events of a machine; the flag mirrors the user.\<close>

datatype auth_event =
    Set_user "user_info option"
  | Set_token "jsstr option"
  | Logout
  | Set_sso bool
  | Set_signout "unit option"
  | Set_silent "unit option"

primrec auth_step :: "auth_event \<Rightarrow> auth_state \<Rightarrow> auth_state" where
  "auth_step (Set_user u) = setUser u"
| "auth_step (Set_token t) = setToken t"
| "auth_step Logout = logout"
| "auth_step (Set_sso b) = setSsoEnabled b"
| "auth_step (Set_signout f) = setOidcSignout f"
| "auth_step (Set_silent f) = setOidcSigninSilent f"

definition auth_ok :: "auth_state \<Rightarrow> bool" where
  "auth_ok s \<longleftrightarrow> (isAuthenticated s \<longleftrightarrow> user s \<noteq> None)"

lemma auth_ok_ops [inv_intros]:
  "auth_ok (setUser u s)"
  "auth_ok (logout s)"
  "auth_ok s \<Longrightarrow> auth_ok (setToken t s)"
  "auth_ok s \<Longrightarrow> auth_ok (setSsoEnabled b s)"
  "auth_ok s \<Longrightarrow> auth_ok (setOidcSignout f s)"
  "auth_ok s \<Longrightarrow> auth_ok (setOidcSigninSilent f s)"
  by (simp_all add: auth_ok_def auth_ops)

lemma auth_ok_init: "auth_ok init_auth"
  by (simp add: auth_ok_def init_auth_def)

interpretation auth_run: event_machine auth_step init_auth auth_ok
proof unfold_locales
  show "auth_ok s \<Longrightarrow> auth_ok (auth_step e s)" for s e
    by (cases e) (simp_all add: inv_intros)
qed (rule auth_ok_init)

text \<open>
  In every state the session store can reach through its setters, the
  \<open>isAuthenticated\<close> flag holds exactly when a user is present.
\<close>

theorem auth_flag_mirrors_user:
  "isAuthenticated (fold auth_step es init_auth) \<longleftrightarrow> user (fold auth_step es init_auth) \<noteq> None"
  using auth_run.inv_run [of es] by (simp add: auth_ok_def)

text \<open>
  Access management is open exactly to users whose role is \<open>admin\<close> and to master users;
  without a user neither check passes.
\<close>

theorem access_control:
  "canManageAccess None = False \<and> isAdmin None = False \<and>
   (canManageAccess (Some i) \<longleftrightarrow> role i = js ''admin'' \<or> is_master i) \<and>
   (isAdmin (Some i) \<longleftrightarrow> role i = js ''admin'')"
  by (auto simp: canManageAccess_def isAdmin_def)

end
