(* ===== verification/Api_Client.thy ===== *)
theory Api_Client
  imports Auth_Store Complex_Main
begin

text \<open>
  The HTTP client (\<^verbatim>\<open>frontend/src/api/client.ts\<close>): the request interceptor that attaches
  the bearer token, the response interceptor that refreshes a session on 401 and retries
  transient failures, and the loop the two make together with the server.  The server, the
  silent sign-in of the OIDC library and \<^verbatim>\<open>Math.random\<close> are the environment, indexed by
  the attempt.  A resent configuration keeps its \<open>_retry\<close> and \<open>_retryCount\<close> fields,
  as axios keeps custom fields of a configuration.
\<close>

(* src: frontend/src/api/client.ts 4-10 InternalAxiosRequestConfig *)
record req_config =
  rc_method :: "jsstr option"
  rc_authorization :: "jsstr option"
  rc_retry :: bool
  rc_retryCount :: "nat option"

text \<open>One attempt either succeeds or fails, with the failure's configuration present or not and
  the response status, absent for a network failure or a timeout.\<close>

datatype outcome = Success | Failure bool "nat option"

text \<open>A silent sign-in returns a user (with an access token, perhaps) or throws.\<close>

datatype silent_signin = Silent_user "jsstr option" | Silent_throws

datatype verdict = Reject | Resend req_config rat

definition ascii_lower :: "jsstr \<Rightarrow> jsstr" where
  "ascii_lower s = map (\<lambda>c. if 65 \<le> c \<and> c \<le> 90 then c + 32 else c) s"

(* src: frontend/src/api/client.ts 12-13 IDEMPOTENT_METHODS *)
definition IDEMPOTENT_METHODS :: "jsstr set" where
  "IDEMPOTENT_METHODS = {js ''get'', js ''head'', js ''options'', js ''put''}"

(* src: frontend/src/api/client.ts 21-28 apiClient.interceptors.request *)
definition attach_token :: "auth_state \<Rightarrow> req_config \<Rightarrow> req_config" where
  "attach_token s cfg =
     (case token s of
        Some t \<Rightarrow>
          if t \<noteq> [] \<and> t \<noteq> js ''no-sso''
          then cfg\<lparr>rc_authorization := Some (js ''Bearer '' @ t)\<rparr>
          else cfg
      | None \<Rightarrow> cfg)"

(* src: frontend/src/api/client.ts 63-66 method *)
definition retryable_method :: "req_config \<Rightarrow> bool" where
  "retryable_method cfg \<longleftrightarrow>
     ascii_lower (case rc_method cfg of None \<Rightarrow> [] | Some m \<Rightarrow> m) \<in> IDEMPOTENT_METHODS"

(* src: frontend/src/api/client.ts 64-65 isTransient *)
definition transient :: "nat option \<Rightarrow> bool" where
  "transient st \<longleftrightarrow> st = None \<or> st = Some 0 \<or> st = Some 502 \<or> st = Some 503 \<or> st = Some 504"

(* src: frontend/src/api/client.ts 62-78 transient retry *)
definition retry_transient :: "rat \<Rightarrow> req_config \<Rightarrow> nat option \<Rightarrow> verdict" where
  "retry_transient rnd cfg st =
     (if transient st \<and> retryable_method cfg then
        (let retryCount = (case rc_retryCount cfg of None \<Rightarrow> 0 | Some n \<Rightarrow> n) in
         if retryCount < 2
         then Resend (cfg\<lparr>rc_retryCount := Some (retryCount + 1)\<rparr>)
                (1000 * (of_nat retryCount + 1) + rnd * 500)
         else Reject)
      else Reject)"

text \<open>
  The interceptor returns the session store after it ran, whether it called the sign-out
  callback, and what becomes of the request.
\<close>

(* src: frontend/src/api/client.ts 31-80 apiClient.interceptors.response *)
definition on_error ::
  "silent_signin \<Rightarrow> rat \<Rightarrow> auth_state \<Rightarrow> req_config \<Rightarrow> bool \<Rightarrow> nat option
     \<Rightarrow> auth_state \<times> bool \<times> verdict" where
  "on_error silent rnd s cfg has_config st =
     (if \<not> has_config then (s, False, Reject)
      else if st = Some 401 \<and> \<not> rc_retry cfg then
        (if ssoEnabled s \<and> oidcSigninSilent s \<noteq> None then
           (let cfg' = cfg\<lparr>rc_retry := True\<rparr>;
                signed_out = (logout s, oidcSignout s \<noteq> None, Reject)
            in case silent of
                 Silent_user (Some t) \<Rightarrow>
                   if t \<noteq> []
                   then (setToken (Some t) s, False,
                         Resend (cfg'\<lparr>rc_authorization := Some (js ''Bearer '' @ t)\<rparr>) 0)
                   else signed_out
               | Silent_user None \<Rightarrow> signed_out
               | Silent_throws \<Rightarrow> signed_out)
         else (s, False, Reject))
      else (s, False, retry_transient rnd cfg st))"

text \<open>The attempts a configuration still allows.\<close>

definition budget :: "req_config \<Rightarrow> nat" where
  "budget cfg = (if rc_retry cfg then 0 else 1) +
     (2 - (case rc_retryCount cfg of None \<Rightarrow> 0 | Some n \<Rightarrow> n))"

lemma attach_token_frame [simp]:
  "rc_retry (attach_token s cfg) = rc_retry cfg"
  "rc_retryCount (attach_token s cfg) = rc_retryCount cfg"
  "rc_method (attach_token s cfg) = rc_method cfg"
  "budget (attach_token s cfg) = budget cfg"
  by (auto simp: attach_token_def budget_def split: option.splits)

lemma retry_transient_Resend:
  "retry_transient rnd cfg st = Resend cfg' d \<Longrightarrow>
     transient st \<and> retryable_method cfg \<and> budget cfg' < budget cfg \<and>
     rc_method cfg' = rc_method cfg \<and> rc_retry cfg' = rc_retry cfg \<and>
     rc_authorization cfg' = rc_authorization cfg \<and>
     (\<exists>n < 2. (case rc_retryCount cfg of None \<Rightarrow> 0 | Some n \<Rightarrow> n) = n \<and>
        rc_retryCount cfg' = Some (n + 1) \<and> d = 1000 * (of_nat n + 1) + rnd * 500)"
  by (auto simp: retry_transient_def Let_def budget_def split: if_splits option.splits)

lemma on_error_Resend:
  assumes "on_error silent rnd s cfg hc st = (s', so, Resend cfg' d)"
  shows "budget cfg' < budget cfg" and "rc_method cfg' = rc_method cfg"
    and "st = Some 401 \<or> (transient st \<and> retryable_method cfg \<and> s' = s)"
  using assms
  by (auto simp: on_error_def Let_def budget_def dest: retry_transient_Resend
      split: if_splits silent_signin.splits option.splits)

section \<open>The request loop\<close>

record http_env =
  he_server :: "nat \<Rightarrow> req_config \<Rightarrow> outcome"
  he_silent :: "nat \<Rightarrow> silent_signin"
  he_random :: "nat \<Rightarrow> rat"

record http_result =
  hr_delivered :: bool
  hr_store :: auth_state
  hr_signout :: bool
  hr_waits :: "rat list"
  hr_trace :: "(req_config \<times> outcome) list"

text \<open>
  \<open>apiClient(config)\<close>: the request interceptor, the attempt, and on failure the error
  interceptor, which may wait and call \<open>apiClient\<close> again.  The trace lists the attempts
  with the configuration each was sent with, the waits are the delays between them in
  milliseconds.
\<close>

(* src: frontend/src/api/client.ts 15-82 apiClient *)
function api_call :: "http_env \<Rightarrow> nat \<Rightarrow> auth_state \<Rightarrow> req_config \<Rightarrow> http_result" where
  "api_call env i s cfg =
     (let sent = attach_token s cfg; out = he_server env i sent in
      case out of
        Success \<Rightarrow> \<lparr>hr_delivered = True, hr_store = s, hr_signout = False,
            hr_waits = [], hr_trace = [(sent, out)]\<rparr>
      | Failure hc st \<Rightarrow>
          (case on_error (he_silent env i) (he_random env i) s sent hc st of
             (s', so, Reject) \<Rightarrow>
               \<lparr>hr_delivered = False, hr_store = s', hr_signout = so,
                 hr_waits = [], hr_trace = [(sent, out)]\<rparr>
           | (s', so, Resend cfg' d) \<Rightarrow>
               (let r = api_call env (Suc i) s' cfg'
                in r\<lparr>hr_signout := so \<or> hr_signout r, hr_waits := d # hr_waits r,
                       hr_trace := (sent, out) # hr_trace r\<rparr>)))"
  by pat_completeness auto
termination
  by (relation "measure (\<lambda>(env, i, s, cfg). budget cfg)")
    (auto dest!: sym [of "(_, _, _)"] on_error_Resend(1))

declare api_call.simps [simp del]

lemma api_call_Success:
  "he_server env i (attach_token s cfg) = Success \<Longrightarrow>
     api_call env i s cfg = \<lparr>hr_delivered = True, hr_store = s, hr_signout = False, hr_waits = [],
       hr_trace = [(attach_token s cfg, Success)]\<rparr>"
  by (subst api_call.simps) simp

lemma api_call_Reject:
  "he_server env i (attach_token s cfg) = Failure hc st \<Longrightarrow>
   on_error (he_silent env i) (he_random env i) s (attach_token s cfg) hc st = (s', so, Reject) \<Longrightarrow>
     api_call env i s cfg = \<lparr>hr_delivered = False, hr_store = s', hr_signout = so, hr_waits = [],
       hr_trace = [(attach_token s cfg, Failure hc st)]\<rparr>"
  by (subst api_call.simps) simp

lemma api_call_Resend:
  "he_server env i (attach_token s cfg) = Failure hc st \<Longrightarrow>
   on_error (he_silent env i) (he_random env i) s (attach_token s cfg) hc st
     = (s', so, Resend cfg' d) \<Longrightarrow>
     api_call env i s cfg = (let r = api_call env (Suc i) s' cfg'
       in r\<lparr>hr_signout := so \<or> hr_signout r, hr_waits := d # hr_waits r,
            hr_trace := (attach_token s cfg, Failure hc st) # hr_trace r\<rparr>)"
  by (subst api_call.simps) (simp add: Let_def)

lemmas api_call_steps = api_call_Success api_call_Reject api_call_Resend

lemma api_call_induct [case_names Success Reject Resend]:
  assumes "\<And>i s cfg. he_server env i (attach_token s cfg) = Success \<Longrightarrow> P i s cfg"
    and "\<And>i s cfg hc st s' so. he_server env i (attach_token s cfg) = Failure hc st \<Longrightarrow>
      on_error (he_silent env i) (he_random env i) s (attach_token s cfg) hc st = (s', so, Reject)
      \<Longrightarrow> P i s cfg"
    and "\<And>i s cfg hc st s' so cfg' d. he_server env i (attach_token s cfg) = Failure hc st \<Longrightarrow>
      on_error (he_silent env i) (he_random env i) s (attach_token s cfg) hc st
        = (s', so, Resend cfg' d) \<Longrightarrow> P (Suc i) s' cfg' \<Longrightarrow> P i s cfg"
  shows "P i s cfg"
proof (induction cfg arbitrary: i s rule: measure_induct_rule [where f = budget])
  case (less cfg)
  show ?case
  proof (cases "he_server env i (attach_token s cfg)")
    case Success
    then show ?thesis by (rule assms(1))
  next
    case (Failure hc st)
    obtain s' so v where
      e: "on_error (he_silent env i) (he_random env i) s (attach_token s cfg) hc st = (s', so, v)"
      by (metis prod_cases3)
    show ?thesis
    proof (cases v)
      case Reject
      with Failure e show ?thesis by (auto intro: assms(2))
    next
      case (Resend cfg' d)
      with e have "budget cfg' < budget cfg" by (auto dest: on_error_Resend(1))
      with Resend Failure e show ?thesis by (auto intro: assms(3) less.IH)
    qed
  qed
qed

lemma api_call_trace_nonempty [simp]: "hr_trace (api_call env i s cfg) \<noteq> []"
  by (induction i s cfg rule: api_call_induct [where env = env]) (simp_all add: api_call_steps Let_def)

lemma api_call_attempts: "length (hr_trace (api_call env i s cfg)) \<le> Suc (budget cfg)"
proof (induction i s cfg rule: api_call_induct [where env = env])
  case (Resend i s cfg hc st s' so cfg' d)
  then show ?case using on_error_Resend(1) [OF Resend(2)] by (simp add: api_call_steps Let_def)
qed (simp_all add: api_call_steps)

text \<open>A configuration as a caller passes it: no retry has happened yet.\<close>

definition fresh_config :: "jsstr option \<Rightarrow> jsstr option \<Rightarrow> req_config" where
  "fresh_config m a = \<lparr>rc_method = m, rc_authorization = a, rc_retry = False, rc_retryCount = None\<rparr>"

lemma fresh_config_simps [simp]:
  "rc_method (fresh_config m a) = m" "rc_authorization (fresh_config m a) = a"
  "rc_retry (fresh_config m a) = False" "rc_retryCount (fresh_config m a) = None"
  "budget (fresh_config m a) = 3"
  by (simp_all add: fresh_config_def budget_def)

text \<open>
  C1: whatever the server, the identity provider and the random jitter do, a request is
  attempted at most four times (one session refresh and two transient retries after the first
  attempt), so every call of the client returns.
\<close>

theorem request_attempts_bounded:
  "1 \<le> length (hr_trace (api_call env i s (fresh_config m a))) \<and>
   length (hr_trace (api_call env i s (fresh_config m a))) \<le> 4"
  using api_call_attempts [of env i s "fresh_config m a"]
    api_call_trace_nonempty [of env i s "fresh_config m a"]
  by (simp add: Suc_le_eq)

text \<open>Along a call a refresh spends the \<open>_retry\<close> flag, and only a 401 resends a method
that is not idempotent.\<close>

definition refresh_401 :: "req_config \<times> outcome \<Rightarrow> bool" where
  "refresh_401 a \<longleftrightarrow> snd a = Failure True (Some 401)"

lemma on_error_Resend_cases:
  assumes "on_error silent rnd s cfg hc st = (s', so, Resend cfg' d)"
  shows "hc \<and> \<not> so \<and>
    (st = Some 401 \<and> \<not> rc_retry cfg \<and> rc_retry cfg' \<and> ssoEnabled s \<and> d = 0 \<and>
       (\<exists>t. silent = Silent_user (Some t) \<and> t \<noteq> [] \<and> s' = setToken (Some t) s \<and>
          rc_authorization cfg' = Some (js ''Bearer '' @ t)) \<or>
     st \<noteq> Some 401 \<and> transient st \<and> retryable_method cfg \<and> s' = s \<and>
       rc_retry cfg' = rc_retry cfg \<and> rc_authorization cfg' = rc_authorization cfg)"
  using assms
  by (auto simp: on_error_def Let_def transient_def dest: retry_transient_Resend
      split: if_splits silent_signin.splits option.splits)

lemma api_call_refreshes:
  "length (filter refresh_401 (butlast (hr_trace (api_call env i s cfg)))) \<le>
     (if rc_retry cfg then 0 else 1)"
proof (induction i s cfg rule: api_call_induct [where env = env])
  case (Resend i s cfg hc st s' so cfg' d)
  then show ?case using on_error_Resend_cases [OF Resend(2)]
    by (auto simp: api_call_steps Let_def refresh_401_def split: if_splits)
qed (simp_all add: api_call_steps)

lemma api_call_unsafe:
  "\<not> retryable_method cfg \<Longrightarrow> a \<in> set (butlast (hr_trace (api_call env i s cfg))) \<Longrightarrow> refresh_401 a"
proof (induction i s cfg rule: api_call_induct [where env = env])
  case (Resend i s cfg hc st s' so cfg' d)
  have m: "retryable_method (attach_token s cfg) = retryable_method cfg"
      "retryable_method cfg' = retryable_method cfg"
    using on_error_Resend(2) [OF Resend(2)] by (simp_all add: retryable_method_def)
  with Resend show ?case using on_error_Resend_cases [OF Resend(2)]
    by (auto simp: api_call_steps Let_def refresh_401_def)
qed (simp_all add: api_call_steps)

text \<open>
  C2: a request whose method is not idempotent (a POST, a PATCH or a DELETE) is never sent
  again after a network failure, a timeout or a 5xx answer: every attempt but the last was
  answered 401, and there are at most two attempts.
\<close>

theorem unsafe_methods_not_replayed:
  assumes "\<not> retryable_method (fresh_config m a)"
  shows "length (hr_trace (api_call env i s (fresh_config m a))) \<le> 2 \<and>
    (\<forall>att \<in> set (butlast (hr_trace (api_call env i s (fresh_config m a)))).
       snd att = Failure True (Some 401))"
proof
  let ?t = "hr_trace (api_call env i s (fresh_config m a))"
  have all: "\<forall>att \<in> set (butlast ?t). refresh_401 att"
    using api_call_unsafe [OF assms] by blast
  then have "filter refresh_401 (butlast ?t) = butlast ?t" by simp
  with api_call_refreshes [of env i s "fresh_config m a"] have "length (butlast ?t) \<le> 1" by simp
  then show "length ?t \<le> 2" by simp
  from all show "\<forall>att \<in> set (butlast ?t). snd att = Failure True (Some 401)"
    by (simp add: refresh_401_def)
qed

text \<open>A concrete environment: an expired session on the first attempt, a new token from the
silent sign-in, an unavailable server afterwards.\<close>

definition sample_env :: "nat option \<Rightarrow> http_env" where
  "sample_env st = \<lparr>he_server = (\<lambda>i c. Failure True (if i = 0 then Some 401 else st)),
     he_silent = (\<lambda>i. Silent_user (Some (js ''tok''))), he_random = (\<lambda>i. 1 / 2)\<rparr>"

definition sample_store :: auth_state where
  "sample_store = init_auth\<lparr>ssoEnabled := True, oidcSigninSilent := Some (), oidcSignout := Some (),
     token := Some (js ''old'')\<rparr>"

lemmas sample_defs = sample_env_def sample_store_def on_error_def setToken_def
  retry_transient_def retryable_method_def init_auth_def Let_def

lemma ascii_lower_post: "ascii_lower (js ''post'') \<notin> IDEMPOTENT_METHODS"
  by (simp add: ascii_lower_def js_def IDEMPOTENT_METHODS_def)

theorem unsafe_methods_not_replayed_witness:
  "\<not> retryable_method (fresh_config (Some (js ''post'')) None) \<and>
   length (hr_trace (api_call (sample_env None) 0 sample_store
     (fresh_config (Some (js ''post'')) None))) \<le> 2"
proof -
  have m: "\<not> retryable_method (fresh_config (Some (js ''post'')) None)"
    by (simp add: retryable_method_def ascii_lower_post)
  show ?thesis
    using m unsafe_methods_not_replayed [OF m, of "sample_env None" 0 sample_store] by simp
qed

lemma api_call_Resend_trace:
  assumes "he_server env i (attach_token s cfg) = Failure hc st"
    and "on_error (he_silent env i) (he_random env i) s (attach_token s cfg) hc st
      = (s', so, Resend cfg' d)"
  shows "hr_trace (api_call env i s cfg)
      = (attach_token s cfg, Failure hc st) # hr_trace (api_call env (Suc i) s' cfg')"
    and "hr_waits (api_call env i s cfg) = d # hr_waits (api_call env (Suc i) s' cfg')"
  using api_call_Resend [OF assms] by (simp_all add: Let_def)

lemma api_call_hd_config: "fst (hd (hr_trace (api_call env i s cfg))) = attach_token s cfg"
  by (induction i s cfg rule: api_call_induct [where env = env]) (simp_all add: api_call_steps Let_def)

lemma attach_token_bearer:
  "rc_authorization cfg = Some (js ''Bearer '' @ t) \<Longrightarrow> token s = Some t \<Longrightarrow>
     rc_authorization (attach_token s cfg) = Some (js ''Bearer '' @ t)"
  by (simp add: attach_token_def)

text \<open>
  A request that is sent again after a 401 answer carries the access token the silent
  sign-in returned for that answer.
\<close>

theorem resent_with_refreshed_token:
  assumes "Suc j < length (hr_trace (api_call env i s cfg))"
    and "snd (hr_trace (api_call env i s cfg) ! j) = Failure True (Some 401)"
  shows "\<exists>t. he_silent env (i + j) = Silent_user (Some t) \<and> t \<noteq> [] \<and>
    rc_authorization (fst (hr_trace (api_call env i s cfg) ! Suc j)) = Some (js ''Bearer '' @ t)"
  using assms
proof (induction i s cfg arbitrary: j rule: api_call_induct [where env = env])
  case (Resend i s cfg hc st s' so cfg' d)
  note tr = api_call_Resend_trace(1) [OF Resend(1,2)]
  show ?case
  proof (cases j)
    case 0
    with Resend.prems(2) have "hc" "st = Some 401" by (simp_all add: tr)
    then obtain t where "he_silent env i = Silent_user (Some t)" "t \<noteq> []" "s' = setToken (Some t) s"
      "rc_authorization cfg' = Some (js ''Bearer '' @ t)"
      using on_error_Resend_cases [OF Resend(2)] by auto
    with 0 show ?thesis
      using api_call_hd_config [of env "Suc i" s' cfg']
      by (simp add: tr hd_conv_nth attach_token_bearer setToken_def)
  next
    case (Suc k)
    with Resend.prems Resend.IH [of k] show ?thesis by (simp add: tr)
  qed
qed (simp_all add: api_call_steps)

declare ascii_lower_post [simp]

theorem resent_with_refreshed_token_witness:
  "rc_authorization (fst (hr_trace (api_call (sample_env None) 0 sample_store
     (fresh_config (Some (js ''post'')) None)) ! 1)) = Some (js ''Bearer '' @ js ''tok'')"
proof -
  let ?r = "api_call (sample_env None) 0 sample_store (fresh_config (Some (js ''post'')) None)"
  have "length (hr_trace ?r) = 2"
    by (subst api_call.simps, simp add: sample_defs, subst api_call.simps, simp add: sample_defs)
  moreover have "snd (hr_trace ?r ! 0) = Failure True (Some 401)"
    by (subst api_call.simps, simp add: sample_defs)
  ultimately show ?thesis
    using resent_with_refreshed_token [of 0 "sample_env None" 0 sample_store
        "fresh_config (Some (js ''post'')) None"]
    by (auto simp: sample_env_def)
qed

text \<open>Waiting: the k-th transient retry waits \<open>1000 * k\<close> milliseconds and the jitter.\<close>

definition retries_left :: "req_config \<Rightarrow> nat list" where
  "retries_left cfg = (case rc_retryCount cfg of None \<Rightarrow> [1, 2] | Some n \<Rightarrow>
     if n = 0 then [1, 2] else if n = 1 then [2] else [])"

definition wait_bound :: "req_config \<Rightarrow> rat" where
  "wait_bound cfg = sum_list (map (\<lambda>k. 1000 * of_nat k + 500) (retries_left cfg))"

lemma api_call_waits:
  assumes "\<And>i. 0 \<le> he_random env i \<and> he_random env i \<le> 1"
  shows "sum_list (hr_waits (api_call env i s cfg)) \<le> wait_bound cfg"
proof (induction i s cfg rule: api_call_induct [where env = env])
  case (Resend i s cfg hc st s' so cfg' d)
  have w: "sum_list (hr_waits (api_call env i s cfg)) \<le> d + wait_bound cfg'"
    using Resend(3) by (simp add: api_call_Resend_trace(2) [OF Resend(1,2)])
  have "d + wait_bound cfg' \<le> wait_bound cfg"
  proof (cases "st = Some 401 \<and> \<not> rc_retry cfg")
    case True
    with Resend(2) have "d = 0" "rc_retryCount cfg' = rc_retryCount cfg"
      by (auto simp: on_error_def Let_def split: if_splits silent_signin.splits option.splits)
    then show ?thesis by (simp add: wait_bound_def retries_left_def)
  next
    case False
    with Resend(2) have "retry_transient (he_random env i) (attach_token s cfg) st = Resend cfg' d"
      by (auto simp: on_error_def split: if_splits)
    from retry_transient_Resend [OF this] obtain n where "n < 2"
      "(case rc_retryCount cfg of None \<Rightarrow> 0 | Some n \<Rightarrow> n) = n"
      "rc_retryCount cfg' = Some (n + 1)" "d = 1000 * (of_nat n + 1) + he_random env i * 500"
      by auto
    then show ?thesis using assms [of i]
      by (auto simp: wait_bound_def retries_left_def less_2_cases_iff split: option.splits)
  qed
  with w show ?case by simp
next
  case (Success i s cfg)
  then show ?case by (auto simp: api_call_steps wait_bound_def retries_left_def split: option.splits)
next
  case (Reject i s cfg hc st s' so)
  then show ?case by (auto simp: api_call_steps wait_bound_def retries_left_def split: option.splits)
qed

text \<open>
  With a jitter between 0 and 1 the delays a request spends between its attempts add up
  to at most four seconds.
\<close>

theorem total_backoff_bounded:
  assumes "\<And>i. 0 \<le> he_random env i \<and> he_random env i \<le> 1"
  shows "sum_list (hr_waits (api_call env i s (fresh_config m a))) \<le> 4000"
  using api_call_waits [OF assms, of i s "fresh_config m a"]
  by (simp add: wait_bound_def retries_left_def)

theorem total_backoff_bounded_witness:
  "sum_list (hr_waits (api_call (sample_env (Some 503)) 0 sample_store
     (fresh_config (Some (js ''get'')) None))) \<le> 4000"
  by (rule total_backoff_bounded) (simp add: sample_env_def)

section \<open>The session after a call\<close>

lemma setToken_token [simp]: "token (setToken t s) = t" "oidcSignout (setToken t s) = oidcSignout s"
  "ssoEnabled (setToken t s) = ssoEnabled s" "oidcSigninSilent (setToken t s) = oidcSigninSilent s"
  "user (setToken t s) = user s" "isAuthenticated (setToken t s) = isAuthenticated s"
  by (simp_all add: setToken_def)

lemma on_error_Reject_store:
  assumes "on_error silent rnd s cfg hc st = (s', so, Reject)"
  shows "s' = s \<and> \<not> so \<or>
    s' = logout s \<and> (so \<longleftrightarrow> oidcSignout s \<noteq> None) \<and> hc \<and> st = Some 401 \<and> \<not> rc_retry cfg \<and>
      ssoEnabled s \<and> oidcSigninSilent s \<noteq> None \<and> (\<forall>t. silent = Silent_user (Some t) \<longrightarrow> t = [])"
  using assms
  by (auto simp: on_error_def Let_def split: if_splits silent_signin.splits option.splits)

lemma api_call_store:
  "let r = api_call env i s cfg in
     hr_store r = s \<and> \<not> hr_signout r \<or>
     (\<exists>t. t \<noteq> [] \<and> ssoEnabled s \<and> \<not> rc_retry cfg \<and> hr_store r = setToken (Some t) s \<and> \<not> hr_signout r) \<or>
     (ssoEnabled s \<and> \<not> rc_retry cfg \<and> hr_store r = logout s \<and> \<not> hr_delivered r \<and>
        (hr_signout r \<longleftrightarrow> oidcSignout s \<noteq> None))"
proof (induction i s cfg rule: api_call_induct [where env = env])
  case (Reject i s cfg hc st s' so)
  then show ?case using on_error_Reject_store [OF Reject(2)]
    by (auto simp: api_call_steps Let_def)
next
  case (Resend i s cfg hc st s' so cfg' d)
  then show ?case using on_error_Resend_cases [OF Resend(2)]
    by (auto simp: api_call_Resend [OF Resend(1,2)] Let_def setToken_def)
qed (simp add: api_call_steps)

text \<open>
  A call leaves the session store as it was, or with the refreshed token of a live
  single sign-on session, or logged out.  In the last case the request failed and the
  registered sign-out was called; the sign-out is called in no other case.
\<close>

theorem call_outcome_on_session:
  "let r = api_call env i s cfg in
     (hr_store r = s \<or> (\<exists>t. t \<noteq> [] \<and> hr_store r = setToken (Some t) s) \<or>
       hr_store r = logout s \<and> \<not> hr_delivered r) \<and>
     (hr_signout r \<longrightarrow> hr_store r = logout s \<and> \<not> hr_delivered r \<and> oidcSignout s \<noteq> None) \<and>
     (\<not> ssoEnabled s \<longrightarrow> hr_store r = s \<and> \<not> hr_signout r)"
  using api_call_store [of env i s cfg] by (auto simp: Let_def)

theorem call_outcome_on_session_witness:
  "let env = (sample_env None)\<lparr>he_silent := (\<lambda>i. Silent_throws)\<rparr>;
       r = api_call env 0 sample_store (fresh_config (Some (js ''get'')) None)
   in hr_signout r \<and> hr_store r = logout sample_store \<and> \<not> hr_delivered r"
proof -
  let ?env = "(sample_env None)\<lparr>he_silent := (\<lambda>i. Silent_throws)\<rparr>"
  have "hr_signout (api_call ?env 0 sample_store (fresh_config (Some (js ''get'')) None))"
    by (subst api_call.simps, simp add: sample_defs)
  then show ?thesis
    using call_outcome_on_session [of ?env 0 sample_store "fresh_config (Some (js ''get'')) None"]
    by (simp add: Let_def)
qed

lemma api_call_no_sso_auth:
  "\<not> ssoEnabled s \<Longrightarrow> token s \<in> {None, Some [], Some (js ''no-sso'')} \<Longrightarrow>
   att \<in> set (hr_trace (api_call env i s cfg)) \<Longrightarrow>
     rc_authorization (fst att) = rc_authorization cfg"
proof (induction i s cfg rule: api_call_induct [where env = env])
  case (Resend i s cfg hc st s' so cfg' d)
  then show ?case using on_error_Resend_cases [OF Resend(2)]
    by (auto simp: api_call_Resend_trace [OF Resend(1,2)] attach_token_def)
qed (auto simp: api_call_steps attach_token_def)

text \<open>
  Without single sign-on the placeholder token \<open>no-sso\<close> never reaches the network: no
  attempt of a request without an authorization header carries one.
\<close>

theorem no_sso_token_not_sent:
  assumes "\<not> ssoEnabled s" and "token s = Some (js ''no-sso'')"
  shows "\<forall>att \<in> set (hr_trace (api_call env i s (fresh_config m None))).
    rc_authorization (fst att) = None"
  using api_call_no_sso_auth [of s _ env i "fresh_config m None"] assms by simp

theorem no_sso_token_not_sent_witness:
  "rc_authorization (fst (hd (hr_trace (api_call (sample_env None) 0
       (init_auth\<lparr>token := Some (js ''no-sso'')\<rparr>) (fresh_config (Some (js ''get'')) None))))) = None"
proof -
  let ?s = "init_auth\<lparr>token := Some (js ''no-sso'')\<rparr>"
  have "\<not> ssoEnabled ?s" "token ?s = Some (js ''no-sso'')" by (simp_all add: init_auth_def)
  from no_sso_token_not_sent [OF this, of "sample_env None" 0 "Some (js ''get'')"]
  show ?thesis by simp
qed

end
