(* ===== verification/Query_Client.thy ===== *)
theory Query_Client
  imports Api_Client
begin

text \<open>
  The query client of the entry point (\<^verbatim>\<open>frontend/src/main.tsx\<close>) over the HTTP client: a query
  whose call fails is called again, as often as its \<^verbatim>\<open>retry\<close> option says, after the library's
  delay, and every one of these calls has its own attempts.  The session store is the one the
  call before has left.
\<close>

(* src: frontend/src/main.tsx 12-18 defaultOptions *)
record query_defaults =
  staleTime :: nat
  retry :: nat
  refetchOnWindowFocus :: bool

(* src: frontend/src/main.tsx 11-19 queryClient *)
definition queryClient :: query_defaults where
  "queryClient = \<lparr>staleTime = 30000, retry = 2, refetchOnWindowFocus = False\<rparr>"

text \<open>The delay before the next call, in milliseconds.\<close>

definition retryDelay :: "nat \<Rightarrow> rat" where
  "retryDelay failureCount = min (1000 * 2 ^ failureCount) 30000"

text \<open>The calls of a query with the delays before them, \<open>n\<close> retries being left after \<open>k\<close> failures.\<close>

fun query_calls :: "(nat \<Rightarrow> http_env) \<Rightarrow> nat \<Rightarrow> nat \<Rightarrow> auth_state \<Rightarrow> req_config \<Rightarrow> (rat \<times> http_result) list" where
  "query_calls env n k s cfg =
     (let r = api_call (env k) 0 s cfg; d = (if k = 0 then 0 else retryDelay (k - 1))
      in (d, r) # (case n of
           0 \<Rightarrow> []
         | Suc n' \<Rightarrow> if hr_delivered r then [] else query_calls env n' (Suc k) (hr_store r) cfg))"

declare query_calls.simps [simp del]

definition attempts :: "(rat \<times> http_result) list \<Rightarrow> nat" where
  "attempts calls = sum_list (map (\<lambda>(d, r). length (hr_trace r)) calls)"

definition waiting :: "(rat \<times> http_result) list \<Rightarrow> rat" where
  "waiting calls = sum_list (map (\<lambda>(d, r). d + sum_list (hr_waits r)) calls)"

lemma query_calls_0: "query_calls env 0 k s cfg = [((if k = 0 then 0 else retryDelay (k - 1)), api_call (env k) 0 s cfg)]"
  by (subst query_calls.simps) (simp add: Let_def)

lemma query_calls_Suc: "query_calls env (Suc n) k s cfg =
    (let r = api_call (env k) 0 s cfg
     in ((if k = 0 then 0 else retryDelay (k - 1)), r) #
        (if hr_delivered r then [] else query_calls env n (Suc k) (hr_store r) cfg))"
  by (subst query_calls.simps) (simp add: Let_def)

lemma query_calls_length: "length (query_calls env n k s cfg) \<le> Suc n"
  by (induction n arbitrary: k s) (auto simp: query_calls_0 query_calls_Suc Let_def)

lemma sum_list_bound:
  fixes f :: "'a \<Rightarrow> nat"
  shows "list_all (\<lambda>x. f x \<le> c) xs \<Longrightarrow> sum_list (map f xs) \<le> c * length xs"
  by (induction xs) auto

lemma query_calls_fresh:
  "list_all (\<lambda>(d, r). length (hr_trace r) \<le> 4) (query_calls env n k s (fresh_config m a))"
  using api_call_attempts [of "env _" _ _ "fresh_config m a"]
  by (induction n arbitrary: k s) (auto simp: query_calls_0 query_calls_Suc Let_def)

lemma query_calls_attempts: "attempts (query_calls env n k s (fresh_config m a)) \<le> 4 * Suc n"
proof -
  have "attempts (query_calls env n k s (fresh_config m a)) \<le> 4 * length (query_calls env n k s (fresh_config m a))"
    unfolding attempts_def
    by (rule sum_list_bound) (use query_calls_fresh [of env n k s m a] in \<open>auto elim!: list.pred_mono_strong\<close>)
  also have "\<dots> \<le> 4 * Suc n" using query_calls_length [of env n k s "fresh_config m a"] by simp
  finally show ?thesis .
qed

lemma query_calls_end:
  "hr_delivered (snd (last (query_calls env n k s cfg))) \<or> length (query_calls env n k s cfg) = Suc n"
proof (induction n arbitrary: k s)
  case (Suc n)
  have "query_calls env n k s cfg \<noteq> []" for k s by (subst query_calls.simps) (simp add: Let_def)
  with Suc show ?case by (simp add: query_calls_Suc Let_def)
qed (simp add: query_calls_0)

lemma three_calls_waiting:
  assumes "\<And>k i. 0 \<le> he_random (env k) i \<and> he_random (env k) i \<le> 1"
  shows "waiting (query_calls env 2 0 s (fresh_config m a)) \<le> 15000"
proof -
  have w: "sum_list (hr_waits (api_call (env k) 0 s (fresh_config m a))) \<le> 4000" for k s
    using api_call_waits [where env = "env k" and i = 0 and s = s and cfg = "fresh_config m a", OF assms] by (simp add: wait_bound_def retries_left_def)
  have two: "query_calls env 2 = query_calls env (Suc (Suc 0))" by (simp add: numeral_2_eq_2)
  show ?thesis
    using w [of 0 s] w [of 1 "hr_store (api_call (env 0) 0 s (fresh_config m a))"]
      w [of 2 "hr_store (api_call (env 1) 0 (hr_store (api_call (env 0) 0 s (fresh_config m a))) (fresh_config m a))"]
    unfolding two query_calls_Suc query_calls_0 Let_def
    by (simp add: waiting_def retryDelay_def numeral_2_eq_2)
qed



section \<open>Where a token comes from\<close>

definition known_token :: "(nat \<Rightarrow> http_env) \<Rightarrow> auth_state \<Rightarrow> jsstr \<Rightarrow> bool" where
  "known_token env s t \<longleftrightarrow> token s = Some t \<or> (\<exists>k i. he_silent (env k) i = Silent_user (Some t))"

definition known_header :: "(nat \<Rightarrow> http_env) \<Rightarrow> auth_state \<Rightarrow> jsstr option \<Rightarrow> bool" where
  "known_header env s a \<longleftrightarrow> (\<exists>t. a = Some (js ''Bearer '' @ t) \<and> known_token env s t)"

lemma attach_token_known: "rc_authorization (attach_token s cfg) = rc_authorization cfg \<or>
    known_header env s (rc_authorization (attach_token s cfg))"
  by (auto simp: attach_token_def known_header_def known_token_def split: option.split)

lemma call_headers:
  "list_all (\<lambda>(c, out). rc_authorization c = rc_authorization cfg \<or> known_header env s (rc_authorization c))
     (hr_trace (api_call (env k) i s cfg))"
proof (induction i s cfg rule: api_call_induct [where env = "env k"])
  case (Resend i s cfg hc st s' so cfg' d)
  note sent = attach_token_known [of s cfg env]
  have "rc_authorization cfg' = rc_authorization (attach_token s cfg) \<or> known_header env s (rc_authorization cfg')"
    and "known_header env s' b \<Longrightarrow> known_header env s b" for b
    using on_error_Resend_cases [OF Resend(2)] by (auto simp: known_header_def known_token_def)
  with Resend(3) sent show ?case
    by (auto simp: api_call_Resend_trace(1) [OF Resend(1,2)] elim!: list.pred_mono_strong)
qed (use attach_token_known in \<open>auto simp: api_call_steps\<close>)

lemma call_store_known:
  "known_token env (hr_store (api_call (env k) i s cfg)) t \<Longrightarrow> known_token env s t"
proof (induction i s cfg rule: api_call_induct [where env = "env k"])
  case (Reject i s cfg hc st s' so)
  then show ?case using on_error_Reject_store [OF Reject(2)]
    by (auto simp: api_call_steps known_token_def logout_def)
next
  case (Resend i s cfg hc st s' so cfg' d)
  then show ?case using on_error_Resend_cases [OF Resend(2)]
    by (auto simp: api_call_Resend [OF Resend(1,2)] Let_def known_token_def)
qed (simp add: api_call_steps)

text \<open>
  No attempt of any call of a query carries a token of unknown origin: the header is absent, or
  bears the token the session store held when the query began, or one that a silent sign-in has
  returned since; so after a logout without a silent sign-in none is sent.
\<close>

theorem header_provenance:
  "list_all (\<lambda>(d, r). list_all (\<lambda>(c, out). rc_authorization c = None \<or> known_header env s (rc_authorization c)) (hr_trace r))
     (query_calls env n k s (fresh_config m None))"
proof (induction n arbitrary: k s)
  case 0
  show ?case using call_headers [of "fresh_config m None" env s k 0] by (simp add: query_calls_0)
next
  case (Suc n)
  have earlier: "known_header env (hr_store (api_call (env k) 0 s (fresh_config m None))) b \<Longrightarrow> known_header env s b" for b
    using call_store_known by (auto simp: known_header_def)
  show ?case
    using call_headers [of "fresh_config m None" env s k 0] Suc [of "hr_store (api_call (env k) 0 s (fresh_config m None))" "Suc k"]
    by (auto simp: query_calls_Suc Let_def elim!: list.pred_mono_strong dest: earlier)
qed

end
