(* ===== verification/App_Config.thy ===== *)
theory App_Config
  imports Js_Prelude
begin

text \<open>
  Branding and client tuning delivered by the server
  (\<^verbatim>\<open>frontend/src/stores/app-config-store.ts\<close>).  \<open>None\<close> is JavaScript's
  \<^verbatim>\<open>undefined\<close>; an empty string is falsy.
\<close>

(* src: frontend/src/stores/app-config-store.ts 6-6 DEFAULT_APP_NAME *)
definition DEFAULT_APP_NAME :: jsstr where
  "DEFAULT_APP_NAME = js ''ETL Nexus''"

(* src: frontend/src/stores/app-config-store.ts 7-7 DEFAULT_AI_TIMEOUT_MS *)
definition DEFAULT_AI_TIMEOUT_MS :: int where
  "DEFAULT_AI_TIMEOUT_MS = 300000"

(* src: frontend/src/stores/app-config-store.ts 9-15 AppConfigState *)
record app_config =
  appName :: jsstr
  appOwner :: jsstr
  aiRequestTimeoutMs :: int

(* src: frontend/src/stores/app-config-store.ts 17-20 useAppConfigStore *)
definition init_app_config :: app_config where
  "init_app_config = \<lparr>appName = DEFAULT_APP_NAME, appOwner = [],
     aiRequestTimeoutMs = DEFAULT_AI_TIMEOUT_MS\<rparr>"

(* src: frontend/src/stores/app-config-store.ts 21-25 setBranding *)
definition setBranding :: "jsstr option \<Rightarrow> jsstr option \<Rightarrow> app_config \<Rightarrow> app_config" where
  "setBranding name owner s =
     s\<lparr>appName := (case name of Some n \<Rightarrow> if n \<noteq> [] then n else appName s | None \<Rightarrow> appName s),
       appOwner := (case owner of Some w \<Rightarrow> w | None \<Rightarrow> appOwner s)\<rparr>"

(* src: frontend/src/stores/app-config-store.ts 26-27 setAiRequestTimeoutMs *)
definition setAiRequestTimeoutMs :: "int \<Rightarrow> app_config \<Rightarrow> app_config" where
  "setAiRequestTimeoutMs ms s =
     s\<lparr>aiRequestTimeoutMs := (if ms > 0 then ms else DEFAULT_AI_TIMEOUT_MS)\<rparr>"

datatype config_event = Branding "jsstr option" "jsstr option" | Ai_timeout int

primrec config_step :: "config_event \<Rightarrow> app_config \<Rightarrow> app_config" where
  "config_step (Branding n w) = setBranding n w"
| "config_step (Ai_timeout ms) = setAiRequestTimeoutMs ms"

definition config_ok :: "app_config \<Rightarrow> bool" where
  "config_ok s \<longleftrightarrow> appName s \<noteq> [] \<and> 0 < aiRequestTimeoutMs s"

interpretation config_run: event_machine config_step init_app_config config_ok
proof unfold_locales
  show "config_ok init_app_config"
    by (simp add: config_ok_def init_app_config_def DEFAULT_APP_NAME_def DEFAULT_AI_TIMEOUT_MS_def)
  show "config_ok s \<Longrightarrow> config_ok (config_step e s)" for s e
    by (cases e) (auto simp: config_ok_def setBranding_def setAiRequestTimeoutMs_def
        DEFAULT_AI_TIMEOUT_MS_def split: option.splits)
qed

text \<open>
  Whatever configuration the server sends, the application always has a non-empty name and
  a positive AI request timeout.
\<close>

theorem app_config_well_formed:
  "appName (fold config_step es init_app_config) \<noteq> [] \<and>
   0 < aiRequestTimeoutMs (fold config_step es init_app_config)"
  using config_run.inv_run [of es] by (simp add: config_ok_def)

end
