(* ===== verification/Chat.thy ===== *)
theory Chat
  imports App_Config
begin

text \<open>
  The AI terminal: its store (\<^verbatim>\<open>stores/ai-store.ts\<close>), the mutation hook
  (\<^verbatim>\<open>hooks/use-ai-chat.ts\<close>), the API call (\<^verbatim>\<open>api/ai.ts\<close>) and the components of
  \<^verbatim>\<open>components/ai-terminal\<close>, composed into a step relation over the store, the input
  field and the requests in flight.
\<close>

(* src: frontend/src/types/ai.ts 1-4 ChatMessage *)
datatype chat_role = User | Assistant

(* src: frontend/src/types/ai.ts 1-4 ChatMessage *)
record chat_message =
  cm_role :: chat_role
  cm_content :: jsstr

(* src: frontend/src/types/ai.ts 6-9 AIChatRequest *)
record ai_request =
  ar_message :: jsstr
  ar_history :: "chat_message list"

(* src: frontend/src/stores/ai-store.ts 10-19 AIState *)
record ai_state =
  greeting :: jsstr
  messages :: "chat_message list"
  isTyping :: bool

definition assistant :: "jsstr \<Rightarrow> chat_message" where
  "assistant t = \<lparr>cm_role = Assistant, cm_content = t\<rparr>"

(* src: frontend/src/stores/ai-store.ts 4-8 DEFAULT_GREETING *)
definition DEFAULT_GREETING :: jsstr where
  "DEFAULT_GREETING = js (''Hello! I am your AI Data Architect. You can ask me about the existing data products '' @
     ''or look for a data product that matches your needs. Where would you like to start?'')"

(* src: frontend/src/stores/ai-store.ts 21-24 useAIStore *)
definition init_ai :: ai_state where
  "init_ai = \<lparr>greeting = DEFAULT_GREETING, messages = [assistant DEFAULT_GREETING], isTyping = False\<rparr>"

(* src: frontend/src/stores/ai-store.ts 25-25 addMessage *)
definition addMessage :: "chat_message \<Rightarrow> ai_state \<Rightarrow> ai_state" where
  "addMessage msg s = s\<lparr>messages := messages s @ [msg]\<rparr>"

(* src: frontend/src/stores/ai-store.ts 26-26 setTyping *)
definition setTyping :: "bool \<Rightarrow> ai_state \<Rightarrow> ai_state" where
  "setTyping b s = s\<lparr>isTyping := b\<rparr>"

(* src: frontend/src/stores/ai-store.ts 27-27 clearHistory *)
definition clearHistory :: "ai_state \<Rightarrow> ai_state" where
  "clearHistory s = s\<lparr>messages := [assistant (greeting s)], isTyping := False\<rparr>"

(* src: frontend/src/stores/ai-store.ts 28-35 setGreeting *)
definition setGreeting :: "jsstr \<Rightarrow> ai_state \<Rightarrow> ai_state" where
  "setGreeting text s =
     (if text = [] then s
      else
        (let fresh = length (messages s) \<le> 1 \<and>
               (case messages s of [] \<Rightarrow> False | m # _ \<Rightarrow> cm_role m = Assistant)
         in s\<lparr>greeting := text, messages := (if fresh then [assistant text] else messages s)\<rparr>))"

lemmas ai_ops = addMessage_def setTyping_def clearHistory_def setGreeting_def assistant_def

section \<open>The chat mutation\<close>

(* src: frontend/src/hooks/use-ai-chat.ts 9-13 mutationFn *)
definition chat_request :: "jsstr \<Rightarrow> chat_message list \<Rightarrow> ai_request" where
  "chat_request prompt history = \<lparr>ar_message = prompt, ar_history = history\<rparr>"

(* src: frontend/src/hooks/use-ai-chat.ts 14-14 onMutate *)
definition onMutate :: "ai_state \<Rightarrow> ai_state" where
  "onMutate s = setTyping True s"

(* src: frontend/src/hooks/use-ai-chat.ts 15-16 onSuccess *)
definition onSuccess :: "jsstr \<Rightarrow> ai_state \<Rightarrow> ai_state" where
  "onSuccess content s = addMessage (assistant content) s"

definition TIMEOUT_TEXT :: jsstr where
  "TIMEOUT_TEXT = js (''The Architect took too long to respond and the request timed out. Try a more specific question, '' @
     ''or raise AI_REQUEST_TIMEOUT_SECONDS / the API proxy timeout.'')"

(* src: frontend/src/hooks/use-ai-chat.ts 17-26 onError *)
definition onError :: "jsstr option \<Rightarrow> ai_state \<Rightarrow> ai_state" where
  "onError code s =
     (let content = (if code = Some (js ''ECONNABORTED'') then TIMEOUT_TEXT
                     else js ''Connection to Architect Core severed.'')
      in addMessage (assistant content) s)"

(* src: frontend/src/hooks/use-ai-chat.ts 27-29 onSettled *)
definition onSettled :: "ai_state \<Rightarrow> ai_state" where
  "onSettled s = setTyping False s"

(* src: frontend/src/api/ai.ts 5-13 sendAIMessage *)
definition sendAIMessage :: "app_config \<Rightarrow> ai_request \<Rightarrow> jsstr \<times> ai_request \<times> int" where
  "sendAIMessage cfg request = (js ''/ai/chat'', request, aiRequestTimeoutMs cfg)"

section \<open>The terminal components\<close>

text \<open>The world of the terminal: the store, the text in the input, the requests in flight.\<close>

record chat_world =
  cw_ai :: ai_state
  cw_value :: jsstr
  cw_pending :: "ai_request list"

(* src: frontend/src/components/ai-terminal/AIArchitectView.tsx 21-24 handleSend *)
definition handleSend :: "bool \<Rightarrow> jsstr \<Rightarrow> chat_world \<Rightarrow> chat_world" where
  "handleSend rerendered text w =
     (let before = messages (cw_ai w);
          s = addMessage \<lparr>cm_role = User, cm_content = text\<rparr> (cw_ai w);
          req = chat_request text (if rerendered then messages s else before)
      in w\<lparr>cw_ai := onMutate s, cw_pending := cw_pending w @ [req]\<rparr>)"

text \<open>
  \<open>rerendered\<close> is the environment's: the mutation function closes over the \<open>messages\<close>
  of a render, and that is the render before the new message or the one after it, according to
  whether React committed in between.
\<close>

(* src: frontend/src/components/ai-terminal/ChatInput.tsx 9-17 handleSubmit *)
definition handleSubmit :: "bool \<Rightarrow> chat_world \<Rightarrow> chat_world" where
  "handleSubmit rerendered w =
     (let trimmed = trim (cw_value w) in
      if trimmed = [] \<or> isTyping (cw_ai w) then w
      else (handleSend rerendered trimmed w)\<lparr>cw_value := []\<rparr>)"

datatype chat_event = Clear | Edit jsstr | Submit

(* src: frontend/src/components/ai-terminal/TerminalHeader.tsx 7-30 TerminalHeader *)
definition TerminalHeader :: "chat_event ui" where
  "TerminalHeader = Box [Txt (js ''AI Architect''), Txt (js ''Data Architecture Intelligence''),
     Btn (js ''Clear history'') False Clear]"

(* src: frontend/src/components/ai-terminal/ChatMessage.tsx 50-82 ChatMessage *)
definition ChatMessage :: "chat_message \<Rightarrow> chat_event ui" where
  "ChatMessage m = Box [Txt (if cm_role m = User then js ''User'' else js ''Bot''), Txt (cm_content m)]"

(* src: frontend/src/components/ai-terminal/TypingIndicator.tsx 1-16 TypingIndicator *)
definition TypingIndicator :: "chat_event ui" where
  "TypingIndicator = Txt (js ''Processing query...'')"

(* src: frontend/src/components/ai-terminal/ChatInput.tsx 19-41 ChatInput *)
definition ChatInput :: "bool \<Rightarrow> jsstr \<Rightarrow> chat_event ui" where
  "ChatInput disabled value = Box [Inp value disabled Edit,
     Btn (js ''SendHorizonal'') (disabled \<or> trim value = []) Submit]"

(* src: frontend/src/components/ai-terminal/AIArchitectView.tsx 26-41 AIArchitectView *)
definition AIArchitectView :: "chat_world \<Rightarrow> chat_event ui" where
  "AIArchitectView w = Box
     ([TerminalHeader] @ map ChatMessage (messages (cw_ai w)) @
      [show_if (isTyping (cw_ai w)) TypingIndicator, ChatInput (isTyping (cw_ai w)) (cw_value w)])"

lemmas chat_views = TerminalHeader_def ChatMessage_def TypingIndicator_def ChatInput_def AIArchitectView_def

definition init_chat :: chat_world where
  "init_chat = \<lparr>cw_ai = init_ai, cw_value = [], cw_pending = []\<rparr>"

text \<open>
  The steps: the user edits, submits or clears; a request in flight is answered or fails, in
  any order; the server's greeting arrives.  Each step carries its label.
\<close>

datatype chat_label = L_edit | L_submit | L_clear | L_greet | L_reply | L_fail

inductive chat_step :: "chat_world \<Rightarrow> chat_label \<Rightarrow> chat_world \<Rightarrow> bool" where
  edit: "chat_step w L_edit (w\<lparr>cw_value := t\<rparr>)"
| submit: "chat_step w L_submit (handleSubmit fresh w)"
| clear: "chat_step w L_clear (w\<lparr>cw_ai := clearHistory (cw_ai w)\<rparr>)"
| greet: "chat_step w L_greet (w\<lparr>cw_ai := setGreeting t (cw_ai w)\<rparr>)"
| reply: "cw_pending w = ps @ r # qs \<Longrightarrow>
    chat_step w L_reply (w\<lparr>cw_ai := onSettled (onSuccess content (cw_ai w)), cw_pending := ps @ qs\<rparr>)"
| fail: "cw_pending w = ps @ r # qs \<Longrightarrow>
    chat_step w L_fail (w\<lparr>cw_ai := onSettled (onError code (cw_ai w)), cw_pending := ps @ qs\<rparr>)"

inductive_cases chat_submitE: "chat_step w L_submit w'"
inductive_cases chat_replyE: "chat_step w L_reply w'"

inductive chat_path :: "chat_world \<Rightarrow> chat_label list \<Rightarrow> chat_world \<Rightarrow> bool" where
  start: "chat_path w [] w"
| step: "chat_path w ls w' \<Longrightarrow> chat_step w' l w'' \<Longrightarrow> chat_path w (ls @ [l]) w''"

definition request_ok :: "ai_request \<Rightarrow> bool" where
  "request_ok r \<longleftrightarrow> ar_message r \<noteq> [] \<and> trim (ar_message r) = ar_message r \<and>
     ar_history r \<noteq> [] \<and> cm_role (hd (ar_history r)) = Assistant"

definition chat_ok :: "chat_world \<Rightarrow> bool" where
  "chat_ok w \<longleftrightarrow> greeting (cw_ai w) \<noteq> [] \<and> messages (cw_ai w) \<noteq> [] \<and>
     cm_role (hd (messages (cw_ai w))) = Assistant \<and>
     (isTyping (cw_ai w) \<longrightarrow> cw_pending w \<noteq> []) \<and>
     (\<forall>r \<in> set (cw_pending w). request_ok r)"

lemma chat_ok_init: "chat_ok init_chat"
  by (simp add: chat_ok_def init_chat_def init_ai_def assistant_def DEFAULT_GREETING_def)

lemma chat_ok_submit: "chat_ok w \<Longrightarrow> chat_ok (handleSubmit fresh w)"
  by (auto simp: chat_ok_def handleSubmit_def handleSend_def Let_def ai_ops onMutate_def
      chat_request_def request_ok_def hd_append)

lemma chat_ok_step: "chat_step w l w' \<Longrightarrow> chat_ok w \<Longrightarrow> chat_ok w'"
proof (induction rule: chat_step.induct)
  case (submit w fresh)
  then show ?case by (simp add: chat_ok_submit)
next
  case (greet w t)
  then show ?case by (auto simp: chat_ok_def ai_ops Let_def)
qed (auto simp: chat_ok_def ai_ops onSettled_def onSuccess_def onError_def Let_def hd_append)

lemma chat_ok_path: "chat_path w ls w' \<Longrightarrow> chat_ok w \<Longrightarrow> chat_ok w'"
  by (induction rule: chat_path.induct) (auto intro: chat_ok_step)

text \<open>The busy lock: while no one clears the history, the typing flag is exactly "a request is
in flight", and there is at most one.\<close>

definition chat_locked :: "chat_world \<Rightarrow> bool" where
  "chat_locked w \<longleftrightarrow> length (cw_pending w) \<le> 1 \<and> (isTyping (cw_ai w) \<longleftrightarrow> cw_pending w \<noteq> [])"

lemma chat_locked_step: "chat_step w l w' \<Longrightarrow> l \<noteq> L_clear \<Longrightarrow> chat_locked w \<Longrightarrow> chat_locked w'"
proof (induction rule: chat_step.induct)
  case (submit w fresh)
  then show ?case
    by (auto simp: chat_locked_def handleSubmit_def handleSend_def Let_def ai_ops onMutate_def)
next
  case (greet w t)
  then show ?case by (auto simp: chat_locked_def ai_ops Let_def)
qed (auto simp: chat_locked_def ai_ops onSettled_def onSuccess_def onError_def Let_def)

lemma chat_locked_path: "chat_path w ls w' \<Longrightarrow> L_clear \<notin> set ls \<Longrightarrow> chat_locked w \<Longrightarrow> chat_locked w'"
  by (induction rule: chat_path.induct) (auto dest: chat_locked_step)

text \<open>
  In every reachable state of the terminal the conversation opens with an assistant
  message, and every request in flight has a non-empty trimmed prompt and a history that opens
  with an assistant message.
\<close>

theorem conversation_well_formed:
  assumes "chat_path init_chat ls w"
  shows "cm_role (hd (messages (cw_ai w))) = Assistant \<and> messages (cw_ai w) \<noteq> [] \<and>
    (\<forall>r \<in> set (cw_pending w). ar_message r \<noteq> [] \<and> trim (ar_message r) = ar_message r \<and>
       cm_role (hd (ar_history r)) = Assistant)"
  using chat_ok_path [OF assms chat_ok_init] by (auto simp: chat_ok_def request_ok_def)

text \<open>
  C9: as long as the history is not cleared, at most one request is in flight and the typing
  indicator shows exactly while one is.
\<close>

theorem one_request_in_flight:
  assumes "chat_path init_chat ls w" and "L_clear \<notin> set ls"
  shows "length (cw_pending w) \<le> 1 \<and> (isTyping (cw_ai w) \<longleftrightarrow> cw_pending w \<noteq> [])"
proof -
  have "chat_locked init_chat" by (simp add: chat_locked_def init_chat_def init_ai_def)
  with chat_locked_path [OF assms] show ?thesis by (simp add: chat_locked_def)
qed

text \<open>A run: the user types and sends a question.\<close>

definition asked :: chat_world where
  "asked = handleSubmit False (init_chat\<lparr>cw_value := js '' hi ''\<rparr>)"

lemma trim_hi: "trim (js '' hi '') = js ''hi''"
  by (simp add: trim_def is_ws_def js_def)

lemma asked_eq:
  "asked = \<lparr>cw_ai = \<lparr>greeting = DEFAULT_GREETING,
      messages = [assistant DEFAULT_GREETING, \<lparr>cm_role = User, cm_content = js ''hi''\<rparr>], isTyping = True\<rparr>,
    cw_value = [], cw_pending = [\<lparr>ar_message = js ''hi'', ar_history = [assistant DEFAULT_GREETING]\<rparr>]\<rparr>"
  by (simp add: asked_def handleSubmit_def handleSend_def Let_def trim_hi init_chat_def init_ai_def
      addMessage_def onMutate_def setTyping_def chat_request_def)

lemma asked_path: "chat_path init_chat [L_edit, L_submit] asked"
proof -
  have "chat_path init_chat ([] @ [L_edit]) (init_chat\<lparr>cw_value := js '' hi ''\<rparr>)"
    by (rule chat_path.step [OF chat_path.start chat_step.edit])
  then have "chat_path init_chat (([] @ [L_edit]) @ [L_submit]) asked"
    unfolding asked_def by (rule chat_path.step) (rule chat_step.submit)
  then show ?thesis by simp
qed

theorem conversation_well_formed_witness:
  "cw_pending asked \<noteq> [] \<and> cm_role (hd (messages (cw_ai asked))) = Assistant"
  using conversation_well_formed [OF asked_path] by (simp add: asked_eq)

theorem one_request_in_flight_witness:
  "isTyping (cw_ai asked) \<and> length (cw_pending asked) \<le> 1"
  using one_request_in_flight [OF asked_path] by (simp add: asked_eq)

text \<open>
  Clearing the history does not cancel a request: the store unlocks at once, and the
  reply to the forgotten question is appended to the fresh conversation, after the greeting
  and with no user message before it.
\<close>

theorem reply_after_clear_is_orphaned:
  "\<exists>w. chat_path init_chat [L_edit, L_submit, L_clear, L_reply] w \<and>
     messages (cw_ai w) = [assistant DEFAULT_GREETING, assistant content]"
proof -
  let ?c = "asked\<lparr>cw_ai := clearHistory (cw_ai asked)\<rparr>"
  let ?w = "?c\<lparr>cw_ai := onSettled (onSuccess content (cw_ai ?c)), cw_pending := [] @ []\<rparr>"
  have "chat_path init_chat ([L_edit, L_submit] @ [L_clear]) ?c"
    by (rule chat_path.step [OF asked_path chat_step.clear])
  then have "chat_path init_chat (([L_edit, L_submit] @ [L_clear]) @ [L_reply]) ?w"
    by (rule chat_path.step) (rule chat_step.reply, simp add: asked_eq)
  then show ?thesis
    by (auto intro!: exI [of _ ?w] simp: asked_eq ai_ops onSettled_def onSuccess_def)
qed

text \<open>
  Submitting sends exactly when the trimmed input is non-empty and no reply is awaited:
  then the trimmed text is appended as a user message, the input is emptied, the terminal
  locks and one request with that prompt is put in flight; otherwise nothing changes.
\<close>

theorem submit_behaviour:
  "handleSubmit fresh w =
     (if trim (cw_value w) = [] \<or> isTyping (cw_ai w) then w
      else \<lparr>cw_ai = \<lparr>greeting = greeting (cw_ai w),
              messages = messages (cw_ai w) @ [\<lparr>cm_role = User, cm_content = trim (cw_value w)\<rparr>],
              isTyping = True\<rparr>,
            cw_value = [],
            cw_pending = cw_pending w @ [\<lparr>ar_message = trim (cw_value w),
              ar_history = messages (cw_ai w) @
                (if fresh then [\<lparr>cm_role = User, cm_content = trim (cw_value w)\<rparr>] else [])\<rparr>]\<rparr>)"
  by (cases w; cases "cw_ai w")
    (simp add: handleSubmit_def handleSend_def Let_def ai_ops onMutate_def chat_request_def)

text \<open>
  The send button and the keyboard agree: the view offers \<open>Submit\<close> exactly in the states
  where submitting has an effect, the input is editable exactly while no reply is awaited, and
  the history can always be cleared.
\<close>

theorem send_button_enabled_iff_effective:
  "(Submit \<in> raises (AIArchitectView w) \<longleftrightarrow> handleSubmit fresh w \<noteq> w) \<and>
   (Edit t \<in> raises (AIArchitectView w) \<longleftrightarrow> \<not> isTyping (cw_ai w)) \<and>
   Clear \<in> raises (AIArchitectView w)"
proof -
  have "handleSubmit fresh w \<noteq> w \<longleftrightarrow> \<not> (isTyping (cw_ai w) \<or> trim (cw_value w) = [])"
  proof (cases "trim (cw_value w) = [] \<or> isTyping (cw_ai w)")
    case False
    then have "length (cw_pending (handleSubmit fresh w)) = Suc (length (cw_pending w))"
      by (simp add: handleSubmit_def handleSend_def Let_def)
    then have "handleSubmit fresh w \<noteq> w" by auto
    with False show ?thesis by simp
  qed (auto simp: handleSubmit_def)
  then show ?thesis by (auto simp: chat_views image_iff)
qed

end
