(* ===== verification/Navigation.thy ===== *)
theory Navigation
  imports Js_Prelude
begin

text \<open>
  Tabs and the URL hash: \<^verbatim>\<open>lib/constants.ts\<close>, \<^verbatim>\<open>stores/navigation-store.ts\<close> and the
  hash listener and tab switch of \<^verbatim>\<open>App.tsx\<close>.  The browser keeps
  \<open>window.location.hash\<close> with its leading number sign, assigning it adds the sign and raises
  a \<open>hashchange\<close> event when the value changes.
\<close>

(* src: frontend/src/lib/constants.ts 1-7 TabType *)
datatype tab = Data_products | Tables | Ai

(* src: frontend/src/lib/constants.ts 1-5 TABS *)
primrec tab_name :: "tab \<Rightarrow> jsstr" where
  "tab_name Data_products = js ''data-products''"
| "tab_name Tables = js ''tables''"
| "tab_name Ai = js ''ai''"

(* src: frontend/src/stores/navigation-store.ts 4-4 VALID_TABS *)
definition VALID_TABS :: "tab list" where
  "VALID_TABS = [Data_products, Tables, Ai]"

(* src: frontend/src/stores/navigation-store.ts 5-5 DEFAULT_TAB *)
definition DEFAULT_TAB :: tab where
  "DEFAULT_TAB = Data_products"

(* src: frontend/src/stores/navigation-store.ts 11-19 parseHash *)
definition parseHash :: "jsstr \<Rightarrow> tab" where
  "parseHash hash =
     (let raw = drop 1 hash;
          segments = filter (\<lambda>s. s \<noteq> []) (split_on 47 raw)
      in case segments of
           [] \<Rightarrow> DEFAULT_TAB
         | seg # _ \<Rightarrow> (case find (\<lambda>t. tab_name t = seg) VALID_TABS of
                        Some t \<Rightarrow> t
                      | None \<Rightarrow> DEFAULT_TAB))"

(* src: frontend/src/stores/navigation-store.ts 21-24 buildHash *)
definition buildHash :: "tab \<Rightarrow> jsstr" where
  "buildHash t = tab_name t"

text \<open>Assigning the hash, and reading it back.\<close>

definition set_hash :: "jsstr \<Rightarrow> jsstr" where
  "set_hash s = (if s = [] then [] else 35 # s)"

(* src: frontend/src/stores/navigation-store.ts 26-29 Breadcrumb *)
record breadcrumb =
  bc_tab :: tab
  bc_label :: jsstr

(* src: frontend/src/stores/navigation-store.ts 31-38 NavigationState *)
record nav_state =
  activeTab :: tab
  breadcrumbs :: "breadcrumb list"
  location_hash :: jsstr

(* src: frontend/src/stores/navigation-store.ts 40-42 useNavigationStore *)
definition init_nav :: "jsstr \<Rightarrow> nav_state" where
  "init_nav hash = \<lparr>activeTab = parseHash hash, breadcrumbs = [], location_hash = hash\<rparr>"

(* src: frontend/src/stores/navigation-store.ts 43-46 setActiveTab *)
definition setActiveTab :: "tab \<Rightarrow> nav_state \<Rightarrow> nav_state" where
  "setActiveTab t s = s\<lparr>activeTab := t, breadcrumbs := [], location_hash := set_hash (tab_name t)\<rparr>"

(* src: frontend/src/stores/navigation-store.ts 47-49 pushBreadcrumb *)
definition pushBreadcrumb :: "breadcrumb \<Rightarrow> nav_state \<Rightarrow> nav_state" where
  "pushBreadcrumb c s = s\<lparr>breadcrumbs := breadcrumbs s @ [c]\<rparr>"

(* src: frontend/src/stores/navigation-store.ts 50-60 popBreadcrumb *)
definition popBreadcrumb :: "nav_state \<Rightarrow> nav_state" where
  "popBreadcrumb s =
     (if breadcrumbs s = [] then s
      else
        (let remaining = butlast (breadcrumbs s); s' = s\<lparr>breadcrumbs := remaining\<rparr>
         in if remaining = [] then s'
            else (let target = last remaining
                  in s'\<lparr>activeTab := bc_tab target, location_hash := set_hash (tab_name (bc_tab target))\<rparr>)))"

(* src: frontend/src/stores/navigation-store.ts 61-64 clearBreadcrumbs *)
definition clearBreadcrumbs :: "nav_state \<Rightarrow> nav_state" where
  "clearBreadcrumbs s = s\<lparr>breadcrumbs := []\<rparr>"

lemmas nav_ops = setActiveTab_def pushBreadcrumb_def popBreadcrumb_def clearBreadcrumbs_def

(* src: frontend/src/App.tsx 38-46 onHashChange *)
definition onHashChange :: "nav_state \<Rightarrow> nav_state" where
  "onHashChange s =
     (let t = parseHash (location_hash s) in if t \<noteq> activeTab s then setActiveTab t s else s)"

datatype pane = Registry_and_workspace | Tables_view | Ai_view

(* src: frontend/src/App.tsx 48-78 AppContent *)
definition AppContent :: "nav_state \<Rightarrow> pane list" where
  "AppContent s =
     (if activeTab s = Data_products then [Registry_and_workspace] else []) @
     (if activeTab s = Tables then [Tables_view] else []) @
     (if activeTab s = Ai then [Ai_view] else [])"

section \<open>The hash and the active tab agree\<close>

lemma parse_built: "parseHash (set_hash (tab_name t)) = t"
proof -
  have "47 \<notin> set (tab_name t)" by (cases t) (simp_all add: js_def)
  then have "split_on 47 (tab_name t) = [tab_name t]" by (rule split_on_free)
  then show ?thesis
    by (cases t) (simp_all add: parseHash_def set_hash_def VALID_TABS_def)
qed

text \<open>
  Building the hash of a tab and parsing it back gives that tab.
\<close>

theorem hash_roundtrip: "parseHash (set_hash (buildHash t)) = t"
  by (simp add: buildHash_def parse_built)

text \<open>A hash of the user's: leading and doubled slashes are skipped, what follows the first
segment is ignored, and anything else falls back to the default tab.\<close>

text \<open>
  Parsing depends only on the first non-empty segment of the hash: it selects the tab of
  that name, and every other hash, the empty one included, selects the data products tab.
\<close>

theorem parse_hash_cases:
  "parseHash h =
     (case filter (\<lambda>s. s \<noteq> []) (split_on 47 (drop 1 h)) of
        [] \<Rightarrow> Data_products
      | s # _ \<Rightarrow> if s = js ''tables'' then Tables else if s = js ''ai'' then Ai else Data_products)"
  by (auto simp: parseHash_def VALID_TABS_def DEFAULT_TAB_def Let_def split: list.splits)

datatype nav_event =
    Set_tab tab
  | Push breadcrumb
  | Pop
  | Clear_crumbs
  | User_hash jsstr \<comment> \<open>the address bar or the back button, with the \<open>hashchange\<close> it raises\<close>

primrec nav_step :: "nav_event \<Rightarrow> nav_state \<Rightarrow> nav_state" where
  "nav_step (Set_tab t) s = onHashChange (setActiveTab t s)"
| "nav_step (Push c) s = pushBreadcrumb c s"
| "nav_step Pop s = onHashChange (popBreadcrumb s)"
| "nav_step Clear_crumbs s = clearBreadcrumbs s"
| "nav_step (User_hash h) s = onHashChange (s\<lparr>location_hash := h\<rparr>)"

definition nav_ok :: "nav_state \<Rightarrow> bool" where
  "nav_ok s \<longleftrightarrow> parseHash (location_hash s) = activeTab s"

lemma nav_ok_init: "nav_ok (init_nav h)"
  by (simp add: nav_ok_def init_nav_def)

lemma nav_ok_setActiveTab [inv_intros]: "nav_ok (setActiveTab t s)"
  by (simp add: nav_ok_def setActiveTab_def parse_built)

lemma nav_ok_popBreadcrumb [inv_intros]: "nav_ok s \<Longrightarrow> nav_ok (popBreadcrumb s)"
  by (simp add: nav_ok_def popBreadcrumb_def Let_def parse_built)

lemma nav_ok_onHashChange [inv_intros]: "nav_ok (onHashChange s)"
  by (simp add: onHashChange_def Let_def nav_ok_setActiveTab) (simp add: nav_ok_def)

lemma onHashChange_quiet: "nav_ok s \<Longrightarrow> onHashChange s = s"
  by (simp add: nav_ok_def onHashChange_def Let_def)

interpretation nav_run: event_machine nav_step "init_nav h" nav_ok for h
proof unfold_locales
  show "nav_ok s \<Longrightarrow> nav_ok (nav_step e s)" for s e
    by (cases e) (simp_all add: inv_intros, simp_all add: nav_ok_def pushBreadcrumb_def clearBreadcrumbs_def)
qed (rule nav_ok_init)

lemma AppContent_tab:
  "AppContent s = [case activeTab s of
     Data_products \<Rightarrow> Registry_and_workspace | Tables \<Rightarrow> Tables_view | Ai \<Rightarrow> Ai_view]"
  by (cases "activeTab s") (simp_all add: AppContent_def)

text \<open>
  After any sequence of tab switches, breadcrumb operations and edits of the address bar,
  the hash parses to the active tab, and exactly the pane of that tab is shown.
\<close>

theorem hash_and_tab_agree:
  "parseHash (location_hash (fold nav_step es (init_nav h))) = activeTab (fold nav_step es (init_nav h)) \<and>
   AppContent (fold nav_step es (init_nav h)) =
     [case activeTab (fold nav_step es (init_nav h)) of
        Data_products \<Rightarrow> Registry_and_workspace | Tables \<Rightarrow> Tables_view | Ai \<Rightarrow> Ai_view]"
  using nav_run.inv_run [of es h] by (simp add: nav_ok_def AppContent_tab)

text \<open>
  In a state where the hash agrees with the tab, the hash assignments of the store's own
  operations raise no further change: the listener leaves a tab switch and a popped breadcrumb
  as they are, so the remaining breadcrumbs survive.
\<close>

theorem own_hash_changes_are_quiet:
  assumes "parseHash (location_hash s) = activeTab s"
  shows "onHashChange (setActiveTab t s) = setActiveTab t s \<and>
    onHashChange (popBreadcrumb s) = popBreadcrumb s \<and>
    breadcrumbs (onHashChange (popBreadcrumb s)) = butlast (breadcrumbs s)"
proof -
  have ok: "nav_ok s" using assms by (simp add: nav_ok_def)
  have "breadcrumbs (popBreadcrumb s) = butlast (breadcrumbs s)"
    by (simp add: popBreadcrumb_def Let_def)
  with ok show ?thesis by (simp add: onHashChange_quiet inv_intros)
qed

theorem own_hash_changes_are_quiet_witness:
  "breadcrumbs (onHashChange (popBreadcrumb
     ((init_nav [])\<lparr>breadcrumbs := [\<lparr>bc_tab = Data_products, bc_label = js ''a''\<rparr>,
        \<lparr>bc_tab = Ai, bc_label = js ''b''\<rparr>]\<rparr>))) = [\<lparr>bc_tab = Data_products, bc_label = js ''a''\<rparr>]"
proof -
  let ?s = "(init_nav [])\<lparr>breadcrumbs := [\<lparr>bc_tab = Data_products, bc_label = js ''a''\<rparr>,
        \<lparr>bc_tab = Ai, bc_label = js ''b''\<rparr>]\<rparr>"
  have "parseHash (location_hash ?s) = activeTab ?s" by (simp add: init_nav_def)
  from own_hash_changes_are_quiet [OF this, of Ai]
  have "breadcrumbs (onHashChange (popBreadcrumb ?s)) = butlast (breadcrumbs ?s)" by blast
  then show ?thesis by simp
qed

text \<open>
  Popping returns to the tab of the breadcrumb below the popped one, and pushing then
  popping restores the breadcrumbs.
\<close>

theorem breadcrumb_stack:
  "breadcrumbs (popBreadcrumb (pushBreadcrumb c s)) = breadcrumbs s \<and>
   activeTab (popBreadcrumb (pushBreadcrumb c s)) =
     (if breadcrumbs s = [] then activeTab s else bc_tab (last (breadcrumbs s)))"
  by (simp add: nav_ops Let_def)

end
