(* ===== verification/Web_Storage.thy ===== *)
theory Web_Storage
  imports Js_Prelude
begin

text \<open>
  The browser's \<^verbatim>\<open>localStorage\<close> as the stores use it: string items by string keys, where
  reading may throw (storage disabled) and writing may throw (storage disabled, or the quota
  exceeded for this key and value).  The interface \<open>item_store\<close> states what the stores rely on.
\<close>

record web_storage =
  ws_readable :: bool
  ws_accepts :: "jsstr \<Rightarrow> jsstr \<Rightarrow> bool"
  ws_items :: "jsstr \<rightharpoonup> jsstr"

definition getItem :: "jsstr \<Rightarrow> web_storage \<Rightarrow> unit + jsstr option" where
  "getItem k ws = (if ws_readable ws then Inr (ws_items ws k) else Inl ())"

definition setItem :: "jsstr \<Rightarrow> jsstr \<Rightarrow> web_storage \<Rightarrow> unit + web_storage" where
  "setItem k v ws = (if ws_accepts ws k v then Inr (ws\<lparr>ws_items := (ws_items ws)(k \<mapsto> v)\<rparr>) else Inl ())"

definition removeItem :: "jsstr \<Rightarrow> web_storage \<Rightarrow> unit + web_storage" where
  "removeItem k ws = (if ws_readable ws then Inr (ws\<lparr>ws_items := (ws_items ws)(k := None)\<rparr>) else Inl ())"

text \<open>A working, empty storage.\<close>

definition empty_storage :: web_storage where
  "empty_storage = \<lparr>ws_readable = True, ws_accepts = (\<lambda>_ _. True), ws_items = Map.empty\<rparr>"

lemma empty_storage_simps [simp]:
  "ws_readable empty_storage" "ws_accepts empty_storage k v" "ws_items empty_storage = Map.empty"
  by (simp_all add: empty_storage_def)

locale item_store =
  fixes get :: "'k \<Rightarrow> 's \<Rightarrow> unit + 'v option"
    and put :: "'k \<Rightarrow> 'v \<Rightarrow> 's \<Rightarrow> unit + 's"
    and del :: "'k \<Rightarrow> 's \<Rightarrow> unit + 's"
  assumes get_put: "put k v s = Inr s' \<Longrightarrow> get j s = Inr w \<Longrightarrow>
      get j s' = Inr (if j = k then Some v else w)"
    and get_del: "del k s = Inr s' \<Longrightarrow> get j s = Inr w \<Longrightarrow>
      get j s' = Inr (if j = k then None else w)"
    and get_total: "get j s = Inr w \<Longrightarrow> \<exists>w'. get k s = Inr w'"
begin

text \<open>A write attempt under \<^verbatim>\<open>try\<close>: on an exception the storage is as it was.\<close>

definition try_put :: "'k \<Rightarrow> 'v \<Rightarrow> 's \<Rightarrow> 's" where
  "try_put k v s = (case put k v s of Inl _ \<Rightarrow> s | Inr s' \<Rightarrow> s')"

lemma get_try_put:
  "get k s = Inr w \<Longrightarrow> get k (try_put k v s) = Inr (Some v) \<or> try_put k v s = s"
  by (auto simp: try_put_def get_put split: sum.splits)

lemma get_try_put_other:
  "get j s = Inr w \<Longrightarrow> j \<noteq> k \<Longrightarrow> get j (try_put k v s) = Inr w"
  by (auto simp: try_put_def dest: get_put split: sum.splits)

lemma try_put_Inr: "put k v s = Inr s' \<Longrightarrow> try_put k v s = s'"
  by (simp add: try_put_def)

end

interpretation storage: item_store getItem setItem removeItem
  by unfold_locales (auto simp: getItem_def setItem_def removeItem_def split: if_splits)

end
