(* ===== verification/Preferences.thy ===== *)
theory Preferences
  imports Web_Storage Json_Text
begin

text \<open>
  The two preferences kept in the browser: the colour theme
  (\<^verbatim>\<open>stores/theme-store.ts\<close>) and the favourite products
  (\<^verbatim>\<open>stores/favorites-store.ts\<close>), stored as the JSON text of an array of strings
  (\<open>Json_Text\<close>).
\<close>

section \<open>Theme\<close>

(* src: frontend/src/stores/theme-store.ts 3-3 Theme *)
datatype theme = Dark | Light

primrec theme_name :: "theme \<Rightarrow> jsstr" where
  "theme_name Dark = js ''dark''"
| "theme_name Light = js ''light''"

(* src: frontend/src/stores/theme-store.ts 5-5 STORAGE_KEY *)
definition THEME_KEY :: jsstr where
  "THEME_KEY = js ''etlnexus:theme''"

(* src: frontend/src/stores/theme-store.ts 7-22 getInitialTheme *)
definition getInitialTheme :: "web_storage \<Rightarrow> theme" where
  "getInitialTheme ws =
     (case getItem THEME_KEY ws of
        Inl _ \<Rightarrow> Dark
      | Inr stored \<Rightarrow>
          if stored = Some (js ''light'') then Light
          else if stored = Some (js ''dark'') then Dark
          else Dark)"

text \<open>The page: the \<open>data-theme\<close> attribute of the document, the storage, and the store.\<close>

(* src: frontend/src/stores/theme-store.ts 33-37 ThemeState *)
record theme_world =
  tw_attribute :: theme
  tw_storage :: web_storage
  tw_theme :: theme

(* src: frontend/src/stores/theme-store.ts 24-31 applyTheme *)
definition applyTheme :: "theme \<Rightarrow> theme_world \<Rightarrow> theme_world" where
  "applyTheme t w =
     w\<lparr>tw_attribute := t,
       tw_storage := (case setItem THEME_KEY (theme_name t) (tw_storage w) of
                        Inl _ \<Rightarrow> tw_storage w | Inr ws \<Rightarrow> ws)\<rparr>"

(* src: frontend/src/stores/theme-store.ts 39-43 useThemeStore *)
definition init_theme :: "web_storage \<Rightarrow> theme_world" where
  "init_theme ws =
     (let w = applyTheme (getInitialTheme ws) \<lparr>tw_attribute = Dark, tw_storage = ws, tw_theme = Dark\<rparr>
      in w\<lparr>tw_theme := getInitialTheme (tw_storage w)\<rparr>)"

(* src: frontend/src/stores/theme-store.ts 44-47 setTheme *)
definition setTheme :: "theme \<Rightarrow> theme_world \<Rightarrow> theme_world" where
  "setTheme t w = (applyTheme t w)\<lparr>tw_theme := t\<rparr>"

(* src: frontend/src/stores/theme-store.ts 48-53 toggleTheme *)
definition toggleTheme :: "theme_world \<Rightarrow> theme_world" where
  "toggleTheme w =
     (let next = (if tw_theme w = Dark then Light else Dark)
      in (applyTheme next w)\<lparr>tw_theme := next\<rparr>)"

datatype theme_event = Set_theme theme | Toggle_theme

primrec theme_step :: "theme_event \<Rightarrow> theme_world \<Rightarrow> theme_world" where
  "theme_step (Set_theme t) = setTheme t"
| "theme_step Toggle_theme = toggleTheme"

lemma applyTheme_simps [simp]:
  "tw_attribute (applyTheme t w) = t" "tw_theme (applyTheme t w) = tw_theme w"
  "tw_storage (applyTheme t w) = storage.try_put THEME_KEY (theme_name t) (tw_storage w)"
  by (simp_all add: applyTheme_def storage.try_put_def)

lemma getInitialTheme_stored:
  "getItem THEME_KEY ws = Inr (Some (theme_name t)) \<Longrightarrow> getInitialTheme ws = t"
  by (cases t) (simp_all add: getInitialTheme_def)

definition storage_healthy :: "web_storage \<Rightarrow> bool" where
  "storage_healthy ws \<longleftrightarrow> ws_readable ws \<and> (\<forall>k v. ws_accepts ws k v)"

lemma storage_healthy_put [simp]:
  "storage_healthy ws \<Longrightarrow> storage_healthy (storage.try_put k v ws)"
  by (simp add: storage_healthy_def storage.try_put_def setItem_def)

lemma getItem_healthy_put [simp]:
  "storage_healthy ws \<Longrightarrow> getItem k (storage.try_put k v ws) = Inr (Some v)"
  by (simp add: storage_healthy_def storage.try_put_def setItem_def getItem_def)

definition theme_ok :: "theme_world \<Rightarrow> bool" where
  "theme_ok w \<longleftrightarrow> tw_attribute w = tw_theme w"

lemma theme_ok_steps [inv_intros]: "theme_ok (setTheme t w)" "theme_ok (toggleTheme w)"
  by (simp_all add: theme_ok_def setTheme_def toggleTheme_def Let_def)

lemma getInitialTheme_persisted:
  "getInitialTheme (storage.try_put THEME_KEY (theme_name (getInitialTheme ws)) ws) = getInitialTheme ws"
proof (cases "getItem THEME_KEY ws")
  case (Inl u)
  then show ?thesis
    by (cases "setItem THEME_KEY (theme_name (getInitialTheme ws)) ws")
      (auto simp: storage.try_put_def getInitialTheme_def getItem_def setItem_def split: if_splits)
next
  case (Inr stored)
  then show ?thesis
    using storage.get_try_put [OF Inr, of "theme_name (getInitialTheme ws)"]
    by (auto simp: getInitialTheme_stored)
qed

lemma theme_ok_init: "theme_ok (init_theme ws)"
  by (simp add: theme_ok_def init_theme_def Let_def getInitialTheme_persisted)

interpretation theme_run: event_machine theme_step "init_theme ws" theme_ok for ws
proof unfold_locales
  show "theme_ok w \<Longrightarrow> theme_ok (theme_step e w)" for w e
    by (cases e) (simp_all add: inv_intros)
qed (rule theme_ok_init)

text \<open>
  The \<open>data-theme\<close> attribute of the page always shows the store's theme, from the start
  and after any switches, whether or not the storage works.
\<close>

theorem theme_attribute_in_sync:
  "tw_attribute (fold theme_step es (init_theme ws)) = tw_theme (fold theme_step es (init_theme ws))"
  using theme_run.inv_run [of es ws] by (simp add: theme_ok_def)

text \<open>
  With a working storage the theme survives a reload: a store started on the storage left
  by any theme change has the theme of that change.
\<close>

theorem theme_survives_reload:
  assumes "storage_healthy (tw_storage w)"
  shows "tw_theme (init_theme (tw_storage (theme_step e w))) = tw_theme (theme_step e w)"
proof -
  have init: "tw_theme (init_theme ws) = getInitialTheme ws" for ws
    by (simp add: init_theme_def Let_def getInitialTheme_persisted)
  show ?thesis
    using assms
    by (cases e)
      (auto simp: init setTheme_def toggleTheme_def Let_def intro!: getInitialTheme_stored)
qed

lemma empty_storage_healthy [simp]: "storage_healthy empty_storage"
  by (simp add: storage_healthy_def empty_storage_def)

theorem theme_survives_reload_witness:
  "tw_theme (init_theme (tw_storage (theme_step Toggle_theme (init_theme empty_storage)))) = Light"
proof -
  have "storage_healthy (tw_storage (init_theme empty_storage))"
    by (simp add: init_theme_def Let_def)
  from theme_survives_reload [OF this, of Toggle_theme]
  have "tw_theme (init_theme (tw_storage (theme_step Toggle_theme (init_theme empty_storage)))) =
      tw_theme (theme_step Toggle_theme (init_theme empty_storage))" .
  moreover have "tw_theme (init_theme empty_storage) = Dark"
    by (simp add: init_theme_def Let_def getInitialTheme_persisted)
      (simp add: getInitialTheme_def getItem_def empty_storage_def)
  ultimately show ?thesis by (simp add: toggleTheme_def Let_def)
qed

section \<open>Favourites\<close>

(* src: frontend/src/stores/favorites-store.ts 3-3 STORAGE_KEY *)
definition FAVORITES_KEY :: jsstr where
  "FAVORITES_KEY = js ''etlnexus:favorites''"

text \<open>The stored text is parsed and taken for an array of strings without a check.\<close>

(* src: frontend/src/stores/favorites-store.ts 5-12 loadFavorites *)
definition loadFavorites :: "web_storage \<Rightarrow> json" where
  "loadFavorites ws =
     (case getItem FAVORITES_KEY ws of
        Inl _ \<Rightarrow> JArr []
      | Inr None \<Rightarrow> JArr []
      | Inr (Some raw) \<Rightarrow>
          if raw = [] then JArr []
          else (case JSON_parse raw of None \<Rightarrow> JArr [] | Some v \<Rightarrow> v))"

(* src: frontend/src/stores/favorites-store.ts 14-20 saveFavorites *)
definition saveFavorites :: "jsstr list \<Rightarrow> web_storage \<Rightarrow> web_storage" where
  "saveFavorites ids ws =
     (case setItem FAVORITES_KEY (stringify ids) ws of Inl _ \<Rightarrow> ws | Inr ws' \<Rightarrow> ws')"

(* src: frontend/src/stores/favorites-store.ts 22-26 FavoritesState *)
record favorites_world =
  favoriteIds :: "jsstr list"
  fw_storage :: web_storage

text \<open>The strings of a value that is an array of strings.\<close>

definition strings_of :: "json \<Rightarrow> jsstr list option" where
  "strings_of v = (case v of
     JArr vs \<Rightarrow> if list_all (\<lambda>x. case x of JStr s \<Rightarrow> True | _ \<Rightarrow> False) vs
       then Some (map (\<lambda>x. case x of JStr s \<Rightarrow> s | _ \<Rightarrow> []) vs) else None
   | _ \<Rightarrow> None)"

text \<open>
  The store starts with whatever was loaded: with a list of product ids as its type says
  (\<open>Inr\<close>), or with a value outside that type (\<open>Inl\<close>).
\<close>

(* src: frontend/src/stores/favorites-store.ts 28-29 useFavoritesStore *)
definition init_favorites :: "web_storage \<Rightarrow> json + favorites_world" where
  "init_favorites ws =
     (case strings_of (loadFavorites ws) of
        Some ids \<Rightarrow> Inr \<lparr>favoriteIds = ids, fw_storage = ws\<rparr>
      | None \<Rightarrow> Inl (loadFavorites ws))"

(* src: frontend/src/stores/favorites-store.ts 30-37 toggleFavorite *)
definition toggleFavorite :: "jsstr \<Rightarrow> favorites_world \<Rightarrow> favorites_world" where
  "toggleFavorite i w =
     (let current = favoriteIds w;
          next = (if i \<in> set current then filter (\<lambda>fid. fid \<noteq> i) current else current @ [i])
      in w\<lparr>favoriteIds := next, fw_storage := saveFavorites next (fw_storage w)\<rparr>)"

(* src: frontend/src/stores/favorites-store.ts 38-39 isFavorite *)
definition isFavorite :: "favorites_world \<Rightarrow> jsstr \<Rightarrow> bool" where
  "isFavorite w i \<longleftrightarrow> i \<in> set (favoriteIds w)"

text \<open>
  \<^verbatim>\<open>favoriteIds.includes(id)\<close> on a value of any type: membership for an array, substring for a
  string, an exception (\<open>None\<close>) for everything else, which has no callable \<^verbatim>\<open>includes\<close>.
\<close>

definition json_includes :: "json \<Rightarrow> jsstr \<Rightarrow> bool option" where
  "json_includes v i = (case v of
     JArr vs \<Rightarrow> Some (JStr i \<in> set vs) | JStr s \<Rightarrow> Some (str_includes s i) | _ \<Rightarrow> None)"

lemma favoriteIds_toggleFavorite [simp]:
  "favoriteIds (toggleFavorite i w) = set_toggle i (favoriteIds w)"
  by (simp add: toggleFavorite_def Let_def set_toggle_def set_delete_def set_add_def)

lemma storage_toggleFavorite [simp]:
  "fw_storage (toggleFavorite i w) =
     storage.try_put FAVORITES_KEY (stringify (set_toggle i (favoriteIds w))) (fw_storage w)"
  by (simp add: toggleFavorite_def Let_def set_toggle_def set_delete_def set_add_def saveFavorites_def
      storage.try_put_def)

interpretation favorite_toggling: membership_toggle toggleFavorite
    "\<lambda>w. set (favoriteIds w)" "\<lambda>w. distinct (favoriteIds w)"
  by unfold_locales (simp_all add: distinct_set_toggle set_set_toggle)

text \<open>
  After any sequence of clicks on stars, a product is a favourite exactly when it was one
  and its star was clicked an even number of times, or it was none and the number is odd.
\<close>

theorem favorite_after_clicks:
  assumes "distinct (favoriteIds w)"
  shows "isFavorite (fold toggleFavorite stars w) i \<longleftrightarrow> isFavorite w i \<noteq> odd (count_list stars i)"
  using favorite_toggling.members_toggles [OF assms, of i stars]
  by (simp add: isFavorite_def)

theorem favorite_after_clicks_witness:
  "isFavorite (fold toggleFavorite [js ''a'', js ''b'', js ''a'']
     \<lparr>favoriteIds = [js ''a''], fw_storage = empty_storage\<rparr>) (js ''b'')"
proof -
  have "distinct (favoriteIds \<lparr>favoriteIds = [js ''a''], fw_storage = empty_storage\<rparr>)" by simp
  from favorite_after_clicks [OF this, of "[js ''a'', js ''b'', js ''a'']" "js ''b''"]
  show ?thesis by (simp add: isFavorite_def)
qed

section \<open>Favourites across reloads\<close>

lemma strings_of_strings [simp]: "strings_of (JArr (map JStr ids)) = Some ids"
  by (simp add: strings_of_def list_all_iff comp_def)

lemma strings_of_Nil [simp]: "strings_of (JArr []) = Some []"
  by (simp add: strings_of_def)

text \<open>The ids a reload would start with.\<close>

definition saved_ids :: "web_storage \<Rightarrow> jsstr list option" where
  "saved_ids ws = strings_of (loadFavorites ws)"

lemma init_favorites_saved:
  "saved_ids ws = Some ids \<Longrightarrow> init_favorites ws = Inr \<lparr>favoriteIds = ids, fw_storage = ws\<rparr>"
  by (simp add: saved_ids_def init_favorites_def)

lemma saved_ids_stored:
  "getItem FAVORITES_KEY ws = Inr (Some (stringify ids)) \<Longrightarrow> saved_ids ws = Some ids"
  by (simp add: saved_ids_def loadFavorites_def parse_stringify)

text \<open>Whether the storage can be read and takes the list that toggling \<open>i\<close> makes.\<close>

definition persists :: "jsstr \<Rightarrow> favorites_world \<Rightarrow> bool" where
  "persists i w \<longleftrightarrow> ws_readable (fw_storage w) \<and>
     ws_accepts (fw_storage w) FAVORITES_KEY (stringify (set_toggle i (favoriteIds w)))"

lemma saved_ids_toggle:
  "saved_ids (fw_storage (toggleFavorite i w)) =
     (if persists i w then Some (set_toggle i (favoriteIds w)) else saved_ids (fw_storage w))"
proof (cases "persists i w")
  case True
  then have "getItem FAVORITES_KEY (fw_storage (toggleFavorite i w)) =
      Inr (Some (stringify (set_toggle i (favoriteIds w))))"
    by (simp add: persists_def storage.try_put_def setItem_def getItem_def)
  with True show ?thesis by (simp add: saved_ids_stored)
next
  case False
  then show ?thesis
    by (auto simp: persists_def storage.try_put_def setItem_def getItem_def saved_ids_def loadFavorites_def)
qed

text \<open>
  A browser session: clicks on stars, and reloads of the page, which start the store again from
  the storage.  A store that started outside its type is not continued.
\<close>

datatype favorites_event = Click_star jsstr | Reload_page

definition favorites_step :: "favorites_event \<Rightarrow> favorites_world \<Rightarrow> favorites_world" where
  "favorites_step e w = (case e of
     Click_star i \<Rightarrow> toggleFavorite i w
   | Reload_page \<Rightarrow> (case init_favorites (fw_storage w) of Inr w' \<Rightarrow> w' | Inl _ \<Rightarrow> w))"

text \<open>
  The specification: a set of products and the set that was saved last.  A click flips the
  membership of one product, and saves the new set if it can; a reload goes back to the saved set.
\<close>

record saved_set =
  ss_current :: "jsstr set"
  ss_saved :: "jsstr set"

definition saved_set_step :: "bool \<Rightarrow> favorites_event \<Rightarrow> saved_set \<Rightarrow> saved_set" where
  "saved_set_step can_save e a = (case e of
     Click_star i \<Rightarrow>
       (let next = (if i \<in> ss_current a then ss_current a - {i} else insert i (ss_current a))
        in \<lparr>ss_current = next, ss_saved = (if can_save then next else ss_saved a)\<rparr>)
   | Reload_page \<Rightarrow> a\<lparr>ss_current := ss_saved a\<rparr>)"

definition abs_favorites :: "favorites_world \<Rightarrow> saved_set" where
  "abs_favorites w = \<lparr>ss_current = set (favoriteIds w),
     ss_saved = (case saved_ids (fw_storage w) of None \<Rightarrow> {} | Some ids \<Rightarrow> set ids)\<rparr>"

definition can_save :: "favorites_event \<Rightarrow> favorites_world \<Rightarrow> bool" where
  "can_save e w = (case e of Click_star i \<Rightarrow> persists i w | Reload_page \<Rightarrow> False)"

lemma favorites_step_saved: "saved_ids (fw_storage w) \<noteq> None \<Longrightarrow> saved_ids (fw_storage (favorites_step e w)) \<noteq> None"
  by (cases e)
    (auto simp: favorites_step_def saved_ids_toggle init_favorites_saved simp del: storage_toggleFavorite)

interpretation favorites_run: event_machine favorites_step "\<lparr>favoriteIds = [], fw_storage = empty_storage\<rparr>"
    "\<lambda>w. saved_ids (fw_storage w) \<noteq> None"
  by unfold_locales
    (simp_all add: favorites_step_saved, simp add: saved_ids_def loadFavorites_def getItem_def)

lemma favorites_step_refines:
  assumes "saved_ids (fw_storage w) \<noteq> None"
  shows "abs_favorites (favorites_step e w) = saved_set_step (can_save e w) e (abs_favorites w)"
proof (cases e)
  case (Click_star i)
  then show ?thesis
    by (simp add: favorites_step_def abs_favorites_def saved_set_step_def can_save_def saved_ids_toggle
        set_set_toggle Let_def del: storage_toggleFavorite)
next
  case Reload_page
  with assms show ?thesis
    by (auto simp: favorites_step_def abs_favorites_def saved_set_step_def init_favorites_saved)
qed

text \<open>
  C27: the favourites refine a saved set: from any storage this application has written (or an
  empty or unreadable one), along any session of star clicks and reloads, every step of the store
  is a step of the specification on the sets it represents, a write counting as saved exactly
  when the storage takes it; and the store never starts outside its type.
\<close>

theorem favorites_refine_saved_set:
  assumes "init_favorites ws = Inr w0"
  shows "let w = fold favorites_step es w0 in
    abs_favorites (favorites_step e w) = saved_set_step (can_save e w) e (abs_favorites w) \<and>
    (case init_favorites (fw_storage w) of Inr w' \<Rightarrow> set (favoriteIds w') = ss_saved (abs_favorites w) | Inl v \<Rightarrow> False)"
proof -
  have "saved_ids (fw_storage w0) \<noteq> None"
    using assms by (auto simp: init_favorites_def saved_ids_def split: option.splits)
  then have "saved_ids (fw_storage (fold favorites_step es w0)) \<noteq> None"
    by (rule favorites_run.inv_fold)
  note favorites_step_refines [OF this] and this
  then show ?thesis
    unfolding Let_def by (auto simp: init_favorites_saved) (simp_all add: abs_favorites_def)
qed

theorem favorites_refine_saved_set_witness:
  "abs_favorites (favorites_step Reload_page (fold favorites_step [Click_star (js ''p1'')]
      \<lparr>favoriteIds = [], fw_storage = empty_storage\<rparr>)) = \<lparr>ss_current = {js ''p1''}, ss_saved = {js ''p1''}\<rparr>"
proof -
  have "init_favorites empty_storage = Inr \<lparr>favoriteIds = [], fw_storage = empty_storage\<rparr>"
    by (simp add: init_favorites_def loadFavorites_def getItem_def)
  from favorites_refine_saved_set [OF this, of "[Click_star (js ''p1'')]" Reload_page]
  show ?thesis
    by (simp add: Let_def saved_set_step_def)
      (simp add: favorites_step_def abs_favorites_def saved_ids_toggle persists_def set_toggle_def set_add_def
        del: storage_toggleFavorite)
qed

text \<open>
  With a working storage the favourites survive a reload, whatever units their ids are made
  of: a store started on the storage a click left has the favourites of that click.
\<close>

theorem favorites_survive_reload:
  assumes "storage_healthy (fw_storage w)"
  shows "init_favorites (fw_storage (toggleFavorite i w)) = Inr (toggleFavorite i w)"
proof -
  have "persists i w" using assms by (simp add: persists_def storage_healthy_def)
  then have "init_favorites (fw_storage (toggleFavorite i w)) =
      Inr \<lparr>favoriteIds = set_toggle i (favoriteIds w), fw_storage = fw_storage (toggleFavorite i w)\<rparr>"
    by (intro init_favorites_saved) (simp add: saved_ids_toggle del: storage_toggleFavorite)
  then show ?thesis by (metis favoriteIds_toggleFavorite favorites_world.surjective old.unit.exhaust)
qed

theorem favorites_survive_reload_witness:
  "case init_favorites (fw_storage (toggleFavorite (js ''p1'') \<lparr>favoriteIds = [], fw_storage = empty_storage\<rparr>)) of
     Inr w \<Rightarrow> favoriteIds w = [js ''p1''] | Inl v \<Rightarrow> False"
proof -
  have "storage_healthy (fw_storage \<lparr>favoriteIds = [], fw_storage = empty_storage\<rparr>)" by simp
  from favorites_survive_reload [OF this, of "js ''p1''"] show ?thesis
    by (simp add: set_toggle_def set_add_def)
qed

text \<open>
  What was stored by someone else is not checked: with the JSON text \<^verbatim>\<open>null\<close> under the key the
  store starts with \<^verbatim>\<open>null\<close> for its list, and asking whether a product is a favourite throws.
\<close>

lemma null_favorites_throw:
  "init_favorites (empty_storage\<lparr>ws_items := Map.empty(FAVORITES_KEY \<mapsto> js ''null'')\<rparr>) = Inl JNull \<and>
   json_includes JNull i = None"
proof -
  have "JSON_parse (js ''null'') = Some JNull"
  proof -
    have "2 * length (js ''null'') + 1 = Suc 8" by simp
    then show ?thesis
      unfolding JSON_parse_def
      by (simp only: read_value.simps(2)) (simp add: skip_ws_def json_ws_def js_def)
  qed
  then show ?thesis
    by (simp add: init_favorites_def loadFavorites_def getItem_def empty_storage_def strings_of_def json_includes_def)
qed

end
