(* ===== verification/Onboarding.thy ===== *)
theory Onboarding
  imports Web_Storage Auth_Store Navigation
begin

text \<open>
  The guided tour: its store (\<^verbatim>\<open>stores/onboarding-store.ts\<close>), its steps
  (\<^verbatim>\<open>components/onboarding/onboarding-steps.tsx\<close>), the overlay with its effects, keyboard
  handler and buttons (\<^verbatim>\<open>OnboardingOverlay.tsx\<close>) and the content of a step
  (\<^verbatim>\<open>OnboardingStep.tsx\<close>).  Icons and colour classes are presentation and left out.
\<close>

section \<open>The store\<close>

(* src: frontend/src/stores/onboarding-store.ts 3-3 STORAGE_KEY_COMPLETED *)
definition STORAGE_KEY_COMPLETED :: jsstr where
  "STORAGE_KEY_COMPLETED = js ''etlnexus:onboarding:completed''"

(* src: frontend/src/stores/onboarding-store.ts 4-4 STORAGE_KEY_VERSION *)
definition STORAGE_KEY_VERSION :: jsstr where
  "STORAGE_KEY_VERSION = js ''etlnexus:onboarding:version''"

(* src: frontend/src/stores/onboarding-store.ts 5-5 ONBOARDING_VERSION *)
definition ONBOARDING_VERSION :: int where
  "ONBOARDING_VERSION = 1"

(* src: frontend/src/stores/onboarding-store.ts 7-14 readCompleted *)
definition readCompleted :: "web_storage \<Rightarrow> bool" where
  "readCompleted ws =
     (case getItem STORAGE_KEY_VERSION ws of
        Inl _ \<Rightarrow> False
      | Inr version \<Rightarrow> version = Some (num_str ONBOARDING_VERSION))"

(* src: frontend/src/stores/onboarding-store.ts 16-23 persistCompleted *)
definition persistCompleted :: "web_storage \<Rightarrow> web_storage" where
  "persistCompleted ws =
     (case setItem STORAGE_KEY_COMPLETED (js ''true'') ws of
        Inl _ \<Rightarrow> ws
      | Inr ws1 \<Rightarrow> (case setItem STORAGE_KEY_VERSION (num_str ONBOARDING_VERSION) ws1 of
                      Inl _ \<Rightarrow> ws1
                    | Inr ws2 \<Rightarrow> ws2))"

(* src: frontend/src/stores/onboarding-store.ts 25-32 clearCompleted *)
definition clearCompleted :: "web_storage \<Rightarrow> web_storage" where
  "clearCompleted ws =
     (case removeItem STORAGE_KEY_COMPLETED ws of
        Inl _ \<Rightarrow> ws
      | Inr ws1 \<Rightarrow> (case removeItem STORAGE_KEY_VERSION ws1 of Inl _ \<Rightarrow> ws1 | Inr ws2 \<Rightarrow> ws2))"

(* src: frontend/src/stores/onboarding-store.ts 39-39 direction *)
datatype direction = Forward | Backward

(* src: frontend/src/stores/onboarding-store.ts 34-48 OnboardingState *)
record tour =
  isActive :: bool
  isExiting :: bool
  currentStep :: int
  hasCompleted :: bool
  direction :: direction
  tour_storage :: web_storage

(* src: frontend/src/stores/onboarding-store.ts 50-55 useOnboardingStore *)
definition init_tour :: "web_storage \<Rightarrow> tour" where
  "init_tour ws = \<lparr>isActive = False, isExiting = False, currentStep = 0,
     hasCompleted = readCompleted ws, direction = Forward, tour_storage = ws\<rparr>"

(* src: frontend/src/stores/onboarding-store.ts 57-58 startOnboarding *)
definition startOnboarding :: "tour \<Rightarrow> tour" where
  "startOnboarding s = s\<lparr>isActive := True, isExiting := False, currentStep := 0, direction := Forward\<rparr>"

(* src: frontend/src/stores/onboarding-store.ts 60-67 nextStep *)
definition nextStep :: "int \<Rightarrow> tour \<Rightarrow> tour" where
  "nextStep totalSteps s =
     (if currentStep s \<ge> totalSteps - 1
      then s\<lparr>isExiting := True, direction := Forward\<rparr>
      else s\<lparr>currentStep := currentStep s + 1, direction := Forward\<rparr>)"

(* src: frontend/src/stores/onboarding-store.ts 69-73 prevStep *)
definition prevStep :: "tour \<Rightarrow> tour" where
  "prevStep s = s\<lparr>currentStep := max 0 (currentStep s - 1), direction := Backward\<rparr>"

(* src: frontend/src/stores/onboarding-store.ts 75-79 goToStep *)
definition goToStep :: "int \<Rightarrow> tour \<Rightarrow> tour" where
  "goToStep k s = s\<lparr>currentStep := k, direction := (if k > currentStep s then Forward else Backward)\<rparr>"

(* src: frontend/src/stores/onboarding-store.ts 81-81 beginExit *)
definition beginExit :: "tour \<Rightarrow> tour" where
  "beginExit s = s\<lparr>isExiting := True\<rparr>"

(* src: frontend/src/stores/onboarding-store.ts 83-86 finalizeExit *)
definition finalizeExit :: "tour \<Rightarrow> tour" where
  "finalizeExit s = s\<lparr>tour_storage := persistCompleted (tour_storage s),
     isActive := False, isExiting := False, hasCompleted := True\<rparr>"

(* src: frontend/src/stores/onboarding-store.ts 88-91 completeOnboarding *)
definition completeOnboarding :: "tour \<Rightarrow> tour" where
  "completeOnboarding s = s\<lparr>isExiting := True\<rparr>"

(* src: frontend/src/stores/onboarding-store.ts 93-97 resetOnboarding *)
definition resetOnboarding :: "tour \<Rightarrow> tour" where
  "resetOnboarding s = s\<lparr>tour_storage := clearCompleted (tour_storage s), isActive := False,
     isExiting := False, currentStep := 0, hasCompleted := False, direction := Forward\<rparr>"

lemmas tour_ops = startOnboarding_def nextStep_def prevStep_def goToStep_def beginExit_def
  finalizeExit_def completeOnboarding_def resetOnboarding_def

section \<open>The steps\<close>

(* src: frontend/src/components/onboarding/onboarding-steps.tsx 11-11 PanelPosition *)
datatype panel_position = Center | Right | Bottom_left | Bottom_right

(* src: frontend/src/components/onboarding/onboarding-steps.tsx 13-31 OnboardingStep *)
record tour_step =
  ts_id :: jsstr
  ts_title :: jsstr
  ts_subtitle :: jsstr
  ts_description :: jsstr
  ts_spotlightTarget :: "tab option"
  ts_sectionTarget :: "jsstr option"
  ts_navigateTo :: "tab option"
  ts_panelPosition :: panel_position
  ts_adminOnly :: bool
  ts_features :: "jsstr list option"
  ts_isWelcome :: bool
  ts_isFinal :: bool

(* src: frontend/src/components/onboarding/onboarding-steps.tsx 34-53 ALL_STEPS[0] *)
definition step_welcome :: tour_step where
  "step_welcome = \<lparr>ts_id = js ''welcome'', ts_title = js ''Welcome to ETL Nexus'',
     ts_subtitle = js ''INITIALIZING COMMAND CENTER'',
     ts_description = js (''You are now connected to the Data Products catalog. This briefing walks you through the '' @
       ''control surfaces available to you. Data products are discovered and described here, with schemas sourced '' @
       ''live from Spark Connect.''),
     ts_spotlightTarget = None, ts_sectionTarget = None, ts_navigateTo = None,
     ts_panelPosition = Center, ts_adminOnly = False,
     ts_features = Some [js ''Catalog of published data products'', js ''Auto-fetched schema + consume snippet'',
       js ''Team-based access and editing'', js ''AI-powered architecture analysis''],
     ts_isWelcome = True, ts_isFinal = False\<rparr>"

(* src: frontend/src/components/onboarding/onboarding-steps.tsx 54-75 ALL_STEPS[1] *)
definition step_data_products :: tour_step where
  "step_data_products = \<lparr>ts_id = js ''data-products'', ts_title = js ''Data Products'',
     ts_subtitle = js ''MODULE: DATA_PRODUCTS'',
     ts_description = js (''Your primary command surface. Browse data products grouped by team, filter by team or '' @
       ''schedule, and open any product to inspect its description, documentation, schema (data structure) and '' @
       ''import & consume snippet. Create a new product with the + button.''),
     ts_spotlightTarget = Some Data_products, ts_sectionTarget = Some (js ''data-products-registry''),
     ts_navigateTo = Some Data_products, ts_panelPosition = Right, ts_adminOnly = False,
     ts_features = Some [js ''Team-grouped product registry'', js ''Filter by team + schedule'',
       js ''New Data Product: name, description, documentation, tables'',
       js ''A tab per table (schema + consume) + product read_by_tag snippet''],
     ts_isWelcome = False, ts_isFinal = False\<rparr>"

(* src: frontend/src/components/onboarding/onboarding-steps.tsx 76-96 ALL_STEPS[2] *)
definition step_tables :: tour_step where
  "step_tables = \<lparr>ts_id = js ''tables'', ts_title = js ''Tables'',
     ts_subtitle = js ''MODULE: CATALOG_TABLES'',
     ts_description = js (''Every Iceberg table discoverable in the catalog, filterable by team and name. Open any '' @
       ''table to see its schema and its consume snippet. Data products are built from these tables.''),
     ts_spotlightTarget = Some Tables, ts_sectionTarget = Some (js ''tables-view''),
     ts_navigateTo = Some Tables, ts_panelPosition = Bottom_right, ts_adminOnly = False,
     ts_features = Some [js ''All catalog tables from Spark Connect'', js ''Filter by team + name'',
       js ''Per-table schema + consume snippet''],
     ts_isWelcome = False, ts_isFinal = False\<rparr>"

(* src: frontend/src/components/onboarding/onboarding-steps.tsx 97-117 ALL_STEPS[3] *)
definition step_ai :: tour_step where
  "step_ai = \<lparr>ts_id = js ''ai'', ts_title = js ''AI Architect Terminal'',
     ts_subtitle = js ''MODULE: AI_TERMINAL'',
     ts_description = js (''A goal-oriented natural language interface to your entire catalog. Ask the AI Architect '' @
       ''to find related products, design joins, or explain relationships.''),
     ts_spotlightTarget = Some Ai, ts_sectionTarget = Some (js ''ai-terminal''),
     ts_navigateTo = Some Ai, ts_panelPosition = Bottom_right, ts_adminOnly = False,
     ts_features = Some [js ''Natural language queries against the catalog'', js ''Join path recommendations'',
       js ''Full schema context''],
     ts_isWelcome = False, ts_isFinal = False\<rparr>"

(* src: frontend/src/components/onboarding/onboarding-steps.tsx 118-133 ALL_STEPS[4] *)
definition step_ready :: tour_step where
  "step_ready = \<lparr>ts_id = js ''ready'', ts_title = js ''Mission Ready'',
     ts_subtitle = js ''BRIEFING COMPLETE'',
     ts_description = js ''You are now briefed on all systems. Start by exploring the Data Products catalog '' @ em_dash @
       js '' select any product to dive into its details.'',
     ts_spotlightTarget = None, ts_sectionTarget = None, ts_navigateTo = Some Data_products,
     ts_panelPosition = Center, ts_adminOnly = False, ts_features = None,
     ts_isWelcome = False, ts_isFinal = True\<rparr>"

lemmas step_defs = step_welcome_def step_data_products_def step_tables_def step_ai_def step_ready_def

(* src: frontend/src/components/onboarding/onboarding-steps.tsx 33-133 ALL_STEPS *)
definition ALL_STEPS :: "tour_step list" where
  "ALL_STEPS = [step_welcome, step_data_products, step_tables, step_ai, step_ready]"

(* src: frontend/src/components/onboarding/onboarding-steps.tsx 135-137 getOnboardingSteps *)
definition getOnboardingSteps :: "bool \<Rightarrow> tour_step list" where
  "getOnboardingSteps isUserAdmin = filter (\<lambda>st. \<not> ts_adminOnly st \<or> isUserAdmin) ALL_STEPS"

lemma step_for_all [simp]:
  "ts_adminOnly step_welcome = False" "ts_adminOnly step_data_products = False"
  "ts_adminOnly step_tables = False" "ts_adminOnly step_ai = False" "ts_adminOnly step_ready = False"
  by (simp_all only: step_defs tour_step.select_convs)

lemma step_tab [simp]:
  "ts_navigateTo step_welcome = None" "ts_navigateTo step_data_products = Some Data_products"
  "ts_navigateTo step_tables = Some Tables" "ts_navigateTo step_ai = Some Ai"
  "ts_navigateTo step_ready = Some Data_products"
  by (simp_all only: step_defs tour_step.select_convs)

lemma getOnboardingSteps_eq [simp]: "getOnboardingSteps b = ALL_STEPS"
  by (simp add: getOnboardingSteps_def ALL_STEPS_def)

lemma length_ALL_STEPS [simp]: "length ALL_STEPS = 5"
  by (simp add: ALL_STEPS_def)

lemma ALL_STEPS_tabs:
  "ts_navigateTo (ALL_STEPS ! 0) = None" "ts_navigateTo (ALL_STEPS ! 1) = Some Data_products"
  "ts_navigateTo (ALL_STEPS ! 2) = Some Tables" "ts_navigateTo (ALL_STEPS ! 3) = Some Ai"
  "ts_navigateTo (ALL_STEPS ! 4) = Some Data_products"
  by (simp_all add: ALL_STEPS_def)

section \<open>The overlay\<close>

text \<open>\<^verbatim>\<open>steps[currentStep]\<close>: \<open>None\<close> out of range.\<close>

definition at_index :: "'a list \<Rightarrow> int \<Rightarrow> 'a option" where
  "at_index xs i = (if 0 \<le> i \<and> i < int (length xs) then Some (xs ! nat i) else None)"

(* src: frontend/src/components/onboarding/OnboardingOverlay.tsx 58-59 step *)
definition current_step :: "user_info option \<Rightarrow> tour \<Rightarrow> tour_step option" where
  "current_step u s = at_index (getOnboardingSteps (isAdmin u)) (currentStep s)"

(* src: frontend/src/components/onboarding/OnboardingOverlay.tsx 60-60 isFirstStep *)
definition isFirstStep :: "tour \<Rightarrow> bool" where
  "isFirstStep s \<longleftrightarrow> currentStep s = 0"

(* src: frontend/src/components/onboarding/OnboardingOverlay.tsx 61-61 isLastStep *)
definition isLastStep :: "user_info option \<Rightarrow> tour \<Rightarrow> bool" where
  "isLastStep u s \<longleftrightarrow> currentStep s = int (length (getOnboardingSteps (isAdmin u))) - 1"

(* src: frontend/src/components/onboarding/OnboardingOverlay.tsx 63-68 auto-start effect *)
definition auto_start :: "user_info option \<Rightarrow> tour \<Rightarrow> tour" where
  "auto_start u s = (if u \<noteq> None \<and> \<not> hasCompleted s \<and> \<not> isActive s then startOnboarding s else s)"

(* src: frontend/src/components/onboarding/OnboardingOverlay.tsx 70-74 navigation effect *)
definition tour_navigate :: "user_info option \<Rightarrow> tour \<Rightarrow> nav_state \<Rightarrow> nav_state" where
  "tour_navigate u s n =
     (if \<not> isActive s \<or> isExiting s then n
      else (case current_step u s of
              None \<Rightarrow> n
            | Some st \<Rightarrow> (case ts_navigateTo st of None \<Rightarrow> n | Some t \<Rightarrow> setActiveTab t n)))"

(* src: frontend/src/components/onboarding/OnboardingOverlay.tsx 76-96 handleKeyDown *)
definition tour_key :: "user_info option \<Rightarrow> jsstr \<Rightarrow> tour \<Rightarrow> tour" where
  "tour_key u key s =
     (if \<not> isActive s \<or> isExiting s then s
      else if key = js ''ArrowRight'' \<or> key = js ''Enter'' then
        (if isLastStep u s then completeOnboarding s
         else nextStep (int (length (getOnboardingSteps (isAdmin u)))) s)
      else if key = js ''ArrowLeft'' then prevStep s
      else if key = js ''Escape'' then completeOnboarding s
      else s)"

(* src: frontend/src/components/onboarding/OnboardingOverlay.tsx 108-116 handleShutdownEnd *)
definition handleShutdownEnd :: "jsstr \<Rightarrow> tour \<Rightarrow> tour" where
  "handleShutdownEnd animationName s =
     (if animationName = js ''onboarding-shutdown'' then finalizeExit s else s)"

text \<open>What the overlay's buttons raise.\<close>

datatype tour_click = Go nat | Skip | Previous | Launch | Continue

(* src: frontend/src/components/onboarding/OnboardingOverlay.tsx 202-261 onClick *)
primrec tour_clicked :: "user_info option \<Rightarrow> tour_click \<Rightarrow> tour \<Rightarrow> tour" where
  "tour_clicked u (Go i) = goToStep (int i)"
| "tour_clicked u Skip = completeOnboarding"
| "tour_clicked u Previous = prevStep"
| "tour_clicked u Launch = completeOnboarding"
| "tour_clicked u Continue = nextStep (int (length (getOnboardingSteps (isAdmin u))))"

(* src: frontend/src/components/onboarding/OnboardingStep.tsx 24-133 OnboardingStepContent *)
definition OnboardingStepContent ::
  "tour_step \<Rightarrow> int \<Rightarrow> int \<Rightarrow> jsstr \<Rightarrow> jsstr option \<Rightarrow> jsstr \<Rightarrow> bool \<Rightarrow> 'e ui" where
  "OnboardingStepContent st cur totalSteps firstName teamNames roleLabel hasUser =
     Box [Txt (js ''system briefing // step '' @ pad2 (num_str (cur + 1)) @ js '' of '' @ pad2 (num_str totalSteps)),
       show_if (ts_adminOnly st) (Txt (js ''admin'')),
       (if ts_isWelcome st \<and> firstName \<noteq> [] then Txt (js ''Welcome, '' @ firstName) else Txt (ts_title st)),
       Txt (ts_subtitle st),
       show_if (ts_isWelcome st \<and> hasUser)
         (Box [Txt roleLabel,
            (case teamNames of
               Some t \<Rightarrow> show_if (t \<noteq> []) (Box [Txt (js ''/''), Txt t])
             | None \<Rightarrow> Box [])]),
       Txt (ts_description st),
       (case ts_features st of Some fs \<Rightarrow> Box (map Txt fs) | None \<Rightarrow> Box []),
       show_if (ts_isFinal st) (Txt (js ''All systems operational''))]"

(* src: frontend/src/components/onboarding/OnboardingOverlay.tsx 118-267 OnboardingOverlay *)
definition OnboardingOverlay :: "user_info option \<Rightarrow> tour \<Rightarrow> tour_click ui option" where
  "OnboardingOverlay u s =
     (case current_step u s of
        None \<Rightarrow> None
      | Some st \<Rightarrow>
          if \<not> isActive s then None
          else
            (let n = length (getOnboardingSteps (isAdmin u));
                 firstName = (case u of Some i \<Rightarrow> hd (split_on 32 (username i)) | None \<Rightarrow> []);
                 teamNames = map_option (\<lambda>i. join (js '', '') (teams i)) u;
                 roleLabel = (case u of Some i \<Rightarrow> role i | None \<Rightarrow> [])
             in Some (Box
               [OnboardingStepContent st (currentStep s) (int n) firstName teamNames roleLabel (u \<noteq> None),
                Box (map (\<lambda>i. Btn (js ''Go to step '' @ num_str (int i + 1)) (isExiting s) (Go i)) [0..<n]),
                show_if (\<not> isLastStep u s) (Btn (js ''Skip'') (isExiting s) Skip),
                show_if (\<not> isFirstStep s) (Btn (js ''Previous'') (isExiting s) Previous),
                (if isLastStep u s
                 then Btn (js ''Launch Command Center'') (isExiting s) Launch
                 else Btn (js ''Continue'') (isExiting s) Continue)])))"

section \<open>The tour as a machine\<close>

text \<open>
  Events: the sidebar's restart button, the auto-start effect, a key, a click on a button the
  overlay shows enabled, the end of a CSS animation of the panel.  The shutdown animation
  plays only while the tour is exiting.
\<close>

datatype tour_event = T_start | T_auto | T_key jsstr | T_click tour_click | T_anim jsstr

primrec tour_event_step :: "user_info option \<Rightarrow> tour_event \<Rightarrow> tour \<Rightarrow> tour" where
  "tour_event_step u T_start s = startOnboarding s"
| "tour_event_step u T_auto s = auto_start u s"
| "tour_event_step u (T_key k) s = tour_key u k s"
| "tour_event_step u (T_click c) s =
     (case OnboardingOverlay u s of
        None \<Rightarrow> s
      | Some v \<Rightarrow> if c \<in> set (clicks v) then tour_clicked u c s else s)"
| "tour_event_step u (T_anim a) s =
     (if OnboardingOverlay u s \<noteq> None \<and> isExiting s then handleShutdownEnd a s else s)"

definition tour_ok :: "tour \<Rightarrow> bool" where
  "tour_ok s \<longleftrightarrow> 0 \<le> currentStep s \<and> currentStep s < 5 \<and> (isExiting s \<longrightarrow> isActive s)"

lemma current_step_ok: "tour_ok s \<Longrightarrow> current_step u s = Some (ALL_STEPS ! nat (currentStep s))"
  by (simp add: tour_ok_def current_step_def at_index_def)

lemma overlay_shown_iff: "tour_ok s \<Longrightarrow> OnboardingOverlay u s \<noteq> None \<longleftrightarrow> isActive s"
  by (auto simp: OnboardingOverlay_def current_step_ok Let_def)

lemma raises_StepContent [simp]: "raises (OnboardingStepContent st c n f t r h) = {}"
  by (auto simp: OnboardingStepContent_def split: option.splits)

lemma overlay_raises:
  assumes "tour_ok s" "OnboardingOverlay u s = Some v"
  shows "raises v = (if isExiting s then {} else
     Go ` {0..<5} \<union> (if currentStep s = 4 then {Launch} else {Skip, Continue}) \<union>
     (if currentStep s = 0 then {} else {Previous}))"
  using assms
  by (auto simp: OnboardingOverlay_def current_step_ok Let_def isLastStep_def isFirstStep_def
      split: if_splits)

lemma set_clicks_raises: "c \<in> set (clicks v) \<Longrightarrow> c \<in> raises v"
  by (simp add: raises_def)

lemma overlay_clicked_ok:
  assumes ok: "tour_ok s" and v: "OnboardingOverlay u s = Some v" and c: "c \<in> raises v"
  shows "tour_ok (tour_clicked u c s)"
proof -
  have "isActive s" using overlay_shown_iff [OF ok, of u] v by simp
  with ok c overlay_raises [OF ok v] show ?thesis
    by (cases c) (auto simp: tour_ok_def tour_ops split: if_splits)
qed

lemma tour_key_ok: "tour_ok s \<Longrightarrow> tour_ok (tour_key u k s)"
  by (auto simp: tour_ok_def tour_key_def tour_ops isLastStep_def)

lemma tour_ok_step: "tour_ok s \<Longrightarrow> tour_ok (tour_event_step u e s)"
proof (cases e)
  case (T_click c)
  assume "tour_ok s"
  with T_click show ?thesis
    by (auto intro: overlay_clicked_ok set_clicks_raises split: option.split)
next
  case (T_key k)
  assume "tour_ok s"
  with T_key show ?thesis by (simp add: tour_key_ok)
qed (auto simp: tour_ok_def auto_start_def tour_ops handleShutdownEnd_def)

interpretation tour_run: event_machine "tour_event_step u" "init_tour ws" tour_ok for u ws
  by unfold_locales (simp_all add: tour_ok_step, simp add: tour_ok_def init_tour_def)

text \<open>
  C40: whatever the user does, the tour points at one of its five steps, so the overlay shows
  a step exactly while the tour is active, and the tour exits only while it is active.
\<close>

theorem tour_always_on_a_step:
  "let s = fold (tour_event_step u) es (init_tour ws) in
     0 \<le> currentStep s \<and> currentStep s < 5 \<and>
     current_step u s = Some (ALL_STEPS ! nat (currentStep s)) \<and>
     (OnboardingOverlay u s \<noteq> None \<longleftrightarrow> isActive s) \<and>
     (isExiting s \<longleftrightarrow> isExiting s \<and> isActive s)"
proof -
  have ok: "tour_ok (fold (tour_event_step u) es (init_tour ws))" by (rule tour_run.inv_run)
  then show ?thesis
    using current_step_ok [OF ok, of u] overlay_shown_iff [OF ok, of u]
    by (auto simp: Let_def tour_ok_def)
qed

section \<open>Walking through, leaving, coming back\<close>

text \<open>
  From the start of the tour, pressing the right arrow k times (k at most four) leads to
  step k and shows the tab that step presents; the fifth press starts the exit.
\<close>

theorem keyboard_walkthrough:
  "map (\<lambda>k. currentStep ((tour_key u (js ''ArrowRight'') ^^ k) (startOnboarding s))) [0, 1, 2, 3, 4] = [0, 1, 2, 3, 4] \<and>
   map (\<lambda>k. activeTab (tour_navigate u ((tour_key u (js ''ArrowRight'') ^^ k) (startOnboarding s)) n)) [0, 1, 2, 3, 4]
     = [activeTab n, Data_products, Tables, Ai, Data_products] \<and>
   isExiting ((tour_key u (js ''ArrowRight'') ^^ 5) (startOnboarding s)) \<and>
   \<not> isExiting ((tour_key u (js ''ArrowRight'') ^^ 4) (startOnboarding s))"
proof -
  have key: "(tour_key u (js ''ArrowRight'') ^^ k) (startOnboarding s)
      = (startOnboarding s)\<lparr>currentStep := int k\<rparr>" if "k < 5" for k
    using that
    by (induction k) (auto simp: tour_key_def tour_ops isLastStep_def)
  have last: "(tour_key u (js ''ArrowRight'') ^^ 5) (startOnboarding s)
      = completeOnboarding ((startOnboarding s)\<lparr>currentStep := 4\<rparr>)"
    using key [of 4] by (simp add: numeral_eq_Suc tour_key_def startOnboarding_def isLastStep_def)
  have nav: "activeTab (tour_navigate u ((startOnboarding s)\<lparr>currentStep := int k\<rparr>) n) =
      (case ts_navigateTo (ALL_STEPS ! k) of None \<Rightarrow> activeTab n | Some t \<Rightarrow> t)" if "k < 5" for k
    using that
    by (simp add: tour_navigate_def startOnboarding_def current_step_def at_index_def setActiveTab_def
        split: option.splits)
  have steps: "[0, 1, 2, 3, 4] = [0..<(5::nat)]" by (simp add: upt_conv_Cons)
  have "map (\<lambda>k. currentStep ((tour_key u (js ''ArrowRight'') ^^ k) (startOnboarding s))) [0..<5]
      = map int [0..<5]"
    by (rule map_cong) (simp_all add: key)
  then have "map (\<lambda>k. currentStep ((tour_key u (js ''ArrowRight'') ^^ k) (startOnboarding s))) [0, 1, 2, 3, 4]
      = [0, 1, 2, 3, 4]"
    by (simp only: steps [symmetric] list.map int_ops(1,2) of_nat_numeral)
  moreover have "map (\<lambda>k. activeTab (tour_navigate u ((tour_key u (js ''ArrowRight'') ^^ k) (startOnboarding s)) n))
      [0..<5] = map (\<lambda>k. case ts_navigateTo (ALL_STEPS ! k) of None \<Rightarrow> activeTab n | Some t \<Rightarrow> t) [0..<5]"
    by (rule map_cong) (simp_all add: key nav)
  then have "map (\<lambda>k. activeTab (tour_navigate u ((tour_key u (js ''ArrowRight'') ^^ k) (startOnboarding s)) n))
      [0, 1, 2, 3, 4] = [activeTab n, Data_products, Tables, Ai, Data_products]"
    by (simp only: steps [symmetric] list.map ALL_STEPS_tabs option.case)
  moreover have "isExiting ((tour_key u (js ''ArrowRight'') ^^ 5) (startOnboarding s))"
    by (simp only: last) (simp add: completeOnboarding_def)
  moreover have "\<not> isExiting ((tour_key u (js ''ArrowRight'') ^^ 4) (startOnboarding s))"
    using key [of 4] by (simp add: startOnboarding_def del: funpow.simps)
  ultimately show ?thesis by blast
qed

text \<open>
  While the tour exits nothing but the end of its shutdown animation moves it: the overlay
  offers no enabled button, every key is ignored and every other animation is too; the end of
  the shutdown animation closes the tour and marks it completed.
\<close>

theorem exit_is_final:
  assumes "tour_ok s" and "isExiting s"
  shows "tour_key u k s = s \<and> tour_event_step u (T_click c) s = s \<and>
    (tour_event_step u (T_anim a) s =
       (if a = js ''onboarding-shutdown'' then finalizeExit s else s)) \<and>
    \<not> isActive (finalizeExit s) \<and> hasCompleted (finalizeExit s)"
proof -
  have act: "isActive s" using assms by (simp add: tour_ok_def)
  then obtain v where v: "OnboardingOverlay u s = Some v"
    using overlay_shown_iff [OF assms(1), of u] by (meson not_None_eq)
  have "raises v = {}" by (simp only: overlay_raises [OF assms(1) v] assms(2) if_True)
  then have "c \<notin> set (clicks v)" by (metis set_clicks_raises empty_iff)
  then have "tour_event_step u (T_click c) s = s" using v by simp
  moreover have "tour_key u k s = s" using assms(2) by (simp add: tour_key_def)
  moreover have "tour_event_step u (T_anim a) s =
      (if a = js ''onboarding-shutdown'' then finalizeExit s else s)"
    using v assms(2) by (simp add: handleShutdownEnd_def)
  moreover have "\<not> isActive (finalizeExit s) \<and> hasCompleted (finalizeExit s)"
    by (simp add: finalizeExit_def)
  ultimately show ?thesis by blast
qed

theorem exit_is_final_witness:
  "tour_event_step None (T_anim (js ''onboarding-shutdown''))
     (completeOnboarding (startOnboarding (init_tour empty_storage)))
   = finalizeExit (completeOnboarding (startOnboarding (init_tour empty_storage)))"
proof -
  have "tour_ok (completeOnboarding (startOnboarding (init_tour empty_storage)))"
    and "isExiting (completeOnboarding (startOnboarding (init_tour empty_storage)))"
    by (simp_all add: tour_ok_def tour_ops init_tour_def)
  from exit_is_final [OF this] show ?thesis by simp
qed

lemma hasCompleted_step: "hasCompleted s \<Longrightarrow> hasCompleted (tour_event_step u e s)"
proof (cases e)
  case (T_click c)
  assume "hasCompleted s"
  with T_click show ?thesis
    by (cases c) (auto simp: tour_ops split: option.split)
qed (auto simp: auto_start_def tour_ops tour_key_def handleShutdownEnd_def)

lemma hasCompleted_fold: "hasCompleted s \<Longrightarrow> hasCompleted (fold (tour_event_step u) es s)"
  by (induction es arbitrary: s) (auto intro: hasCompleted_step)

lemma readCompleted_persist:
  "ws_readable ws \<Longrightarrow> (\<And>w k v. ws_accepts ws k v) \<Longrightarrow> readCompleted (persistCompleted ws)"
  by (simp add: persistCompleted_def setItem_def readCompleted_def getItem_def)

text \<open>
  Once completed, the tour never starts by itself again in the session; and with a working
  storage it does not start by itself after a reload either.
\<close>

theorem completed_tour_stays_away:
  assumes "hasCompleted s" and "ws_readable (tour_storage s)"
    and "\<And>k v. ws_accepts (tour_storage s) k v"
  shows "auto_start u (fold (tour_event_step u') es s) = fold (tour_event_step u') es s \<and>
    auto_start u (init_tour (tour_storage (finalizeExit s))) = init_tour (tour_storage (finalizeExit s))"
  using hasCompleted_fold [OF assms(1), of u' es] readCompleted_persist [of "tour_storage s"] assms(2,3)
  by (simp add: auto_start_def init_tour_def finalizeExit_def)

theorem completed_tour_stays_away_witness:
  "let s = finalizeExit (completeOnboarding (startOnboarding (init_tour empty_storage))) in
     auto_start None (init_tour (tour_storage (finalizeExit s))) = init_tour (tour_storage (finalizeExit s))"
proof -
  let ?s = "finalizeExit (completeOnboarding (startOnboarding (init_tour empty_storage)))"
  have "hasCompleted ?s" by (simp add: finalizeExit_def)
  moreover have "ws_readable (tour_storage ?s)" and "\<And>k v. ws_accepts (tour_storage ?s) k v"
    by (simp_all add: tour_ops init_tour_def persistCompleted_def setItem_def)
  ultimately show ?thesis
    using completed_tour_stays_away [of ?s None None "[]"] by (simp add: Let_def)
qed

end
