(* ===== verification/Data_Api.thy ===== *)
theory Data_Api
  imports Auth_Store Json_Text
begin

text \<open>
  What the front end asks of its backend: the request builders of \<^verbatim>\<open>api/pipelines.ts\<close>,
  \<^verbatim>\<open>api/tables.ts\<close> and \<^verbatim>\<open>api/auth.ts\<close>, their data types
  (\<^verbatim>\<open>types/pipeline.ts\<close>, \<^verbatim>\<open>types/table.ts\<close>) and the query and mutation hooks of
  \<^verbatim>\<open>hooks/\<close>.  A request is its method, path, query parameters (undefined ones are not
  sent) and body; a query is its key, its request when it is enabled and its stale time; a
  mutation is its request and the effects of its outcome.
\<close>

section \<open>Requests\<close>

datatype param = P_num nat | P_str jsstr | P_arr "jsstr list"

datatype http_method = GET | POST | PATCH | PUT | DELETE

record request =
  rq_method :: http_method
  rq_path :: jsstr
  rq_params :: "(jsstr \<times> param) list"
  rq_headers :: "(jsstr \<times> jsstr) list"
  rq_body :: "json option"

definition get :: "jsstr \<Rightarrow> (jsstr \<times> param option) list \<Rightarrow> request" where
  "get path params = \<lparr>rq_method = GET, rq_path = path,
     rq_params = List.map_filter (\<lambda>(k, v). map_option (Pair k) v) params, rq_headers = [], rq_body = None\<rparr>"

definition send :: "http_method \<Rightarrow> jsstr \<Rightarrow> json option \<Rightarrow> request" where
  "send m path body = \<lparr>rq_method = m, rq_path = path, rq_params = [], rq_headers = [], rq_body = body\<rparr>"

text \<open>\<^verbatim>\<open>s || undefined\<close> and \<^verbatim>\<open>s || null\<close> on strings.\<close>

definition truthy :: "jsstr option \<Rightarrow> jsstr option" where
  "truthy s = (case s of Some t \<Rightarrow> if t = [] then None else Some t | None \<Rightarrow> None)"

lemma truthy_simps [simp]:
  "truthy None = None" "truthy (Some t) = (if t = [] then None else Some t)"
  by (simp_all add: truthy_def)

lemma truthy_eq_Some: "truthy s = Some t \<longleftrightarrow> s = Some t \<and> t \<noteq> []"
  by (cases s) auto

definition json_opt :: "jsstr option \<Rightarrow> json" where
  "json_opt s = (case s of None \<Rightarrow> JNull | Some t \<Rightarrow> JStr t)"

(* src: frontend/src/api/pipelines.ts 10-13 PipelineFilterParams *)
record filter_params =
  fp_team :: "jsstr list option"
  fp_schedule :: "jsstr list option"

(* src: frontend/src/api/pipelines.ts 15-29 fetchPipelines *)
definition fetchPipelines ::
  "jsstr option \<Rightarrow> nat \<Rightarrow> nat \<Rightarrow> (jsstr \<times> jsstr) list \<Rightarrow> filter_params option \<Rightarrow> request" where
  "fetchPipelines query skip limit dateParams filters = get (js ''/data-products'')
     ([(js ''q'', map_option P_str query), (js ''skip'', Some (P_num skip)), (js ''limit'', Some (P_num limit))] @
      map (\<lambda>(k, v). (k, Some (P_str v))) dateParams @
      (case filters of
         None \<Rightarrow> []
       | Some f \<Rightarrow> [(js ''team'', map_option P_arr (fp_team f)), (js ''schedule'', map_option P_arr (fp_schedule f))]))"

definition product_path :: "jsstr \<Rightarrow> jsstr" where
  "product_path productId = js ''/data-products/'' @ productId"

(* src: frontend/src/api/pipelines.ts 31-34 fetchPipelineDetail *)
definition fetchPipelineDetail :: "jsstr \<Rightarrow> request" where
  "fetchPipelineDetail productId = get (product_path productId) []"

text \<open>An absent field of an update is \<open>None\<close>, a \<^verbatim>\<open>null\<close> one \<open>Some None\<close>.\<close>

(* src: frontend/src/types/pipeline.ts 41-46 PipelineUpdateRequest *)
record pipeline_update =
  pu_name :: "jsstr option option"
  pu_description :: "jsstr option option"
  pu_documentation :: "jsstr option option"
  pu_schedule_type :: "jsstr option option"

definition update_json :: "pipeline_update \<Rightarrow> json" where
  "update_json u = JObj (List.map_filter (\<lambda>(k, v). map_option (\<lambda>x. (k, json_opt x)) v)
     [(js ''name'', pu_name u), (js ''description'', pu_description u),
      (js ''documentation'', pu_documentation u), (js ''schedule_type'', pu_schedule_type u)])"

definition no_update :: pipeline_update where
  "no_update = \<lparr>pu_name = None, pu_description = None, pu_documentation = None, pu_schedule_type = None\<rparr>"

(* src: frontend/src/api/pipelines.ts 36-45 updatePipeline *)
definition updatePipeline :: "jsstr \<Rightarrow> pipeline_update \<Rightarrow> request" where
  "updatePipeline productId body = send PATCH (product_path productId) (Some (update_json body))"

(* src: frontend/src/types/pipeline.ts 61-61 field_name *)
datatype doc_field = Description | Documentation

primrec field_str :: "doc_field \<Rightarrow> jsstr" where
  "field_str Description = js ''description''"
| "field_str Documentation = js ''documentation''"

(* src: frontend/src/api/pipelines.ts 47-58 fetchRevisions *)
definition fetchRevisions :: "jsstr \<Rightarrow> doc_field option \<Rightarrow> nat \<Rightarrow> nat \<Rightarrow> request" where
  "fetchRevisions productId field skip limit = get (product_path productId @ js ''/revisions'')
     [(js ''field'', map_option (\<lambda>f. P_str (field_str f)) field), (js ''skip'', Some (P_num skip)),
      (js ''limit'', Some (P_num limit))]"

(* src: frontend/src/api/pipelines.ts 60-68 restoreRevision *)
definition restoreRevision :: "jsstr \<Rightarrow> jsstr \<Rightarrow> request" where
  "restoreRevision productId revisionId =
     send POST (product_path productId @ js ''/revisions/'' @ revisionId @ js ''/restore'') None"

(* src: frontend/src/api/tables.ts 5-11 fetchTables *)
definition fetchTables :: "jsstr list option \<Rightarrow> jsstr option \<Rightarrow> request" where
  "fetchTables ts q = get (js ''/tables'')
     [(js ''team'', (case ts of Some l \<Rightarrow> if l \<noteq> [] then Some (P_arr l) else None | None \<Rightarrow> None)),
      (js ''q'', map_option P_str (truthy q))]"

(* src: frontend/src/api/tables.ts 14-19 fetchTableSchema *)
definition fetchTableSchema :: "jsstr \<Rightarrow> jsstr \<Rightarrow> request" where
  "fetchTableSchema namespace table = get (js ''/tables/schema'')
     [(js ''namespace'', Some (P_str namespace)), (js ''table'', Some (P_str table))]"

(* src: frontend/src/api/tables.ts 22-25 fetchNamespaces *)
definition fetchNamespaces :: request where
  "fetchNamespaces = get (js ''/tables/namespaces'') []"

(* src: frontend/src/api/auth.ts 4-7 fetchAuthConfig *)
definition fetchAuthConfig :: request where
  "fetchAuthConfig = get (js ''/auth/config'') []"

(* src: frontend/src/api/auth.ts 9-14 fetchMe *)
definition fetchMe :: "jsstr \<Rightarrow> request" where
  "fetchMe tok = (get (js ''/auth/me'') [])\<lparr>rq_headers := [(js ''Authorization'', js ''Bearer '' @ tok)]\<rparr>"

section \<open>The data\<close>

(* src: frontend/src/types/pipeline.ts 3-8 PipelineField *)
record pipeline_field =
  pf_id :: jsstr
  pf_name :: jsstr
  pf_data_type :: "jsstr option"
  pf_ordinal_position :: int

(* src: frontend/src/types/pipeline.ts 10-16 PipelineListItem *)
record list_item =
  li_id :: jsstr
  li_name :: jsstr
  li_description :: "jsstr option"
  li_schedule_type :: "jsstr option"
  li_team :: "jsstr option"

(* src: frontend/src/types/table.ts 3-7 TableColumn *)
record table_column =
  tc_name :: jsstr
  tc_data_type :: "jsstr option"
  tc_ordinal_position :: int

(* src: frontend/src/types/table.ts 10-18 TableRef *)
record table_ref =
  tr_namespace :: jsstr
  tr_table_name :: jsstr

(* src: frontend/src/types/table.ts 30-35 TableSchema *)
record table_schema =
  sc_namespace :: jsstr
  sc_table_name :: jsstr
  sc_columns :: "table_column list"
  sc_consume_snippet :: jsstr

(* src: frontend/src/types/table.ts 37-45 columnsToFields *)
definition columnsToFields :: "table_schema \<Rightarrow> pipeline_field list" where
  "columnsToFields table = map (\<lambda>c.
     \<lparr>pf_id = sc_namespace table @ [46] @ sc_table_name table @ [46] @ tc_name c, pf_name = tc_name c,
      pf_data_type = tc_data_type c, pf_ordinal_position = tc_ordinal_position c\<rparr>) (sc_columns table)"

(* src: frontend/src/types/pipeline.ts 23-39 PipelineDetail *)
record product_detail =
  pd_id :: jsstr
  pd_name :: jsstr
  pd_description :: "jsstr option"
  pd_tables :: "table_ref list"
  pd_documentation :: "jsstr option"
  pd_last_updated_by :: "jsstr option"
  pd_last_updated_at :: "jsstr option"
  pd_team :: "jsstr option"
  pd_can_edit :: bool
  pd_default_import_snippet :: jsstr
  pd_schedule_type :: "jsstr option"

(* src: frontend/src/types/pipeline.ts 64-64 change_source *)
datatype change_source = By_user | By_restore | By_system

(* src: frontend/src/types/pipeline.ts 58-66 PipelineRevision *)
record revision =
  rv_id :: jsstr
  rv_product_id :: jsstr
  rv_field_name :: doc_field
  rv_content :: "jsstr option"
  rv_changed_by :: jsstr
  rv_change_source :: change_source
  rv_created_at :: jsstr

section \<open>Queries\<close>

record query_spec =
  qs_key :: "json list"
  qs_request :: "request option"
  qs_stale :: int

definition filters_json :: "filter_params option \<Rightarrow> json" where
  "filters_json f = (case f of
     None \<Rightarrow> JNull
   | Some p \<Rightarrow> JObj (List.map_filter (\<lambda>(k, v). map_option (\<lambda>l. (k, JArr (map JStr l))) v)
       [(js ''team'', fp_team p), (js ''schedule'', fp_schedule p)]))"

(* src: frontend/src/hooks/use-data-products.ts 4-19 useDataProducts *)
definition useDataProducts :: "jsstr \<Rightarrow> filter_params option \<Rightarrow> nat \<Rightarrow> query_spec" where
  "useDataProducts searchQuery filters pageParam =
     \<lparr>qs_key = [JStr (js ''data-products''), JStr searchQuery, filters_json filters],
      qs_request = Some (fetchPipelines (truthy (Some searchQuery)) pageParam 50 [] filters),
      qs_stale = 2 * 60000\<rparr>"

(* src: frontend/src/types/pipeline.ts 18-21 PipelineListResponse *)
record 'a response_page =
  pg_items :: "'a list"
  pg_total :: nat

(* src: frontend/src/hooks/use-data-products.ts 12-15 getNextPageParam *)
definition getNextPageParam :: "'a response_page \<Rightarrow> 'a response_page list \<Rightarrow> nat option" where
  "getNextPageParam lastPage allPages =
     (let loaded = fold (\<lambda>p sum. sum + length (pg_items p)) allPages 0
      in if loaded < pg_total lastPage then Some loaded else None)"

(* src: frontend/src/hooks/use-pipeline-detail.ts 4-11 usePipelineDetail *)
definition usePipelineDetail :: "jsstr option \<Rightarrow> query_spec" where
  "usePipelineDetail i =
     \<lparr>qs_key = [JStr (js ''pipeline''), json_opt i],
      qs_request = map_option fetchPipelineDetail (truthy i), qs_stale = 60000\<rparr>"

(* src: frontend/src/hooks/use-tables.ts 5-11 useTables *)
definition useTables :: "jsstr list option \<Rightarrow> jsstr option \<Rightarrow> query_spec" where
  "useTables ts q =
     \<lparr>qs_key = [JStr (js ''tables''), (case ts of None \<Rightarrow> JNull | Some l \<Rightarrow> JArr (map JStr l)), json_opt q],
      qs_request = Some (fetchTables ts q), qs_stale = 60000\<rparr>"

(* src: frontend/src/hooks/use-table-schema.ts 5-12 useTableSchema *)
definition useTableSchema :: "jsstr option \<Rightarrow> jsstr option \<Rightarrow> query_spec" where
  "useTableSchema namespace table =
     \<lparr>qs_key = [JStr (js ''table-schema''), json_opt namespace, json_opt table],
      qs_request = (case (truthy namespace, truthy table) of
          (Some n, Some t) \<Rightarrow> Some (fetchTableSchema n t) | _ \<Rightarrow> None),
      qs_stale = 60000\<rparr>"

text \<open>The two hooks without a stale time of their own have the client's default of 30 seconds
  (\<^verbatim>\<open>main.tsx\<close>).\<close>

(* src: frontend/src/hooks/use-revisions.ts 5-15 useRevisions *)
definition useRevisions :: "jsstr \<Rightarrow> doc_field option \<Rightarrow> bool \<Rightarrow> query_spec" where
  "useRevisions i field enabled =
     \<lparr>qs_key = JStr (js ''revisions'') # JStr i # [case field of None \<Rightarrow> JNull | Some f \<Rightarrow> JStr (field_str f)],
      qs_request = (if enabled \<and> i \<noteq> [] then Some (fetchRevisions i field 0 50) else None),
      qs_stale = 30000\<rparr>"

section \<open>Mutations\<close>

datatype effect =
    Toast_success jsstr
  | Toast_error jsstr
  | Invalidate "json list"

text \<open>Invalidating a key makes every query stale whose key starts with it.\<close>

fun is_prefix :: "'a list \<Rightarrow> 'a list \<Rightarrow> bool" where
  "is_prefix [] _ = True"
| "is_prefix (x # xs) (y # ys) \<longleftrightarrow> x = y \<and> is_prefix xs ys"
| "is_prefix _ _ = False"

definition invalidated :: "effect list \<Rightarrow> json list \<Rightarrow> bool" where
  "invalidated es key \<longleftrightarrow> list_ex (\<lambda>e. case e of Invalidate p \<Rightarrow> is_prefix p key | _ \<Rightarrow> False) es"

record mutation =
  mu_request :: request
  mu_success :: "effect list"
  mu_error :: "effect list"

(* src: frontend/src/hooks/use-update-pipeline.ts 6-21 useUpdatePipeline *)
definition useUpdatePipeline :: "jsstr \<Rightarrow> pipeline_update \<Rightarrow> mutation" where
  "useUpdatePipeline i body =
     \<lparr>mu_request = updatePipeline i body,
      mu_success = [Toast_success (js ''Data product updated''),
        Invalidate [JStr (js ''pipeline''), JStr i], Invalidate [JStr (js ''data-products'')],
        Invalidate [JStr (js ''revisions''), JStr i]],
      mu_error = [Toast_error (js ''Failed to update data product'')]\<rparr>"

(* src: frontend/src/hooks/use-revisions.ts 17-31 useRestoreRevision *)
definition useRestoreRevision :: "jsstr \<Rightarrow> jsstr \<Rightarrow> mutation" where
  "useRestoreRevision i revisionId =
     \<lparr>mu_request = restoreRevision i revisionId,
      mu_success = [Toast_success (js ''Revision restored''),
        Invalidate [JStr (js ''pipeline''), JStr i], Invalidate [JStr (js ''revisions''), JStr i],
        Invalidate [JStr (js ''data-products'')]],
      mu_error = [Toast_error (js ''Failed to restore revision'')]\<rparr>"

lemma invalidated_simps [simp]:
  "invalidated [] key = False"
  "invalidated (Toast_success t # es) key = invalidated es key"
  "invalidated (Toast_error t # es) key = invalidated es key"
  "invalidated (Invalidate p # es) key = (is_prefix p key \<or> invalidated es key)"
  by (simp_all add: invalidated_def)

lemma invalidated_by_edit:
  "invalidated (mu_success (useUpdatePipeline i body)) key \<longleftrightarrow>
     is_prefix [JStr (js ''pipeline''), JStr i] key \<or> is_prefix [JStr (js ''data-products'')] key \<or>
     is_prefix [JStr (js ''revisions''), JStr i] key"
  by (simp add: useUpdatePipeline_def del: is_prefix.simps)

lemma invalidated_by_restore:
  "invalidated (mu_success (useRestoreRevision i r)) key \<longleftrightarrow>
     is_prefix [JStr (js ''pipeline''), JStr i] key \<or> is_prefix [JStr (js ''data-products'')] key \<or>
     is_prefix [JStr (js ''revisions''), JStr i] key"
  by (simp add: useRestoreRevision_def del: is_prefix.simps) blast

lemma json_opt_JStr [simp]: "json_opt j = JStr i \<longleftrightarrow> j = Some i" "JStr i = json_opt j \<longleftrightarrow> j = Some i"
  by (auto simp: json_opt_def split: option.splits)

text \<open>
  An edit and a restore make the same queries stale: the product's own detail, its
  revisions in either field, every page of every product list, and nothing of another product
  or of the table catalog.
\<close>

theorem edits_refresh_what_they_change:
  "\<lbrakk>es = mu_success (useUpdatePipeline i body) \<or> es = mu_success (useRestoreRevision i r)\<rbrakk> \<Longrightarrow>
   (invalidated es (qs_key (usePipelineDetail j)) \<longleftrightarrow> j = Some i) \<and>
   (invalidated es (qs_key (useRevisions k field b)) \<longleftrightarrow> k = i) \<and>
   invalidated es (qs_key (useDataProducts q fs n)) \<and>
   \<not> invalidated es (qs_key (useTables ts nm)) \<and>
   \<not> invalidated es (qs_key (useTableSchema ns tb))"
proof -
  assume "es = mu_success (useUpdatePipeline i body) \<or> es = mu_success (useRestoreRevision i r)"
  then have inv: "invalidated es key \<longleftrightarrow>
     is_prefix [JStr (js ''pipeline''), JStr i] key \<or> is_prefix [JStr (js ''data-products'')] key \<or>
     is_prefix [JStr (js ''revisions''), JStr i] key" for key
    using invalidated_by_edit invalidated_by_restore by blast
  have "invalidated es (qs_key (usePipelineDetail j)) \<longleftrightarrow> j = Some i"
    unfolding inv by (auto simp: usePipelineDetail_def)
  moreover have "invalidated es (qs_key (useRevisions k field b)) \<longleftrightarrow> k = i"
    unfolding inv by (auto simp: useRevisions_def)
  moreover have "invalidated es (qs_key (useDataProducts q fs n))"
    unfolding inv by (simp add: useDataProducts_def)
  moreover have "\<not> invalidated es (qs_key (useTables ts nm))"
    unfolding inv by (simp add: useTables_def)
  moreover have "\<not> invalidated es (qs_key (useTableSchema ns tb))"
    unfolding inv by (simp add: useTableSchema_def)
  ultimately show ?thesis by blast
qed

theorem edits_refresh_what_they_change_witness:
  "invalidated (mu_success (useUpdatePipeline (js ''p1'') no_update)) (qs_key (useRevisions (js ''p1'') None True))"
  using edits_refresh_what_they_change [where es = "mu_success (useUpdatePipeline (js ''p1'') no_update)"
      and i = "js ''p1''" and body = no_update and k = "js ''p1''" and field = None and b = True]
  by blast

section \<open>Paging\<close>

text \<open>
  A server that honours \<^verbatim>\<open>skip\<close> and \<^verbatim>\<open>limit\<close> on an unchanged list, and the pages
  after \<open>n\<close> further clicks on \<^verbatim>\<open>Load more\<close>, which asks for the next page as long as
  there is one.
\<close>

definition served :: "'a list \<Rightarrow> nat \<Rightarrow> nat \<Rightarrow> 'a response_page" where
  "served xs limit skip = \<lparr>pg_items = take limit (drop skip xs), pg_total = length xs\<rparr>"

definition fetchNextPage :: "(nat \<Rightarrow> 'a response_page) \<Rightarrow> 'a response_page list \<Rightarrow> 'a response_page list" where
  "fetchNextPage server pages =
     (case pages of
        [] \<Rightarrow> [server 0]
      | _ \<Rightarrow> (case getNextPageParam (last pages) pages of
               None \<Rightarrow> pages
             | Some skip \<Rightarrow> pages @ [server skip]))"

lemma fold_length: "fold (\<lambda>p sum. sum + length (pg_items p)) ps n = n + length (concat (map pg_items ps))"
  by (induction ps arbitrary: n) auto

lemma fetchNextPage_served:
  assumes "ps \<noteq> []" and "concat (map pg_items ps) = take k xs" and "pg_total (last ps) = length xs"
  shows "fetchNextPage (served xs l) ps = (if k < length xs then ps @ [served xs l k] else ps)"
proof -
  have "fold (\<lambda>p sum. sum + length (pg_items p)) ps 0 = min k (length xs)"
    using assms(2) by (simp only: fold_length) (simp add: min.commute)
  then have "getNextPageParam (last ps) ps = (if k < length xs then Some k else None)"
    unfolding getNextPageParam_def assms(3) by (simp add: Let_def min_def)
  with assms(1) show ?thesis
    by (cases ps) (simp_all add: fetchNextPage_def)
qed

lemma pages_items:
  "0 < l \<Longrightarrow> concat (map pg_items ((fetchNextPage (served xs l) ^^ Suc n) [])) = take (l * Suc n) xs \<and>
     (fetchNextPage (served xs l) ^^ Suc n) [] \<noteq> [] \<and>
     pg_total (last ((fetchNextPage (served xs l) ^^ Suc n) [])) = length xs"
proof (induction n)
  case 0
  then show ?case by (simp add: fetchNextPage_def served_def)
next
  case (Suc n)
  let ?ps = "(fetchNextPage (served xs l) ^^ Suc n) []"
  have items: "concat (map pg_items ?ps) = take (l * Suc n) xs" and ne: "?ps \<noteq> []"
    and tot: "pg_total (last ?ps) = length xs"
    using Suc by blast+
  have step: "(fetchNextPage (served xs l) ^^ Suc (Suc n)) [] = fetchNextPage (served xs l) ?ps"
    by simp
  note next_page = fetchNextPage_served [OF ne items tot, of l]
  show ?case
  proof (cases "l * Suc n < length xs")
    case True
    have "take (l * Suc n) xs @ take l (drop (l * Suc n) xs) = take (l * Suc (Suc n)) xs"
      by (simp add: take_add [symmetric] algebra_simps)
    with True show ?thesis
      unfolding step next_page by (simp add: items served_def del: funpow.simps)
  next
    case False
    then have "take (l * Suc n) xs = xs" "take (l * Suc (Suc n)) xs = xs"
      by simp_all
    with False items ne tot show ?thesis
      unfolding step next_page by simp
  qed
qed

text \<open>
  C24: against a server that honours the paging parameters, after the first load and n clicks on
  \<open>Load more\<close> the list holds exactly the first 50(n+1) products in the server's order, without
  repetition or gap, and there is a next page exactly while products are missing.
\<close>

theorem paging_loads_everything:
  "let pages = (fetchNextPage (served xs 50) ^^ Suc n) [] in
     concat (map pg_items pages) = take (50 * Suc n) xs \<and>
     (getNextPageParam (last pages) pages = None \<longleftrightarrow> length xs \<le> 50 * Suc n) \<and>
     (getNextPageParam (last pages) pages = None \<longleftrightarrow> concat (map pg_items pages) = xs)"
proof -
  let ?ps = "(fetchNextPage (served xs 50) ^^ Suc n) []"
  have p: "concat (map pg_items ?ps) = take (50 * Suc n) xs" "pg_total (last ?ps) = length xs"
    using pages_items [where l = 50 and xs = xs and n = n] by auto
  have "getNextPageParam (last ?ps) ?ps = None \<longleftrightarrow> length xs \<le> 50 * Suc n"
    unfolding getNextPageParam_def fold_length p by (auto simp: min_def)
  moreover have "take (50 * Suc n) xs = xs \<longleftrightarrow> length xs \<le> 50 * Suc n"
    by (metis take_all_iff)
  ultimately show ?thesis
    unfolding Let_def p(1) by blast
qed

end
