(* ===== verification/Sessions.thy ===== *)
theory Sessions
  imports Chat Api_Client Data_Api
begin

text \<open>
  Signing in: the bootstrap that reads the server's authentication mode
  (\<^verbatim>\<open>components/auth/AuthProvider.tsx\<close>), the guard with its effects
  (\<^verbatim>\<open>AuthGuard.tsx\<close>), the user query (\<^verbatim>\<open>hooks/use-auth.ts\<close>) and the login page
  (\<^verbatim>\<open>LoginPage.tsx\<close>).  The OIDC library is the environment: what its hook reports
  (\<open>oidc\<close>) changes by events of the run, as do the answers to the user query.
\<close>

section \<open>Bootstrap\<close>

(* src: frontend/src/components/auth/AuthProvider.tsx 15-22 DEFAULT_USER *)
definition DEFAULT_USER :: user_info where
  "DEFAULT_USER = \<lparr>username = js ''admin'', full_name = Some (js ''Admin''), email = js ''admin@localhost'',
     role = js ''admin'', is_master = True, teams = []\<rparr>"

text \<open>The stores the bootstrap writes, and its own state.\<close>

(* src: frontend/src/components/auth/AuthProvider.tsx 37-42 AuthBootstrap *)
record boot =
  bt_auth :: auth_state
  bt_ai :: ai_state
  bt_app :: app_config
  bt_authConfig :: "auth_config option"
  bt_loading :: bool

(* src: frontend/src/components/auth/AuthProvider.tsx 37-42 AuthBootstrap *)
definition init_boot :: boot where
  "init_boot = \<lparr>bt_auth = init_auth, bt_ai = init_ai, bt_app = init_app_config,
     bt_authConfig = None, bt_loading = True\<rparr>"

definition sign_in_default :: "auth_state \<Rightarrow> auth_state" where
  "sign_in_default a = setToken (Some (js ''no-sso'')) (setUser (Some DEFAULT_USER) a)"

text \<open>The part of \<open>loadConfig\<close> after the request settled, with the cancelled flag as it is then.\<close>

(* src: frontend/src/components/auth/AuthProvider.tsx 47-75 loadConfig *)
definition loadConfig :: "bool \<Rightarrow> unit + auth_config \<Rightarrow> boot \<Rightarrow> boot" where
  "loadConfig cancelled result b =
     (if cancelled then b
      else
        (case result of
           Inr config \<Rightarrow>
             (let b1 = b\<lparr>bt_authConfig := Some config, bt_auth := setSsoEnabled (sso_enabled config) (bt_auth b)\<rparr>;
                  b2 = (case truthy (ai_greeting config) of
                          Some g \<Rightarrow> b1\<lparr>bt_ai := setGreeting g (bt_ai b1)\<rparr> | None \<Rightarrow> b1);
                  b3 = b2\<lparr>bt_app := setBranding (app_name config) (app_owner config) (bt_app b2)\<rparr>;
                  b4 = (case ai_request_timeout_seconds config of
                          Some n \<Rightarrow> if n \<noteq> 0 then b3\<lparr>bt_app := setAiRequestTimeoutMs (n * 1000) (bt_app b3)\<rparr> else b3
                        | None \<Rightarrow> b3);
                  b5 = (if \<not> sso_enabled config then b4\<lparr>bt_auth := sign_in_default (bt_auth b4)\<rparr> else b4)
              in b5\<lparr>bt_loading := False\<rparr>)
         | Inl _ \<Rightarrow>
             b\<lparr>bt_auth := sign_in_default (setSsoEnabled False (bt_auth b)), bt_loading := False\<rparr>))"

(* src: frontend/src/components/auth/AuthProvider.tsx 99-115 oidcConfig *)
record oidc_config =
  oc_authority :: jsstr
  oc_client_id :: jsstr
  oc_redirect_uri :: jsstr
  oc_post_logout_redirect_uri :: jsstr
  oc_scope :: jsstr
  oc_automaticSilentRenew :: bool
  oc_client_secret :: "jsstr option"

(* src: frontend/src/components/auth/AuthProvider.tsx 97-115 oidcConfig *)
definition oidcConfig :: "jsstr \<Rightarrow> auth_config \<Rightarrow> oidc_config" where
  "oidcConfig origin c =
     \<lparr>oc_authority = issuer_url c, oc_client_id = client_id c, oc_redirect_uri = origin @ js ''/'',
      oc_post_logout_redirect_uri = origin @ js ''/'', oc_scope = js ''openid profile email'',
      oc_automaticSilentRenew = True, oc_client_secret = truthy (client_secret c)\<rparr>"

section \<open>The guard\<close>

record oidc =
  oi_loading :: bool
  oi_authenticated :: bool
  oi_access_token :: "jsstr option"
  oi_error :: "jsstr option"

text \<open>
  The user query is keyed by the token and disabled without one; a disabled query has no data,
  is not loading and has not failed.  \<open>me\<close> is the state of the query of each token.
\<close>

(* src: frontend/src/hooks/use-auth.ts 6-19 useCurrentUser *)
definition useCurrentUser :: "(jsstr \<Rightarrow> user_info query) \<Rightarrow> auth_state \<Rightarrow> user_info query" where
  "useCurrentUser me a =
     (case truthy (token a) of
        None \<Rightarrow> \<lparr>q_data = None, q_loading = False, q_error = False\<rparr>
      | Some t \<Rightarrow> me t)"

datatype screen = Loading_configuration | Authenticating | Login | User_error | App

(* src: frontend/src/components/auth/AuthGuard.tsx 82-103 SSOGuard *)
definition SSOGuard :: "oidc \<Rightarrow> (jsstr \<Rightarrow> user_info query) \<Rightarrow> auth_state \<Rightarrow> screen" where
  "SSOGuard o' me a =
     (let q = useCurrentUser me a
      in if oi_loading o' then Authenticating
         else if \<not> oi_authenticated o' then Login
         else if \<not> isAuthenticated a \<and> q_error q then User_error
         else if \<not> isAuthenticated a \<and> q_loading q then Authenticating
         else App)"

(* src: frontend/src/components/auth/AuthGuard.tsx 19-28 AuthGuard *)
definition AuthGuard :: "oidc \<Rightarrow> (jsstr \<Rightarrow> user_info query) \<Rightarrow> auth_state \<Rightarrow> screen" where
  "AuthGuard o' me a = (if \<not> ssoEnabled a then App else SSOGuard o' me a)"

(* src: frontend/src/components/auth/AuthProvider.tsx 83-126 AuthBootstrap *)
definition AuthBootstrap :: "oidc \<Rightarrow> (jsstr \<Rightarrow> user_info query) \<Rightarrow> boot \<Rightarrow> screen" where
  "AuthBootstrap o' me b =
     (if bt_loading b then Loading_configuration else AuthGuard o' me (bt_auth b))"

section \<open>The effects of the guard\<close>

text \<open>
  An effect runs when a dependency differs from its last run; the guard remembers them
  (\<open>None\<close>: not run since it mounted).
\<close>

record guard =
  gd_auth :: auth_state
  gd_oidc :: oidc
  gd_me :: "jsstr \<Rightarrow> user_info query"
  gd_seen_data :: "user_info option option"
  gd_seen_token :: "(bool \<times> jsstr option) option"
  gd_seen_login :: "bool option"

(* src: frontend/src/hooks/use-auth.ts 21-23 useEffect *)
definition user_effect :: "guard \<Rightarrow> guard" where
  "user_effect g =
     (let d = q_data (useCurrentUser (gd_me g) (gd_auth g))
      in if gd_seen_data g = Some d then g
         else g\<lparr>gd_seen_data := Some d,
                gd_auth := (case d of None \<Rightarrow> gd_auth g | Some u \<Rightarrow> setUser (Some u) (gd_auth g))\<rparr>)"

(* src: frontend/src/components/auth/AuthGuard.tsx 46-51 useEffect *)
definition token_effect :: "guard \<Rightarrow> guard" where
  "token_effect g =
     (let deps = (oi_authenticated (gd_oidc g), oi_access_token (gd_oidc g))
      in if gd_seen_token g = Some deps then g
         else g\<lparr>gd_seen_token := Some deps,
                gd_auth := (case truthy (snd deps) of
                   Some t \<Rightarrow> if fst deps then setToken (Some t) (gd_auth g) else gd_auth g
                 | None \<Rightarrow> gd_auth g)\<rparr>)"

(* src: frontend/src/components/auth/AuthGuard.tsx 53-67 useEffect *)
definition callback_effects :: "guard \<Rightarrow> guard" where
  "callback_effects g =
     (let a = oi_authenticated (gd_oidc g)
      in if gd_seen_login g = Some a then g
         else
           (let cleaned = setOidcSigninSilent None (setOidcSignout None (gd_auth g))
            in g\<lparr>gd_seen_login := Some a,
                 gd_auth := (if a then setOidcSigninSilent (Some ()) (setOidcSignout (Some ()) cleaned) else cleaned)\<rparr>))"

text \<open>The URL after the redirect back from the identity provider.\<close>

record location =
  lo_pathname :: jsstr
  lo_params :: "(jsstr \<times> jsstr) list"
  lo_fragment :: jsstr

(* src: frontend/src/components/auth/AuthGuard.tsx 69-80 useEffect *)
definition clean_url_effect :: "oidc \<Rightarrow> location \<Rightarrow> location" where
  "clean_url_effect o' l =
     (if oi_authenticated o' \<and> list_ex (\<lambda>(k, v). k = js ''code'' \<or> k = js ''state'') (lo_params l)
      then \<lparr>lo_pathname = lo_pathname l, lo_params = [], lo_fragment = []\<rparr> else l)"

definition mount_guard :: "oidc \<Rightarrow> (jsstr \<Rightarrow> user_info query) \<Rightarrow> auth_state \<Rightarrow> guard" where
  "mount_guard o' me a = \<lparr>gd_auth = a, gd_oidc = o', gd_me = me,
     gd_seen_data = None, gd_seen_token = None, gd_seen_login = None\<rparr>"

text \<open>
  A run of the mounted guard: the provider reports a new state, the user queries progress, the
  HTTP client refreshes the token or logs out, and React commits a render and runs the effects.
\<close>

datatype guard_event =
    Oidc oidc
  | Me "jsstr \<Rightarrow> user_info query"
  | Refreshed "jsstr option"
  | Session_lost
  | Commit

primrec guard_step :: "guard_event \<Rightarrow> guard \<Rightarrow> guard" where
  "guard_step (Oidc o') g = g\<lparr>gd_oidc := o'\<rparr>"
| "guard_step (Me me) g = g\<lparr>gd_me := me\<rparr>"
| "guard_step (Refreshed t) g = g\<lparr>gd_auth := setToken t (gd_auth g)\<rparr>"
| "guard_step Session_lost g = g\<lparr>gd_auth := logout (gd_auth g)\<rparr>"
| "guard_step Commit g = callback_effects (token_effect (user_effect g))"

definition guard_screen :: "guard \<Rightarrow> screen" where
  "guard_screen g = SSOGuard (gd_oidc g) (gd_me g) (gd_auth g)"

section \<open>The login page\<close>

datatype login_event = Sign_in

(* src: frontend/src/components/auth/LoginPage.tsx 5-74 LoginPage *)
definition LoginPage :: "oidc \<Rightarrow> app_config \<Rightarrow> login_event ui" where
  "LoginPage o' c =
     Box [Txt (appName c), Txt (js ''Data Architecture Command Center''),
       Txt (js ''Sign in with your organization account to continue''),
       Btn (if oi_loading o' then js ''Redirecting...'' else js ''Sign in with SSO'') (oi_loading o') Sign_in,
       (case oi_error o' of None \<Rightarrow> Box [] | Some m \<Rightarrow> Txt m),
       Txt (js ''Secure authentication via OpenID Connect''),
       show_if (appOwner c \<noteq> []) (Txt (js ''Made by '' @ appOwner c))]"

(* src: frontend/src/components/auth/AuthGuard.tsx 105-136 AuthLoadingScreen AuthErrorScreen *)
definition guard_message :: "screen \<Rightarrow> jsstr option" where
  "guard_message sc = (case sc of
     Authenticating \<Rightarrow> Some (js ''Authenticating...'')
   | User_error \<Rightarrow> Some (js ''Failed to load user profile'')
   | Loading_configuration \<Rightarrow> Some (js ''Loading configuration...'')
   | Login \<Rightarrow> None
   | App \<Rightarrow> None)"

section \<open>What the bootstrap establishes\<close>

lemma loadConfig_auth:
  "bt_auth (loadConfig False (Inr c) b) =
     (if sso_enabled c then setSsoEnabled True (bt_auth b) else sign_in_default (setSsoEnabled False (bt_auth b)))"
  by (auto simp: loadConfig_def Let_def split: option.splits)

lemma loadConfig_frame [simp]:
  "bt_loading (loadConfig False r b) = False"
  "bt_authConfig (loadConfig False (Inr c) b) = Some c"
  by (auto simp: loadConfig_def Let_def split: option.splits sum.splits)

text \<open>
  Without single sign-on, and equally when the configuration cannot be read, the bootstrap
  ends with the application shown to the built-in administrator, and the token it stores is
  never sent: the request interceptor leaves every request without an authorization header.
\<close>

theorem no_sso_opens_as_admin:
  assumes "case r of Inr c \<Rightarrow> \<not> sso_enabled c | Inl _ \<Rightarrow> True"
  shows "let b = loadConfig False r init_boot in
    AuthBootstrap o' me b = App \<and> user (bt_auth b) = Some DEFAULT_USER \<and> isAdmin (user (bt_auth b)) \<and>
    attach_token (bt_auth b) cfg = cfg"
proof -
  have a: "bt_auth (loadConfig False r init_boot) = sign_in_default (setSsoEnabled False init_auth)"
    using assms by (cases r) (simp_all add: loadConfig_auth init_boot_def, simp add: loadConfig_def)
  show ?thesis
    unfolding Let_def a AuthBootstrap_def loadConfig_frame
    by (simp add: a AuthGuard_def sign_in_default_def auth_ops attach_token_def isAdmin_def DEFAULT_USER_def)
qed

theorem no_sso_opens_as_admin_witness:
  "user (bt_auth (loadConfig False (Inl ()) init_boot)) = Some DEFAULT_USER"
  using no_sso_opens_as_admin [of "Inl ()"] by (simp add: Let_def)

text \<open>
  Mounting the bootstrap twice, as React's strict mode does, is mounting it once: the load of
  the discarded mount changes nothing, in whichever order the two loads settle.
\<close>

theorem cancelled_load_is_inert:
  "loadConfig False r (loadConfig True r' b) = loadConfig False r b \<and>
   loadConfig True r' (loadConfig False r b) = loadConfig False r b"
  by (simp add: loadConfig_def)

section \<open>What the guard shows\<close>

text \<open>
  With single sign-on the application is shown only to a user the identity provider reports
  as signed in, whatever the session store holds; and once the store has a user, token refreshes
  and refetches of the user do not take the application away.
\<close>

theorem sso_app_needs_login:
  "(AuthBootstrap o' me b = App \<longleftrightarrow> \<not> bt_loading b \<and>
      (ssoEnabled (bt_auth b) = False \<or>
       \<not> oi_loading o' \<and> oi_authenticated o' \<and>
       (isAuthenticated (bt_auth b) \<or>
        \<not> q_error (useCurrentUser me (bt_auth b)) \<and> \<not> q_loading (useCurrentUser me (bt_auth b))))) \<and>
   (SSOGuard o' me a = App \<and> isAuthenticated a \<longleftrightarrow>
    SSOGuard o' me' (setToken t a) = App \<and> isAuthenticated a)"
  by (auto simp: AuthBootstrap_def AuthGuard_def SSOGuard_def Let_def setToken_def)

text \<open>
  A session the HTTP client has given up leaves the application on screen without a user as
  long as the provider still reports the old login: with the token gone the user query is
  disabled, so it is neither loading nor failed.
\<close>

theorem lost_session_keeps_app:
  assumes "oi_authenticated o'" and "\<not> oi_loading o'"
  shows "SSOGuard o' me (logout a) = App \<and> user (logout a) = None"
  using assms by (simp add: SSOGuard_def useCurrentUser_def auth_ops Let_def)

theorem lost_session_keeps_app_witness:
  "SSOGuard \<lparr>oi_loading = False, oi_authenticated = True, oi_access_token = Some [97], oi_error = None\<rparr>
     (\<lambda>t. \<lparr>q_data = None, q_loading = True, q_error = False\<rparr>) (logout init_auth) = App"
  using lost_session_keeps_app
    [of "\<lparr>oi_loading = False, oi_authenticated = True, oi_access_token = Some [97], oi_error = None\<rparr>"]
  by simp

text \<open>What holds of the callbacks along a run, and after a commit.\<close>

definition guard_ok :: "guard \<Rightarrow> bool" where
  "guard_ok g \<longleftrightarrow>
     (oidcSignout (gd_auth g) \<noteq> None \<longleftrightarrow> gd_seen_login g = Some True) \<and>
     (oidcSigninSilent (gd_auth g) \<noteq> None \<longleftrightarrow> gd_seen_login g = Some True) \<and>
     auth_ok (gd_auth g)"

lemma guard_ok_step: "guard_ok g \<Longrightarrow> guard_ok (guard_step e g)"
  by (cases e)
    (auto simp: guard_ok_def auth_ok_def auth_ops user_effect_def token_effect_def callback_effects_def Let_def
      split: option.splits)

interpretation guard_run: event_machine guard_step "mount_guard o' me (setSsoEnabled True init_auth)" guard_ok
  for o' me
  by unfold_locales
    (simp_all add: guard_ok_step, simp add: guard_ok_def mount_guard_def auth_ok_def auth_ops init_auth_def)

lemma commit_seen:
  "gd_seen_login (guard_step Commit g) = Some (oi_authenticated (gd_oidc g))"
  "gd_seen_token (guard_step Commit g) = Some (oi_authenticated (gd_oidc g), oi_access_token (gd_oidc g))"
  by (auto simp: user_effect_def token_effect_def callback_effects_def Let_def split: option.splits)

text \<open>
  C11: after every commit the sign-out and silent sign-in callbacks that the HTTP client uses are
  registered exactly when the provider reports a signed-in user, and the session store is
  authenticated exactly when it has a user.
\<close>

theorem callbacks_follow_login:
  "let g = guard_step Commit (fold guard_step es (mount_guard o' me (setSsoEnabled True init_auth))) in
     (oidcSignout (gd_auth g) \<noteq> None \<longleftrightarrow> oi_authenticated (gd_oidc g)) \<and>
     (oidcSigninSilent (gd_auth g) \<noteq> None \<longleftrightarrow> oi_authenticated (gd_oidc g)) \<and>
     (isAuthenticated (gd_auth g) \<longleftrightarrow> user (gd_auth g) \<noteq> None)"
proof -
  let ?g = "fold guard_step es (mount_guard o' me (setSsoEnabled True init_auth))"
  have ok: "guard_ok (guard_step Commit ?g)"
    by (rule guard_ok_step) (rule guard_run.inv_run)
  have oidc: "gd_oidc (guard_step Commit ?g) = gd_oidc ?g"
    by (auto simp: user_effect_def token_effect_def callback_effects_def Let_def split: option.splits)
  from ok show ?thesis
    unfolding Let_def guard_ok_def auth_ok_def commit_seen oidc by blast
qed



end
