(* ===== verification/Formatting.thy ===== *)
theory Formatting
  imports Js_Prelude Complex_Main
begin

text \<open>
  The display helpers: \<^verbatim>\<open>lib/format.ts\<close> and \<^verbatim>\<open>lib/status-config.ts\<close>.  Durations are
  JavaScript numbers, read here as rationals: the divisions, floors and roundings of
  \<^verbatim>\<open>formatDuration\<close> and of the date differences give on doubles what they give on the
  exact values, because a double below a multiple of the unit stays below it when divided.
  Only \<^verbatim>\<open>formatCount\<close> can see the rounding of a division, so its quotient is rounded to a
  double (\<open>to_double\<close>).  Parsing a timestamp, the current time and the locale's rendering
  of a date are the environment's.
\<close>

section \<open>Numbers\<close>

definition math_round :: "rat \<Rightarrow> int" where
  "math_round x = \<lfloor>x + 1 / 2\<rfloor>"

text \<open>\<^verbatim>\<open>x % y\<close> on non-negative \<open>x\<close> and positive \<open>y\<close>, and in general (truncating).\<close>

definition js_rem :: "rat \<Rightarrow> rat \<Rightarrow> rat" where
  "js_rem x y = (if 0 \<le> x / y then x - y * of_int \<lfloor>x / y\<rfloor> else x - y * of_int \<lceil>x / y\<rceil>)"

(* src: frontend/src/lib/format.ts 5-13 formatDuration *)
definition formatDuration :: "rat \<Rightarrow> jsstr" where
  "formatDuration seconds =
     (if seconds < 60 then num_str (math_round seconds) @ js ''s''
      else
        (let mins = \<lfloor>seconds / 60\<rfloor>; secs = math_round (js_rem seconds 60)
         in if mins < 60
            then (if secs > 0 then num_str mins @ js ''m '' @ num_str secs @ js ''s''
                  else num_str mins @ js ''m'')
            else
              (let hrs = \<lfloor>of_int mins / (60 :: rat)\<rfloor>; remainMins = mins mod 60
               in if remainMins > 0 then num_str hrs @ js ''h '' @ num_str remainMins @ js ''m''
                  else num_str hrs @ js ''h'')))"

text \<open>The suffix \<^verbatim>\<open>Dummy\<close>, in any case of its ASCII letters.\<close>

definition unit_lower :: "code_unit \<Rightarrow> code_unit" where
  "unit_lower c = (if 65 \<le> c \<and> c \<le> 90 then c + 32 else c)"

(* src: frontend/src/lib/format.ts 15-17 stripDummy *)
definition stripDummy :: "jsstr \<Rightarrow> jsstr" where
  "stripDummy name =
     (let n = length name - 5
      in if 5 \<le> length name \<and> map unit_lower (drop n name) = js ''dummy'' then take n name else name)"

text \<open>Rounding a rational of at least 1 to the nearest double, ties to even.\<close>

definition round_half_even :: "rat \<Rightarrow> int" where
  "round_half_even x =
     (let f = \<lfloor>x\<rfloor>; r = x - of_int f
      in if r < 1 / 2 then f else if r > 1 / 2 then f + 1 else if even f then f else f + 1)"

fun log2_floor :: "nat \<Rightarrow> nat" where
  "log2_floor n = (if n \<le> 1 then 0 else log2_floor (n div 2) + 1)"

declare log2_floor.simps [simp del]

definition to_double :: "rat \<Rightarrow> rat" where
  "to_double x =
     (let e = log2_floor (nat \<lfloor>x\<rfloor>)
      in if e \<le> 52 then of_int (round_half_even (x * 2 ^ (52 - e))) / 2 ^ (52 - e)
         else of_int (round_half_even (x / 2 ^ (e - 52))) * 2 ^ (e - 52))"

text \<open>\<^verbatim>\<open>toFixed(1)\<close>: the nearest tenth, the larger one on a tie.\<close>

definition to_fixed1 :: "rat \<Rightarrow> jsstr" where
  "to_fixed1 x = (let n = \<lfloor>x * 10 + 1 / 2\<rfloor> in num_str (n div 10) @ js ''.'' @ num_str (n mod 10))"

(* src: frontend/src/lib/format.ts 23-27 formatCount *)
definition formatCount :: "int \<Rightarrow> jsstr" where
  "formatCount n =
     (if n \<ge> 1000000 then to_fixed1 (to_double (of_int n / 1000000)) @ js ''M''
      else if n \<ge> 1000 then to_fixed1 (to_double (of_int n / 1000)) @ js ''k''
      else num_str n)"

section \<open>Dates\<close>

text \<open>
  A timestamp is its milliseconds since the epoch.  \<open>de_parse\<close> is \<^verbatim>\<open>new Date(iso).getTime()\<close>
  (\<open>None\<close> for \<^verbatim>\<open>NaN\<close>), \<open>de_format\<close> the locale rendering with the options the
  functions pass (\<open>None\<close>: it throws).
\<close>

datatype date_style = Month_day | Month_day_year | Month_day_time_utc | Time_utc

record date_env =
  de_parse :: "jsstr \<Rightarrow> int option"
  de_now :: int
  de_year :: "int \<Rightarrow> int"
  de_format :: "date_style \<Rightarrow> int \<Rightarrow> jsstr option"

text \<open>The frame the formatters share: nothing for an absent or unparsable timestamp, and for an
  exception.\<close>

definition with_date :: "date_env \<Rightarrow> 'a \<Rightarrow> (int \<Rightarrow> 'a option) \<Rightarrow> jsstr option \<Rightarrow> 'a" where
  "with_date env none f ts =
     (case ts of
        None \<Rightarrow> none
      | Some s \<Rightarrow>
          if s = [] then none
          else (case de_parse env s of
                  None \<Rightarrow> none
                | Some d \<Rightarrow> (case f d of None \<Rightarrow> none | Some r \<Rightarrow> r)))"

(* src: frontend/src/lib/format.ts 37-49 formatDateShort *)
definition formatDateShort :: "date_env \<Rightarrow> jsstr option \<Rightarrow> jsstr" where
  "formatDateShort env = with_date env em_dash
     (\<lambda>d. de_format env (if de_year env d \<noteq> de_year env (de_now env) then Month_day_year else Month_day) d)"

(* src: frontend/src/lib/format.ts 55-73 formatDateFull *)
definition formatDateFull :: "date_env \<Rightarrow> jsstr option \<Rightarrow> jsstr" where
  "formatDateFull env = with_date env em_dash
     (\<lambda>d. map_option (\<lambda>s. s @ js '' UTC'') (de_format env Month_day_time_utc d))"

(* src: frontend/src/lib/format.ts 79-95 formatTimeUTC *)
definition formatTimeUTC :: "date_env \<Rightarrow> jsstr option \<Rightarrow> jsstr" where
  "formatTimeUTC env = with_date env em_dash
     (\<lambda>d. map_option (\<lambda>s. s @ js '' UTC'') (de_format env Time_utc d))"

(* src: frontend/src/lib/format.ts 101-124 formatRelativeTime *)
definition formatRelativeTime :: "date_env \<Rightarrow> jsstr option \<Rightarrow> jsstr" where
  "formatRelativeTime env = with_date env em_dash
     (\<lambda>d. let diffMs = de_now env - d;
              diffSec = diffMs div 1000;
              diffMin = diffSec div 60;
              diffHour = diffMin div 60;
              diffDay = diffHour div 24
          in if diffSec < 60 then Some (js ''just now'')
             else if diffMin < 60 then Some (num_str diffMin @ js ''m ago'')
             else if diffHour < 24 then Some (num_str diffHour @ js ''h ago'')
             else if diffDay < 7 then Some (num_str diffDay @ js ''d ago'')
             else de_format env Month_day_year d)"

(* src: frontend/src/lib/format.ts 130-143 formatDateAdmin *)
definition formatDateAdmin :: "date_env \<Rightarrow> jsstr option \<Rightarrow> jsstr" where
  "formatDateAdmin env = with_date env em_dash (de_format env Month_day_year)"

record freshness =
  fr_label :: jsstr
  fr_stale :: bool

definition never_run :: freshness where
  "never_run = \<lparr>fr_label = js ''never'', fr_stale = True\<rparr>"

(* src: frontend/src/lib/format.ts 149-178 formatFreshness *)
definition formatFreshness :: "date_env \<Rightarrow> jsstr option \<Rightarrow> freshness" where
  "formatFreshness env = with_date env never_run
     (\<lambda>d. let diffMs = of_int (de_now env - d) :: rat;
              diffHour = diffMs / (1000 * 60 * 60);
              diffDay = diffHour / 24
          in Some
            (if diffHour < 4 then
               (let h = \<lfloor>diffHour\<rfloor>; m = \<lfloor>js_rem (diffMs / (1000 * 60)) 60\<rfloor>
                in \<lparr>fr_label = (if h > 0 then num_str h @ js ''h ago'' else num_str (max m 1) @ js ''m ago''),
                    fr_stale = False\<rparr>)
             else if diffHour < 24 then \<lparr>fr_label = num_str \<lfloor>diffHour\<rfloor> @ js ''h ago'', fr_stale = False\<rparr>
             else if diffDay < 3 then \<lparr>fr_label = num_str \<lfloor>diffDay\<rfloor> @ js ''d ago'', fr_stale = False\<rparr>
             else \<lparr>fr_label = num_str \<lfloor>diffDay\<rfloor> @ js ''d ago'', fr_stale = True\<rparr>))"

section \<open>Durations read back\<close>

text \<open>A reader of what \<open>formatDuration\<close> prints: the seconds that the text denotes.\<close>

fun read_duration :: "nat \<Rightarrow> jsstr \<Rightarrow> nat" where
  "read_duration cur [] = 0"
| "read_duration cur (c # s) =
     (if c = 115 then cur + read_duration 0 s
      else if c = 109 then 60 * cur + read_duration 0 s
      else if c = 104 then 3600 * cur + read_duration 0 s
      else if c = 32 then read_duration 0 s
      else read_duration (10 * cur + (unat c - 48)) s)"

lemma read_duration_units:
  "(\<And>c. c \<in> set ds \<Longrightarrow> 48 \<le> unat c \<and> unat c \<le> 57) \<Longrightarrow>
     read_duration cur (ds @ s) = read_duration (read_digits cur ds) s"
proof (induction ds arbitrary: cur)
  case (Cons c ds)
  have c: "48 \<le> unat c" "unat c \<le> 57" using Cons.prems by auto
  have "c \<noteq> 115" "c \<noteq> 109" "c \<noteq> 104" "c \<noteq> 32"
    using c by (auto simp: unsigned_numeral)
  then show ?case using Cons by (simp add: read_digits_def)
qed (simp add: read_digits_def)

lemma read_duration_digits [simp]: "read_duration 0 (digits n @ s) = read_duration n s"
  by (simp add: read_duration_units digits_range read_digits_digits)

lemma num_str_of_nat [simp]: "num_str (int n) = digits n"
  by (simp add: num_str_def)

lemma math_round_int [simp]: "math_round (of_int i) = i"
proof -
  have "\<lfloor>of_int i + 1 / 2 :: rat\<rfloor> = i" by (rule floor_unique) simp_all
  then show ?thesis by (simp add: math_round_def)
qed

lemma floor_div_60: "\<lfloor>(of_nat n :: rat) / 60\<rfloor> = int (n div 60)"
  using floor_divide_of_nat_eq [of n 60, where 'a = rat] by simp

lemma js_rem_60: "js_rem (of_nat n) 60 = of_int (int (n mod 60))"
proof -
  have "(of_nat n :: rat) = of_nat (60 * (n div 60) + n mod 60)" by simp
  also have "\<dots> = 60 * of_nat (n div 60) + of_nat (n mod 60)" by (simp only: of_nat_add of_nat_mult of_nat_numeral)
  finally have "(of_nat n :: rat) - 60 * of_nat (n div 60) = of_nat (n mod 60)" by linarith
  then show ?thesis
    unfolding js_rem_def floor_div_60 by simp
qed

lemma math_round_nat [simp]: "math_round (of_nat n) = int n"
  using math_round_int [of "int n"] by simp

lemma formatDuration_of_nat:
  "formatDuration (of_nat n) =
     (if n < 60 then digits n @ js ''s''
      else if n < 3600 then digits (n div 60) @ (if n mod 60 = 0 then js ''m'' else js ''m '' @ digits (n mod 60) @ js ''s'')
      else digits (n div 3600) @ (if n div 60 mod 60 = 0 then js ''h'' else js ''h '' @ digits (n div 60 mod 60) @ js ''m''))"
proof -
  have h: "\<lfloor>of_int (int (n div 60)) / (60 :: rat)\<rfloor> = int (n div 3600)"
    using floor_div_60 [of "n div 60"] by (simp add: div_mult2_eq [symmetric])
  have m: "int (n div 60) mod 60 = int (n div 60 mod 60)" by (simp add: zmod_int)
  have lt: "(of_nat n :: rat) < 60 \<longleftrightarrow> n < 60"
    by (metis of_nat_less_iff of_nat_numeral)
  have lt2: "int (n div 60) < 60 \<longleftrightarrow> n < 3600" by auto
  show ?thesis
    unfolding formatDuration_def Let_def floor_div_60 js_rem_60 math_round_int h m lt lt2 num_str_of_nat math_round_nat
    by auto
qed

text \<open>
  For a whole number of seconds the printed duration denotes that number, and from one
  hour on it denotes the whole minutes in it.
\<close>

theorem duration_reads_back:
  "read_duration 0 (formatDuration (of_nat n)) = (if n < 3600 then n else n - n mod 60)"
proof -
  have u: "js ''s'' = [115]" "js ''m'' = [109]" "js ''h'' = [104]"
    "js ''m '' = [109, 32]" "js ''h '' = [104, 32]"
    by (simp_all add: js_def)
  have n: "n = 60 * (n div 60) + n mod 60" "n div 60 = 60 * (n div 3600) + n div 60 mod 60"
    using div_mult2_eq [of n 60 60] by simp_all
  show ?thesis
  proof (cases "n < 3600")
    case True
    then show ?thesis using n(1) by (auto simp: formatDuration_of_nat u)
  next
    case False
    have "n - n mod 60 = 60 * (n div 60)" by (simp add: minus_mod_eq_mult_div)
    also have "\<dots> = 3600 * (n div 3600) + 60 * (n div 60 mod 60)" using n(2) by simp
    finally show ?thesis using False by (auto simp: formatDuration_of_nat u)
  qed
qed

text \<open>A fraction of a second can carry: the seconds are rounded after the minutes are cut off.\<close>

lemma duration_carries: "formatDuration (1197 / 10) = digits 1 @ js ''m '' @ digits 60 @ js ''s''"
proof -
  have m: "\<lfloor>(1197 / 10 / 60 :: rat)\<rfloor> = 1" by (rule floor_unique) simp_all
  have "js_rem (1197 / 10) 60 = 597 / 10" unfolding js_rem_def m by simp
  moreover have "math_round (597 / 10) = 60"
    unfolding math_round_def by (rule floor_unique) simp_all
  ultimately have r: "math_round (js_rem (1197 / 10) 60) = 60" by (simp only:)
  show ?thesis
    unfolding formatDuration_def Let_def m r by (simp add: num_str_def)
qed

section \<open>Ages of timestamps\<close>

lemma nested_seconds:
  fixes a :: int
  shows "a div 1000 div 60 = a div 60000" "a div 60000 div 60 = a div 3600000"
    "a div 3600000 div 24 = a div 86400000"
  by (simp_all add: zdiv_zmult2_eq [symmetric] flip: zdiv_zmult2_eq)

lemma div_less_iff: "0 < k \<Longrightarrow> (a :: int) div k < b \<longleftrightarrow> a < b * k"
  using zdiv_mono1 [of "b * k" a k] by (smt (verit) nonzero_mult_div_cancel_right pos_imp_zdiv_pos_iff zdiv_mono_strict div_mult_mod_eq pos_mod_sign pos_mod_bound mult_right_mono mult_less_cancel_right)

text \<open>
  The relative time of a readable timestamp is decided by its age in milliseconds, and the
  number in it is the age in the unit shown, rounded down: under a minute, minutes under an
  hour, hours under a day, days under a week, and the full date from there on.
\<close>

theorem relative_time_by_age:
  assumes "de_parse env s = Some d" and "s \<noteq> []"
  shows "formatRelativeTime env (Some s) =
    (let age = de_now env - d
     in if age < 60000 then js ''just now''
        else if age < 3600000 then num_str (age div 60000) @ js ''m ago''
        else if age < 86400000 then num_str (age div 3600000) @ js ''h ago''
        else if age < 604800000 then num_str (age div 86400000) @ js ''d ago''
        else (case de_format env Month_day_year d of None \<Rightarrow> em_dash | Some t \<Rightarrow> t))"
  using assms
  by (simp add: formatRelativeTime_def with_date_def Let_def nested_seconds div_less_iff
      split: option.split)

text \<open>An environment for the witnesses: timestamps are read as decimal seconds, now is day 10.\<close>

definition demo_env :: date_env where
  "demo_env = \<lparr>de_parse = (\<lambda>s. if s = [] then None else Some (1000 * int (read_digits 0 s))), de_now = 864000000,
     de_year = (\<lambda>_. 1970), de_format = (\<lambda>_ _. Some (js ''date''))\<rparr>"

theorem relative_time_by_age_witness:
  "formatRelativeTime demo_env (Some (digits 856700)) = js ''2h ago''"
proof -
  have "de_parse demo_env (digits 856700) = Some 856700000" by (simp add: demo_env_def read_digits_digits)
  from relative_time_by_age [OF this] show ?thesis
    by (simp add: demo_env_def num_str_def digits.simps) (simp add: js_def)
qed

lemma floor_divide_int: "0 < k \<Longrightarrow> \<lfloor>of_int a / (of_int k :: rat)\<rfloor> = a div k"
  by (rule floor_divide_of_int_eq)

lemma formatFreshness_by_age:
  assumes "de_parse env s = Some d" and "s \<noteq> []" and a: "de_now env - d = a"
  shows "formatFreshness env (Some s) =
    (if a < 14400000 then
       \<lparr>fr_label = (if 3600000 \<le> a then num_str (a div 3600000) @ js ''h ago''
          else num_str (max \<lfloor>js_rem (of_int a / 60000) 60\<rfloor> 1) @ js ''m ago''), fr_stale = False\<rparr>
     else if a < 86400000 then \<lparr>fr_label = num_str (a div 3600000) @ js ''h ago'', fr_stale = False\<rparr>
     else \<lparr>fr_label = num_str (a div 86400000) @ js ''d ago'', fr_stale = 259200000 \<le> a\<rparr>)"
proof -
  have fl: "\<lfloor>of_int a / (1000 * 60 * 60 :: rat)\<rfloor> = a div 3600000"
    "\<lfloor>of_int a / (1000 * 60 * 60) / (24 :: rat)\<rfloor> = a div 86400000"
    using floor_divide_int [of 3600000 a] floor_divide_int [of 86400000 a] by simp_all
  have lt: "of_int a / (1000 * 60 * 60 :: rat) < 4 \<longleftrightarrow> a < 14400000"
    "of_int a / (1000 * 60 * 60 :: rat) < 24 \<longleftrightarrow> a < 86400000"
    "of_int a / (1000 * 60 * 60) / (24 :: rat) < 3 \<longleftrightarrow> a < 259200000"
    using of_int_less_iff [where 'a = rat, of a 14400000] of_int_less_iff [where 'a = rat, of a 86400000]
      of_int_less_iff [where 'a = rat, of a 259200000]
    by (simp_all add: divide_less_eq)
  have pos: "0 < a div 3600000 \<longleftrightarrow> 3600000 \<le> a" by (simp add: pos_imp_zdiv_pos_iff)
  have min: "of_int a / (1000 * 60) = (of_int a / 60000 :: rat)" by simp
  have day: "a < 259200000 \<longleftrightarrow> \<not> 259200000 \<le> a" by auto
  show ?thesis
    unfolding formatFreshness_def with_date_def assms(1) a Let_def option.case fl lt pos min day
    using assms(2) by (cases "s = []"; cases "a < 14400000"; cases "a < 86400000"; cases "259200000 \<le> a"; simp)
qed

lemma minutes_of_age:
  assumes "0 \<le> a" "a < 3600000"
  shows "\<lfloor>js_rem (of_int a / 60000) 60\<rfloor> = a div 60000"
proof -
  have "(0 :: rat) \<le> of_int a / 60000 / 60" using assms by simp
  moreover have "\<lfloor>of_int a / 60000 / (60 :: rat)\<rfloor> = 0"
    using floor_divide_int [of 3600000 a] assms by simp
  ultimately have "js_rem (of_int a / 60000) 60 = of_int a / of_int 60000"
    unfolding js_rem_def by simp
  then show ?thesis using floor_divide_int [of 60000 a] by (simp only:)
qed

text \<open>
  A readable timestamp is stale exactly from three days of age on; and between one minute
  and one week of age the freshness label is the relative time.
\<close>

theorem freshness_agrees_with_relative_time:
  assumes "de_parse env s = Some d" and "s \<noteq> []"
  shows "(fr_stale (formatFreshness env (Some s)) \<longleftrightarrow> 259200000 \<le> de_now env - d) \<and>
    (if 60000 \<le> de_now env - d \<and> de_now env - d < 604800000
     then fr_label (formatFreshness env (Some s)) = formatRelativeTime env (Some s) else True)"
proof -
  obtain a where a: "de_now env - d = a" by simp
  note fresh = formatFreshness_by_age [OF assms a]
    and rel = relative_time_by_age [OF assms, unfolded a Let_def]
  have stale: "fr_stale (formatFreshness env (Some s)) \<longleftrightarrow> 259200000 \<le> a"
    unfolding fresh by auto
  have label: "fr_label (formatFreshness env (Some s)) = formatRelativeTime env (Some s)"
    if "60000 \<le> a" "a < 604800000"
  proof (cases "a < 3600000")
    case True
    have "max (a div 60000) 1 = a div 60000"
      using that(1) pos_imp_zdiv_pos_iff [of 60000 a] by simp
    with True that show ?thesis unfolding fresh rel by (simp add: minutes_of_age)
  next
    case False
    with that show ?thesis unfolding fresh rel by simp
  qed
  from stale label show ?thesis unfolding a by simp
qed

theorem freshness_agrees_with_relative_time_witness:
  "fr_label (formatFreshness demo_env (Some (digits 856700)))
     = formatRelativeTime demo_env (Some (digits 856700))"
proof -
  have "de_parse demo_env (digits 856700) = Some 856700000" by (simp add: demo_env_def read_digits_digits)
  from freshness_agrees_with_relative_time [OF this] show ?thesis by (simp add: demo_env_def)
qed

section \<open>Run statuses\<close>

(* src: frontend/src/lib/status-config.ts 1-14 StatusStyle *)
record status_style =
  st_dot :: jsstr
  st_glow :: jsstr
  st_label :: jsstr
  st_text :: jsstr
  st_bg :: jsstr
  st_activePill :: jsstr

(* src: frontend/src/lib/status-config.ts 16-132 STATUS_CONFIG *)
definition STATUS_CONFIG :: "(jsstr \<times> status_style) list" where
  "STATUS_CONFIG =
    [(js ''success'', \<lparr>st_dot = js ''bg-emerald-400'',
        st_glow = js ''shadow-[0_0_8px_rgba(52,211,153,0.7)]'', st_label = js ''Success'',
        st_text = js ''text-emerald-400/80'', st_bg = js ''bg-emerald-500/8'',
        st_activePill = js ''text-emerald-300 bg-emerald-500/15 border-emerald-500/30''\<rparr>),
     (js ''failed'', \<lparr>st_dot = js ''bg-rose-400'',
        st_glow = js ''shadow-[0_0_8px_rgba(251,113,133,0.7)]'', st_label = js ''Failed'',
        st_text = js ''text-rose-400/80'', st_bg = js ''bg-rose-500/8'',
        st_activePill = js ''text-rose-300 bg-rose-500/15 border-rose-500/30''\<rparr>),
     (js ''upstream_failed'', \<lparr>st_dot = js ''bg-orange-400'',
        st_glow = js ''shadow-[0_0_8px_rgba(251,146,60,0.7)]'', st_label = js ''Upstream Failed'',
        st_text = js ''text-orange-400/80'', st_bg = js ''bg-orange-500/8'',
        st_activePill = js ''text-orange-300 bg-orange-500/15 border-orange-500/30''\<rparr>),
     (js ''running'', \<lparr>st_dot = js ''bg-amber-400 animate-pulse'',
        st_glow = js ''shadow-[0_0_8px_rgba(251,191,36,0.7)]'', st_label = js ''Running'',
        st_text = js ''text-amber-400/80'', st_bg = js ''bg-amber-500/8'',
        st_activePill = js ''text-amber-300 bg-amber-500/15 border-amber-500/30''\<rparr>),
     (js ''queued'', \<lparr>st_dot = js ''bg-sky-400'',
        st_glow = js ''shadow-[0_0_8px_rgba(56,189,248,0.5)]'', st_label = js ''Queued'',
        st_text = js ''text-sky-400/80'', st_bg = js ''bg-sky-500/8'',
        st_activePill = js ''text-sky-300 bg-sky-500/15 border-sky-500/30''\<rparr>),
     (js ''skipped'', \<lparr>st_dot = js ''bg-pink-400'',
        st_glow = js ''shadow-[0_0_8px_rgba(244,114,182,0.5)]'', st_label = js ''Skipped'',
        st_text = js ''text-pink-400/80'', st_bg = js ''bg-pink-500/8'',
        st_activePill = js ''text-pink-300 bg-pink-500/15 border-pink-500/30''\<rparr>),
     (js ''up_for_retry'', \<lparr>st_dot = js ''bg-yellow-400'',
        st_glow = js ''shadow-[0_0_8px_rgba(250,204,21,0.5)]'', st_label = js ''Up For Retry'',
        st_text = js ''text-yellow-400/80'', st_bg = js ''bg-yellow-500/8'',
        st_activePill = js ''text-yellow-300 bg-yellow-500/15 border-yellow-500/30''\<rparr>),
     (js ''deferred'', \<lparr>st_dot = js ''bg-purple-400'',
        st_glow = js ''shadow-[0_0_8px_rgba(192,132,252,0.5)]'', st_label = js ''Deferred'',
        st_text = js ''text-purple-400/80'', st_bg = js ''bg-purple-500/8'',
        st_activePill = js ''text-purple-300 bg-purple-500/15 border-purple-500/30''\<rparr>),
     (js ''scheduled'', \<lparr>st_dot = js ''bg-cyan-400'',
        st_glow = js ''shadow-[0_0_8px_rgba(34,211,238,0.5)]'', st_label = js ''Scheduled'',
        st_text = js ''text-cyan-400/80'', st_bg = js ''bg-cyan-500/8'',
        st_activePill = js ''text-cyan-300 bg-cyan-500/15 border-cyan-500/30''\<rparr>),
     (js ''up_for_reschedule'', \<lparr>st_dot = js ''bg-teal-400'',
        st_glow = js ''shadow-[0_0_8px_rgba(45,212,191,0.5)]'', st_label = js ''Up For Reschedule'',
        st_text = js ''text-teal-400/80'', st_bg = js ''bg-teal-500/8'',
        st_activePill = js ''text-teal-300 bg-teal-500/15 border-teal-500/30''\<rparr>),
     (js ''removed'', \<lparr>st_dot = js ''bg-zinc-400'',
        st_glow = js '''', st_label = js ''Removed'',
        st_text = js ''text-zinc-400/80'', st_bg = js ''bg-zinc-500/8'',
        st_activePill = js ''text-zinc-300 bg-zinc-500/15 border-zinc-500/30''\<rparr>),
     (js ''restarting'', \<lparr>st_dot = js ''bg-violet-400 animate-pulse'',
        st_glow = js ''shadow-[0_0_8px_rgba(167,139,250,0.5)]'', st_label = js ''Restarting'',
        st_text = js ''text-violet-400/80'', st_bg = js ''bg-violet-500/8'',
        st_activePill = js ''text-violet-300 bg-violet-500/15 border-violet-500/30''\<rparr>),
     (js ''no_status'', \<lparr>st_dot = js ''bg-slate-400'',
        st_glow = js '''', st_label = js ''No Status'',
        st_text = js ''text-slate-400/80'', st_bg = js ''bg-slate-500/8'',
        st_activePill = js ''text-slate-300 bg-slate-500/15 border-slate-500/30''\<rparr>),
     (js ''unknown'', \<lparr>st_dot = js ''bg-slate-500'',
        st_glow = js '''', st_label = js ''Unknown'',
        st_text = js ''text-slate-500'', st_bg = js ''bg-white/[0.02]'',
        st_activePill = js ''text-slate-300 bg-slate-500/15 border-slate-500/30''\<rparr>)]"

text \<open>The properties every object inherits, which an indexing of the table also finds.\<close>

definition object_prototype :: "jsstr list" where
  "object_prototype = [js ''constructor'', js ''__defineGetter__'', js ''__defineSetter__'', js ''hasOwnProperty'',
     js ''__lookupGetter__'', js ''__lookupSetter__'', js ''isPrototypeOf'', js ''propertyIsEnumerable'',
     js ''toString'', js ''valueOf'', js ''__proto__'', js ''toLocaleString'']"

datatype status_lookup = Style status_style | Inherited jsstr

(* src: frontend/src/lib/status-config.ts 134-137 getStatusStyle *)
definition getStatusStyle :: "jsstr \<Rightarrow> status_lookup" where
  "getStatusStyle status =
     (case map_of STATUS_CONFIG status of
        Some st \<Rightarrow> Style st
      | None \<Rightarrow>
          if status \<in> set object_prototype then Inherited status
          else Style (the (map_of STATUS_CONFIG (js ''unknown''))))"

(* src: frontend/src/lib/status-config.ts 139-144 STATUS_SEVERITY_ORDER *)
definition STATUS_SEVERITY_ORDER :: "jsstr list" where
  "STATUS_SEVERITY_ORDER =
     [js ''failed'', js ''upstream_failed'', js ''restarting'', js ''up_for_retry'',
      js ''running'', js ''up_for_reschedule'', js ''queued'', js ''scheduled'', js ''deferred'',
      js ''skipped'', js ''success'', js ''removed'', js ''no_status'', js ''unknown'']"

lemma STATUS_CONFIG_keys:
  "map fst STATUS_CONFIG = [js ''success'', js ''failed'', js ''upstream_failed'', js ''running'', js ''queued'',
     js ''skipped'', js ''up_for_retry'', js ''deferred'', js ''scheduled'', js ''up_for_reschedule'',
     js ''removed'', js ''restarting'', js ''no_status'', js ''unknown'']"
  unfolding STATUS_CONFIG_def by (simp only: list.map fst_conv)

lemma own_status: "s \<in> fst ` set STATUS_CONFIG \<longleftrightarrow> map_of STATUS_CONFIG s \<noteq> None"
  by (simp add: map_of_eq_None_iff)

text \<open>
  The severity order ranks every configured status exactly once; a configured status is
  styled by its own entry, and every other one by the entry of \<open>unknown\<close>, except the names that
  objects inherit, for which the lookup does not return a style at all.
\<close>

theorem status_styles:
  "distinct STATUS_SEVERITY_ORDER \<and> set STATUS_SEVERITY_ORDER = fst ` set STATUS_CONFIG \<and>
   getStatusStyle s =
     (if s \<in> set STATUS_SEVERITY_ORDER then Style (the (map_of STATUS_CONFIG s))
      else if s \<in> set object_prototype then Inherited s
      else Style (the (map_of STATUS_CONFIG (js ''unknown''))))"
proof -
  have d: "distinct STATUS_SEVERITY_ORDER"
    by (simp add: STATUS_SEVERITY_ORDER_def)
  have e: "set STATUS_SEVERITY_ORDER = fst ` set STATUS_CONFIG"
    by (simp only: set_map [symmetric] STATUS_CONFIG_keys) (auto simp: STATUS_SEVERITY_ORDER_def)
  then have "getStatusStyle s =
     (if s \<in> set STATUS_SEVERITY_ORDER then Style (the (map_of STATUS_CONFIG s))
      else if s \<in> set object_prototype then Inherited s
      else Style (the (map_of STATUS_CONFIG (js ''unknown''))))"
    by (auto simp: getStatusStyle_def own_status)
  with d e show ?thesis by blast
qed

end
