(* ===== verification/Catalog.thy ===== *)
theory Catalog
  imports Data_Api Preferences Formatting
begin

text \<open>
  The product registry: its store (\<^verbatim>\<open>stores/data-product-store.ts\<close>), the derived lists,
  the two selection effects and the list pane of \<^verbatim>\<open>DataProductRegistry.tsx\<close>, with the
  filter drawer, the search box and the list item.  \<^verbatim>\<open>localeCompare\<close> depends on the
  browser's collation and is the parameter \<open>lc\<close>.
\<close>

section \<open>The store\<close>

(* src: frontend/src/stores/data-product-store.ts 3-14 DataProductState *)
record catalog_state =
  selectedProductId :: "jsstr option"
  searchQuery :: jsstr
  filtersOpen :: bool
  teamFilters :: "jsstr list"
  scheduleFilters :: "jsstr list"
  cs_hash :: jsstr

datatype dimension = Team | Schedule

(* src: frontend/src/stores/data-product-store.ts 21-26 useDataProductStore *)
definition init_catalog :: "jsstr \<Rightarrow> catalog_state" where
  "init_catalog hash = \<lparr>selectedProductId = None, searchQuery = [], filtersOpen = False,
     teamFilters = [], scheduleFilters = [], cs_hash = hash\<rparr>"

(* src: frontend/src/stores/data-product-store.ts 27-30 setSelectedProductId *)
definition setSelectedProductId :: "jsstr option \<Rightarrow> catalog_state \<Rightarrow> catalog_state" where
  "setSelectedProductId i s = s\<lparr>selectedProductId := i, cs_hash := js ''#data-products''\<rparr>"

(* src: frontend/src/stores/data-product-store.ts 31-31 setSearchQuery *)
definition setSearchQuery :: "jsstr \<Rightarrow> catalog_state \<Rightarrow> catalog_state" where
  "setSearchQuery q s = s\<lparr>searchQuery := q\<rparr>"

(* src: frontend/src/stores/data-product-store.ts 32-32 setFiltersOpen *)
definition setFiltersOpen :: "bool \<Rightarrow> catalog_state \<Rightarrow> catalog_state" where
  "setFiltersOpen b s = s\<lparr>filtersOpen := b\<rparr>"

(* src: frontend/src/stores/data-product-store.ts 16-19 FILTER_KEYS *)
definition get_filters :: "dimension \<Rightarrow> catalog_state \<Rightarrow> jsstr list" where
  "get_filters d s = (case d of Team \<Rightarrow> teamFilters s | Schedule \<Rightarrow> scheduleFilters s)"

(* src: frontend/src/stores/data-product-store.ts 33-43 toggleFilter *)
definition toggleFilter :: "dimension \<Rightarrow> jsstr \<Rightarrow> catalog_state \<Rightarrow> catalog_state" where
  "toggleFilter d v s =
     (let current = get_filters d s;
          next = (if v \<in> set current then set_delete v current else set_add v current)
      in case d of Team \<Rightarrow> s\<lparr>teamFilters := next\<rparr> | Schedule \<Rightarrow> s\<lparr>scheduleFilters := next\<rparr>)"

(* src: frontend/src/stores/data-product-store.ts 44-49 clearAllFilters *)
definition clearAllFilters :: "catalog_state \<Rightarrow> catalog_state" where
  "clearAllFilters s = s\<lparr>teamFilters := [], scheduleFilters := []\<rparr>"

lemmas catalog_ops = setSelectedProductId_def setSearchQuery_def setFiltersOpen_def toggleFilter_def
  clearAllFilters_def get_filters_def

lemma get_filters_toggle:
  "get_filters d (toggleFilter e v s) = (if d = e then set_toggle v (get_filters d s) else get_filters d s)"
  by (cases d; cases e) (simp_all add: toggleFilter_def get_filters_def set_toggle_def Let_def)

interpretation filter_toggling: membership_toggle "toggleFilter d" "\<lambda>s. set (get_filters d s)"
    "\<lambda>s. distinct (get_filters d s)" for d
  by unfold_locales (simp_all add: get_filters_toggle distinct_set_toggle set_set_toggle)

section \<open>Derived lists\<close>

(* src: frontend/src/components/data-products/DataProductRegistry.tsx 34-39 serverFilters *)
definition serverFilters :: "catalog_state \<Rightarrow> filter_params option" where
  "serverFilters s =
     (let f = \<lparr>fp_team = (if length (teamFilters s) > 0 then Some (teamFilters s) else None),
               fp_schedule = (if length (scheduleFilters s) > 0 then Some (scheduleFilters s) else None)\<rparr>
      in if fp_team f \<noteq> None \<or> fp_schedule f \<noteq> None then Some f else None)"

(* src: frontend/src/components/data-products/DataProductRegistry.tsx 51-54 products *)
definition loaded_products :: "list_item response_page list option \<Rightarrow> list_item list" where
  "loaded_products pages = (case pages of None \<Rightarrow> [] | Some ps \<Rightarrow> concat (map pg_items ps))"

(* src: frontend/src/components/data-products/DataProductRegistry.tsx 56-57 hasActiveFilters *)
definition hasActiveFilters :: "catalog_state \<Rightarrow> bool" where
  "hasActiveFilters s \<longleftrightarrow> length (teamFilters s) > 0 \<or> length (scheduleFilters s) > 0"

text \<open>The truthy values of a field over the products, each once, in first-seen order.\<close>

definition field_values :: "(list_item \<Rightarrow> jsstr option) \<Rightarrow> list_item list \<Rightarrow> jsstr list" where
  "field_values f ps = set_of_array (List.map_filter (\<lambda>p. truthy (f p)) ps)"

(* src: frontend/src/components/data-products/DataProductRegistry.tsx 59-65 availableTeams *)
definition availableTeams :: "list_item list \<Rightarrow> jsstr list" where
  "availableTeams ps = sort_by unit_cmp (field_values li_team ps)"

(* src: frontend/src/components/data-products/DataProductRegistry.tsx 67-73 availableSchedules *)
definition availableSchedules :: "list_item list \<Rightarrow> jsstr list" where
  "availableSchedules ps = sort_by unit_cmp (field_values li_schedule_type ps)"

definition passes :: "jsstr list \<Rightarrow> jsstr option \<Rightarrow> bool" where
  "passes fs v \<longleftrightarrow> \<not> (length fs > 0 \<and> (case truthy v of None \<Rightarrow> True | Some t \<Rightarrow> t \<notin> set fs))"

(* src: frontend/src/components/data-products/DataProductRegistry.tsx 76-85 filteredProducts *)
definition filteredProducts :: "catalog_state \<Rightarrow> list_item list \<Rightarrow> list_item list" where
  "filteredProducts s ps =
     (if ps = [] then []
      else if \<not> hasActiveFilters s then ps
      else filter (\<lambda>p. passes (teamFilters s) (li_team p) \<and> passes (scheduleFilters s) (li_schedule_type p)) ps)"

definition group_name :: "list_item \<Rightarrow> jsstr" where
  "group_name p = (case truthy (li_team p) of Some t \<Rightarrow> t | None \<Rightarrow> js ''Unassigned'')"

definition favorites_category :: jsstr where
  "favorites_category = black_star @ js '' Favorites''"

(* src: frontend/src/components/data-products/DataProductRegistry.tsx 16-19 CategoryGroup *)
type_synonym category_group = "jsstr \<times> list_item list"

(* src: frontend/src/components/data-products/DataProductRegistry.tsx 99-113 sorted *)
definition team_groups :: "(jsstr \<Rightarrow> jsstr \<Rightarrow> int) \<Rightarrow> list_item list \<Rightarrow> category_group list" where
  "team_groups lc filtered =
     (let groups = group_by group_name filtered;
          sorted_items = map (\<lambda>(g, items). (g, sort_by (\<lambda>a b. lc (li_name a) (li_name b)) items)) groups
      in sort_by (\<lambda>a b. lc (fst a) (fst b)) sorted_items)"

(* src: frontend/src/components/data-products/DataProductRegistry.tsx 89-117 groupedProducts *)
definition groupedProducts ::
  "(jsstr \<Rightarrow> jsstr \<Rightarrow> int) \<Rightarrow> jsstr list \<Rightarrow> list_item list \<Rightarrow> category_group list" where
  "groupedProducts lc favs filtered =
     (if filtered = [] then []
      else
        (let favProducts = filter (\<lambda>p. li_id p \<in> set favs) filtered
         in (if favProducts \<noteq> [] then [(favorites_category, favProducts)] else []) @ team_groups lc filtered))"

(* src: frontend/src/components/data-products/DataProductRegistry.tsx 133-139 filterSummary *)
definition filterSummary :: "catalog_state \<Rightarrow> jsstr option" where
  "filterSummary s =
     (if \<not> hasActiveFilters s then None
      else Some (join (js '' '' @ middle_dot @ js '' '')
        ((if length (teamFilters s) > 0 then [join (js '', '') (teamFilters s)] else []) @
         (if length (scheduleFilters s) > 0 then [join (js '', '') (scheduleFilters s)] else []))))"

(* src: frontend/src/components/data-products/DataProductRegistry.tsx 141-141 isFiltered *)
definition isFiltered :: "catalog_state \<Rightarrow> list_item list \<Rightarrow> bool" where
  "isFiltered s ps \<longleftrightarrow> hasActiveFilters s \<and> length ps > 0 \<and> length (filteredProducts s ps) \<noteq> length ps"

section \<open>The selection effects\<close>

text \<open>Both effects run after a render, on the values of that render, in this order.\<close>

(* src: frontend/src/components/data-products/DataProductRegistry.tsx 119-123 useEffect *)
definition select_first_effect :: "category_group list \<Rightarrow> jsstr option \<Rightarrow> catalog_state \<Rightarrow> catalog_state" where
  "select_first_effect grouped sel s =
     (if grouped \<noteq> [] \<and> truthy sel = None
      then setSelectedProductId (Some (li_id (hd (snd (hd grouped))))) s else s)"

(* src: frontend/src/components/data-products/DataProductRegistry.tsx 125-131 useEffect *)
definition keep_visible_effect :: "list_item list \<Rightarrow> jsstr option \<Rightarrow> catalog_state \<Rightarrow> catalog_state" where
  "keep_visible_effect filtered sel s =
     (if truthy sel = None \<or> filtered = [] then s
      else if list_ex (\<lambda>p. Some (li_id p) = sel) filtered then s
      else setSelectedProductId (Some (li_id (hd filtered))) s)"

definition registry_effects ::
  "(jsstr \<Rightarrow> jsstr \<Rightarrow> int) \<Rightarrow> jsstr list \<Rightarrow> list_item list \<Rightarrow> catalog_state \<Rightarrow> catalog_state" where
  "registry_effects lc favs ps s =
     (let filtered = filteredProducts s ps; sel = selectedProductId s
      in keep_visible_effect filtered sel (select_first_effect (groupedProducts lc favs filtered) sel s))"

section \<open>The search box\<close>

text \<open>Its text, and the milliseconds left on the pending timer, if one is.\<close>

record search_box =
  sb_local :: jsstr
  sb_timer :: "nat option"

datatype search_event = Type jsstr | Elapse nat

(* src: frontend/src/components/data-products/DataProductSearch.tsx 11-22 DataProductSearch *)
definition init_search :: search_box where
  "init_search = \<lparr>sb_local = [], sb_timer = Some 300\<rparr>"

text \<open>A change of the text cancels the pending timer and starts a new one; typing the text that
  is already there renders nothing new and leaves the timer.\<close>

(* src: frontend/src/components/data-products/DataProductSearch.tsx 17-33 DataProductSearch *)
primrec search_step :: "search_event \<Rightarrow> search_box \<times> catalog_state \<Rightarrow> search_box \<times> catalog_state" where
  "search_step (Type t) bs =
     (case bs of (b, s) \<Rightarrow>
        (if t = sb_local b then bs else (b\<lparr>sb_local := t, sb_timer := Some 300\<rparr>, s)))"
| "search_step (Elapse n) bs =
     (case bs of (b, s) \<Rightarrow>
        (case sb_timer b of
           None \<Rightarrow> bs
         | Some left \<Rightarrow>
             if left \<le> n then (b\<lparr>sb_timer := None\<rparr>, setSearchQuery (sb_local b) s)
             else (b\<lparr>sb_timer := Some (left - n)\<rparr>, s)))"

(* src: frontend/src/components/data-products/DataProductSearch.tsx 13-15 activeFilterCount *)
definition activeFilterCount :: "catalog_state \<Rightarrow> int" where
  "activeFilterCount s = (if length (teamFilters s) > 0 then 1 else 0) +
     (if length (scheduleFilters s) > 0 then 1 else 0)"

section \<open>Views\<close>

datatype registry_event =
    Open_create
  | Search search_event
  | Open_filters bool
  | Toggle dimension jsstr
  | Clear_filters
  | Refetch
  | Select jsstr
  | Star jsstr
  | Load_more

(* src: frontend/src/components/data-products/DataProductSearch.tsx 24-54 DataProductSearch *)
definition search_view :: "search_box \<Rightarrow> catalog_state \<Rightarrow> registry_event ui" where
  "search_view b s =
     Box [Inp (sb_local b) False (\<lambda>t. Search (Type t)),
          Btn (if activeFilterCount s > 0 then num_str (activeFilterCount s) else []) False
            (Open_filters (\<not> filtersOpen s))]"

(* src: frontend/src/components/data-products/DataProductFilters.tsx 76-88 FilterSection *)
definition FilterSection :: "jsstr \<Rightarrow> registry_event ui list \<Rightarrow> registry_event ui" where
  "FilterSection label children = Box [Txt label, Box children]"

(* src: frontend/src/components/data-products/DataProductFilters.tsx 12-74 DataProductFilters *)
definition DataProductFilters :: "jsstr list \<Rightarrow> jsstr list \<Rightarrow> catalog_state \<Rightarrow> registry_event ui" where
  "DataProductFilters teamList scheduleList s =
     (let hasActive = length (teamFilters s) > 0 \<or> length (scheduleFilters s) > 0
      in Box
        [Txt (js ''Filters''),
         show_if hasActive (Btn (js ''Clear all'') False Clear_filters),
         show_if (length teamList > 0)
           (FilterSection (js ''Team'') (map (\<lambda>t. Btn t False (Toggle Team t)) teamList)),
         show_if (length scheduleList > 0)
           (FilterSection (js ''Schedule'') (map (\<lambda>t. Btn t False (Toggle Schedule t)) scheduleList))])"

(* src: frontend/src/components/data-products/DataProductListItem.tsx 13-71 DataProductListItem *)
definition DataProductListItem :: "list_item \<Rightarrow> registry_event ui" where
  "DataProductListItem p =
     Box [Btn [] False (Star (li_id p)),
          Btn (stripDummy (li_name p)) False (Select (li_id p)),
          (case truthy (li_team p) of Some t \<Rightarrow> Txt t | None \<Rightarrow> Box []),
          (case truthy (li_schedule_type p) of Some t \<Rightarrow> Txt t | None \<Rightarrow> Box [])]"

record registry_query =
  rg_pages :: "list_item response_page list option"
  rg_loading :: bool
  rg_error :: bool
  rg_fetching :: bool

definition hasNextPage :: "registry_query \<Rightarrow> bool" where
  "hasNextPage q = (case rg_pages q of
     None \<Rightarrow> False
   | Some ps \<Rightarrow> ps \<noteq> [] \<and> getNextPageParam (last ps) ps \<noteq> None)"

(* src: frontend/src/components/data-products/DataProductRegistry.tsx 148-270 DataProductRegistry *)
definition DataProductRegistry ::
  "(jsstr \<Rightarrow> jsstr \<Rightarrow> int) \<Rightarrow> jsstr list \<Rightarrow> registry_query \<Rightarrow> search_box \<Rightarrow> catalog_state \<Rightarrow> registry_event ui" where
  "DataProductRegistry lc favs q b s =
     (let products = loaded_products (rg_pages q);
          filtered = filteredProducts s products;
          grouped = groupedProducts lc favs filtered
      in Box
        [Txt (js ''Data Products''),
         Btn (js ''New Data Product'') False Open_create,
         search_view b s,
         DataProductFilters (availableTeams products) (availableSchedules products) s,
         show_if (\<not> filtersOpen s \<and> hasActiveFilters s)
           (Box [Txt (js ''Filtered:''), Txt (case filterSummary s of None \<Rightarrow> [] | Some t \<Rightarrow> t),
                 Btn [] False Clear_filters]),
         show_if (isFiltered s products)
           (Txt (js ''Showing '' @ num_str (int (length filtered)) @ js '' of '' @ num_str (int (length products)))),
         show_if (rg_error q)
           (Box [Txt (js ''Failed to load data products''), Btn (js ''Retry'') False Refetch]),
         show_if (\<not> rg_loading q \<and> \<not> rg_error q \<and> grouped = [])
           (Box [Txt (js ''No data products found''),
                 Btn (js ''Create your first data product'') False Open_create]),
         Box (map (\<lambda>(category, items). Box
            [Txt (category @ js '' ('' @ num_str (int (length items)) @ js '')''),
             Box (map DataProductListItem items)]) grouped),
         show_if (hasNextPage q)
           (Btn (if rg_fetching q then js ''Loading...'' else js ''Load more'') (rg_fetching q) Load_more)])"

section \<open>Filtering\<close>

lemma passes_iff: "passes fs v \<longleftrightarrow> fs = [] \<or> (\<exists>t \<in> set fs. v = Some t \<and> t \<noteq> [])"
  by (auto simp: passes_def truthy_eq_Some split: option.splits)

lemma filteredProducts_eq:
  "filteredProducts s ps =
     filter (\<lambda>p. passes (teamFilters s) (li_team p) \<and> passes (scheduleFilters s) (li_schedule_type p)) ps"
  by (auto simp: filteredProducts_def hasActiveFilters_def passes_iff)

lemma set_field_values [simp]: "set (field_values f ps) = {t. t \<noteq> [] \<and> (\<exists>p \<in> set ps. f p = Some t)}"
  by (auto simp: field_values_def set_map_filter truthy_eq_Some)

text \<open>
  Starting without filters, after any sequence of clicks on team pills the list shows, in
  their order, exactly the products whose team was clicked an odd number of times, or all of
  them when every team was clicked an even number of times.
\<close>

theorem team_pill_clicks:
  assumes "teamFilters s = []" and "scheduleFilters s = []"
  shows "filteredProducts (fold (toggleFilter Team) clicked s) ps =
    filter (\<lambda>p. list_all (\<lambda>t. even (count_list clicked t)) clicked \<or>
       (case truthy (li_team p) of None \<Rightarrow> False | Some t \<Rightarrow> odd (count_list clicked t))) ps"
proof -
  let ?s = "fold (toggleFilter Team) clicked s"
  have sched: "scheduleFilters ?s = []"
    using assms(2) by (induction clicked arbitrary: s) (auto simp: toggleFilter_def Let_def)
  have d: "distinct (get_filters Team s)" and e: "get_filters Team s = []"
    using assms(1) by (simp_all add: get_filters_def)
  have mem: "t \<in> set (teamFilters ?s) \<longleftrightarrow> odd (count_list clicked t)" for t
    using filter_toggling.members_toggles [OF d, of t clicked] e by (simp add: get_filters_def)
  have empty: "teamFilters ?s = [] \<longleftrightarrow> list_all (\<lambda>t. even (count_list clicked t)) clicked"
  proof
    assume "teamFilters ?s = []"
    then show "list_all (\<lambda>t. even (count_list clicked t)) clicked"
      using mem by (auto simp: list_all_iff)
  next
    assume all: "list_all (\<lambda>t. even (count_list clicked t)) clicked"
    have "t \<notin> set (teamFilters ?s)" for t
      using all mem [of t] by (cases "t \<in> set clicked") (auto simp: list_all_iff)
    then show "teamFilters ?s = []" by (metis last_in_set)
  qed
  show ?thesis
    unfolding filteredProducts_eq sched
    by (rule filter_cong) (auto simp: passes_iff empty [symmetric] mem [symmetric] truthy_eq_Some split: option.splits)
qed

definition demo_product :: "string \<Rightarrow> string \<Rightarrow> string \<Rightarrow> list_item" where
  "demo_product i n t = \<lparr>li_id = js i, li_name = js n, li_description = None, li_schedule_type = None,
     li_team = Some (js t)\<rparr>"

theorem team_pill_clicks_witness:
  "map li_id (filteredProducts (fold (toggleFilter Team) [js ''ops'', js ''core'', js ''ops''] (init_catalog []))
     [demo_product ''1'' ''a'' ''ops'', demo_product ''2'' ''b'' ''core'']) = [js ''2'']"
  using team_pill_clicks [of "init_catalog []" "[js ''ops'', js ''core'', js ''ops'']"
      "[demo_product ''1'' ''a'' ''ops'', demo_product ''2'' ''b'' ''core'']"]
  by (simp add: init_catalog_def demo_product_def)

text \<open>
  Once a team filter is on and the server has applied it, the drawer offers only the pills
  of selected teams: a click on a team pill can only take a team away, never add one.
\<close>

theorem filtered_drawer_only_deselects:
  assumes "teamFilters s \<noteq> []"
    and "list_all (\<lambda>p. passes (teamFilters s) (li_team p)) ps"
    and "Toggle Team t \<in> raises (DataProductFilters (availableTeams ps) (availableSchedules ps) s)"
  shows "t \<in> set (teamFilters s) \<and> set (teamFilters (toggleFilter Team t s)) \<subset> set (teamFilters s)"
proof -
  have "t \<in> set (availableTeams ps)"
    using assms(3) by (auto simp: DataProductFilters_def FilterSection_def Let_def split: if_splits)
  then obtain p where "p \<in> set ps" "li_team p = Some t" "t \<noteq> []"
    by (auto simp: availableTeams_def)
  with assms(1,2) have t: "t \<in> set (teamFilters s)"
    by (auto simp: list_all_iff passes_iff)
  then have "set (teamFilters (toggleFilter Team t s)) = set (teamFilters s) - {t}"
    by (simp add: toggleFilter_def get_filters_def Let_def)
  with t show ?thesis by auto
qed

theorem filtered_drawer_only_deselects_witness:
  "set (teamFilters (toggleFilter Team (js ''ops'') ((init_catalog [])\<lparr>teamFilters := [js ''ops'']\<rparr>))) \<subset> {js ''ops''}"
proof -
  let ?s = "(init_catalog [])\<lparr>teamFilters := [js ''ops'']\<rparr>"
  let ?ps = "[demo_product ''1'' ''a'' ''ops'']"
  have "js ''ops'' \<in> set (availableTeams ?ps)"
    by (simp add: availableTeams_def demo_product_def)
  then have r: "Toggle Team (js ''ops'') \<in> raises (DataProductFilters (availableTeams ?ps) (availableSchedules ?ps) ?s)"
    by (auto simp: DataProductFilters_def FilterSection_def Let_def)
  have "list_all (\<lambda>p. passes (teamFilters ?s) (li_team p)) ?ps"
    by (simp add: passes_iff demo_product_def)
  from filtered_drawer_only_deselects [OF _ this r] show ?thesis by simp
qed

section \<open>Grouping\<close>

lemma team_groups_entry:
  "(g, items) \<in> set (team_groups lc ps) \<longleftrightarrow>
     g \<in> group_name ` set ps \<and>
     items = sort_by (\<lambda>a b. lc (li_name a) (li_name b)) (filter (\<lambda>p. group_name p = g) ps)"
  unfolding team_groups_def Let_def set_sort_by set_map image_iff bex_pair_map group_by_entry
  by blast

lemma distinct_team_groups: "distinct (map fst (team_groups lc ps))"
proof -
  have fst: "map fst (map (\<lambda>(g, items). (g, h items)) gs) = map fst gs" for h and gs :: "category_group list"
    by (induction gs) auto
  have "mset (map fst (sort_by c gs)) = mset (map fst gs)" for c and gs :: "category_group list"
    by simp
  then have "distinct (map fst (sort_by c gs)) = distinct (map fst gs)" for c and gs :: "category_group list"
    by (rule mset_eq_imp_distinct_iff)
  then show ?thesis
    unfolding team_groups_def Let_def by (simp only: fst distinct_group_by)
qed

lemma mset_team_groups: "mset (concat (map snd (team_groups lc ps))) = mset ps"
proof -
  have sorted: "mset (concat (map snd (sort_by c gs))) = mset (concat (map snd gs))"
    for c and gs :: "category_group list"
    by (rule mset_concat_perm) simp
  have items: "mset (concat (map snd (map (\<lambda>(g, items). (g, sort_by c items)) gs))) = mset (concat (map snd gs))"
    for c and gs :: "category_group list"
    by (induction gs) auto
  show ?thesis
    unfolding team_groups_def Let_def by (simp only: sorted items mset_group_by)
qed

text \<open>
  C15: with a consistent collation the registry's team groups are sorted by team, no team occurs
  twice, each group holds exactly the listed products of its team, sorted by name, and together
  the groups hold every listed product once; a section of the favourites, in list order, comes
  first exactly when some listed product is one.
\<close>

theorem registry_grouping:
  assumes "comparator lc" and "filtered \<noteq> []"
  shows "\<exists>gs. groupedProducts lc favs filtered =
      (let fav = filter (\<lambda>p. li_id p \<in> set favs) filtered
       in if fav = [] then gs else (favorites_category, fav) # gs) \<and>
    sorted_wrt (\<lambda>a b. lc (fst a) (fst b) \<le> 0) gs \<and> distinct (map fst gs) \<and>
    list_all (\<lambda>(g, items). sorted_wrt (\<lambda>a b. lc (li_name a) (li_name b) \<le> 0) items \<and>
       mset items = filter_mset (\<lambda>p. group_name p = g) (mset filtered)) gs \<and>
    mset (concat (map snd gs)) = mset filtered"
proof -
  have names: "comparator (\<lambda>a b. lc (li_name a) (li_name b))"
    and groups: "comparator (\<lambda>a b. lc (fst a) (fst b))" for a b :: category_group
    by (rule comparator_key [OF assms(1)])+
  let ?gs = "team_groups lc filtered"
  have "groupedProducts lc favs filtered =
      (let fav = filter (\<lambda>p. li_id p \<in> set favs) filtered
       in if fav = [] then ?gs else (favorites_category, fav) # ?gs)"
    using assms(2) by (simp add: groupedProducts_def Let_def)
  moreover have "sorted_wrt (\<lambda>a b. lc (fst a) (fst b) \<le> 0) ?gs"
    unfolding team_groups_def Let_def
    by (rule comparator.sorted_sort_by [OF comparator_key [OF assms(1)]])
  moreover have "list_all (\<lambda>(g, items). sorted_wrt (\<lambda>a b. lc (li_name a) (li_name b) \<le> 0) items \<and>
       mset items = filter_mset (\<lambda>p. group_name p = g) (mset filtered)) ?gs"
    using comparator.sorted_sort_by [OF names]
    by (auto simp: list_all_iff team_groups_entry)
  ultimately show ?thesis
    using distinct_team_groups [of lc filtered] mset_team_groups [of lc filtered] by blast
qed

theorem registry_grouping_witness:
  "\<exists>gs. groupedProducts unit_cmp [] [demo_product ''1'' ''b'' ''ops'', demo_product ''2'' ''a'' ''ops''] = gs \<and>
     mset (concat (map snd gs)) = {#demo_product ''1'' ''b'' ''ops'', demo_product ''2'' ''a'' ''ops''#}"
  using registry_grouping [OF unit_order.comparator_axioms,
      of "[demo_product ''1'' ''b'' ''ops'', demo_product ''2'' ''a'' ''ops'']" "[]"]
  by simp

section \<open>The selection follows the list\<close>

lemma groupedProducts_first:
  assumes "filtered \<noteq> []"
  shows "groupedProducts lc favs filtered \<noteq> [] \<and>
    hd (snd (hd (groupedProducts lc favs filtered))) \<in> set filtered"
proof -
  let ?gs = "team_groups lc filtered"
  have ne: "?gs \<noteq> []"
    using mset_team_groups [of lc filtered] assms by (cases ?gs) auto
  have items: "hd (snd (hd ?gs)) \<in> set filtered"
  proof -
    obtain g items where g: "hd ?gs = (g, items)" by (cases "hd ?gs")
    then have "(g, items) \<in> set ?gs" using ne by (metis hd_in_set)
    then have "g \<in> group_name ` set filtered" and i: "set items = {p \<in> set filtered. group_name p = g}"
      by (auto simp: team_groups_entry)
    then have "items \<noteq> []" by (cases items) auto
    then have "hd items \<in> set items" by simp
    with i g show ?thesis by simp
  qed
  have fav: "fs \<noteq> [] \<Longrightarrow> fs = filter P filtered \<Longrightarrow> hd fs \<in> set filtered" for fs P
    by (metis hd_in_set filter_is_subset subsetD)
  show ?thesis
    using assms ne items fav [OF _ refl, of "\<lambda>p. li_id p \<in> set favs"]
    by (auto simp: groupedProducts_def Let_def)
qed

lemma filteredProducts_frame:
  "teamFilters s' = teamFilters s \<Longrightarrow> scheduleFilters s' = scheduleFilters s \<Longrightarrow>
     filteredProducts s' ps = filteredProducts s ps"
  by (simp add: filteredProducts_eq)

text \<open>
  After the effects of a render with listed products, the selected product is a listed
  one, kept when it already was; without listed products the selection stays; and a second pass
  changes nothing, so the effects settle.
\<close>

theorem selection_is_listed:
  assumes "list_all (\<lambda>p. li_id p \<noteq> []) ps"
  shows "let s' = registry_effects lc favs ps s; ids = li_id ` set (filteredProducts s ps) in
    (if filteredProducts s ps = [] then s' = s
     else \<exists>i. selectedProductId s' = Some i \<and> i \<in> ids) \<and>
    (if selectedProductId s \<in> Some ` ids then s' = s else True) \<and>
    registry_effects lc favs ps s' = s'"
proof -
  let ?f = "filteredProducts s ps"
  have ids: "p \<in> set ?f \<Longrightarrow> li_id p \<noteq> []" for p
    using assms by (auto simp: filteredProducts_eq list_all_iff)
  define s' where "s' = registry_effects lc favs ps s"
  have frame: "filteredProducts s' ps = ?f"
    by (rule filteredProducts_frame)
      (simp_all add: s'_def registry_effects_def Let_def keep_visible_effect_def select_first_effect_def
        setSelectedProductId_def)
  have stay: "registry_effects lc favs ps t = t"
    if "filteredProducts t ps = ?f" "?f = [] \<or> selectedProductId t \<in> Some ` li_id ` set ?f" for t
    using that ids
    by (auto simp: registry_effects_def Let_def keep_visible_effect_def select_first_effect_def
        groupedProducts_def list_ex_iff)
  show ?thesis
  proof (cases "?f = []")
    case True
    then have "s' = s" using stay [of s] by (simp add: s'_def)
    then show ?thesis using True s'_def by (simp add: Let_def)
  next
    case False
    note first = groupedProducts_first [OF False, of lc favs]
    have sel: "selectedProductId s' \<in> Some ` li_id ` set ?f"
      using first False hd_in_set [OF False]
      by (auto simp: s'_def registry_effects_def Let_def keep_visible_effect_def select_first_effect_def
          setSelectedProductId_def list_ex_iff truthy_eq_Some)
    have again: "registry_effects lc favs ps s' = s'"
      by (rule stay [OF frame]) (simp add: sel)
    have "selectedProductId s \<in> Some ` li_id ` set ?f \<Longrightarrow> s' = s"
      using stay [of s] by (simp add: s'_def)
    with sel again False show ?thesis
      unfolding Let_def s'_def [symmetric] by auto
  qed
qed

theorem selection_is_listed_witness:
  "selectedProductId (registry_effects unit_cmp [] [demo_product ''1'' ''b'' ''ops''] (init_catalog [])) = Some (js ''1'')"
  using selection_is_listed [of "[demo_product ''1'' ''b'' ''ops'']" unit_cmp "[]" "init_catalog []"]
  by (simp add: demo_product_def filteredProducts_eq passes_iff init_catalog_def Let_def)

section \<open>Search and rows\<close>

lemma search_quiet:
  "list_all (\<lambda>e. case e of Type t \<Rightarrow> True | Elapse n \<Rightarrow> False) es \<Longrightarrow>
     snd (fold search_step es bs) = snd bs"
  by (induction es arbitrary: bs) (auto split: search_event.splits prod.splits)

definition keystrokes :: "(jsstr \<times> nat) list \<Rightarrow> search_event list" where
  "keystrokes ts = concat (map (\<lambda>(t, d). [Type t, Elapse d]) ts)"

lemma keystrokes_pending:
  assumes "list_all (\<lambda>(t, d). d < 300) ts" and "successively (\<lambda>a b. fst a \<noteq> fst b) ts"
    and "ts \<noteq> [] \<Longrightarrow> fst (hd ts) \<noteq> sb_local (fst bs)" and "ts \<noteq> []"
  shows "fold search_step (keystrokes ts) bs =
    ((fst bs)\<lparr>sb_local := fst (last ts), sb_timer := Some (300 - snd (last ts))\<rparr>, snd bs)"
  using assms
proof (induction ts arbitrary: bs)
  case (Cons td ts)
  obtain t d b s where td: "td = (t, d)" and bs: "bs = (b, s)" by (cases td, cases bs)
  let ?b = "b\<lparr>sb_local := t, sb_timer := Some (300 - d)\<rparr>"
  have step: "fold search_step (keystrokes (td # ts)) bs = fold search_step (keystrokes ts) (?b, s)"
    using Cons.prems by (simp add: keystrokes_def td bs)
  show ?case
  proof (cases ts)
    case Nil
    then show ?thesis using step by (simp add: keystrokes_def td bs)
  next
    case (Cons td' ts')
    then have "fold search_step (keystrokes ts) (?b, s) =
        (?b\<lparr>sb_local := fst (last ts), sb_timer := Some (300 - snd (last ts))\<rparr>, s)"
      using Cons.IH [of "(?b, s)"] Cons.prems by (auto simp: td)
    then show ?thesis using step Cons by (simp add: bs)
  qed
qed simp

text \<open>
  While the user types, changing the text at every stroke and pausing less than 300
  milliseconds between strokes, the searched query stays as it was; once 300 milliseconds pass
  without a stroke it becomes the text typed last, and only that text is ever searched for.
\<close>

theorem search_debounced:
  assumes "list_all (\<lambda>(t, d). d < 300) (ts @ [(t, 0)])" and "successively (\<lambda>a b. fst a \<noteq> fst b) (ts @ [(t, 0)])"
    and "fst (hd (ts @ [(t, 0)])) \<noteq> sb_local b" and "300 \<le> n"
  shows "snd (fold search_step (keystrokes (ts @ [(t, 0)])) (b, s)) = s \<and>
    snd (search_step (Elapse n) (fold search_step (keystrokes (ts @ [(t, 0)])) (b, s))) = setSearchQuery t s"
  using keystrokes_pending [of "ts @ [(t, 0)]" "(b, s)"] assms by simp

theorem search_debounced_witness:
  "searchQuery (snd (search_step (Elapse 300) (fold search_step (keystrokes [(js ''a'', 100), (js ''ab'', 0)])
     (init_search, init_catalog [])))) = js ''ab''"
  using search_debounced [of "[(js ''a'', 100)]" "js ''ab''" init_search 300 "init_catalog []"]
  by (simp add: init_search_def setSearchQuery_def)

lemma raises_item: "raises (DataProductListItem p) = {Star (li_id p), Select (li_id p)}"
  by (auto simp: DataProductListItem_def split: option.splits)

lemma raises_group:
  "raises (case x of (category, items) \<Rightarrow> Box [Txt (t category items), Box (map DataProductListItem items)]) =
     (\<Union>p \<in> set (snd x). {Star (li_id p), Select (li_id p)})"
  by (cases x) (simp add: raises_item)

lemma no_row_events:
  "Select i \<notin> raises (search_view b s)" "Star i \<notin> raises (search_view b s)"
  "Select i \<notin> raises (DataProductFilters ts cs s)" "Star i \<notin> raises (DataProductFilters ts cs s)"
  by (auto simp: search_view_def DataProductFilters_def FilterSection_def Let_def)

text \<open>
  The rows that can be clicked in the registry, and the stars, are exactly those of the
  products that pass the filters.
\<close>

theorem registry_rows:
  "{i. Select i \<in> raises (DataProductRegistry lc favs q b s)} =
     li_id ` set (filteredProducts s (loaded_products (rg_pages q))) \<and>
   {i. Star i \<in> raises (DataProductRegistry lc favs q b s)} =
     li_id ` set (filteredProducts s (loaded_products (rg_pages q)))"
proof -
  let ?f = "filteredProducts s (loaded_products (rg_pages q))"
  let ?g = "groupedProducts lc favs ?f"
  have "\<Union> (set ` snd ` set (team_groups lc ?f)) = set (concat (map snd (team_groups lc ?f)))"
    by auto
  also have "\<dots> = set ?f" using mset_team_groups [of lc ?f] by (metis set_mset_mset)
  finally have rows: "\<Union> (set ` snd ` set ?g) = set ?f"
    by (auto simp: groupedProducts_def Let_def)
  have "Select i \<in> raises (DataProductRegistry lc favs q b s) \<longleftrightarrow>
      (\<exists>p \<in> \<Union> (set ` snd ` set ?g). li_id p = i)"
    and "Star i \<in> raises (DataProductRegistry lc favs q b s) \<longleftrightarrow>
      (\<exists>p \<in> \<Union> (set ` snd ` set ?g). li_id p = i)" for i
    unfolding DataProductRegistry_def Let_def
    by (simp_all add: no_row_events raises_group del: set_concat) blast+
  then show ?thesis
    unfolding rows by auto
qed

end
