(* ===== verification/Tables_View.thy ===== *)
theory Tables_View
  imports Data_Api
begin

text \<open>
  Tables: the tables tab (\<^verbatim>\<open>components/tables/TablesView.tsx\<close>), the multi-select of tables
  (\<^verbatim>\<open>components/data-products/TableSelect.tsx\<close>) and the schema and snippet cards
  (\<^verbatim>\<open>SchemaViewer.tsx\<close>, \<^verbatim>\<open>ConsumeSnippet.tsx\<close>).  \<^verbatim>\<open>toLowerCase\<close> and
  \<^verbatim>\<open>localeCompare\<close> follow Unicode tables and the browser's collation: they are the
  parameters \<open>lower\<close> and \<open>lc\<close>.  The schema list is virtualised; the view shows its rows
  whatever window of them is on screen.
\<close>

section \<open>Keys\<close>

text \<open>\<^verbatim>\<open>namespace.table\<close>, the key of a table in the tab, the workspace and the select.\<close>

(* src: frontend/src/components/tables/TablesView.tsx 9-11 tableKey *)
definition tableKey :: "table_ref \<Rightarrow> jsstr" where
  "tableKey t = tr_namespace t @ [46] @ tr_table_name t"

lemma tableKey_nonempty [simp]: "tableKey t \<noteq> []"
  by (simp add: tableKey_def)

text \<open>Keys tell tables apart when no namespace contains a dot.\<close>

lemma takeWhile_until: "d \<notin> set n \<Longrightarrow> takeWhile (\<lambda>c. c \<noteq> d) (n @ d # r) = n"
  by (induction n) auto

lemma tableKey_inj:
  assumes "46 \<notin> set (tr_namespace t)" and "46 \<notin> set (tr_namespace u)" and "tableKey t = tableKey u"
  shows "t = u"
proof -
  have hd: "hd (split_on 46 (tableKey v)) = tr_namespace v" if "46 \<notin> set (tr_namespace v)" for v
    using that by (simp add: split_on_hd tableKey_def takeWhile_until)
  have "tr_namespace t = tr_namespace u"
    using hd [OF assms(1)] hd [OF assms(2)] assms(3) by simp
  with assms(3) show ?thesis by (simp add: tableKey_def)
qed

section \<open>Keeping a valid selection\<close>

text \<open>
  Two components keep the key of their active table valid with the same effect: no items, no
  key; a missing or stale key becomes the first item's.  The interface of such an effect: it
  establishes validity and leaves a valid key alone.
\<close>

locale selection_keeper =
  fixes effect :: "'a list \<Rightarrow> 'k option \<Rightarrow> 'k option"
    and key :: "'a \<Rightarrow> 'k"
  assumes effect_empty: "effect [] sel = None"
    and effect_keeps: "sel \<in> Some ` key ` set items \<Longrightarrow> effect items sel = sel"
    and effect_first: "items \<noteq> [] \<Longrightarrow> sel \<notin> Some ` key ` set items \<Longrightarrow> effect items sel = Some (key (hd items))"
begin

lemma effect_valid: "items \<noteq> [] \<Longrightarrow> effect items sel \<in> Some ` key ` set items"
  by (cases "sel \<in> Some ` key ` set items") (simp_all add: effect_keeps effect_first)

lemma effect_settles: "effect items (effect items sel) = effect items sel"
  by (cases "items = []") (simp_all add: effect_empty effect_keeps effect_valid)

lemma effect_selects: "items \<noteq> [] \<Longrightarrow> \<exists>t. find (\<lambda>t. Some (key t) = effect items sel) items = Some t"
proof -
  assume "items \<noteq> []"
  then obtain t where "t \<in> set items" "effect items sel = Some (key t)"
    using effect_valid by blast
  then have "find (\<lambda>t. Some (key t) = effect items sel) items \<noteq> None"
    by (auto simp: find_None_iff)
  then show ?thesis by blast
qed

lemma effect_none: "effect items sel = None \<longleftrightarrow> items = []"
proof (cases "items = []")
  case False
  then show ?thesis using effect_valid [of items sel] by auto
qed (simp add: effect_empty)

end

section \<open>The tables tab\<close>

(* src: frontend/src/components/tables/TablesView.tsx 15-17 useState *)
record tables_state =
  tv_search :: jsstr
  tv_teams :: "jsstr list"
  tv_selectedKey :: "jsstr option"

(* src: frontend/src/components/tables/TablesView.tsx 15-17 useState *)
definition init_tables :: tables_state where
  "init_tables = \<lparr>tv_search = [], tv_teams = [], tv_selectedKey = None\<rparr>"

(* src: frontend/src/components/tables/TablesView.tsx 19-25 toggleTeam *)
definition toggleTeam :: "jsstr \<Rightarrow> tables_state \<Rightarrow> tables_state" where
  "toggleTeam t s = s\<lparr>tv_teams :=
     (if t \<in> set (tv_teams s) then set_delete t (tv_teams s) else set_add t (tv_teams s))\<rparr>"

(* src: frontend/src/components/tables/TablesView.tsx 27-27 tables *)
definition tables_of :: "table_ref list query \<Rightarrow> table_ref list" where
  "tables_of q = (case q_data q of None \<Rightarrow> [] | Some ts \<Rightarrow> ts)"

(* src: frontend/src/components/tables/TablesView.tsx 29-33 teams *)
definition team_pills :: "table_ref list \<Rightarrow> jsstr list" where
  "team_pills ts = sort_by unit_cmp (set_of_array (map tr_namespace ts))"

(* src: frontend/src/components/tables/TablesView.tsx 35-42 filtered *)
definition filtered_tables :: "(jsstr \<Rightarrow> jsstr) \<Rightarrow> tables_state \<Rightarrow> table_ref list \<Rightarrow> table_ref list" where
  "filtered_tables lower s ts =
     (let q = lower (trim (tv_search s))
      in filter (\<lambda>t. if length (tv_teams s) > 0 \<and> tr_namespace t \<notin> set (tv_teams s) then False
                     else if q \<noteq> [] \<and> \<not> str_includes (lower (tr_table_name t)) q then False
                     else True) ts)"

(* src: frontend/src/components/tables/TablesView.tsx 44-52 grouped *)
definition grouped_tables ::
  "(jsstr \<Rightarrow> jsstr \<Rightarrow> int) \<Rightarrow> table_ref list \<Rightarrow> (jsstr \<times> table_ref list) list" where
  "grouped_tables lc filtered =
     sort_by (\<lambda>a b. lc (fst a) (fst b))
       (map (\<lambda>(n, l). (n, sort_by (\<lambda>a b. lc (tr_table_name a) (tr_table_name b)) l))
         (group_by tr_namespace filtered))"

(* src: frontend/src/components/tables/TablesView.tsx 54-63 useEffect *)
definition keep_selection :: "table_ref list \<Rightarrow> jsstr option \<Rightarrow> jsstr option" where
  "keep_selection filtered sel =
     (if filtered = [] then None
      else if truthy sel = None \<or> \<not> list_ex (\<lambda>t. Some (tableKey t) = sel) filtered
      then Some (tableKey (hd filtered))
      else sel)"

interpretation tables_selection: selection_keeper keep_selection tableKey
  by unfold_locales (auto simp: keep_selection_def list_ex_iff)

(* src: frontend/src/components/tables/TablesView.tsx 65-65 selected *)
definition selected_table :: "table_ref list \<Rightarrow> jsstr option \<Rightarrow> table_ref option" where
  "selected_table filtered sel = find (\<lambda>t. Some (tableKey t) = sel) filtered"

(* src: frontend/src/components/tables/TablesView.tsx 66-66 schema *)
definition schema_query :: "table_ref option \<Rightarrow> query_spec" where
  "schema_query sel = useTableSchema (map_option tr_namespace sel) (map_option tr_table_name sel)"

section \<open>Schema and snippet cards\<close>

text \<open>\<^verbatim>\<open>startsWith\<close>.\<close>

definition starts_with :: "jsstr \<Rightarrow> jsstr \<Rightarrow> bool" where
  "starts_with s p \<longleftrightarrow> take (length p) s = p"

(* src: frontend/src/components/bento-workspace/SchemaViewer.tsx 17-26 getDisplayDataType *)
definition getDisplayDataType :: "(jsstr \<Rightarrow> jsstr) \<Rightarrow> pipeline_field \<Rightarrow> jsstr" where
  "getDisplayDataType lower f =
     (case truthy (pf_data_type f) of
        Some t \<Rightarrow> t
      | None \<Rightarrow>
          (let l = lower (pf_name f)
           in if str_includes l (js ''id'') then js ''UUID''
              else if str_includes l (js ''amount'') \<or> str_includes l (js ''price'') then js ''FLOAT8''
              else if str_includes l (js ''date'') \<or> str_includes l (js ''time'') \<or> str_includes l (js ''created'')
              then js ''TIMESTAMP''
              else if starts_with l (js ''is_'') \<or> starts_with l (js ''has_'') then js ''BOOL''
              else js ''VARCHAR''))"

text \<open>What the cards of this theory and the views below raise.\<close>

datatype schema_event =
    Open_editor
  | Close_editor
  | Row_name nat jsstr
  | Row_type nat jsstr
  | Row_delete nat
  | Row_add
  | Save_schema
  | Copy jsstr

(* src: frontend/src/components/bento-workspace/SchemaViewer.tsx 124-140 SchemaEditorModal *)
record schema_editor =
  se_rows :: "(jsstr \<times> jsstr) list"
  se_saving :: bool

(* src: frontend/src/components/bento-workspace/SchemaViewer.tsx 136-139 useState *)
definition open_schema_editor :: "pipeline_field list \<Rightarrow> schema_editor" where
  "open_schema_editor fs =
     \<lparr>se_rows = map (\<lambda>f. (pf_name f, case pf_data_type f of None \<Rightarrow> [] | Some t \<Rightarrow> t)) fs, se_saving = False\<rparr>"

text \<open>\<^verbatim>\<open>crypto.randomUUID()\<close> is the environment's, indexed by the row.\<close>

(* src: frontend/src/components/bento-workspace/SchemaViewer.tsx 141-162 handleSave *)
definition schema_save :: "(nat \<Rightarrow> jsstr) \<Rightarrow> jsstr \<Rightarrow> schema_editor \<Rightarrow> mutation" where
  "schema_save uuid pipelineId s =
     (let rows = filter (\<lambda>r. trim (fst r) \<noteq> []) (se_rows s)
      in \<lparr>mu_request = send PUT (js ''/pipelines/'' @ pipelineId @ js ''/fields'')
            (Some (JObj [(js ''fields'', JArr (map (\<lambda>(i, r).
               JObj [(js ''id'', JStr (uuid i)), (js ''name'', JStr (fst r)),
                     (js ''data_type'', json_opt (truthy (Some (snd r)))),
                     (js ''ordinal_position'', JNum (of_nat i))]) (enumerate 0 rows)))])),
          mu_success = [Invalidate [JStr (js ''pipeline''), JStr pipelineId], Toast_success (js ''Schema updated'')],
          mu_error = [Toast_error (js ''Failed to update schema'')]\<rparr>)"

(* src: frontend/src/components/bento-workspace/SchemaViewer.tsx 175-211 onChange *)
primrec schema_edit :: "schema_event \<Rightarrow> schema_editor \<Rightarrow> schema_editor" where
  "schema_edit Open_editor s = s"
| "schema_edit Close_editor s = s"
| "schema_edit (Row_name i v) s = s\<lparr>se_rows := (se_rows s)[i := (v, snd (se_rows s ! i))]\<rparr>"
| "schema_edit (Row_type i v) s = s\<lparr>se_rows := (se_rows s)[i := (fst (se_rows s ! i), v)]\<rparr>"
| "schema_edit (Row_delete i) s = s\<lparr>se_rows := take i (se_rows s) @ drop (Suc i) (se_rows s)\<rparr>"
| "schema_edit Row_add s = s\<lparr>se_rows := se_rows s @ [([], [])]\<rparr>"
| "schema_edit Save_schema s = s\<lparr>se_saving := True\<rparr>"
| "schema_edit (Copy t) s = s"

(* src: frontend/src/components/bento-workspace/SchemaViewer.tsx 164-228 SchemaEditorModal *)
definition SchemaEditorModal :: "schema_editor \<Rightarrow> schema_event ui" where
  "SchemaEditorModal s =
     Box [Txt (js ''Edit Schema''), Btn [] False Close_editor,
       Box (map (\<lambda>(i, r). Box [Inp (fst r) False (Row_name i), Inp (snd r) False (Row_type i),
                             Btn [] False (Row_delete i)]) (enumerate 0 (se_rows s))),
       Btn (js ''Add field'') False Row_add,
       Btn (js ''Cancel'') False Close_editor,
       Btn (if se_saving s then js ''Saving...'' else js ''Save Schema'') (se_saving s) Save_schema]"

(* src: frontend/src/components/bento-workspace/SchemaViewer.tsx 28-122 SchemaViewer *)
definition SchemaViewer ::
  "(jsstr \<Rightarrow> jsstr) \<Rightarrow> pipeline_field list \<Rightarrow> jsstr option \<Rightarrow> bool \<Rightarrow> bool \<Rightarrow> jsstr list
     \<Rightarrow> schema_editor option \<Rightarrow> schema_event ui" where
  "SchemaViewer lower fs pipelineId canEdit manual networks editor =
     Box [Txt (js ''Data Structure''),
       show_if manual (Txt (js ''manual'')),
       Box (map Txt networks),
       show_if (canEdit \<and> truthy pipelineId \<noteq> None) (Btn (js ''Edit schema'') False Open_editor),
       (if fs = [] then Txt (js ''No fields defined'')
        else Box (map (\<lambda>f. Box [Txt (pf_name f), Txt (getDisplayDataType lower f)]) fs)),
       (case editor of
          None \<Rightarrow> Box []
        | Some s \<Rightarrow> show_if (truthy pipelineId \<noteq> None) (SchemaEditorModal s))]"

(* src: frontend/src/components/bento-workspace/ConsumeSnippet.tsx 9-23 ConsumeSnippet *)
definition ConsumeSnippet :: "jsstr \<Rightarrow> schema_event ui" where
  "ConsumeSnippet snippet = Box [Txt (js ''Import & Consume''), Btn [] False (Copy snippet), Txt snippet]"

text \<open>The schema card and the snippet card of a loaded table, as both tabs show them.\<close>

definition table_cards :: "(jsstr \<Rightarrow> jsstr) \<Rightarrow> table_schema \<Rightarrow> schema_event ui" where
  "table_cards lower sc =
     Box [SchemaViewer lower (columnsToFields sc) None False False [] None,
          ConsumeSnippet (sc_consume_snippet sc)]"

section \<open>The view of the tables tab\<close>

datatype tables_event =
    T_search jsstr
  | T_all
  | T_team jsstr
  | T_refetch
  | T_select jsstr
  | T_schema_refetch
  | T_schema schema_event

(* src: frontend/src/components/tables/TablesView.tsx 68-210 TablesView *)
definition TablesView ::
  "(jsstr \<Rightarrow> jsstr) \<Rightarrow> (jsstr \<Rightarrow> jsstr \<Rightarrow> int) \<Rightarrow> table_ref list query \<Rightarrow> table_schema query
     \<Rightarrow> tables_state \<Rightarrow> tables_event ui" where
  "TablesView lower lc q schema s =
     (let ts = tables_of q; teams = team_pills ts; filtered = filtered_tables lower s ts
      in Box
        [Txt (js ''Tables''),
         Inp (tv_search s) False T_search,
         show_if (length teams > 0)
           (Box (Btn (js ''all'') False T_all # map (\<lambda>t. Btn t False (T_team t)) teams)),
         show_if (q_error q) (Box [Txt (js ''Failed to load tables''), Btn (js ''Retry'') False T_refetch]),
         show_if (\<not> q_loading q \<and> \<not> q_error q \<and> length filtered = 0) (Txt (js ''No tables found'')),
         Box (map (\<lambda>(team, l). Box
            [Txt (team @ js '' ('' @ num_str (int (length l)) @ js '')''),
             Box (map (\<lambda>t. Btn (tr_table_name t) False (T_select (tableKey t))) l)]) (grouped_tables lc filtered)),
         (case selected_table filtered (tv_selectedKey s) of
            None \<Rightarrow> Txt (js ''Select a table to view its schema'')
          | Some t \<Rightarrow> Box
              [Txt (tr_table_name t), Txt (tr_namespace t),
               (if q_loading schema then Box []
                else (case (q_error schema, q_data schema) of
                        (False, Some sc) \<Rightarrow> map_ui T_schema (table_cards lower sc)
                      | _ \<Rightarrow> Box [Txt (js ''Schema unavailable for this table''),
                                 Btn (js ''Retry'') False T_schema_refetch]))])])"

(* src: frontend/src/components/tables/TablesView.tsx 76-142 onChange onClick *)
primrec tables_step :: "tables_event \<Rightarrow> tables_state \<Rightarrow> tables_state" where
  "tables_step (T_search t) s = s\<lparr>tv_search := t\<rparr>"
| "tables_step T_all s = s\<lparr>tv_teams := []\<rparr>"
| "tables_step (T_team t) s = toggleTeam t s"
| "tables_step T_refetch s = s"
| "tables_step (T_select k) s = s\<lparr>tv_selectedKey := Some k\<rparr>"
| "tables_step T_schema_refetch s = s"
| "tables_step (T_schema e) s = s"

text \<open>An event, the render after it and the render's effect.\<close>

definition tables_turn :: "(jsstr \<Rightarrow> jsstr) \<Rightarrow> table_ref list \<Rightarrow> tables_event \<Rightarrow> tables_state \<Rightarrow> tables_state" where
  "tables_turn lower ts e s =
     (let s' = tables_step e s
      in s'\<lparr>tv_selectedKey := keep_selection (filtered_tables lower s' ts) (tv_selectedKey s')\<rparr>)"

definition tables_settled :: "(jsstr \<Rightarrow> jsstr) \<Rightarrow> table_ref list \<Rightarrow> tables_state \<Rightarrow> bool" where
  "tables_settled lower ts s \<longleftrightarrow>
     keep_selection (filtered_tables lower s ts) (tv_selectedKey s) = tv_selectedKey s"

lemma filtered_tables_frame [simp]:
  "filtered_tables lower (s\<lparr>tv_selectedKey := k\<rparr>) ts = filtered_tables lower s ts"
  by (simp add: filtered_tables_def)

definition first_render :: "(jsstr \<Rightarrow> jsstr) \<Rightarrow> table_ref list \<Rightarrow> tables_state" where
  "first_render lower ts = init_tables\<lparr>tv_selectedKey := keep_selection (filtered_tables lower init_tables ts) None\<rparr>"

interpretation tables_run: event_machine "tables_turn lower ts" "first_render lower ts" "tables_settled lower ts"
  for lower ts
  by unfold_locales
    (simp_all add: tables_settled_def first_render_def tables_turn_def Let_def tables_selection.effect_settles)

text \<open>
  C39: after any sequence of searches, team filters and clicks, the tables tab has a table
  selected exactly when it lists one; the selected table is then a listed one, it is the one
  shown, and its schema is the one asked for.
\<close>

theorem tables_tab_selection:
  "let s = fold (tables_turn lower ts) es (first_render lower ts); listed = filtered_tables lower s ts in
     if listed = [] then tv_selectedKey s = None \<and> selected_table listed (tv_selectedKey s) = None
     else (\<exists>t. t \<in> set listed \<and> tv_selectedKey s = Some (tableKey t) \<and>
             selected_table listed (tv_selectedKey s) = Some t \<and>
             schema_query (selected_table listed (tv_selectedKey s)) =
               useTableSchema (Some (tr_namespace t)) (Some (tr_table_name t)))"
proof -
  define s where "s = fold (tables_turn lower ts) es (first_render lower ts)"
  let ?l = "filtered_tables lower s ts"
  have settled: "keep_selection ?l (tv_selectedKey s) = tv_selectedKey s"
    using tables_run.inv_run [of lower ts es] by (simp add: tables_settled_def s_def)
  show ?thesis
  proof (cases "?l = []")
    case True
    then have "tv_selectedKey s = None" using settled tables_selection.effect_empty by metis
    with True show ?thesis by (simp add: s_def [symmetric] selected_table_def)
  next
    case False
    then obtain t where t: "selected_table ?l (tv_selectedKey s) = Some t"
      using tables_selection.effect_selects [OF False, of "tv_selectedKey s"]
      unfolding settled selected_table_def by blast
    then have "t \<in> set ?l" "tv_selectedKey s = Some (tableKey t)"
      unfolding selected_table_def by (auto simp: find_Some_iff)
    with t False show ?thesis
      by (auto simp: s_def [symmetric] Let_def schema_query_def)
  qed
qed

text \<open>The name \<open>is_valid\<close> contains \<open>id\<close>, so a boolean column without a declared type shows as an id.\<close>

lemma boolean_shown_as_id:
  assumes "lower (js ''is_valid'') = js ''is_valid''" and "pf_name f = js ''is_valid''" and "pf_data_type f = None"
  shows "getDisplayDataType lower f = js ''UUID''"
proof -
  have "js ''is_valid'' = js ''is_val'' @ js ''id'' @ []" by (simp add: js_def)
  then have "str_includes (js ''is_valid'') (js ''id'')"
    unfolding str_includes_def by (metis sublist_appendI)
  with assms show ?thesis by (simp add: getDisplayDataType_def)
qed

section \<open>The multi-select of tables\<close>

(* src: frontend/src/components/data-products/TableSelect.tsx 11-11 fqn *)
definition fqn :: "jsstr \<Rightarrow> jsstr \<Rightarrow> jsstr" where
  "fqn namespace table_name = namespace @ [46] @ table_name"

(* src: frontend/src/components/data-products/TableSelect.tsx 19-24 tables *)
definition ts_tables :: "(jsstr \<Rightarrow> jsstr) \<Rightarrow> table_ref list query \<Rightarrow> jsstr \<Rightarrow> table_ref list" where
  "ts_tables lower q search =
     (let s = lower (trim search)
      in filter (\<lambda>t. s = [] \<or> str_includes (lower (tr_table_name t)) s \<or> str_includes (lower (tr_namespace t)) s)
           (tables_of q))"

(* src: frontend/src/components/data-products/TableSelect.tsx 26-29 toggle *)
definition ts_toggle :: "jsstr \<Rightarrow> jsstr list \<Rightarrow> jsstr list" where
  "ts_toggle n v = (if n \<in> set v then filter (\<lambda>x. x \<noteq> n) v else v @ [n])"

(* src: frontend/src/components/data-products/TableSelect.tsx 31-31 filteredNames *)
definition filteredNames :: "table_ref list \<Rightarrow> jsstr list" where
  "filteredNames ts = map (\<lambda>t. fqn (tr_namespace t) (tr_table_name t)) ts"

(* src: frontend/src/components/data-products/TableSelect.tsx 32-32 allFilteredSelected *)
definition allFilteredSelected :: "jsstr list \<Rightarrow> jsstr list \<Rightarrow> bool" where
  "allFilteredSelected names v \<longleftrightarrow> length names > 0 \<and> list_all (\<lambda>n. n \<in> set v) names"

(* src: frontend/src/components/data-products/TableSelect.tsx 34-42 toggleAllFiltered *)
definition toggleAllFiltered :: "jsstr list \<Rightarrow> jsstr list \<Rightarrow> jsstr list" where
  "toggleAllFiltered names v =
     (if allFilteredSelected names v then filter (\<lambda>x. x \<notin> set names) v
      else v @ filter (\<lambda>n. n \<notin> set v) names)"

interpretation table_picking: membership_toggle ts_toggle set distinct
  by unfold_locales (auto simp: ts_toggle_def)

datatype select_event = S_search jsstr | S_toggle jsstr | S_all

(* src: frontend/src/components/data-products/TableSelect.tsx 14-103 TableSelect *)
definition TableSelect ::
  "(jsstr \<Rightarrow> jsstr) \<Rightarrow> table_ref list query \<Rightarrow> jsstr \<Rightarrow> jsstr list \<Rightarrow> select_event ui" where
  "TableSelect lower q search v =
     (let ts = ts_tables lower q search; n = num_str (int (length ts))
      in Box
        [Inp search False S_search,
         show_if (length ts > 0)
           (Btn ((if allFilteredSelected (filteredNames ts) v then js ''Deselect'' else js ''Select all'')
               @ js '' '' @ n @ js '' filtered'') False S_all),
         (if q_loading q then Box []
          else if length ts = 0 then Txt (js ''No tables found'')
          else Box (map (\<lambda>t. Btn (tr_table_name t) False (S_toggle (fqn (tr_namespace t) (tr_table_name t)))) ts)),
         show_if (length v > 0)
           (Txt (num_str (int (length v)) @ js '' table'' @ (if length v = 1 then [] else js ''s'') @ js '' selected''))])"

text \<open>The search text and the value its parent holds.\<close>

type_synonym table_picker = "jsstr \<times> jsstr list"

primrec picker_step :: "(jsstr \<Rightarrow> jsstr) \<Rightarrow> table_ref list query \<Rightarrow> select_event \<Rightarrow> table_picker \<Rightarrow> table_picker" where
  "picker_step lower q (S_search t) p = (t, snd p)"
| "picker_step lower q (S_toggle n) p = (fst p, ts_toggle n (snd p))"
| "picker_step lower q S_all p = (fst p, toggleAllFiltered (filteredNames (ts_tables lower q (fst p))) (snd p))"

lemma distinct_toggleAllFiltered: "distinct names \<Longrightarrow> distinct v \<Longrightarrow> distinct (toggleAllFiltered names v)"
  by (auto simp: toggleAllFiltered_def)

lemma set_toggleAllFiltered:
  "set (toggleAllFiltered names v) =
     (if allFilteredSelected names v then set v - set names else set v \<union> set names)"
  by (auto simp: toggleAllFiltered_def)

lemma distinct_filteredNames:
  "distinct (map tableKey (tables_of q)) \<Longrightarrow> distinct (filteredNames (ts_tables lower q search))"
  unfolding filteredNames_def ts_tables_def Let_def fqn_def tableKey_def [symmetric]
  by (rule distinct_map_filter)

text \<open>
  Over a catalog without repeated tables the picked list never repeats a table, whatever the
  user searches, toggles or selects in bulk; and the bulk button adds exactly the tables found
  by the search, or, when all of these are picked, removes exactly them.
\<close>

theorem table_picker_selection:
  assumes "distinct (map tableKey (tables_of q))" and "distinct v"
  shows "let p = fold (picker_step lower q) es (search, v);
             found = set (filteredNames (ts_tables lower q (fst p)))
         in distinct (snd p) \<and>
            set (snd (picker_step lower q S_all p)) =
              (if found \<noteq> {} \<and> found \<subseteq> set (snd p) then set (snd p) - found else set (snd p) \<union> found)"
proof -
  have step: "distinct (snd p) \<Longrightarrow> distinct (snd (picker_step lower q e p))" for e p
    by (cases e) (simp_all add: table_picking.ok_toggle distinct_toggleAllFiltered distinct_filteredNames [OF assms(1)])
  have run: "distinct (snd p) \<Longrightarrow> distinct (snd (fold (picker_step lower q) es p))" for p
    by (induction es arbitrary: p) (auto simp: step)
  show ?thesis
    using run [of "(search, v)"] assms(2)
    by (auto simp: Let_def set_toggleAllFiltered allFilteredSelected_def list_all_iff)
qed

definition demo_tables :: "table_ref list query" where
  "demo_tables = \<lparr>q_data = Some [\<lparr>tr_namespace = js ''vault'', tr_table_name = js ''logins''\<rparr>,
     \<lparr>tr_namespace = js ''ops'', tr_table_name = js ''runs''\<rparr>], q_loading = False, q_error = False\<rparr>"

theorem table_picker_selection_witness:
  "distinct (snd (fold (picker_step (\<lambda>s. s) demo_tables) [S_all, S_toggle (js ''ops.runs''), S_all] ([], [])))"
proof -
  have "distinct (map tableKey (tables_of demo_tables))"
    by (simp add: demo_tables_def tables_of_def tableKey_def js_def)
  from table_picker_selection [OF this distinct.simps(1) [THEN iffD2, OF TrueI], where lower = "\<lambda>s. s"
      and es = "[S_all, S_toggle (js ''ops.runs''), S_all]" and search = "[]"]
  show ?thesis unfolding Let_def by (rule conjunct1)
qed

end
