(* ===== verification/Exporting.thy ===== *)
theory Exporting
  imports Js_Prelude
begin

text \<open>
  The export helpers: CSV (\<^verbatim>\<open>lib/export.ts\<close>) and the SVG, PNG and interactive HTML
  exports (\<^verbatim>\<open>lib/export-visual.ts\<close>).  What reaches the user is a download: a blob
  (type and content) under a file name.  The rendering library (\<^verbatim>\<open>toSvg\<close>,
  \<^verbatim>\<open>toPng\<close>) is a parameter: the data URL it resolves to, or \<open>None\<close> when it rejects.
\<close>

record download =
  dl_type :: jsstr
  dl_content :: jsstr
  dl_filename :: jsstr

section \<open>CSV\<close>

text \<open>
  A row is the list of its own entries, a value being absent (\<^verbatim>\<open>null\<close> or
  \<^verbatim>\<open>undefined\<close>) or its \<^verbatim>\<open>String\<close> form.
\<close>

type_synonym csv_row = "(jsstr \<times> jsstr option) list"

definition replace_unit :: "code_unit \<Rightarrow> jsstr \<Rightarrow> jsstr \<Rightarrow> jsstr" where
  "replace_unit c t s = concat (map (\<lambda>x. if x = c then t else [x]) s)"

definition cell_text :: "jsstr \<Rightarrow> csv_row \<Rightarrow> jsstr" where
  "cell_text h row = (case map_of row h of Some (Some s) \<Rightarrow> s | _ \<Rightarrow> [])"

(* src: frontend/src/lib/export.ts 9-15 escaped cell *)
definition csv_cell :: "jsstr \<Rightarrow> jsstr" where
  "csv_cell s =
     (if 44 \<in> set s \<or> 10 \<in> set s \<or> 34 \<in> set s
      then 34 # replace_unit 34 [34, 34] s @ [34]
      else s)"

(* src: frontend/src/lib/export.ts 4-17 csvLines *)
definition csvLines :: "jsstr list \<Rightarrow> csv_row list \<Rightarrow> jsstr list" where
  "csvLines headers rows =
     join [44] headers # map (\<lambda>row. join [44] (map (\<lambda>h. csv_cell (cell_text h row)) headers)) rows"

(* src: frontend/src/lib/export.ts 1-28 downloadAsCSV *)
definition downloadAsCSV :: "csv_row list \<Rightarrow> jsstr \<Rightarrow> download option" where
  "downloadAsCSV rows filename =
     (case rows of
        [] \<Rightarrow> None
      | row # _ \<Rightarrow>
          Some \<lparr>dl_type = js ''text/csv;charset=utf-8'',
                dl_content = join [10] (csvLines (map fst row) rows),
                dl_filename = filename @ js ''.csv''\<rparr>)"

text \<open>A CSV reader, for the round trip: fields separated by commas, records by line feeds, a
  field that starts with a quote runs to its closing quote with doubled quotes inside.\<close>

datatype csv_mode = Start | Plain | Quoted | Closed

fun csv_read :: "csv_mode \<Rightarrow> jsstr \<Rightarrow> jsstr list \<Rightarrow> jsstr \<Rightarrow> jsstr list list" where
  "csv_read m f r [] = [r @ [f]]"
| "csv_read m f r (c # cs) =
     (if m = Quoted then (if c = 34 then csv_read Closed f r cs else csv_read Quoted (f @ [c]) r cs)
      else if m = Closed \<and> c = 34 then csv_read Quoted (f @ [34]) r cs
      else if m = Start \<and> c = 34 then csv_read Quoted f r cs
      else if c = 44 then csv_read Start [] (r @ [f]) cs
      else if c = 10 then (r @ [f]) # csv_read Start [] [] cs
      else csv_read Plain (f @ [c]) r cs)"

definition csv_parse :: "jsstr \<Rightarrow> jsstr list list" where
  "csv_parse s = csv_read Start [] [] s"

definition plain :: "jsstr \<Rightarrow> bool" where
  "plain s \<longleftrightarrow> 44 \<notin> set s \<and> 10 \<notin> set s \<and> 34 \<notin> set s"

text \<open>What may follow a field: the end of the text, a comma or a line feed.\<close>

definition field_end :: "jsstr \<Rightarrow> bool" where
  "field_end rest \<longleftrightarrow> rest = [] \<or> hd rest = 44 \<or> hd rest = 10"

lemma csv_read_end:
  "field_end rest \<Longrightarrow> m \<noteq> Quoted \<Longrightarrow> m' \<noteq> Quoted \<Longrightarrow> csv_read m f r rest = csv_read m' f r rest"
  by (cases rest) (auto simp: field_end_def)

lemma csv_read_plain:
  "plain s \<Longrightarrow> m = Start \<or> m = Plain \<Longrightarrow> field_end rest \<Longrightarrow>
     csv_read m f r (s @ rest) = csv_read Plain (f @ s) r rest"
proof (induction s arbitrary: m f)
  case Nil
  then show ?case using csv_read_end [of rest m Plain] by auto
next
  case (Cons c s)
  then show ?case by (auto simp: plain_def)
qed

lemma csv_read_quoted:
  "csv_read Quoted f r (replace_unit 34 [34, 34] s @ 34 # rest) = csv_read Closed (f @ s) r rest"
  by (induction s arbitrary: f) (simp_all add: replace_unit_def)

lemma csv_read_cell:
  assumes "field_end rest"
  shows "csv_read Start [] r (csv_cell s @ rest) = csv_read Plain s r rest"
proof (cases "plain s")
  case True
  then show ?thesis
    using csv_read_plain [OF True _ assms, of Start "[]" r] by (simp add: csv_cell_def plain_def)
next
  case False
  then have "csv_cell s = 34 # replace_unit 34 [34, 34] s @ [34]"
    by (auto simp: csv_cell_def plain_def)
  then show ?thesis
    using csv_read_quoted [of "[]" r s rest] csv_read_end [OF assms, of Closed Plain s r] by simp
qed

lemma csv_read_line:
  assumes "cells \<noteq> []" and rest: "rest = [] \<or> hd rest = 10"
    and field: "\<And>s r t. s \<in> set cells \<Longrightarrow> field_end t \<Longrightarrow> csv_read Start [] r (enc s @ t) = csv_read Plain s r t"
  shows "csv_read Start [] r (join [44] (map enc cells) @ rest) =
    (if rest = [] then [r @ cells] else (r @ cells) # csv_read Start [] [] (tl rest))"
  using assms(1) field
proof (induction cells arbitrary: r)
  case (Cons s cells)
  have last: "csv_read Plain s r rest = (if rest = [] then [r @ [s]] else (r @ [s]) # csv_read Start [] [] (tl rest))"
    using rest by (cases rest) auto
  show ?case
  proof (cases cells)
    case Nil
    have "field_end rest" using rest by (auto simp: field_end_def)
    with Cons.prems(2) [of s rest r] last Nil show ?thesis by simp
  next
    case (Cons s' cells')
    have "csv_read Start [] r (enc s @ 44 # join [44] (map enc cells) @ rest)
        = csv_read Start [] (r @ [s]) (join [44] (map enc cells) @ rest)"
      using Cons.prems(2) [of s "44 # join [44] (map enc cells) @ rest" r] by (simp add: field_end_def)
    then show ?thesis
      using Cons.IH [of "r @ [s]"] Cons.prems(2) Cons by simp
  qed
qed simp

lemma csv_read_rows:
  assumes "headers \<noteq> []"
  shows "rows \<noteq> [] \<Longrightarrow> csv_read Start [] [] (join [10] (map (\<lambda>row. join [44] (map (\<lambda>h. csv_cell (cell_text h row)) headers)) rows))
    = map (\<lambda>row. map (\<lambda>h. cell_text h row) headers) rows"
proof (induction rows)
  case (Cons row rows)
  let ?line = "\<lambda>row. join [44] (map (\<lambda>h. csv_cell (cell_text h row)) headers)"
  have line: "rest = [] \<or> hd rest = 10 \<Longrightarrow> csv_read Start [] [] (?line row @ rest) =
      (if rest = [] then [map (\<lambda>h. cell_text h row) headers]
       else map (\<lambda>h. cell_text h row) headers # csv_read Start [] [] (tl rest))" for rest
    using csv_read_line [of "map (\<lambda>h. cell_text h row) headers" rest csv_cell "[]"] assms csv_read_cell
    by (simp add: comp_def)
  show ?case
  proof (cases rows)
    case Nil
    then show ?thesis using line [of "[]"] by simp
  next
    case (Cons row' rows')
    then show ?thesis using line [of "10 # join [10] (map ?line rows)"] Cons.IH by simp
  qed
qed simp

text \<open>
  C35: reading back the exported CSV gives the header line and, for every row, the text of its
  values, whatever commas, quotes and line feeds they contain, provided the column names
  contain none of these (the header line is not escaped).
\<close>

theorem csv_roundtrip:
  assumes "downloadAsCSV (row # rows) filename = Some d"
    and "row \<noteq> []" and "list_all (\<lambda>h. plain (fst h)) row"
  shows "csv_parse (dl_content d) =
    map fst row # map (\<lambda>r. map (\<lambda>h. cell_text h r) (map fst row)) (row # rows)"
proof -
  let ?h = "map fst row"
  let ?line = "\<lambda>r. join [44] (map (\<lambda>h. csv_cell (cell_text h r)) ?h)"
  have d: "dl_content d = join [44] ?h @ 10 # join [10] (map ?line (row # rows))"
    using assms(1) by (auto simp: downloadAsCSV_def csvLines_def)
  have plain: "csv_read Start [] r (s @ t) = csv_read Plain s r t" if "s \<in> set ?h" "field_end t" for s r t
  proof -
    have "plain s" using that(1) assms(3) by (auto simp: list_all_iff)
    then show ?thesis using csv_read_plain [of s Start t "[]" r] that(2) by simp
  qed
  have "csv_read Start [] [] (join [44] ?h @ 10 # join [10] (map ?line (row # rows)))
      = ?h # csv_read Start [] [] (join [10] (map ?line (row # rows)))"
    using csv_read_line [of ?h "10 # join [10] (map ?line (row # rows))" "\<lambda>s. s" "[]"] plain assms(2)
    by simp
  then show ?thesis
    using csv_read_rows [of ?h "row # rows"] assms(2) by (simp only: csv_parse_def d) simp
qed

definition demo_rows :: "csv_row list" where
  "demo_rows = [[(js ''id'', Some (js ''1'')), (js ''note'', Some [97, 44, 34, 10])],
     [(js ''id'', Some (js ''2'')), (js ''note'', None)]]"

theorem csv_roundtrip_witness:
  "map_option (\<lambda>d. csv_parse (dl_content d)) (downloadAsCSV demo_rows (js ''f'')) =
     Some [[js ''id'', js ''note''], [js ''1'', [97, 44, 34, 10]], [js ''2'', []]]"
proof -
  obtain d where d: "downloadAsCSV demo_rows (js ''f'') = Some d"
    by (simp add: demo_rows_def downloadAsCSV_def)
  have "list_all (\<lambda>h. plain (fst h)) (hd demo_rows)" by (simp add: demo_rows_def plain_def js_def)
  then have "csv_parse (dl_content d) = [[js ''id'', js ''note''], [js ''1'', [97, 44, 34, 10]], [js ''2'', []]]"
    using csv_roundtrip [of "hd demo_rows" "tl demo_rows" "js ''f''" d] d
    by (simp add: demo_rows_def cell_text_def)
  with d show ?thesis by simp
qed

text \<open>A column name with a comma is read as two columns.\<close>

lemma header_not_escaped:
  "map_option (\<lambda>d. map length (csv_parse (dl_content d)))
     (downloadAsCSV [[([97, 44, 98], Some [99])]] f) = Some [2, 1]"
  by (simp add: downloadAsCSV_def csvLines_def csv_parse_def csv_cell_def cell_text_def)

section \<open>HTML escaping\<close>

(* src: frontend/src/lib/export-visual.ts 108-110 escapeHtml *)
definition escapeHtml :: "jsstr \<Rightarrow> jsstr" where
  "escapeHtml s =
     replace_unit 34 (js ''&quot;'') (replace_unit 62 (js ''&gt;'')
       (replace_unit 60 (js ''&lt;'') (replace_unit 38 (js ''&amp;'') s)))"

text \<open>A reader of character references, for the round trip.\<close>

definition references :: "(jsstr \<times> code_unit) list" where
  "references = [(js ''&amp;'', 38), (js ''&lt;'', 60), (js ''&gt;'', 62), (js ''&quot;'', 34)]"

function html_text :: "jsstr \<Rightarrow> jsstr" where
  "html_text [] = []"
| "html_text (c # cs) =
     (case find (\<lambda>(e, x). take (length e) (c # cs) = e \<and> e \<noteq> []) references of
        Some (e, x) \<Rightarrow> x # html_text (drop (length e) (c # cs))
      | None \<Rightarrow> c # html_text cs)"
  by pat_completeness auto
termination
  by (relation "measure length") (auto simp: find_Some_iff)

definition escape_unit :: "code_unit \<Rightarrow> jsstr" where
  "escape_unit c =
     (if c = 38 then js ''&amp;'' else if c = 60 then js ''&lt;''
      else if c = 62 then js ''&gt;'' else if c = 34 then js ''&quot;'' else [c])"

lemma replace_unit_append: "replace_unit c t (s @ s') = replace_unit c t s @ replace_unit c t s'"
  by (simp add: replace_unit_def)

lemma escapeHtml_units: "escapeHtml s = concat (map escape_unit s)"
proof (induction s)
  case (Cons c s)
  have "escapeHtml (c # s) = escapeHtml [c] @ escapeHtml s"
    by (simp add: escapeHtml_def replace_unit_append flip: replace_unit_append [of _ _ "[c]"])
      (simp add: replace_unit_def)
  moreover have "escapeHtml [c] = escape_unit c"
    by (auto simp: escapeHtml_def escape_unit_def replace_unit_def js_def)
  ultimately show ?case using Cons by simp
qed (simp add: escapeHtml_def replace_unit_def)

lemma html_text_unit: "html_text (escape_unit c @ s) = c # html_text s"
  by (auto simp: escape_unit_def references_def js_def)

text \<open>
  Escaped text holds no angle bracket and no double quote, and reading its character
  references gives the text back.
\<close>

theorem escape_html_safe:
  "60 \<notin> set (escapeHtml s) \<and> 62 \<notin> set (escapeHtml s) \<and> 34 \<notin> set (escapeHtml s) \<and>
   html_text (escapeHtml s) = s"
proof -
  have "60 \<notin> set (escape_unit c)" "62 \<notin> set (escape_unit c)" "34 \<notin> set (escape_unit c)" for c
    by (auto simp: escape_unit_def js_def)
  moreover have "html_text (concat (map escape_unit s)) = s"
    by (induction s) (simp_all add: html_text_unit del: html_text.simps(2))
  ultimately show ?thesis by (simp add: escapeHtml_units)
qed

section \<open>Data URLs\<close>

text \<open>\<^verbatim>\<open>atob\<close>: white space is dropped, up to two padding signs of a full-length text are
  dropped, then every unit must be of the alphabet and one unit may not be left over.\<close>

definition b64_value :: "code_unit \<Rightarrow> nat option" where
  "b64_value c =
     (if 65 \<le> c \<and> c \<le> 90 then Some (unat c - 65)
      else if 97 \<le> c \<and> c \<le> 122 then Some (unat c - 71)
      else if 48 \<le> c \<and> c \<le> 57 then Some (unat c + 4)
      else if c = 43 then Some 62 else if c = 47 then Some 63 else None)"

fun b64_bytes :: "nat list \<Rightarrow> nat list" where
  "b64_bytes (a # b # c # d # r) =
     (4 * a + b div 16) # (b mod 16 * 16 + c div 4) # (c mod 4 * 64 + d) # b64_bytes r"
| "b64_bytes [a, b, c] = [4 * a + b div 16, b mod 16 * 16 + c div 4]"
| "b64_bytes [a, b] = [4 * a + b div 16]"
| "b64_bytes _ = []"

definition strip_padding :: "jsstr \<Rightarrow> jsstr" where
  "strip_padding s =
     (if length s mod 4 = 0 \<and> s \<noteq> [] \<and> last s = 61
      then (if butlast s \<noteq> [] \<and> last (butlast s) = 61 then butlast (butlast s) else butlast s)
      else s)"

definition atob :: "jsstr \<Rightarrow> jsstr option" where
  "atob s =
     (let t = strip_padding (filter (\<lambda>c. c \<notin> set [9, 10, 12, 13, 32]) s)
      in if length t mod 4 = 1 \<or> None \<in> set (map b64_value t) then None
         else Some (map of_nat (b64_bytes (map (\<lambda>c. the (b64_value c)) t))))"

record blob =
  bl_type :: jsstr
  bl_bytes :: jsstr

text \<open>The first match of \<^verbatim>\<open>/:(.*?);/\<close>: from the first colon that a semicolon follows on the
  same line to that semicolon.\<close>

fun colon_semicolon :: "jsstr \<Rightarrow> jsstr option" where
  "colon_semicolon [] = None"
| "colon_semicolon (c # cs) =
     (let t = takeWhile (\<lambda>x. x \<noteq> 59 \<and> x \<notin> set [10, 13, 0x2028, 0x2029]) cs; r = drop (length t) cs
      in if c = 58 \<and> r \<noteq> [] \<and> hd r = 59 then Some t else colon_semicolon cs)"

(* src: frontend/src/lib/export-visual.ts 97-106 dataUrlToBlob *)
definition dataUrlToBlob :: "jsstr \<Rightarrow> blob option" where
  "dataUrlToBlob dataUrl =
     (let parts = split_on 44 dataUrl;
          mime = (case colon_semicolon (hd parts) of
                    Some m \<Rightarrow> m | None \<Rightarrow> js ''application/octet-stream'')
      in case atob (if length parts < 2 then js ''undefined'' else parts ! 1) of
           None \<Rightarrow> None
         | Some binary \<Rightarrow> Some \<lparr>bl_type = mime, bl_bytes = map (\<lambda>c. of_nat (unat c mod 256)) binary\<rparr>)"

text \<open>What an export ends in: a download, or an error on the console.\<close>

datatype export_result = Downloaded blob jsstr | Failed jsstr

(* src: frontend/src/lib/export-visual.ts 7-18 downloadAsSVG *)
definition downloadAsSVG :: "jsstr option \<Rightarrow> jsstr \<Rightarrow> export_result" where
  "downloadAsSVG rendered filename =
     (case rendered of
        None \<Rightarrow> Failed (js ''SVG export failed:'')
      | Some dataUrl \<Rightarrow>
          (case dataUrlToBlob dataUrl of
             None \<Rightarrow> Failed (js ''SVG export failed:'')
           | Some b \<Rightarrow> Downloaded b (filename @ js ''.svg'')))"

(* src: frontend/src/lib/export-visual.ts 24-36 downloadAsPNG *)
definition downloadAsPNG :: "jsstr option \<Rightarrow> jsstr \<Rightarrow> export_result" where
  "downloadAsPNG rendered filename =
     (case rendered of
        None \<Rightarrow> Failed (js ''PNG export failed:'')
      | Some dataUrl \<Rightarrow>
          (case dataUrlToBlob dataUrl of
             None \<Rightarrow> Failed (js ''PNG export failed:'')
           | Some b \<Rightarrow> Downloaded b (filename @ js ''.png'')))"

(* src: frontend/src/lib/export-visual.ts 50-77 html *)
definition interactive_html :: "jsstr \<Rightarrow> jsstr \<Rightarrow> jsstr" where
  "interactive_html title svgDataUrl = join [10]
    [js ''<!DOCTYPE html>'',
     js ''<html><head><meta charset=\"utf-8\"><title>'' @ escapeHtml title @ js '' - Lineage</title>'',
     js ''<style>'',
     js ''  body { margin: 0; background: #09090b; overflow: hidden; font-family: system-ui; }'',
     js ''  #container { width: 100vw; height: 100vh; cursor: grab; display: flex; align-items: center; justify-content: center; }'',
     js ''  #container:active { cursor: grabbing; }'',
     js ''  #container img { transform-origin: 0 0; max-width: none; }'',
     js ''  .toolbar { position: fixed; top: 16px; right: 16px; display: flex; gap: 8px; z-index: 10; }'',
     js ''  .toolbar button { padding: 8px 12px; background: #18181b; color: #fff; border: 1px solid rgba(255,255,255,0.1); border-radius: 8px; cursor: pointer; font-size: 13px; }'',
     js ''  .toolbar button:hover { background: #27272a; }'',
     js ''  h1 { position: fixed; top: 16px; left: 16px; color: #e2e8f0; font-size: 14px; margin: 0; z-index: 10; }'',
     js ''</style></head><body>'',
     js ''<h1>'' @ escapeHtml title @ js ''</h1>'',
     js ''<div class=\"toolbar\">'',
     js ''  <button onclick=\"zoom(1.2)\">+</button>'',
     js ''  <button onclick=\"zoom(0.8)\">'' @ [0x2212] @ js ''</button>'',
     js ''  <button onclick=\"resetView()\">Reset</button>'',
     js ''</div>'',
     js ''<div id=\"container\"><img src=\"'' @ svgDataUrl @ js ''\" /></div>'',
     js ''<script>'',
     js ''let scale=1,tx=0,ty=0;const c=document.getElementById('container'),img=c.querySelector('img');'',
     js ''function apply(){img.style.transform='translate('+tx+'px,'+ty+'px) scale('+scale+')';}'',
     js ''function zoom(f){scale*=f;apply();}function resetView(){scale=1;tx=0;ty=0;apply();}'',
     js ''let drag=false,sx,sy;c.onmousedown=e=>{drag=true;sx=e.clientX-tx;sy=e.clientY-ty;};'',
     js ''c.onmousemove=e=>{if(drag){tx=e.clientX-sx;ty=e.clientY-sy;apply();}};'',
     js ''c.onmouseup=()=>drag=false;c.onmouseleave=()=>drag=false;'',
     js ''c.onwheel=e=>{e.preventDefault();zoom(e.deltaY<0?1.1:0.9);};'',
     js ''</script></body></html>'']"

(* src: frontend/src/lib/export-visual.ts 80-80 filename *)
definition safe_name :: "jsstr \<Rightarrow> jsstr" where
  "safe_name title = map (\<lambda>c. if 97 \<le> c \<and> c \<le> 122 \<or> 65 \<le> c \<and> c \<le> 90 \<or> 48 \<le> c \<and> c \<le> 57
     then c else 95) title"

(* src: frontend/src/lib/export-visual.ts 42-84 downloadAsInteractiveHTML *)
definition downloadAsInteractiveHTML :: "jsstr option \<Rightarrow> jsstr \<Rightarrow> export_result" where
  "downloadAsInteractiveHTML rendered title =
     (case rendered of
        None \<Rightarrow> Failed (js ''Interactive HTML export failed:'')
      | Some svgDataUrl \<Rightarrow>
          Downloaded \<lparr>bl_type = js ''text/html'', bl_bytes = interactive_html title svgDataUrl\<rparr>
            (safe_name title @ js ''_lineage.html''))"

section \<open>Triggering a download\<close>

text \<open>
  The page a download goes through: the object URLs that are live with their blobs, numbered as they
  are made, the links in the body, and the files the browser was told to save.
\<close>

record link =
  ln_href :: nat
  ln_download :: jsstr

record download_page =
  dp_next :: nat
  dp_urls :: "(nat \<times> blob) list"
  dp_body :: "link list"
  dp_saved :: "(blob \<times> jsstr) list"

definition createObjectURL :: "blob \<Rightarrow> download_page \<Rightarrow> nat \<times> download_page" where
  "createObjectURL b p = (dp_next p, p\<lparr>dp_next := Suc (dp_next p), dp_urls := (dp_next p, b) # dp_urls p\<rparr>)"

text \<open>Clicking a download link saves what its address names, if the address is live.\<close>

definition click_link :: "link \<Rightarrow> download_page \<Rightarrow> download_page" where
  "click_link a p = (case map_of (dp_urls p) (ln_href a) of
     None \<Rightarrow> p | Some b \<Rightarrow> p\<lparr>dp_saved := dp_saved p @ [(b, ln_download a)]\<rparr>)"

definition revokeObjectURL :: "nat \<Rightarrow> download_page \<Rightarrow> download_page" where
  "revokeObjectURL u p = p\<lparr>dp_urls := filter (\<lambda>(v, b). v \<noteq> u) (dp_urls p)\<rparr>"

(* src: frontend/src/lib/export-visual.ts 86-95 triggerDownload *)
definition triggerDownload :: "blob \<Rightarrow> jsstr \<Rightarrow> download_page \<Rightarrow> download_page" where
  "triggerDownload b filename p0 =
     (case createObjectURL b p0 of
        (url, p1) \<Rightarrow>
          (let a = \<lparr>ln_href = url, ln_download = filename\<rparr>;
               p2 = p1\<lparr>dp_body := dp_body p1 @ [a]\<rparr>;
               p3 = click_link a p2;
               p4 = p3\<lparr>dp_body := remove1 a (dp_body p3)\<rparr>
           in revokeObjectURL url p4))"

text \<open>A download saves the blob under its name, and leaves neither a link nor a live address.\<close>

lemma download_cleans_up:
  assumes "list_all (\<lambda>(u, b). u < dp_next p) (dp_urls p)" and "list_all (\<lambda>a. ln_href a < dp_next p) (dp_body p)"
  shows "triggerDownload b f p = p\<lparr>dp_next := Suc (dp_next p), dp_saved := dp_saved p @ [(b, f)]\<rparr>"
proof -
  have "filter (\<lambda>(v, b). v \<noteq> dp_next p) (dp_urls p) = dp_urls p"
    using assms(1) by (intro filter_True) (auto simp: list_all_iff)
  moreover have "\<lparr>ln_href = dp_next p, ln_download = f\<rparr> \<notin> set (dp_body p)"
    using assms(2) by (auto simp: list_all_iff)
  ultimately show ?thesis
    by (cases p) (simp add: triggerDownload_def createObjectURL_def click_link_def revokeObjectURL_def Let_def remove1_append)
qed

end
