(* ===== verification/Editing.thy ===== *)
theory Editing
  imports Data_Api Formatting
begin

text \<open>
  Editing texts of a product: the markdown toolbar (\<^verbatim>\<open>documentation/doc-toolbar.tsx\<close>), the
  editor with its gutter (\<^verbatim>\<open>MarkdownEditor.tsx\<close>), the documentation modal and its preview card
  (\<^verbatim>\<open>DocumentationModal.tsx\<close>, \<^verbatim>\<open>DocumentationPreview.tsx\<close>), the description editor
  (\<^verbatim>\<open>EditableTitle.tsx\<close>) and the revision lists (\<^verbatim>\<open>RevisionHistoryPanel.tsx\<close>), all of
  \<^verbatim>\<open>components/bento-workspace\<close>.  Rendering markdown is the libraries'; a preview is the
  text handed to them.
\<close>

section \<open>The toolbar\<close>

text \<open>A text area: its value and its selection, in code units, as the DOM reports them.\<close>

record textarea =
  ta_start :: nat
  ta_end :: nat

definition ta_ok :: "jsstr \<Rightarrow> textarea \<Rightarrow> bool" where
  "ta_ok v el \<longleftrightarrow> ta_start el \<le> ta_end el \<and> ta_end el \<le> length v"

text \<open>The new value and the selection restored after the render; nothing without the element.\<close>

(* src: frontend/src/components/bento-workspace/documentation/doc-toolbar.tsx 23-48 insertAtCursor *)
definition insertAtCursor ::
  "textarea option \<Rightarrow> jsstr \<Rightarrow> jsstr \<Rightarrow> jsstr \<Rightarrow> bool \<Rightarrow> jsstr \<Rightarrow> (jsstr \<times> textarea) option" where
  "insertAtCursor ref editValue before after newline placeholder =
     (case ref of
        None \<Rightarrow> None
      | Some el \<Rightarrow>
          (let s = ta_start el; e = ta_end el;
               selected = slice s e editValue;
               text = (if selected \<noteq> [] then selected else placeholder);
               prefix = (if newline \<and> s > 0 \<and> editValue ! (s - 1) \<noteq> 10 then [10] else []);
               insertion = prefix @ before @ text @ after;
               newValue = slice 0 s editValue @ insertion @ drop e editValue;
               cursorPos = s + length prefix + length before + length text
           in Some (newValue, \<lparr>ta_start = s + length prefix + length before, ta_end = cursorPos\<rparr>)))"

(* src: frontend/src/components/bento-workspace/documentation/doc-toolbar.tsx 50-66 insertBlock *)
definition insertBlock :: "textarea option \<Rightarrow> jsstr \<Rightarrow> jsstr \<Rightarrow> (jsstr \<times> textarea) option" where
  "insertBlock ref editValue block =
     (case ref of
        None \<Rightarrow> None
      | Some el \<Rightarrow>
          (let s = ta_start el;
               prefix = (if s > 0 \<and> editValue ! (s - 1) \<noteq> 10 then [10, 10] else if s > 0 then [10] else []);
               newValue = slice 0 s editValue @ prefix @ block @ drop s editValue;
               pos = s + length prefix + length block
           in Some (newValue, \<lparr>ta_start = pos, ta_end = pos\<rparr>)))"

text \<open>What a toolbar button does: wrap the selection, or insert a block.\<close>

datatype toolbar_action = Ins jsstr jsstr bool jsstr | Block jsstr

definition lines :: "string list \<Rightarrow> jsstr" where
  "lines ls = join [10] (map js ls)"

(* src: frontend/src/components/bento-workspace/documentation/doc-toolbar.tsx 110-177 MarkdownToolbar *)
definition toolbar_buttons :: "(jsstr \<times> toolbar_action) list" where
  "toolbar_buttons =
    [(js ''Bold (Ctrl+B)'', Ins (js ''**'') (js ''**'') False (js ''bold'')),
     (js ''Italic'', Ins (js ''*'') (js ''*'') False (js ''italic'')),
     (js ''Strikethrough'', Ins (js ''~~'') (js ''~~'') False (js ''text'')),
     (js ''Heading 1'', Ins (js ''# '') [] True (js ''Heading'')),
     (js ''Heading 2'', Ins (js ''## '') [] True (js ''Heading'')),
     (js ''Heading 3'', Ins (js ''### '') [] True (js ''Heading'')),
     (js ''Heading 4'', Ins (js ''#### '') [] True (js ''Heading'')),
     (js ''Bullet list'', Ins (js ''- '') [] True (js ''Item'')),
     (js ''Numbered list'', Ins (js ''1. '') [] True (js ''Item'')),
     (js ''Task list'', Block (lines [''- [ ] Task 1'', ''- [ ] Task 2'', ''- [ ] Task 3''])),
     (js ''Link'', Ins (js ''['') (js ''](url)'') False (js ''text'')),
     (js ''Code block'', Block (lines [''```python'', ''# code here'', ''```''])),
     (js ''Table'', Block (lines [''| Column 1 | Column 2 | Column 3 |'', ''|----------|----------|----------|'',
        ''| Cell 1   | Cell 2   | Cell 3   |'', ''| Cell 4   | Cell 5   | Cell 6   |''])),
     (js ''Horizontal rule'', Block (js ''---'')),
     (js ''Collapsible section'', Block (lines [''<details>'', ''<summary>Click to expand</summary>'', '''',
        ''Content here'', '''', ''</details>''])),
     (js ''RTL / Hebrew block'', Block (lines [''<div dir=\"rtl\" lang=\"he\">'', ''''] @ [10] @
        [0x5D8, 0x5E7, 0x5E1, 0x5D8, 32, 0x5D1, 0x5E2, 0x5D1, 0x5E8, 0x5D9, 0x5EA] @ lines ['''', '''', ''</div>'']))]"

(* src: frontend/src/components/bento-workspace/documentation/doc-toolbar.tsx 97-112 MarkdownToolbar *)
primrec run_toolbar :: "textarea option \<Rightarrow> jsstr \<Rightarrow> toolbar_action \<Rightarrow> (jsstr \<times> textarea) option" where
  "run_toolbar ref v (Ins before after newline placeholder) = insertAtCursor ref v before after newline placeholder"
| "run_toolbar ref v (Block b) = insertBlock ref v b"

lemma slice_0 [simp]: "slice 0 n xs = take n xs"
  by (simp add: slice_def)

lemma slice_middle: "length xs = a \<Longrightarrow> slice a (a + length ys) (xs @ ys @ zs) = ys"
  by (simp add: slice_def)

text \<open>
  Inserting markup keeps the text on both sides of the selection, puts the markers around
  the selected text, or around the placeholder when nothing is selected, and leaves exactly that
  inner text selected; a marker that belongs at the start of a line ends up at one.
\<close>

theorem insert_wraps_selection:
  assumes "ta_ok v el"
  shows "\<exists>prefix text v' el'.
    insertAtCursor (Some el) v before after newline placeholder = Some (v', el') \<and>
    v' = take (ta_start el) v @ prefix @ before @ text @ after @ drop (ta_end el) v \<and>
    text = (if ta_start el = ta_end el then placeholder else slice (ta_start el) (ta_end el) v) \<and>
    slice (ta_start el') (ta_end el') v' = text \<and> ta_ok v' el' \<and>
    prefix = (if newline \<and> take (ta_start el) v \<noteq> [] \<and> last (take (ta_start el) v) \<noteq> 10 then [10] else [])"
proof -
  let ?s = "ta_start el" let ?e = "ta_end el"
  let ?text = "if slice ?s ?e v \<noteq> [] then slice ?s ?e v else placeholder"
  let ?prefix = "if newline \<and> ?s > 0 \<and> v ! (?s - 1) \<noteq> 10 then [10 :: code_unit] else []"
  let ?v' = "take ?s v @ ?prefix @ before @ ?text @ after @ drop ?e v"
  have len: "?s \<le> length v" "?s \<le> ?e" "?e \<le> length v" using assms by (auto simp: ta_ok_def)
  have sel: "slice ?s ?e v = [] \<longleftrightarrow> ?s = ?e" using len by (auto simp: slice_def)
  have prefix: "?prefix = (if newline \<and> take ?s v \<noteq> [] \<and> last (take ?s v) \<noteq> 10 then [10] else [])"
  proof (cases "?s = 0")
    case False
    then have "last (take ?s v) = v ! (?s - 1)"
      using len(1) by (subst last_conv_nth) (auto simp: min_absorb2)
    with False len show ?thesis by auto
  qed simp
  let ?before = "take ?s v @ ?prefix @ before"
  have mid: "slice (length ?before) (length ?before + length ?text) (?before @ ?text @ after @ drop ?e v) = ?text"
    by (rule slice_middle) (rule refl)
  have pos: "?s + length ?prefix + length before = length ?before"
    using len(1) by (simp add: min_absorb2)
  have ins: "insertAtCursor (Some el) v before after newline placeholder =
      Some (?v', \<lparr>ta_start = length ?before, ta_end = length ?before + length ?text\<rparr>)"
    using pos by (simp add: insertAtCursor_def Let_def)
  have ok: "ta_ok ?v' \<lparr>ta_start = length ?before, ta_end = length ?before + length ?text\<rparr>"
    by (simp add: ta_ok_def)
  show ?thesis
  proof (intro exI conjI)
    show "insertAtCursor (Some el) v before after newline placeholder =
        Some (?v', \<lparr>ta_start = length ?before, ta_end = length ?before + length ?text\<rparr>)" by (rule ins)
    show "slice (ta_start \<lparr>ta_start = length ?before, ta_end = length ?before + length ?text\<rparr>)
        (ta_end \<lparr>ta_start = length ?before, ta_end = length ?before + length ?text\<rparr>) ?v' = ?text"
      using mid by simp
  qed (use sel prefix ok in auto)
qed

theorem insert_wraps_selection_witness:
  "\<exists>v'. map_option fst (insertAtCursor (Some \<lparr>ta_start = 0, ta_end = 2\<rparr>) (js ''ab'') (js ''*'') (js ''*'') False []) = Some v'
     \<and> v' = js ''*'' @ js ''ab'' @ js ''*''"
proof -
  have "ta_ok (js ''ab'') \<lparr>ta_start = 0, ta_end = 2\<rparr>" by (simp add: ta_ok_def)
  from insert_wraps_selection [OF this, of "js ''*''" "js ''*''" False "[]"]
  show ?thesis by (auto simp: slice_def)
qed

text \<open>A block starts a paragraph: at the start of the text, or after an empty line.\<close>

lemma block_starts_paragraph:
  assumes "ta_ok v el"
  shows "\<exists>p v' el'. insertBlock (Some el) v b = Some (v', el') \<and> v' = p @ b @ drop (ta_start el) v \<and>
     take (ta_start el) v = take (ta_start el) p \<and> ta_start el' = length p + length b \<and>
     (p = [] \<or> drop (length p - 2) p = [10, 10] \<or> p = [10, 10])"
proof -
  let ?s = "ta_start el"
  have len: "?s \<le> length v" using assms by (auto simp: ta_ok_def)
  show ?thesis
  proof (cases "?s = 0")
    case True
    then show ?thesis by (simp add: insertBlock_def Let_def)
  next
    case False
    let ?prefix = "if v ! (?s - 1) \<noteq> 10 then [10, 10] else [10]"
    let ?p = "take ?s v @ ?prefix"
    have split: "take ?s v = take (?s - 1) v @ [v ! (?s - 1)]"
      using False len by (metis Suc_diff_1 Suc_le_lessD bot_nat_0.not_eq_extremum take_Suc_conv_app_nth)
    have "drop (length ?p - 2) ?p = [10, 10]"
    proof (cases "v ! (?s - 1) = 10")
      case True
      then have "?p = take (?s - 1) v @ [10, 10]" using split by simp
      then show ?thesis by simp
    qed simp
    moreover have "insertBlock (Some el) v b = Some (?p @ b @ drop ?s v,
        \<lparr>ta_start = length ?p + length b, ta_end = length ?p + length b\<rparr>)"
      using False len by (simp add: insertBlock_def Let_def)
    ultimately show ?thesis using len by (intro exI conjI) (assumption | simp)+
  qed
qed

section \<open>The markdown editor\<close>

datatype editor_event = Edit jsstr | Tool toolbar_action | Toggle_cheatsheet | Close_cheatsheet

(* src: frontend/src/components/bento-workspace/documentation/doc-cheatsheet.tsx 24-77 CheatsheetPanel *)
definition CheatsheetPanel :: "(jsstr \<times> jsstr) list \<Rightarrow> editor_event ui" where
  "CheatsheetPanel rows =
     Box [Txt (js ''Markdown Cheatsheet''), Btn [] False Close_cheatsheet, Txt (js ''Syntax''), Txt (js ''Result''),
       Box (map (\<lambda>(syn, desc). Box [Txt syn, Txt desc]) rows)]"

(* src: frontend/src/components/bento-workspace/documentation/doc-cheatsheet.tsx 6-22 cheatsheetRows *)
definition cheatsheetRows :: "(jsstr \<times> jsstr) list" where
  "cheatsheetRows =
    [(js ''**bold**'', js ''Bold text''), (js ''*italic*'', js ''Italic text''), (js ''~~strike~~'', js ''Strikethrough''),
     (js ''# Heading'', js ''Heading 1'' @ [0x2013] @ js ''6 (# to ######)''), (js ''`code`'', js ''Inline code''),
     (js ''```lang'' @ [92] @ js ''n...'' @ [92] @ js ''n```'', js ''Code block with highlighting''),
     (js ''> quote'', js ''Blockquote''), (js ''- item'', js ''Bullet list''), (js ''1. item'', js ''Numbered list''),
     (js ''- [ ] task'', js ''Task list checkbox''), (js ''[text](url)'', js ''Hyperlink''),
     (js ''| A | B |'' @ [92] @ js ''n|---|---|'', js ''Table''), (js ''---'', js ''Horizontal rule''),
     (js ''<details>'', js ''Collapsible section''), (js ''<div dir=\"rtl\">'', js ''Right-to-left text'')]"

(* src: frontend/src/components/bento-workspace/documentation/doc-toolbar.tsx 70-89 ToolbarBtn *)
definition ToolbarBtn :: "jsstr \<times> toolbar_action \<Rightarrow> editor_event ui" where
  "ToolbarBtn b = (case b of (label, act) \<Rightarrow> Btn label False (Tool act))"

(* src: frontend/src/components/bento-workspace/documentation/doc-toolbar.tsx 178-195 MarkdownToolbar *)
definition MarkdownToolbar :: "editor_event ui" where
  "MarkdownToolbar =
     Box [Box (map ToolbarBtn toolbar_buttons), Btn (js ''Markdown cheatsheet'') False Toggle_cheatsheet]"

(* src: frontend/src/components/bento-workspace/MarkdownEditor.tsx 18-83 MarkdownEditor *)
definition MarkdownEditor :: "jsstr \<Rightarrow> bool \<Rightarrow> editor_event ui" where
  "MarkdownEditor editValue cheatsheetOpen =
     Box [MarkdownToolbar,
          show_if cheatsheetOpen (CheatsheetPanel cheatsheetRows),
          Box (map (\<lambda>i. Txt (num_str (int i + 1))) [0..<length (split_on 10 editValue)]),
          Inp editValue False Edit]"

section \<open>The documentation modal\<close>

datatype modal_tab = Preview | Edit_tab | History

record doc_props =
  dp_open :: bool
  dp_documentation :: "jsstr option"
  dp_isSaving :: bool
  dp_canEdit :: bool

(* src: frontend/src/components/bento-workspace/DocumentationModal.tsx 87-90 useState *)
record doc_modal =
  dm_activeTab :: modal_tab
  dm_editValue :: jsstr
  dm_cheatsheet :: bool
  dm_props :: doc_props
  dm_saves :: "jsstr list"

definition or_empty :: "jsstr option \<Rightarrow> jsstr" where
  "or_empty s = (case s of None \<Rightarrow> [] | Some t \<Rightarrow> t)"

(* src: frontend/src/components/bento-workspace/DocumentationModal.tsx 94-94 previewContent *)
definition previewContent :: "doc_modal \<Rightarrow> jsstr" where
  "previewContent m =
     (if dm_editValue m \<noteq> [] then dm_editValue m else or_empty (dp_documentation (dm_props m)))"

text \<open>New properties: the two effects that reset the draft run when their dependencies changed.\<close>

(* src: frontend/src/components/bento-workspace/DocumentationModal.tsx 96-106 useEffect *)
definition doc_new_props :: "doc_props \<Rightarrow> doc_modal \<Rightarrow> doc_modal" where
  "doc_new_props p m =
     (let m1 = m\<lparr>dm_props := p\<rparr>;
          m2 = (if dp_documentation p \<noteq> dp_documentation (dm_props m)
                then m1\<lparr>dm_editValue := or_empty (dp_documentation p)\<rparr> else m1)
      in if dp_open p \<and> (dp_open p \<noteq> dp_open (dm_props m) \<or> dp_documentation p \<noteq> dp_documentation (dm_props m))
         then m2\<lparr>dm_activeTab := Preview, dm_editValue := or_empty (dp_documentation p), dm_cheatsheet := False\<rparr>
         else m2)"

datatype doc_event =
    Close
  | Show_preview
  | Show_edit
  | Show_history
  | Save
  | Editor editor_event
  | Restored

text \<open>
  \<open>onClose\<close> is the parent's: it clears its open flag; \<open>onSave\<close> passes the text to the update
  mutation and clears the flag too (\<^verbatim>\<open>DocumentationPreview.tsx\<close>).
\<close>

(* src: frontend/src/components/bento-workspace/DocumentationPreview.tsx 87-99 onClose *)
definition doc_close :: "doc_modal \<Rightarrow> doc_modal" where
  "doc_close m = doc_new_props ((dm_props m)\<lparr>dp_open := False\<rparr>) m"

(* src: frontend/src/components/bento-workspace/DocumentationPreview.tsx 93-96 onSave *)
definition doc_on_save :: "jsstr \<Rightarrow> doc_modal \<Rightarrow> doc_modal" where
  "doc_on_save doc m = doc_close (m\<lparr>dm_saves := dm_saves m @ [doc]\<rparr>)"

(* src: frontend/src/components/bento-workspace/DocumentationModal.tsx 114-124 handleKeyDown *)
definition doc_key :: "jsstr \<Rightarrow> bool \<Rightarrow> doc_modal \<Rightarrow> doc_modal" where
  "doc_key key ctrl m =
     (if \<not> dp_open (dm_props m) then m
      else
        (let m1 = (if key = js ''Escape'' then doc_close m else m)
         in if key = js ''s'' \<and> ctrl \<and> dm_activeTab m = Edit_tab then doc_on_save (dm_editValue m) m1 else m1))"

(* src: frontend/src/components/bento-workspace/DocumentationModal.tsx 136-139 handleSave *)
definition doc_save :: "doc_modal \<Rightarrow> doc_modal" where
  "doc_save m = (doc_on_save (dm_editValue m) m)\<lparr>dm_activeTab := Preview\<rparr>"

(* src: frontend/src/components/bento-workspace/DocumentationModal.tsx 146-255 onClick *)
definition doc_clicked :: "textarea option \<Rightarrow> doc_event \<Rightarrow> doc_modal \<Rightarrow> doc_modal" where
  "doc_clicked ref e m =
     (case e of
        Close \<Rightarrow> doc_close m
      | Show_preview \<Rightarrow> m\<lparr>dm_activeTab := Preview, dm_cheatsheet := False\<rparr>
      | Show_edit \<Rightarrow> if dp_canEdit (dm_props m) then m\<lparr>dm_activeTab := Edit_tab\<rparr> else m
      | Show_history \<Rightarrow> m\<lparr>dm_activeTab := History, dm_cheatsheet := False\<rparr>
      | Save \<Rightarrow> doc_save m
      | Editor (Edit t) \<Rightarrow> m\<lparr>dm_editValue := t\<rparr>
      | Editor (Tool act) \<Rightarrow>
          (case run_toolbar ref (dm_editValue m) act of
             None \<Rightarrow> m | Some (v, _) \<Rightarrow> m\<lparr>dm_editValue := v\<rparr>)
      | Editor Toggle_cheatsheet \<Rightarrow> m\<lparr>dm_cheatsheet := \<not> dm_cheatsheet m\<rparr>
      | Editor Close_cheatsheet \<Rightarrow> m\<lparr>dm_cheatsheet := False\<rparr>
      | Restored \<Rightarrow> m\<lparr>dm_activeTab := Preview\<rparr>)"

(* src: frontend/src/components/bento-workspace/DocumentationModal.tsx 42-60 EmptyDocState *)
definition EmptyDocState :: "bool \<Rightarrow> 'e ui" where
  "EmptyDocState canEdit =
     Box [Txt (js ''No documentation yet''),
       Txt (if canEdit then js ''Switch to Edit to start writing in Markdown''
            else js ''Only team members can add documentation'')]"

text \<open>The history panel is a parameter of the view; see below.\<close>

(* src: frontend/src/components/bento-workspace/DocumentationModal.tsx 141-296 DocumentationModal *)
definition DocumentationModal :: "jsstr \<Rightarrow> doc_event ui \<Rightarrow> doc_modal \<Rightarrow> doc_event ui option" where
  "DocumentationModal pipelineName history m =
     (let p = dm_props m; isEditing = dm_activeTab m = Edit_tab
      in if \<not> dp_open p then None
         else Some (Box
           [Btn [] False Close, Txt pipelineName, Txt (js ''Documentation.md''),
            Btn (js ''Preview'') False Show_preview,
            Btn (js ''Edit'') (\<not> dp_canEdit p) Show_edit,
            Btn (js ''History'') False Show_history,
            show_if (isEditing \<and> dp_canEdit p)
              (Btn (if dp_isSaving p then js ''Saving'' @ [0x2026] else js ''Save'') (dp_isSaving p) Save),
            Btn [] False Close,
            (if isEditing then map_ui Editor (MarkdownEditor (dm_editValue m) (dm_cheatsheet m))
             else if dm_activeTab m = History then history
             else if trim (previewContent m) \<noteq> [] then Txt (previewContent m)
             else EmptyDocState (dp_canEdit p)),
            Txt (case dm_activeTab m of
                Edit_tab \<Rightarrow> js ''Markdown + GFM '' @ middle_dot @ js '' Use toolbar for formatting''
              | History \<Rightarrow> js ''Revision history '' @ middle_dot @ js '' Previous versions of documentation''
              | Preview \<Rightarrow> if dp_canEdit p then js ''Read-only preview''
                           else js ''View only '' @ em_dash @ js '' you don'' @ [0x2019] @ js ''t have edit permissions'')]))"

(* src: frontend/src/components/bento-workspace/DocumentationPreview.tsx 53-84 DocumentationPreview *)
definition DocumentationPreview :: "jsstr option \<Rightarrow> bool \<Rightarrow> unit ui" where
  "DocumentationPreview documentation canEdit =
     Box [Btn (js ''Documentation'') False (),
       (case documentation of
          Some d \<Rightarrow> if trim d \<noteq> [] then Txt d
                   else Txt (if canEdit then js ''Click to add documentation'' else js ''No documentation yet'')
        | None \<Rightarrow> Txt (if canEdit then js ''Click to add documentation'' else js ''No documentation yet''))]"

text \<open>
  A run: the properties change (never the right to edit, which is the product's), keys are
  pressed, and what the view offers is clicked or typed.
\<close>

datatype doc_run_event = Props doc_props | Doc_key jsstr bool | Doc_click "textarea option" doc_event

primrec doc_step :: "jsstr \<Rightarrow> doc_event ui \<Rightarrow> doc_run_event \<Rightarrow> doc_modal \<Rightarrow> doc_modal" where
  "doc_step nm hist (Props p) m = doc_new_props (p\<lparr>dp_canEdit := dp_canEdit (dm_props m)\<rparr>) m"
| "doc_step nm hist (Doc_key k c) m = doc_key k c m"
| "doc_step nm hist (Doc_click ref e) m =
     (case DocumentationModal nm hist m of
        None \<Rightarrow> m
      | Some v \<Rightarrow> if e \<in> raises v then doc_clicked ref e m else m)"

definition doc_locked :: "doc_modal \<Rightarrow> bool" where
  "doc_locked m \<longleftrightarrow> \<not> dp_canEdit (dm_props m) \<and> dm_activeTab m \<noteq> Edit_tab \<and> dm_saves m = []"

lemma doc_new_props_frame [simp]:
  "dm_saves (doc_new_props p m) = dm_saves m" "dm_props (doc_new_props p m) = p"
  by (simp_all add: doc_new_props_def Let_def)

lemma doc_new_props_tab:
  "dm_activeTab (doc_new_props p m) = dm_activeTab m \<or> dm_activeTab (doc_new_props p m) = Preview"
  by (simp add: doc_new_props_def Let_def)

lemma doc_close_frame [simp]:
  "dm_saves (doc_close m) = dm_saves m" "dp_canEdit (dm_props (doc_close m)) = dp_canEdit (dm_props m)"
  "dp_open (dm_props (doc_close m)) = False"
  "dm_activeTab (doc_close m) = dm_activeTab m"
  by (simp_all add: doc_close_def) (simp add: doc_new_props_def Let_def)

lemma locked_no_save:
  assumes "doc_locked m" and "DocumentationModal nm hist m = Some v" and "Save \<notin> raises hist"
  shows "Save \<notin> raises v"
  using assms
  by (auto simp: DocumentationModal_def Let_def doc_locked_def EmptyDocState_def split: if_splits)

lemma doc_locked_click:
  assumes "doc_locked m" and "e \<noteq> Save"
  shows "doc_locked (doc_clicked ref e m)"
  using assms
  by (cases e) (auto simp: doc_clicked_def doc_locked_def split: editor_event.splits option.splits)

lemma doc_locked_new_props:
  "doc_locked m \<Longrightarrow> dp_canEdit p = dp_canEdit (dm_props m) \<Longrightarrow> doc_locked (doc_new_props p m)"
  using doc_new_props_tab [of p m] by (auto simp: doc_locked_def)

lemma doc_locked_key: "doc_locked m \<Longrightarrow> doc_locked (doc_key k c m)"
  by (auto simp: doc_key_def doc_locked_def Let_def)



text \<open>
  While the modal is open, a new stored text, which a background fetch can bring after another user's
  save, discards the draft and leaves the editor.
\<close>

lemma refetch_discards_draft:
  assumes "dp_open (dm_props m)" and "d \<noteq> dp_documentation (dm_props m)"
  shows "let m' = doc_new_props ((dm_props m)\<lparr>dp_documentation := d\<rparr>) m in
    dm_activeTab m' = Preview \<and> dm_editValue m' = or_empty d \<and> dm_saves m' = dm_saves m"
  using assms by (simp add: doc_new_props_def Let_def)

text \<open>Clearing the draft brings the stored documentation back into the preview.\<close>

lemma cleared_draft_previews_stored:
  "previewContent (m\<lparr>dm_editValue := []\<rparr>) = or_empty (dp_documentation (dm_props m))"
  by (simp add: previewContent_def)

section \<open>Revisions\<close>

(* src: frontend/src/components/bento-workspace/RevisionHistoryPanel.tsx 6-18 SourceBadge *)
definition SourceBadge :: "change_source \<Rightarrow> 'e ui" where
  "SourceBadge src = Txt (case src of
     By_user \<Rightarrow> js ''User edit'' | By_restore \<Rightarrow> js ''Restored'' | By_system \<Rightarrow> js ''System'')"

datatype history_event = Ask jsstr | Confirm jsstr | Cancel_ask | Restore_now jsstr

text \<open>The panel keeps the revision it asks to confirm; restoring clears it when it succeeds.\<close>

(* src: frontend/src/components/bento-workspace/RevisionHistoryPanel.tsx 27-151 RevisionHistoryPanel *)
definition RevisionHistoryPanel ::
  "date_env \<Rightarrow> revision list query \<Rightarrow> bool \<Rightarrow> bool \<Rightarrow> jsstr option \<Rightarrow> history_event ui" where
  "RevisionHistoryPanel env q canEdit isRestoring confirmId =
     (let revisions = (case q_data q of None \<Rightarrow> [] | Some rs \<Rightarrow> rs)
      in if q_loading q then Txt (js ''Loading revision history...'')
         else if revisions = [] then
           Box [Txt (js ''No revision history''), Txt (js ''Changes will be tracked after the first edit'')]
         else Box
           [Txt (num_str (int (length revisions)) @ js '' revision'' @ (if length revisions \<noteq> 1 then js ''s'' else [])),
            Box (map (\<lambda>rev. Box
              [Txt (rv_changed_by rev), SourceBadge (rv_change_source rev),
               Txt (formatRelativeTime env (Some (rv_created_at rev))),
               show_if canEdit
                 (if confirmId = Some (rv_id rev)
                  then Box [Txt (js ''Restore this version?''),
                    Btn (if isRestoring then js ''Restoring...'' else js ''Confirm'') isRestoring (Confirm (rv_id rev)),
                    Btn (js ''Cancel'') False Cancel_ask]
                  else Btn (js ''Restore'') False (Ask (rv_id rev))),
               (case truthy (rv_content rev) of
                  Some c \<Rightarrow> Txt (if length c > 500 then slice 0 500 c @ js ''...'' else c)
                | None \<Rightarrow> Txt (js ''Empty content''))]) revisions)])"

(* src: frontend/src/components/bento-workspace/RevisionHistoryPanel.tsx 161-227 CompactRevisionList *)
definition CompactRevisionList ::
  "date_env \<Rightarrow> revision list query \<Rightarrow> bool \<Rightarrow> bool \<Rightarrow> history_event ui" where
  "CompactRevisionList env q canEdit isRestoring =
     (let revisions = (case q_data q of None \<Rightarrow> [] | Some rs \<Rightarrow> rs)
      in if q_loading q then Box []
         else if revisions = [] then Txt (js ''No description history yet'')
         else Box (map (\<lambda>rev. Box
           [Txt (rv_changed_by rev), SourceBadge (rv_change_source rev),
            Txt (formatRelativeTime env (Some (rv_created_at rev))),
            Txt (case truthy (rv_content rev) of Some c \<Rightarrow> c | None \<Rightarrow> js ''(empty)''),
            show_if canEdit (Btn (js ''Restore'') isRestoring (Restore_now (rv_id rev)))]) (slice 0 10 revisions)))"

text \<open>Clicks in the panel: the requests sent, and the revision asked about.\<close>

(* src: frontend/src/components/bento-workspace/RevisionHistoryPanel.tsx 35-44 handleRestore *)
primrec history_clicked :: "jsstr \<Rightarrow> history_event \<Rightarrow> jsstr option \<Rightarrow> jsstr option \<times> mutation list" where
  "history_clicked pid (Ask i) c = (Some i, [])"
| "history_clicked pid (Confirm i) c = (c, [useRestoreRevision pid i])"
| "history_clicked pid Cancel_ask c = (None, [])"
| "history_clicked pid (Restore_now i) c = (c, [useRestoreRevision pid i])"

text \<open>A run of the panel: clicks on what it shows, while a restore is in flight or not, and answers of the server
  (a success clears the confirmation).\<close>

datatype history_run = H_click bool history_event | H_restored

primrec history_step ::
  "date_env \<Rightarrow> jsstr \<Rightarrow> revision list query \<Rightarrow> bool \<Rightarrow> history_run
     \<Rightarrow> jsstr option \<times> mutation list \<Rightarrow> jsstr option \<times> mutation list" where
  "history_step env pid q canEdit (H_click busy e) st =
     (if e \<in> raises (RevisionHistoryPanel env q canEdit busy (fst st))
      then (let r = history_clicked pid e (fst st) in (fst r, snd st @ snd r))
      else st)"
| "history_step env pid q canEdit H_restored st = (None, snd st)"

lemma panel_confirm:
  "Confirm i \<in> raises (RevisionHistoryPanel env q canEdit busy c) \<Longrightarrow> canEdit \<and> c = Some i \<and> \<not> busy"
  by (auto simp: RevisionHistoryPanel_def Let_def SourceBadge_def split: if_splits option.splits)

lemma panel_no_immediate: "Restore_now i \<notin> raises (RevisionHistoryPanel env q canEdit busy c)"
  by (auto simp: RevisionHistoryPanel_def Let_def SourceBadge_def split: if_splits option.splits)

text \<open>
  In the documentation history a revision is restored only on a second, confirming click:
  every click that sends a restore request confirms the very revision that was asked about, and
  readers can send none.
\<close>

theorem restore_needs_confirmation:
  "let st = fold (history_step env pid q canEdit) es (None, []);
       st' = history_step env pid q canEdit e st
   in snd st' = snd st \<or>
      (\<exists>i. canEdit \<and> e = H_click False (Confirm i) \<and> fst st = Some i \<and> snd st' = snd st @ [useRestoreRevision pid i])"
proof -
  define st where "st = fold (history_step env pid q canEdit) es (None, [])"
  have "snd (history_step env pid q canEdit e st) = snd st \<or>
      (\<exists>i. canEdit \<and> e = H_click False (Confirm i) \<and> fst st = Some i \<and>
         snd (history_step env pid q canEdit e st) = snd st @ [useRestoreRevision pid i])"
  proof (cases e)
    case (H_click busy h)
    then show ?thesis
      using panel_confirm [of _ env q canEdit busy "fst st"] panel_no_immediate [of _ env q canEdit busy "fst st"]
      by (cases h) (auto simp: Let_def)
  qed simp
  then show ?thesis unfolding Let_def st_def .
qed

section \<open>The description editor\<close>

record title_props =
  tp_pipelineId :: jsstr
  tp_description :: "jsstr option"
  tp_isSaving :: bool
  tp_canEdit :: bool

text \<open>Its state, with the descriptions it handed to \<open>onSaveDescription\<close> and their products.\<close>

(* src: frontend/src/components/bento-workspace/EditableTitle.tsx 24-28 useState *)
record title_editor =
  te_editing :: bool
  te_value :: jsstr
  te_history :: bool
  te_props :: title_props
  te_saves :: "(jsstr \<times> jsstr) list"

(* src: frontend/src/components/bento-workspace/EditableTitle.tsx 24-28 useState *)
definition init_title :: "title_props \<Rightarrow> title_editor" where
  "init_title p = \<lparr>te_editing = False, te_value = or_empty (tp_description p), te_history = False,
     te_props = p, te_saves = []\<rparr>"

(* src: frontend/src/components/bento-workspace/EditableTitle.tsx 30-34 useEffect *)
definition title_new_props :: "title_props \<Rightarrow> title_editor \<Rightarrow> title_editor" where
  "title_new_props p s =
     (if tp_pipelineId p \<noteq> tp_pipelineId (te_props s) \<or> tp_description p \<noteq> tp_description (te_props s)
      then s\<lparr>te_props := p, te_value := or_empty (tp_description p), te_editing := False, te_history := False\<rparr>
      else s\<lparr>te_props := p\<rparr>)"

(* src: frontend/src/components/bento-workspace/EditableTitle.tsx 56-59 handleSaveDesc *)
definition handleSaveDesc :: "title_editor \<Rightarrow> title_editor" where
  "handleSaveDesc s = s\<lparr>te_saves := te_saves s @ [(tp_pipelineId (te_props s), te_value s)], te_editing := False\<rparr>"

(* src: frontend/src/components/bento-workspace/EditableTitle.tsx 61-64 handleCancelEdit *)
definition handleCancelEdit :: "title_editor \<Rightarrow> title_editor" where
  "handleCancelEdit s = s\<lparr>te_value := or_empty (tp_description (te_props s)), te_editing := False\<rparr>"

(* src: frontend/src/components/bento-workspace/EditableTitle.tsx 66-74 handleKeyDown *)
definition title_key :: "jsstr \<Rightarrow> bool \<Rightarrow> title_editor \<Rightarrow> title_editor" where
  "title_key key ctrl s =
     (let s1 = (if key = js ''Enter'' \<and> ctrl then handleSaveDesc s else s)
      in if key = js ''Escape'' then handleCancelEdit s1 else s1)"

text \<open>A press of the mouse outside the history popover.\<close>

(* src: frontend/src/components/bento-workspace/EditableTitle.tsx 37-46 handleClick *)
definition press_outside :: "title_editor \<Rightarrow> title_editor" where
  "press_outside s = (if te_history s then s\<lparr>te_history := False\<rparr> else s)"

datatype title_event =
    Type_desc jsstr
  | Key_desc jsstr bool
  | Cancel_desc
  | Save_desc
  | Toggle_history
  | Close_history
  | Start_edit

(* src: frontend/src/components/bento-workspace/EditableTitle.tsx 79-159 onChange onClick *)
primrec title_clicked :: "title_event \<Rightarrow> title_editor \<Rightarrow> title_editor" where
  "title_clicked (Type_desc t) s = s\<lparr>te_value := slice 0 270 t\<rparr>"
| "title_clicked (Key_desc k c) s = title_key k c s"
| "title_clicked Cancel_desc s = handleCancelEdit s"
| "title_clicked Save_desc s = handleSaveDesc s"
| "title_clicked Toggle_history s = s\<lparr>te_history := \<not> te_history s\<rparr>"
| "title_clicked Close_history s = s\<lparr>te_history := False\<rparr>"
| "title_clicked Start_edit s = s\<lparr>te_value := or_empty (tp_description (te_props s)), te_editing := True\<rparr>"

(* src: frontend/src/components/bento-workspace/EditableTitle.tsx 76-163 EditableTitle *)
definition EditableTitle :: "history_event ui \<Rightarrow> title_editor \<Rightarrow> (title_event + history_event) ui" where
  "EditableTitle revisions s =
     (let p = te_props s
      in if te_editing s \<and> tp_canEdit p then
           Box [Inp (te_value s) False (\<lambda>t. Inl (Type_desc t)),
             Txt (num_str (int (length (te_value s))) @ js ''/270 '' @ middle_dot @ js '' Ctrl+Enter to save '' @
               middle_dot @ js '' Esc to cancel''),
             Btn (js ''Cancel'') False (Inl Cancel_desc),
             Btn (if tp_isSaving p then js ''Saving'' @ [0x2026] else js ''Save Changes'') (tp_isSaving p) (Inl Save_desc)]
         else
           Box [Txt (case truthy (tp_description p) of Some d \<Rightarrow> d | None \<Rightarrow> js ''No description''),
             Btn (js ''Description history'') False (Inl Toggle_history),
             show_if (te_history s)
               (Box [Txt (js ''Description History''), Btn [] False (Inl Close_history), map_ui Inr revisions]),
             show_if (tp_canEdit p) (Btn (js ''Edit Description'') False (Inl Start_edit))])"

text \<open>
  A run: new properties, clicks and input the view offers, presses elsewhere, and keys, which reach the component
  only while its text area is shown.
\<close>

datatype title_run = New_props title_props | Click_title title_event | Press_outside

primrec title_step :: "history_event ui \<Rightarrow> title_run \<Rightarrow> title_editor \<Rightarrow> title_editor" where
  "title_step rs (New_props p) s = title_new_props p s"
| "title_step rs (Click_title e) s =
     (if (case e of Key_desc k c \<Rightarrow> te_editing s \<and> tp_canEdit (te_props s)
          | _ \<Rightarrow> Inl e \<in> raises (EditableTitle rs s))
      then title_clicked e s else s)"
| "title_step rs Press_outside s = press_outside s"

text \<open>The draft is the stored description or a typed text of at most 270 units, and every save was
  the draft of its own product at a moment when that product could be edited.\<close>

definition title_ok :: "title_editor \<Rightarrow> bool" where
  "title_ok s \<longleftrightarrow> length (te_value s) \<le> max 270 (length (or_empty (tp_description (te_props s))))"

lemma title_clicked_ok: "title_ok s \<Longrightarrow> title_ok (title_clicked e s)"
  by (cases e)
    (auto simp: title_ok_def title_key_def Let_def handleSaveDesc_def handleCancelEdit_def slice_def)

lemma title_step_ok: "title_ok s \<Longrightarrow> title_ok (title_step rs e s)"
proof (cases e)
  case (New_props p)
  assume "title_ok s"
  with New_props show ?thesis by (auto simp: title_ok_def title_new_props_def)
qed (simp_all add: title_clicked_ok, simp add: title_ok_def press_outside_def)

interpretation title_run: event_machine "title_step rs" "init_title p" title_ok for rs p
  by unfold_locales (simp_all add: title_step_ok, simp add: title_ok_def init_title_def)

text \<open>
  At every moment a step of the description editor sends at most one save, only while the
  product may be edited and its editor is open, for the product that is shown, and of a text that
  is at most 270 units long or no longer than the stored description; switching to another
  product drops the draft.
\<close>

theorem description_saves:
  "let s = fold (title_step rs) es (init_title p); s' = title_step rs e s in
     (te_saves s' = te_saves s \<or>
      tp_canEdit (te_props s) \<and> te_editing s \<and> te_saves s' = te_saves s @ [(tp_pipelineId (te_props s), te_value s)] \<and>
      length (te_value s) \<le> max 270 (length (or_empty (tp_description (te_props s))))) \<and>
     (tp_pipelineId (te_props s') = tp_pipelineId (te_props s) \<or>
      te_value s' = or_empty (tp_description (te_props s')) \<and> \<not> te_editing s')"
proof -
  define s where "s = fold (title_step rs) es (init_title p)"
  have ok: "title_ok s" unfolding s_def by (rule title_run.inv_run)
  have save: "tp_canEdit (te_props s) \<and> te_editing s" if "Inl Save_desc \<in> raises (EditableTitle rs s)"
    using that by (auto simp: EditableTitle_def Let_def split: if_splits)
  have "te_saves (title_step rs e s) = te_saves s \<or>
      tp_canEdit (te_props s) \<and> te_editing s \<and>
      te_saves (title_step rs e s) = te_saves s @ [(tp_pipelineId (te_props s), te_value s)]"
  proof (cases e)
    case (Click_title c)
    then show ?thesis
      using save by (cases c) (auto simp: title_key_def Let_def handleSaveDesc_def handleCancelEdit_def)
  qed (simp_all add: title_new_props_def press_outside_def)
  moreover have "tp_pipelineId (te_props (title_step rs e s)) = tp_pipelineId (te_props s) \<or>
      te_value (title_step rs e s) = or_empty (tp_description (te_props (title_step rs e s))) \<and>
      \<not> te_editing (title_step rs e s)"
  proof (cases e)
    case (Click_title c)
    then show ?thesis
      by (cases c) (auto simp: title_key_def Let_def handleSaveDesc_def handleCancelEdit_def)
  qed (simp_all add: title_new_props_def press_outside_def)
  ultimately show ?thesis
    using ok unfolding Let_def s_def [symmetric] title_ok_def by blast
qed

section \<open>Copying\<close>

text \<open>The copy button: what it puts on the clipboard, by the clipboard interface or, when that
  throws, by the fallback, and its two-second tick.\<close>

record copy_button =
  cb_clipboard :: jsstr
  cb_copied :: bool
  cb_timers :: "nat list"

(* src: frontend/src/components/shared/CopyButton.tsx 12-28 handleCopy *)
definition handleCopy :: "bool \<Rightarrow> bool \<Rightarrow> jsstr \<Rightarrow> copy_button \<Rightarrow> copy_button" where
  "handleCopy clipboard_works command_works text s =
     s\<lparr>cb_clipboard := (if clipboard_works \<or> command_works then text else cb_clipboard s),
       cb_copied := True, cb_timers := cb_timers s @ [2000]\<rparr>"

definition copy_elapse :: "nat \<Rightarrow> copy_button \<Rightarrow> copy_button" where
  "copy_elapse n s =
     s\<lparr>cb_copied := (if list_ex (\<lambda>t. t \<le> n) (cb_timers s) then False else cb_copied s),
       cb_timers := map (\<lambda>t. t - n) (filter (\<lambda>t. n < t) (cb_timers s))\<rparr>"

(* src: frontend/src/components/shared/CopyButton.tsx 30-42 CopyButton *)
definition CopyButton :: "copy_button \<Rightarrow> unit ui" where
  "CopyButton s = Btn (if cb_copied s then js ''Check'' else js ''Copy'') False ()"

text \<open>A failed copy is reported as one that worked.\<close>

lemma copy_claims_success: "cb_copied (handleCopy False False text s)"
  by (simp add: handleCopy_def)

end
