(* ===== verification/Markdown.thy ===== *)
theory Markdown
  imports Editing
begin

text \<open>
  Rendered markdown: the element tables of the documentation
  (\<^verbatim>\<open>documentation/markdown-components.tsx\<close>) and of the chat (\<^verbatim>\<open>ai-terminal/ChatMessage.tsx\<close>)
  over the tree that the markdown libraries make of a text, and the documentation's sanitising
  schema.  The libraries are not modelled: the tree is the argument.  Class names a table adds are
  styling and left out, and so are icons.
\<close>

section \<open>Trees\<close>

datatype prop_value = V_text jsstr | V_bool bool

type_synonym props = "(jsstr \<times> prop_value) list"

text \<open>What the libraries hand to the tables: texts and elements with properties and children.\<close>

datatype hast = HText jsstr | HElem jsstr props "hast list"

text \<open>What is put on the page; a language label cannot be selected, a copy button holds the text it copies.\<close>

datatype dom = DText jsstr | DElem jsstr props "dom list" | DLabel jsstr | DCopy jsstr

definition prop_text :: "jsstr \<Rightarrow> props \<Rightarrow> jsstr option" where
  "prop_text k ps = (case map_of ps k of Some (V_text t) \<Rightarrow> Some t | _ \<Rightarrow> None)"

definition pass :: "jsstr \<Rightarrow> props \<Rightarrow> props" where
  "pass k ps = (case map_of ps k of Some v \<Rightarrow> [(k, v)] | None \<Rightarrow> [])"

text \<open>The properties left over by a destructuring.\<close>

definition rest_of :: "jsstr list \<Rightarrow> props \<Rightarrow> props" where
  "rest_of ks ps = filter (\<lambda>(k, v). k \<notin> set ks) ps"

definition void_tag :: "jsstr \<Rightarrow> bool" where
  "void_tag t \<longleftrightarrow> t \<in> {js ''hr'', js ''input'', js ''img'', js ''br''}"

fun hast_text :: "hast \<Rightarrow> jsstr" where
  "hast_text (HText s) = s"
| "hast_text (HElem t ps cs) = (if void_tag t then [] else concat (map hast_text cs))"

text \<open>The text a reader can select on the page.\<close>

fun dom_text :: "dom \<Rightarrow> jsstr" where
  "dom_text (DText s) = s"
| "dom_text (DElem t ps ds) = (if void_tag t then [] else concat (map dom_text ds))"
| "dom_text (DLabel s) = []"
| "dom_text (DCopy s) = []"

fun dom_all :: "(jsstr \<Rightarrow> props \<Rightarrow> bool) \<Rightarrow> dom \<Rightarrow> bool" where
  "dom_all P (DElem t ps ds) \<longleftrightarrow> P t ps \<and> list_all (dom_all P) ds"
| "dom_all P d \<longleftrightarrow> True"

fun copies :: "dom \<Rightarrow> jsstr list" where
  "copies (DElem t ps ds) = concat (map copies ds)"
| "copies (DCopy s) = [s]"
| "copies d = []"

text \<open>
  Rendering with a table: an element's component gets its tag, its properties, its children as the
  libraries pass them, and what the children are rendered to.
\<close>

type_synonym component_table = "jsstr \<Rightarrow> props \<Rightarrow> hast list \<Rightarrow> dom list \<Rightarrow> dom list"

fun render :: "component_table \<Rightarrow> hast \<Rightarrow> dom list" where
  "render table (HText s) = [DText s]"
| "render table (HElem t ps cs) = table t ps cs (concat (map (render table) cs))"

section \<open>Code blocks\<close>

text \<open>
  \<^verbatim>\<open>String(children)\<close>: no child is \<^verbatim>\<open>undefined\<close>, one child is passed itself, several
  are an array, whose items are joined by commas; an element is an object.
\<close>

definition node_string :: "hast \<Rightarrow> jsstr" where
  "node_string c = (case c of HText s \<Rightarrow> s | HElem t ps cs \<Rightarrow> js ''[object Object]'')"

definition children_string :: "hast list \<Rightarrow> jsstr" where
  "children_string cs =
     (if cs = [] \<or> cs = [HText []] then js ''undefined'' else join (js '','') (map node_string cs))"

definition chop_newline :: "jsstr \<Rightarrow> jsstr" where
  "chop_newline s = (if s \<noteq> [] \<and> last s = 10 then butlast s else s)"

text \<open>\<^verbatim>\<open>replace(/language-|hljs /g, "")\<close>.\<close>

function strip_marks :: "jsstr \<Rightarrow> jsstr" where
  "strip_marks s =
     (if prefix (js ''language-'') s then strip_marks (drop 9 s)
      else if prefix (js ''hljs '') s then strip_marks (drop 5 s)
      else (case s of [] \<Rightarrow> [] | c # t \<Rightarrow> c # strip_marks t))"
  by pat_completeness auto
termination
  by (relation "measure length") (auto dest!: prefix_length_le)

declare strip_marks.simps [simp del]

(* src: frontend/src/components/bento-workspace/documentation/markdown-components.tsx 114-114 isBlock *)
definition isBlock :: "props \<Rightarrow> bool" where
  "isBlock ps = (case prop_text (js ''className'') ps of
     None \<Rightarrow> False
   | Some c \<Rightarrow> str_includes c (js ''language-'') \<or> str_includes c (js ''hljs''))"

(* src: frontend/src/components/bento-workspace/documentation/markdown-components.tsx 113-143 code *)
definition code_component :: "props \<Rightarrow> hast list \<Rightarrow> dom list \<Rightarrow> dom list" where
  "code_component ps cs kids =
     (if isBlock ps then
        (let className = prop_text (js ''className'') ps;
             lang = (case className of Some c \<Rightarrow> trim (strip_marks c) | None \<Rightarrow> []);
             codeText = chop_newline (children_string cs)
         in (if lang \<noteq> [] then [DLabel lang] else []) @
            [DElem (js ''code'') (pass (js ''className'') ps) kids, DCopy codeText])
      else [DElem (js ''code'') [] kids])"

text \<open>The button of a code block; a clipboard that refuses stops the handler before it marks success.\<close>

(* src: frontend/src/components/bento-workspace/documentation/markdown-components.tsx 7-23 CopyButton *)
definition code_copy :: "bool \<Rightarrow> jsstr \<Rightarrow> copy_button \<Rightarrow> copy_button" where
  "code_copy clipboard_works code s =
     (if clipboard_works
      then s\<lparr>cb_clipboard := code, cb_copied := True, cb_timers := cb_timers s @ [2000]\<rparr> else s)"

section \<open>The documentation's table\<close>

definition text_tags :: "jsstr list" where
  "text_tags = [js ''h1'', js ''h2'', js ''h3'', js ''h4'', js ''h5'', js ''h6'', js ''p'', js ''strong'', js ''em'',
     js ''blockquote'', js ''ul'', js ''ol'', js ''li'', js ''thead'', js ''th'', js ''td'', js ''del'', js ''details'',
     js ''summary'']"

(* src: frontend/src/components/bento-workspace/documentation/markdown-components.tsx 60-69 a *)
definition a_component :: "props \<Rightarrow> dom list \<Rightarrow> dom list" where
  "a_component ps kids = [DElem (js ''a'')
     (pass (js ''href'') ps @ [(js ''target'', V_text (js ''_blank'')), (js ''rel'', V_text (js ''noopener noreferrer''))]) kids]"

(* src: frontend/src/components/bento-workspace/documentation/markdown-components.tsx 147-154 input *)
definition input_component :: "props \<Rightarrow> dom list" where
  "input_component ps = [DElem (js ''input'')
     (rest_of [js ''checked'', js ''disabled''] ps @ pass (js ''checked'') ps @ [(js ''disabled'', V_bool True)]) []]"

(* src: frontend/src/components/bento-workspace/documentation/markdown-components.tsx 168-185 div *)
definition div_component :: "props \<Rightarrow> dom list \<Rightarrow> dom list" where
  "div_component ps kids =
     (if prop_text (js ''dir'') ps = Some (js ''rtl'')
      then [DElem (js ''div'') [(js ''dir'', V_text (js ''rtl'')),
              (js ''lang'', V_text (case truthy (prop_text (js ''lang'') ps) of Some l \<Rightarrow> l | None \<Rightarrow> js ''he''))] kids]
      else [DElem (js ''div'')
              (pass (js ''className'') ps @ rest_of [js ''dir'', js ''lang'', js ''className''] ps) kids])"

(* src: frontend/src/components/bento-workspace/documentation/markdown-components.tsx 27-192 markdownComponents *)
definition markdownComponents :: component_table where
  "markdownComponents t ps cs kids =
     (if t \<in> set text_tags then [DElem t [] kids]
      else if t = js ''a'' then a_component ps kids
      else if t = js ''hr'' then [DElem t [] []]
      else if t = js ''table'' then [DElem (js ''div'') [] [DElem t [] kids]]
      else if t = js ''pre'' then [DElem (js ''div'') [] [DElem t [] kids]]
      else if t = js ''code'' then code_component ps cs kids
      else if t = js ''input'' then input_component ps
      else if t = js ''div'' then div_component ps kids
      else if t = js ''section''
        then [DElem t (pass (js ''className'') ps @ rest_of [js ''className''] ps) kids]
      else [DElem t ps kids])"

section \<open>The chat's table\<close>

definition chat_tags :: "jsstr list" where
  "chat_tags = [js ''p'', js ''ul'', js ''ol'', js ''li'', js ''strong'', js ''em'', js ''h1'', js ''h2'', js ''h3'',
     js ''code'', js ''pre'', js ''blockquote'', js ''th'', js ''td'']"

(* src: frontend/src/components/ai-terminal/ChatMessage.tsx 12-48 chatMarkdown *)
definition chatMarkdown :: component_table where
  "chatMarkdown t ps cs kids =
     (if t \<in> set chat_tags then [DElem t [] kids]
      else if t = js ''a''
        then [DElem t (pass (js ''href'') ps @ [(js ''target'', V_text (js ''_blank'')),
                (js ''rel'', V_text (js ''noreferrer''))]) kids]
      else if t = js ''table'' then [DElem (js ''div'') [] [DElem t [] kids]]
      else [DElem t ps kids])"

section \<open>What every table keeps\<close>

text \<open>
  The contract of a table: the text of an element's rendering is the text of its rendered children,
  and what is required of elements holds of those it makes when it holds of the children.
\<close>

locale table_contract =
  fixes table :: component_table
    and ok :: "jsstr \<Rightarrow> props \<Rightarrow> bool"
  assumes text_kept: "concat (map dom_text (table t ps cs kids)) = (if void_tag t then [] else concat (map dom_text kids))"
    and elements_ok: "list_all (dom_all ok) kids \<Longrightarrow> list_all (dom_all ok) (table t ps cs kids)"
begin

lemma render_text: "concat (map dom_text (render table h)) = hast_text h"
proof (induction h)
  case (HElem t ps cs)
  then have "concat (map dom_text (concat (map (render table) cs))) = concat (map hast_text cs)"
    by (induction cs) auto
  then show ?case by (simp add: text_kept)
qed simp

lemma render_ok: "list_all (dom_all ok) (render table h)"
proof (induction h)
  case (HElem t ps cs)
  then have "list_all (dom_all ok) (concat (map (render table) cs))"
    by (auto simp: list_all_iff)
  then show ?case by (simp add: elements_ok)
qed simp

end

text \<open>Links open in a new tab that cannot reach back, and carry nothing but their address.\<close>

definition link_ok :: "jsstr \<Rightarrow> jsstr \<Rightarrow> props \<Rightarrow> bool" where
  "link_ok rel t ps \<longleftrightarrow>
     (if t = js ''a''
      then map_of ps (js ''target'') = Some (V_text (js ''_blank'')) \<and> map_of ps (js ''rel'') = Some (V_text rel) \<and>
           list_all (\<lambda>(k, v). k \<in> {js ''href'', js ''target'', js ''rel''}) ps
      else True)"

definition inert :: "jsstr \<Rightarrow> props \<Rightarrow> bool" where
  "inert t ps \<longleftrightarrow> link_ok (js ''noopener noreferrer'') t ps \<and>
     (if t = js ''input'' then map_of ps (js ''disabled'') = Some (V_bool True) else True)"

lemma map_of_rest: "map_of (rest_of ks ps) k = (if k \<in> set ks then None else map_of ps k)"
  unfolding rest_of_def by (induction ps) auto

lemma pass_keys: "(k', v) \<in> set (pass k ps) \<Longrightarrow> k' = k"
  by (auto simp: pass_def split: option.splits)

lemma map_of_pass: "map_of (pass k ps) k' = (if k' = k then map_of ps k else None)"
  by (auto simp: pass_def split: option.split)

lemmas table_defs = markdownComponents_def text_tags_def a_component_def input_component_def div_component_def
  code_component_def chatMarkdown_def chat_tags_def Let_def

lemma link_ok_pass: "link_ok rel (js ''a'') (pass (js ''href'') ps @ [(js ''target'', V_text (js ''_blank'')), (js ''rel'', V_text rel)])"
  by (auto simp: link_ok_def map_add_def map_of_pass list_all_iff dest: pass_keys)

interpretation doc_table: table_contract markdownComponents inert
proof
  show "concat (map dom_text (markdownComponents t ps cs kids)) = (if void_tag t then [] else concat (map dom_text kids))"
    for t ps cs kids
    by (simp add: table_defs void_tag_def)
  show "list_all (dom_all inert) (markdownComponents t ps cs kids)" if "list_all (dom_all inert) kids" for t ps cs kids
    using that link_ok_pass [of "js ''noopener noreferrer''" ps]
    by (simp add: table_defs inert_def map_add_def map_of_rest map_of_pass) (simp add: link_ok_def)
qed

interpretation chat_table: table_contract chatMarkdown "link_ok (js ''noreferrer'')"
proof
  show "concat (map dom_text (chatMarkdown t ps cs kids)) = (if void_tag t then [] else concat (map dom_text kids))"
    for t ps cs kids
    by (simp add: table_defs void_tag_def)
  show "list_all (dom_all (link_ok (js ''noreferrer''))) (chatMarkdown t ps cs kids)"
    if "list_all (dom_all (link_ok (js ''noreferrer''))) kids" for t ps cs kids
    using that link_ok_pass [of "js ''noreferrer''" ps]
    by (simp add: table_defs) (simp add: link_ok_def)
qed

text \<open>
  C32: whatever markdown and HTML a text contains, every link of its rendering opens in a new tab
  that cannot reach back to the application and carries nothing but its address, in the
  documentation and in the chat, and every input of rendered documentation is disabled.
\<close>

theorem rendered_markdown_is_inert:
  "list_all (dom_all inert) (render markdownComponents h) \<and>
   list_all (dom_all (link_ok (js ''noreferrer''))) (render chatMarkdown h)"
  by (simp add: doc_table.render_ok chat_table.render_ok)

text \<open>
  Rendering loses no text and adds none that can be selected: the documentation's table and the
  chat's both show exactly the text of the tree, whatever its elements.
\<close>

theorem rendering_keeps_text:
  "concat (map dom_text (render markdownComponents h)) = hast_text h \<and>
   concat (map dom_text (render chatMarkdown h)) = hast_text h"
  by (simp add: doc_table.render_text chat_table.render_text)

section \<open>What the copy button of a code block copies\<close>

definition is_element :: "hast \<Rightarrow> bool" where
  "is_element c = (case c of HText s \<Rightarrow> False | HElem t ps cs \<Rightarrow> True)"

abbreviation object_text :: jsstr where
  "object_text \<equiv> js ''[object Object]''"

lemma copies_code:
  assumes "isBlock ps" and "list_all (\<lambda>d. copies d = []) kids"
  shows "concat (map copies (code_component ps cs kids)) = [chop_newline (children_string cs)]"
proof -
  have "concat (map copies kids) = []" using assms(2) by (simp add: list_all_iff)
  with assms(1) show ?thesis by (simp add: code_component_def Let_def)
qed

lemma sublist_join: "x \<in> set xs \<Longrightarrow> sublist x (join sep xs)"
proof (induction sep xs rule: join.induct)
  case (3 sep s t ts)
  show ?case
  proof (cases "x = s")
    case True
    then show ?thesis by (simp add: sublist_appendI)
  next
    case False
    with 3 have "sublist x (join sep (t # ts))" by auto
    then show ?thesis by (simp add: sublist_append)
  qed
qed simp_all

lemma element_in_string:
  assumes "list_ex is_element cs"
  shows "sublist object_text (children_string cs)"
proof -
  obtain c where c: "c \<in> set cs" "is_element c" using assms by (auto simp: list_ex_iff)
  then have "node_string c = object_text" by (auto simp: node_string_def is_element_def split: hast.splits)
  with c(1) have "object_text \<in> set (map node_string cs)" by (metis image_eqI list.set_map)
  moreover have "cs \<noteq> [] \<and> cs \<noteq> [HText []]" using c by (auto simp: is_element_def)
  ultimately show ?thesis by (simp only: children_string_def simp_thms if_False sublist_join)
qed

lemma sublist_butlast:
  assumes "sublist x s" and "x \<noteq> []" and "last x \<noteq> last s"
  shows "sublist x (butlast s)"
proof -
  obtain u v where s: "s = u @ x @ v" using assms(1) by (auto simp: sublist_def)
  then have "v \<noteq> []" using assms(2,3) by auto
  then show ?thesis unfolding s by (simp add: butlast_append sublist_appendI)
qed

lemma object_text_last: "last object_text \<noteq> 10" "object_text \<noteq> []"
  by (simp_all add: js_def)

lemma object_in_chopped: "sublist object_text s \<Longrightarrow> sublist object_text (chop_newline s)"
  using sublist_butlast [OF _ object_text_last(2)] object_text_last(1) by (auto simp: chop_newline_def)

text \<open>
  C33: the copy button of a code block whose content is one text copies exactly that text without
  its final line break; but where the content has an element in it, as syntax highlighting makes
  it, the copied text has "[object Object]" in place of that element.
\<close>

theorem copy_button_text:
  assumes "isBlock ps"
  shows "concat (map copies (render markdownComponents (HElem (js ''code'') ps [HText (s @ [10])]))) = [s] \<and>
    (if list_ex is_element cs
     then list_all (\<lambda>t. str_includes t object_text) (map chop_newline [children_string cs]) \<and>
       chop_newline (children_string cs) \<in>
         set (concat (map copies (render markdownComponents (HElem (js ''code'') ps cs))))
     else True)"
proof -
  have code: "render markdownComponents (HElem (js ''code'') ps cs) =
      code_component ps cs (concat (map (render markdownComponents) cs))" for cs
    by (simp add: markdownComponents_def text_tags_def)
  have "chop_newline (children_string [HText (s @ [10])]) = s"
    by (simp add: children_string_def node_string_def chop_newline_def)
  then have "concat (map copies (render markdownComponents (HElem (js ''code'') ps [HText (s @ [10])]))) = [s]"
    unfolding code using copies_code [OF assms] by simp
  moreover have "chop_newline (children_string cs) \<in>
      set (concat (map copies (render markdownComponents (HElem (js ''code'') ps cs))))"
    unfolding code using assms by (simp add: code_component_def Let_def)
  moreover have "list_ex is_element cs \<Longrightarrow> str_includes (chop_newline (children_string cs)) object_text"
    unfolding str_includes_def by (intro object_in_chopped element_in_string)
  ultimately show ?thesis by simp
qed

text \<open>A highlighted line of SQL.\<close>

definition sql_class :: props where
  "sql_class = [(js ''className'', V_text (js ''hljs language-sql''))]"

definition sql_line :: "hast list" where
  "sql_line = [HElem (js ''span'') [] [HText (js ''select'')], HText (js '' 1'')]"

lemma sql_block: "isBlock sql_class"
proof -
  have "sublist (js ''hljs'') (js ''hljs'' @ js '' language-sql'')" by (rule sublist_append_rightI)
  then show ?thesis by (simp add: isBlock_def sql_class_def prop_text_def str_includes_def js_def)
qed

theorem copy_button_text_witness:
  "concat (map copies (render markdownComponents (HElem (js ''code'') sql_class [HText (js ''select 1'' @ [10])]))) =
     [js ''select 1''] \<and>
   chop_newline (children_string sql_line) = js ''[object Object], 1'' \<and>
   chop_newline (children_string sql_line) \<in>
     set (concat (map copies (render markdownComponents (HElem (js ''code'') sql_class sql_line))))"
  using copy_button_text [OF sql_block, of "js ''select 1''" sql_line]
  by (simp add: sql_line_def is_element_def) (simp add: children_string_def node_string_def chop_newline_def js_def)

section \<open>What the documentation's table drops\<close>

definition without_prop :: "jsstr \<Rightarrow> jsstr \<Rightarrow> props \<Rightarrow> bool" where
  "without_prop k t ps \<longleftrightarrow> map_of ps k = None"

text \<open>A footnote as the libraries make it: the reference and the note point at each other by identifiers.\<close>

definition footnote :: "jsstr \<Rightarrow> hast" where
  "footnote note = HElem (js ''section'') [(js ''className'', V_text (js ''footnotes''))]
     [HElem (js ''ol'') [] [HElem (js ''li'') [(js ''id'', V_text (js ''user-content-fn-1''))]
        [HElem (js ''p'') [] [HText note, HElem (js ''a'')
           [(js ''href'', V_text (js ''#user-content-fnref-1'')), (js ''id'', V_text (js ''back''))] []]]]]"

text \<open>No element of the rendering has an identifier left, so the reference leads nowhere.\<close>

lemma footnote_targets_lost: "list_all (dom_all (without_prop (js ''id''))) (render markdownComponents (footnote note))"
  by (simp add: footnote_def table_defs without_prop_def pass_def rest_of_def)

text \<open>A left-to-right block inside a right-to-left one loses its direction.\<close>

lemma inner_direction_lost:
  "render markdownComponents (HElem (js ''div'') [(js ''dir'', V_text (js ''rtl''))]
     [HElem (js ''div'') [(js ''dir'', V_text (js ''ltr''))] [HText s]]) =
   [DElem (js ''div'') [(js ''dir'', V_text (js ''rtl'')), (js ''lang'', V_text (js ''he''))]
     [DElem (js ''div'') [] [DText s]]]"
  by (simp add: table_defs prop_text_def pass_def rest_of_def truthy_def)

text \<open>An ordered list that starts elsewhere than at one starts at one.\<close>

lemma list_start_lost:
  "render markdownComponents (HElem (js ''ol'') [(js ''start'', V_text n)] []) = [DElem (js ''ol'') [] []]"
  by (simp add: table_defs)

section \<open>The sanitising schema\<close>

text \<open>\<open>Rule\<close>: a rule of the library's that also limits an attribute's values.\<close>

datatype 'r attribute_rule = Attr jsstr | Rule 'r

record 'r schema =
  sc_tagNames :: "jsstr list option"
  sc_attributes :: "jsstr \<Rightarrow> 'r attribute_rule list option"

definition added_attributes :: "(jsstr \<times> jsstr list) list" where
  "added_attributes = [(js ''div'', [js ''dir'', js ''lang'', js ''className'']), (js ''section'', [js ''className'']),
     (js ''code'', [js ''className'']), (js ''span'', [js ''className'']), (js ''pre'', [js ''className''])]"

(* src: frontend/src/components/bento-workspace/DocumentationModal.tsx 22-38 sanitizeSchema *)
definition sanitizeSchema :: "'r schema \<Rightarrow> 'r schema" where
  "sanitizeSchema defaultSchema = defaultSchema\<lparr>
     sc_tagNames := Some ((case sc_tagNames defaultSchema of None \<Rightarrow> [] | Some ts \<Rightarrow> ts) @
       [js ''details'', js ''summary'', js ''section'']),
     sc_attributes := (\<lambda>t. case map_of added_attributes t of
         None \<Rightarrow> sc_attributes defaultSchema t
       | Some ks \<Rightarrow>
           Some ((case sc_attributes defaultSchema t of None \<Rightarrow> [] | Some rs \<Rightarrow> rs) @ map Attr ks))\<rparr>"

text \<open>The card over the modal states the schema once more, entry by entry.\<close>

(* src: frontend/src/components/bento-workspace/DocumentationPreview.tsx 16-32 sanitizeSchema *)
definition preview_sanitizeSchema :: "'r schema \<Rightarrow> 'r schema" where
  "preview_sanitizeSchema defaultSchema =
     (let given = (\<lambda>t. case sc_attributes defaultSchema t of None \<Rightarrow> [] | Some rs \<Rightarrow> rs);
          styled = [Attr (js ''className'')]
      in defaultSchema\<lparr>
        sc_tagNames := Some ((case sc_tagNames defaultSchema of None \<Rightarrow> [] | Some ts \<Rightarrow> ts) @
          [js ''details'', js ''summary'', js ''section'']),
        sc_attributes := (sc_attributes defaultSchema)
          (js ''div'' \<mapsto> given (js ''div'') @ [Attr (js ''dir''), Attr (js ''lang''), Attr (js ''className'')],
           js ''section'' \<mapsto> given (js ''section'') @ styled,
           js ''code'' \<mapsto> given (js ''code'') @ styled,
           js ''span'' \<mapsto> given (js ''span'') @ styled,
           js ''pre'' \<mapsto> given (js ''pre'') @ styled)\<rparr>)"

lemma card_sanitises_as_modal: "preview_sanitizeSchema d = sanitizeSchema d"
proof -
  have "sc_attributes (preview_sanitizeSchema d) t = sc_attributes (sanitizeSchema d) t" for t
    by (auto simp: preview_sanitizeSchema_def sanitizeSchema_def added_attributes_def Let_def)
  then show ?thesis
    by (intro schema.equality) (auto simp: preview_sanitizeSchema_def sanitizeSchema_def Let_def)
qed

definition allows_attribute :: "'r schema \<Rightarrow> jsstr \<Rightarrow> 'r attribute_rule \<Rightarrow> bool" where
  "allows_attribute sch t r = (case sc_attributes sch t of None \<Rightarrow> False | Some rs \<Rightarrow> r \<in> set rs)"

text \<open>The schema allows no event handler and no address that the library's default does not.\<close>

lemma schema_adds_styling_only:
  "allows_attribute (sanitizeSchema d) t r \<Longrightarrow>
     allows_attribute d t r \<or> r \<in> Attr ` {js ''dir'', js ''lang'', js ''className''}"
  by (auto simp: allows_attribute_def sanitizeSchema_def added_attributes_def split: option.splits if_splits)

end
