(* ===== verification/Products.thy ===== *)
theory Products
  imports Tables_View Catalog Editing
begin

text \<open>
  Products: the workspace of the selected product (\<^verbatim>\<open>DataProductWorkspace.tsx\<close>, with
  \<^verbatim>\<open>BentoHeader.tsx\<close>), the modal that edits or deletes it, and the modal that creates one
  (\<^verbatim>\<open>CreateDataProductModal.tsx\<close>).  A \<^verbatim>\<open>select\<close> element is the list of its
  options, each a choice that raises the change.
\<close>

definition choice :: "(jsstr \<times> jsstr) list \<Rightarrow> (jsstr \<Rightarrow> 'e) \<Rightarrow> 'e ui" where
  "choice opts f = Box (map (\<lambda>(v, label). Btn label False (f v)) opts)"

lemma raises_choice [simp]: "raises (choice opts f) = f ` fst ` set opts"
  by (induction opts) (auto simp: choice_def)

definition schedules :: "jsstr \<Rightarrow> (jsstr \<times> jsstr) list" where
  "schedules none = [([], none), (js ''daily'', js ''Daily''), (js ''hourly'', js ''Hourly''),
     (js ''stream'', js ''Stream'')]"

text \<open>The detail the server gives for an error, or the fallback.\<close>

definition error_text :: "jsstr option \<Rightarrow> jsstr \<Rightarrow> jsstr" where
  "error_text detail fallback = (case truthy detail of Some d \<Rightarrow> d | None \<Rightarrow> fallback)"

section \<open>Creating a product\<close>

(* src: frontend/src/components/data-products/CreateDataProductModal.tsx 17-22 useState *)
record create_form =
  cf_name :: jsstr
  cf_description :: jsstr
  cf_documentation :: jsstr
  cf_scheduleType :: jsstr
  cf_tables :: "jsstr list"
  cf_team :: jsstr
  cf_search :: jsstr

(* src: frontend/src/components/data-products/CreateDataProductModal.tsx 54-61 resetForm *)
definition resetForm :: "create_form \<Rightarrow> create_form" where
  "resetForm f = f\<lparr>cf_name := [], cf_description := [], cf_documentation := [], cf_scheduleType := [],
     cf_tables := [], cf_team := []\<rparr>"

definition empty_form :: create_form where
  "empty_form = \<lparr>cf_name = [], cf_description = [], cf_documentation = [], cf_scheduleType = [],
     cf_tables = [], cf_team = [], cf_search = []\<rparr>"

(* src: frontend/src/components/data-products/CreateDataProductModal.tsx 25-27 mustChooseTeam *)
definition mustChooseTeam :: "user_info option \<Rightarrow> bool" where
  "mustChooseTeam u \<longleftrightarrow> length (case u of None \<Rightarrow> [] | Some i \<Rightarrow> teams i) > 1"

(* src: frontend/src/components/data-products/CreateDataProductModal.tsx 30-40 mutationFn *)
definition create_request :: "create_form \<Rightarrow> request" where
  "create_request f = send POST (js ''/data-products'') (Some (JObj
     [(js ''name'', JStr (cf_name f)), (js ''description'', json_opt (truthy (Some (cf_description f)))),
      (js ''documentation'', json_opt (truthy (Some (cf_documentation f)))),
      (js ''schedule_type'', json_opt (truthy (Some (cf_scheduleType f)))),
      (js ''team'', json_opt (truthy (Some (cf_team f)))),
      (js ''tables'', JArr (map JStr (cf_tables f)))]))"

text \<open>The modal with its parent's open flag, the pending mutation and what it has done.\<close>

record create_modal =
  cm_open :: bool
  cm_form :: create_form
  cm_pending :: bool
  cm_sent :: "create_form list"
  cm_effects :: "effect list"
  cm_selected :: "jsstr option"

(* src: frontend/src/components/data-products/CreateDataProductModal.tsx 41-46 onSuccess *)
definition create_success :: "jsstr \<Rightarrow> create_modal \<Rightarrow> create_modal" where
  "create_success productId m =
     m\<lparr>cm_pending := False, cm_form := resetForm (cm_form m), cm_open := False, cm_selected := Some productId,
       cm_effects := cm_effects m @ [Invalidate [JStr (js ''data-products'')],
         Toast_success (js ''Data product \"'' @ cf_name (cm_form m) @ js ''\" created'')]\<rparr>"

(* src: frontend/src/components/data-products/CreateDataProductModal.tsx 47-51 onError *)
definition create_error :: "jsstr option \<Rightarrow> create_modal \<Rightarrow> create_modal" where
  "create_error detail m =
     m\<lparr>cm_pending := False,
       cm_effects := cm_effects m @ [Toast_error (error_text detail (js ''Failed to create data product''))]\<rparr>"

datatype create_event =
    C_close
  | C_name jsstr
  | C_description jsstr
  | C_documentation jsstr
  | C_schedule jsstr
  | C_team jsstr
  | C_pick select_event
  | C_cancel
  | C_create

(* src: frontend/src/components/data-products/CreateDataProductModal.tsx 63-181 CreateDataProductModal *)
definition CreateDataProductModal ::
  "(jsstr \<Rightarrow> jsstr) \<Rightarrow> table_ref list query \<Rightarrow> user_info option \<Rightarrow> create_modal \<Rightarrow> create_event ui option" where
  "CreateDataProductModal lower q u m =
     (let f = cm_form m
      in if \<not> cm_open m then None
         else Some (Box
           [Txt (js ''New Data Product''), Btn [] False C_close,
            Inp (cf_name f) False C_name,
            Inp (cf_description f) False C_description,
            Txt (num_str (int (length (cf_description f))) @ js ''/270''),
            Inp (cf_documentation f) False C_documentation,
            choice (schedules (js ''Select schedule...'')) C_schedule,
            show_if (mustChooseTeam u)
              (choice (([], js ''Select team...'') # map (\<lambda>t. (t, t)) (case u of None \<Rightarrow> [] | Some i \<Rightarrow> teams i)) C_team),
            map_ui C_pick (TableSelect lower q (cf_search f) (cf_tables f)),
            Btn (js ''Cancel'') False C_cancel,
            Btn (if cm_pending m then js ''Creating...'' else js ''Create'')
              (trim (cf_name f) = [] \<or> (mustChooseTeam u \<and> cf_team f = []) \<or> cm_pending m) C_create]))"

(* src: frontend/src/components/data-products/CreateDataProductModal.tsx 70-172 onChange onClick *)
definition create_clicked ::
  "(jsstr \<Rightarrow> jsstr) \<Rightarrow> table_ref list query \<Rightarrow> create_event \<Rightarrow> create_modal \<Rightarrow> create_modal" where
  "create_clicked lower q e m =
     (let f = cm_form m; upd = (\<lambda>g. m\<lparr>cm_form := g\<rparr>)
      in case e of
           C_close \<Rightarrow> m\<lparr>cm_open := False\<rparr>
         | C_name t \<Rightarrow> upd (f\<lparr>cf_name := t\<rparr>)
         | C_description t \<Rightarrow> upd (f\<lparr>cf_description := slice 0 270 t\<rparr>)
         | C_documentation t \<Rightarrow> upd (f\<lparr>cf_documentation := t\<rparr>)
         | C_schedule t \<Rightarrow> upd (f\<lparr>cf_scheduleType := t\<rparr>)
         | C_team t \<Rightarrow> upd (f\<lparr>cf_team := t\<rparr>)
         | C_pick pe \<Rightarrow>
             (let p = picker_step lower q pe (cf_search f, cf_tables f)
              in upd (f\<lparr>cf_search := fst p, cf_tables := snd p\<rparr>))
         | C_cancel \<Rightarrow> m\<lparr>cm_open := False, cm_form := resetForm f\<rparr>
         | C_create \<Rightarrow> m\<lparr>cm_pending := True, cm_sent := cm_sent m @ [f]\<rparr>)"

text \<open>A run: the registry opens the modal, the user acts on what it shows, the server answers the
  pending request.\<close>

datatype create_run = R_open | R_user create_event | R_created jsstr | R_failed "jsstr option"

primrec create_step ::
  "(jsstr \<Rightarrow> jsstr) \<Rightarrow> table_ref list query \<Rightarrow> user_info option \<Rightarrow> create_run \<Rightarrow> create_modal \<Rightarrow> create_modal" where
  "create_step lower q u R_open m = m\<lparr>cm_open := True\<rparr>"
| "create_step lower q u (R_user e) m =
     (case CreateDataProductModal lower q u m of
        None \<Rightarrow> m | Some v \<Rightarrow> if e \<in> raises v then create_clicked lower q e m else m)"
| "create_step lower q u (R_created i) m = (if cm_pending m then create_success i m else m)"
| "create_step lower q u (R_failed d) m = (if cm_pending m then create_error d m else m)"

definition init_create :: create_modal where
  "init_create = \<lparr>cm_open = False, cm_form = empty_form, cm_pending = False, cm_sent = [],
     cm_effects = [], cm_selected = None\<rparr>"

definition schedule_ok :: "jsstr \<Rightarrow> bool" where
  "schedule_ok t \<longleftrightarrow> t \<in> {[], js ''daily'', js ''hourly'', js ''stream''}"

definition form_ok :: "user_info option \<Rightarrow> create_form \<Rightarrow> bool" where
  "form_ok u f \<longleftrightarrow> length (cf_description f) \<le> 270 \<and> distinct (cf_tables f) \<and> schedule_ok (cf_scheduleType f) \<and>
     (cf_team f = [] \<or> mustChooseTeam u \<and> (\<exists>i. u = Some i \<and> cf_team f \<in> set (teams i)))"

definition sendable :: "user_info option \<Rightarrow> create_form \<Rightarrow> bool" where
  "sendable u f \<longleftrightarrow> form_ok u f \<and> trim (cf_name f) \<noteq> [] \<and> (mustChooseTeam u \<longrightarrow> cf_team f \<noteq> [])"

definition create_ok :: "user_info option \<Rightarrow> create_modal \<Rightarrow> bool" where
  "create_ok u m \<longleftrightarrow> form_ok u (cm_form m) \<and> list_all (sendable u) (cm_sent m)"

lemma form_ok_reset: "form_ok u (resetForm f)"
  by (simp add: form_ok_def resetForm_def schedule_ok_def)

lemma create_view_raises:
  assumes "CreateDataProductModal lower q u m = Some v" and "e \<in> raises v"
  shows "(\<forall>t. e = C_schedule t \<longrightarrow> schedule_ok t)"
    and "(\<forall>t. e = C_team t \<longrightarrow> mustChooseTeam u \<and> (t = [] \<or> (\<exists>i. u = Some i \<and> t \<in> set (teams i))))"
    and "e = C_create \<longrightarrow> trim (cf_name (cm_form m)) \<noteq> [] \<and>
      (mustChooseTeam u \<longrightarrow> cf_team (cm_form m) \<noteq> []) \<and> \<not> cm_pending m"
  using assms
  by (auto simp: CreateDataProductModal_def Let_def schedules_def schedule_ok_def split: if_splits option.splits)

lemma create_clicked_ok:
  assumes ok: "create_ok u m" and tables: "distinct (map tableKey (tables_of q))"
    and v: "CreateDataProductModal lower q u m = Some v" and e: "e \<in> raises v"
  shows "create_ok u (create_clicked lower q e m)"
proof -
  note r = create_view_raises [OF v e]
  have f: "form_ok u (cm_form m)" and s: "list_all (sendable u) (cm_sent m)"
    using ok by (simp_all add: create_ok_def)
  show ?thesis
  proof (cases e)
    case C_create
    then show ?thesis using r(3) f s by (simp add: create_clicked_def create_ok_def sendable_def Let_def)
  next
    case (C_pick pe)
    have "distinct (snd (picker_step lower q pe (cf_search (cm_form m), cf_tables (cm_form m))))"
      using f distinct_filteredNames [OF tables]
      by (cases pe) (simp_all add: form_ok_def table_picking.ok_toggle distinct_toggleAllFiltered)
    with C_pick f s show ?thesis
      by (simp add: create_clicked_def create_ok_def form_ok_def Let_def)
  next
    case (C_schedule t)
    then show ?thesis using r(1) f s by (simp add: create_clicked_def create_ok_def form_ok_def Let_def)
  next
    case (C_team t)
    then show ?thesis using r(2) f s by (auto simp: create_clicked_def create_ok_def form_ok_def Let_def)
  qed (use f s in \<open>simp_all add: create_clicked_def create_ok_def form_ok_reset Let_def, simp_all add: form_ok_def slice_def\<close>)
qed

lemma create_step_ok:
  assumes "distinct (map tableKey (tables_of q))" and "create_ok u m"
  shows "create_ok u (create_step lower q u e m)"
proof (cases e)
  case (R_user ev)
  then show ?thesis
    using assms create_clicked_ok by (auto split: option.split)
qed (use assms in \<open>auto simp: create_ok_def create_success_def create_error_def form_ok_reset\<close>)

text \<open>
  Over a catalog without repeated tables, every create request the modal sends, in any run,
  has a name that is not blank, a description of at most 270 units, a schedule of the three on
  offer or none, pairwise different tables, and, when the user belongs to several teams, one of
  these teams as the owner.
\<close>

theorem create_requests_valid:
  assumes "distinct (map tableKey (tables_of q))"
  shows "list_all (\<lambda>f. trim (cf_name f) \<noteq> [] \<and> length (cf_description f) \<le> 270 \<and>
      cf_scheduleType f \<in> {[], js ''daily'', js ''hourly'', js ''stream''} \<and> distinct (cf_tables f) \<and>
      (if mustChooseTeam u then \<exists>i. u = Some i \<and> cf_team f \<in> set (teams i) else cf_team f = []))
    (cm_sent (fold (create_step lower q u) es init_create))"
proof -
  have "create_ok u m \<Longrightarrow> create_ok u (fold (create_step lower q u) es m)" for m
    by (induction es arbitrary: m) (auto intro: create_step_ok [OF assms])
  moreover have "create_ok u init_create"
    by (simp add: create_ok_def init_create_def empty_form_def form_ok_def schedule_ok_def)
  ultimately have "list_all (sendable u) (cm_sent (fold (create_step lower q u) es init_create))"
    by (simp add: create_ok_def)
  then show ?thesis
    by (rule list.pred_mono_strong) (auto simp: sendable_def form_ok_def schedule_ok_def)
qed

lemma distinct_demo_tables: "distinct (map tableKey (tables_of demo_tables))"
  by (simp add: demo_tables_def tables_of_def tableKey_def js_def)

theorem create_requests_valid_witness:
  "list_all (\<lambda>f. trim (cf_name f) \<noteq> []) (cm_sent (fold (create_step (\<lambda>s. s) demo_tables None)
     [R_open, R_user (C_name (js ''x'')), R_user C_create] init_create))"
  by (rule list.pred_mono_strong [OF create_requests_valid [OF distinct_demo_tables]]) simp

section \<open>Editing and deleting a product\<close>

(* src: frontend/src/components/data-products/DataProductWorkspace.tsx 190-196 useState *)
record edit_modal =
  em_name :: jsstr
  em_scheduleType :: jsstr
  em_documentation :: jsstr
  em_tables :: "jsstr list"
  em_search :: jsstr
  em_confirmDelete :: bool
  em_saving :: bool
  em_removing :: bool

(* src: frontend/src/components/data-products/DataProductWorkspace.tsx 190-196 useState *)
definition open_edit :: "product_detail \<Rightarrow> edit_modal" where
  "open_edit p = \<lparr>em_name = pd_name p, em_scheduleType = or_empty (pd_schedule_type p),
     em_documentation = or_empty (pd_documentation p), em_tables = map tableKey (pd_tables p), em_search = [],
     em_confirmDelete = False, em_saving = False, em_removing = False\<rparr>"

text \<open>The two requests of a save, in order.\<close>

(* src: frontend/src/components/data-products/DataProductWorkspace.tsx 204-211 mutationFn *)
definition save_requests :: "jsstr \<Rightarrow> edit_modal \<Rightarrow> request list" where
  "save_requests pid m =
     [send PATCH (product_path pid) (Some (JObj
        [(js ''name'', JStr (trim (em_name m))), (js ''schedule_type'', json_opt (truthy (Some (em_scheduleType m)))),
         (js ''documentation'', json_opt (truthy (Some (em_documentation m))))])),
      send PUT (product_path pid @ js ''/tables'') (Some (JObj [(js ''tables'', JArr (map JStr (em_tables m)))]))]"

text \<open>Awaiting requests one after another: those that were accepted, and whether all were; the
  first one that is refused (with the server's detail) ends it.\<close>

fun await_all :: "(request \<Rightarrow> jsstr option option) \<Rightarrow> request list \<Rightarrow> request list \<times> jsstr option option" where
  "await_all refused [] = ([], None)"
| "await_all refused (r # rs) =
     (case refused r of
        Some detail \<Rightarrow> ([], Some detail)
      | None \<Rightarrow> (let (acc, err) = await_all refused rs in (r # acc, err)))"

record outcome_effects =
  oe_accepted :: "request list"
  oe_effects :: "effect list"
  oe_closed :: bool
  oe_deselected :: bool

(* src: frontend/src/components/data-products/DataProductWorkspace.tsx 203-219 save *)
definition run_save :: "(request \<Rightarrow> jsstr option option) \<Rightarrow> jsstr \<Rightarrow> edit_modal \<Rightarrow> outcome_effects" where
  "run_save refused pid m =
     (case await_all refused (save_requests pid m) of
        (acc, None) \<Rightarrow>
          \<lparr>oe_accepted = acc,
           oe_effects = [Invalidate [JStr (js ''pipeline''), JStr pid], Invalidate [JStr (js ''data-products'')],
             Toast_success (js ''Data product updated'')], oe_closed = True, oe_deselected = False\<rparr>
      | (acc, Some detail) \<Rightarrow>
          \<lparr>oe_accepted = acc, oe_effects = [Toast_error (error_text detail (js ''Failed to update data product''))],
           oe_closed = False, oe_deselected = False\<rparr>)"

(* src: frontend/src/components/data-products/DataProductWorkspace.tsx 221-232 remove *)
definition run_remove :: "(request \<Rightarrow> jsstr option option) \<Rightarrow> jsstr \<Rightarrow> outcome_effects" where
  "run_remove refused pid =
     (case await_all refused [send DELETE (product_path pid) None] of
        (acc, None) \<Rightarrow>
          \<lparr>oe_accepted = acc,
           oe_effects = [Invalidate [JStr (js ''data-products'')], Toast_success (js ''Data product deleted'')],
           oe_closed = True, oe_deselected = True\<rparr>
      | (acc, Some detail) \<Rightarrow>
          \<lparr>oe_accepted = acc, oe_effects = [Toast_error (error_text detail (js ''Failed to delete data product''))],
           oe_closed = False, oe_deselected = False\<rparr>)"

datatype edit_event =
    E_close
  | E_name jsstr
  | E_schedule jsstr
  | E_documentation jsstr
  | E_pick select_event
  | E_delete
  | E_save

(* src: frontend/src/components/data-products/DataProductWorkspace.tsx 234-306 EditProductModal *)
definition EditProductModal ::
  "(jsstr \<Rightarrow> jsstr) \<Rightarrow> table_ref list query \<Rightarrow> edit_modal \<Rightarrow> edit_event ui" where
  "EditProductModal lower q m =
     (let busy = em_saving m \<or> em_removing m
      in Box
        [Txt (js ''Edit Data Product''), Btn [] False E_close,
         Inp (em_name m) False E_name,
         choice (schedules (js ''No schedule'')) E_schedule,
         Inp (em_documentation m) False E_documentation,
         map_ui E_pick (TableSelect lower q (em_search m) (em_tables m)),
         Btn (if em_removing m then js ''Deleting...''
              else if em_confirmDelete m then js ''Click to confirm delete'' else js ''Delete'') busy E_delete,
         Btn (js ''Cancel'') False E_close,
         Btn (if em_saving m then js ''Saving...'' else js ''Save'') (busy \<or> trim (em_name m) = []) E_save])"

text \<open>What a click starts.\<close>

datatype started = Nothing | Closed | Started_save | Started_remove

(* src: frontend/src/components/data-products/DataProductWorkspace.tsx 241-300 onChange onClick *)
definition edit_clicked ::
  "(jsstr \<Rightarrow> jsstr) \<Rightarrow> table_ref list query \<Rightarrow> edit_event \<Rightarrow> edit_modal \<Rightarrow> edit_modal \<times> started" where
  "edit_clicked lower q e m =
     (case e of
        E_close \<Rightarrow> (m, Closed)
      | E_name t \<Rightarrow> (m\<lparr>em_name := t\<rparr>, Nothing)
      | E_schedule t \<Rightarrow> (m\<lparr>em_scheduleType := t\<rparr>, Nothing)
      | E_documentation t \<Rightarrow> (m\<lparr>em_documentation := t\<rparr>, Nothing)
      | E_pick pe \<Rightarrow>
          (let p = picker_step lower q pe (em_search m, em_tables m)
           in (m\<lparr>em_search := fst p, em_tables := snd p\<rparr>, Nothing))
      | E_delete \<Rightarrow>
          if em_confirmDelete m then (m\<lparr>em_removing := True\<rparr>, Started_remove)
          else (m\<lparr>em_confirmDelete := True\<rparr>, Nothing)
      | E_save \<Rightarrow> (m\<lparr>em_saving := True\<rparr>, Started_save))"


text \<open>The clicks of a run that the modal offered, each with the state it met and what it started.\<close>

fun edit_log ::
  "(jsstr \<Rightarrow> jsstr) \<Rightarrow> table_ref list query \<Rightarrow> edit_event list \<Rightarrow> edit_modal \<Rightarrow> (edit_event \<times> edit_modal \<times> started) list" where
  "edit_log lower q [] m = []"
| "edit_log lower q (e # es) m =
     (if e \<in> raises (EditProductModal lower q m)
      then (e, m, snd (edit_clicked lower q e m)) # edit_log lower q es (fst (edit_clicked lower q e m))
      else edit_log lower q es m)"

lemma edit_raises:
  "E_save \<in> raises (EditProductModal lower q m) \<longleftrightarrow> \<not> em_saving m \<and> \<not> em_removing m \<and> trim (em_name m) \<noteq> []"
  "E_delete \<in> raises (EditProductModal lower q m) \<longleftrightarrow> \<not> em_saving m \<and> \<not> em_removing m"
  by (auto simp: EditProductModal_def Let_def)

lemma edit_clicked_started:
  "snd (edit_clicked lower q e m) = Started_remove \<longleftrightarrow> e = E_delete \<and> em_confirmDelete m"
  "snd (edit_clicked lower q e m) = Started_save \<longleftrightarrow> e = E_save"
  "e \<noteq> E_delete \<Longrightarrow> em_confirmDelete (fst (edit_clicked lower q e m)) = em_confirmDelete m"
  by (cases e; simp add: edit_clicked_def Let_def)+

lemma edit_log_armed:
  "(e, m', Started_remove) \<in> set (edit_log lower q es m) \<Longrightarrow>
     count_list es E_delete \<ge> (if em_confirmDelete m then 1 else 2)"
proof (induction es arbitrary: m)
  case (Cons ev es)
  let ?m = "fst (edit_clicked lower q ev m)"
  consider (skipped) "ev \<notin> raises (EditProductModal lower q m)"
    | (other) "ev \<in> raises (EditProductModal lower q m)" "ev \<noteq> E_delete"
    | (delete) "ev \<in> raises (EditProductModal lower q m)" "ev = E_delete"
    by blast
  then show ?case
  proof cases
    case skipped
    with Cons.prems Cons.IH [of m] show ?thesis by (auto split: if_splits)
  next
    case other
    then have "(e, m', Started_remove) \<in> set (edit_log lower q es ?m)"
      using Cons.prems by (auto simp: eq_commute [of Started_remove] edit_clicked_started)
    from Cons.IH [OF this] other show ?thesis by (simp add: edit_clicked_started)
  next
    case delete
    show ?thesis
    proof (cases "em_confirmDelete m")
      case False
      then have arm: "edit_clicked lower q ev m = (m\<lparr>em_confirmDelete := True\<rparr>, Nothing)"
        using delete by (simp add: edit_clicked_def Let_def)
      have "(e, m', Started_remove) \<in> set (edit_log lower q es ?m)"
        using Cons.prems delete arm by simp
      from Cons.IH [OF this] False delete arm show ?thesis by simp
    qed (use delete in simp)
  qed
qed simp

lemma edit_log_save:
  "(e, m', Started_save) \<in> set (edit_log lower q es m) \<Longrightarrow>
     trim (em_name m') \<noteq> [] \<and> \<not> em_saving m' \<and> \<not> em_removing m'"
proof (induction es arbitrary: m)
  case (Cons ev es)
  then show ?case
    by (auto simp: eq_commute [of Started_save] edit_clicked_started edit_raises split: if_splits)
qed simp

text \<open>
  C38: deleting takes two clicks: of the clicks that a freshly opened edit modal offers, one
  starts the removal only when the delete button is clicked at least twice; and a save starts
  only with a name that is not blank and while nothing is in flight.
\<close>

theorem delete_takes_two_clicks:
  assumes "(e, m, st) \<in> set (edit_log lower q es (open_edit p))"
  shows "case st of
      Started_remove \<Rightarrow> count_list es E_delete \<ge> 2
    | Started_save \<Rightarrow> trim (em_name m) \<noteq> [] \<and> \<not> em_saving m \<and> \<not> em_removing m
    | _ \<Rightarrow> True"
  using assms edit_log_armed [of e m lower q es "open_edit p"] edit_log_save [of e m lower q es "open_edit p"]
  by (cases st) (simp_all add: open_edit_def)

definition demo_detail :: product_detail where
  "demo_detail = \<lparr>pd_id = js ''p1'', pd_name = js ''Logins'', pd_description = None, pd_tables = [],
     pd_documentation = None, pd_last_updated_by = None, pd_last_updated_at = None, pd_team = None,
     pd_can_edit = True, pd_default_import_snippet = [], pd_schedule_type = None\<rparr>"

theorem delete_takes_two_clicks_witness:
  "\<exists>m. (E_delete, m, Started_remove) \<in> set (edit_log (\<lambda>s. s) demo_tables [E_delete, E_delete] (open_edit demo_detail))
     \<and> count_list [E_delete, E_delete] E_delete \<ge> 2"
proof -
  let ?m = "(open_edit demo_detail)\<lparr>em_confirmDelete := True\<rparr>"
  have run: "(E_delete, ?m, Started_remove) \<in> set (edit_log (\<lambda>s. s) demo_tables [E_delete, E_delete] (open_edit demo_detail))"
    by (simp add: edit_raises edit_clicked_def Let_def open_edit_def)
  from delete_takes_two_clicks [OF run] have "count_list [E_delete, E_delete] E_delete \<ge> 2"
    by (simp only: started.case)
  with run show ?thesis by blast
qed

section \<open>The workspace\<close>

(* src: frontend/src/components/data-products/DataProductWorkspace.tsx 22-22 tableKey *)
definition workspace_tableKey :: "table_ref \<Rightarrow> jsstr" where
  "workspace_tableKey t = tr_namespace t @ [46] @ tr_table_name t"

(* src: frontend/src/components/data-products/DataProductWorkspace.tsx 28-29 useState *)
record workspace =
  ws_activeKey :: "jsstr option"
  ws_editOpen :: bool

(* src: frontend/src/components/data-products/DataProductWorkspace.tsx 31-31 tables *)
definition workspace_tables :: "product_detail query \<Rightarrow> table_ref list" where
  "workspace_tables q = (case q_data q of None \<Rightarrow> [] | Some p \<Rightarrow> pd_tables p)"

(* src: frontend/src/components/data-products/DataProductWorkspace.tsx 33-39 useEffect *)
definition active_table_effect :: "table_ref list \<Rightarrow> jsstr option \<Rightarrow> jsstr option" where
  "active_table_effect ts k =
     (if length ts = 0 then None
      else if truthy k = None \<or> \<not> list_ex (\<lambda>t. Some (workspace_tableKey t) = k) ts
      then Some (workspace_tableKey (hd ts))
      else k)"

lemma workspace_tableKey_nonempty [simp]: "workspace_tableKey t \<noteq> []"
  by (simp add: workspace_tableKey_def)

interpretation workspace_selection: selection_keeper active_table_effect workspace_tableKey
  by unfold_locales (auto simp: active_table_effect_def list_ex_iff)

(* src: frontend/src/components/data-products/DataProductWorkspace.tsx 70-70 activeTable *)
definition activeTable :: "table_ref list \<Rightarrow> jsstr option \<Rightarrow> table_ref option" where
  "activeTable ts k = find (\<lambda>t. Some (workspace_tableKey t) = k) ts"

datatype workspace_event =
    W_retry
  | W_title "title_event + history_event"
  | W_documentation
  | W_copy jsstr
  | W_edit
  | W_table jsstr
  | W_schema_retry
  | W_schema schema_event
  | W_modal edit_event

(* src: frontend/src/components/bento-workspace/BentoHeader.tsx 14-51 BentoHeader *)
definition BentoHeader :: "history_event ui \<Rightarrow> product_detail \<Rightarrow> title_editor \<Rightarrow> workspace_event ui" where
  "BentoHeader revisions p t =
     Box [Txt (stripDummy (pd_name p)),
       (case truthy (pd_team p) of Some x \<Rightarrow> Txt x | None \<Rightarrow> Box []),
       (case truthy (pd_schedule_type p) of Some x \<Rightarrow> Txt x | None \<Rightarrow> Box []),
       map_ui W_title (EditableTitle revisions t)]"

(* src: frontend/src/components/data-products/DataProductWorkspace.tsx 152-183 TableSchemaPanel *)
definition TableSchemaPanel ::
  "(jsstr \<Rightarrow> jsstr) \<Rightarrow> table_schema query \<Rightarrow> table_ref \<Rightarrow> workspace_event ui" where
  "TableSchemaPanel lower q t =
     (if q_loading q then Box []
      else (case (q_error q, q_data q) of
              (False, Some sc) \<Rightarrow> map_ui W_schema (table_cards lower sc)
            | _ \<Rightarrow> Box [Txt (js ''Schema unavailable for '' @ tr_namespace t @ [46] @ tr_table_name t),
                       Btn (js ''Retry'') False W_schema_retry]))"

text \<open>The update requests of the header and the documentation card.\<close>

(* src: frontend/src/components/data-products/DataProductWorkspace.tsx 74-90 onSave *)
definition save_description :: "jsstr \<Rightarrow> jsstr \<Rightarrow> mutation" where
  "save_description pid d = useUpdatePipeline pid (no_update\<lparr>pu_description := Some (Some d)\<rparr>)"

(* src: frontend/src/components/data-products/DataProductWorkspace.tsx 83-90 onSave *)
definition save_documentation :: "jsstr \<Rightarrow> jsstr \<Rightarrow> mutation" where
  "save_documentation pid d = useUpdatePipeline pid (no_update\<lparr>pu_documentation := Some (Some d)\<rparr>)"

(* src: frontend/src/components/data-products/DataProductWorkspace.tsx 41-148 DataProductWorkspace *)
definition DataProductWorkspace ::
  "(jsstr \<Rightarrow> jsstr) \<Rightarrow> jsstr option \<Rightarrow> product_detail query \<Rightarrow> table_schema query \<Rightarrow> table_ref list query
     \<Rightarrow> history_event ui \<Rightarrow> title_editor \<Rightarrow> edit_modal \<Rightarrow> workspace \<Rightarrow> workspace_event ui" where
  "DataProductWorkspace lower sel q schema catalog revisions t em w =
     (if truthy sel = None then Box [Txt (js ''Select a data product to explore'')]
      else if q_loading q then Box []
      else
        (case (q_error q, q_data q) of
           (False, Some p) \<Rightarrow>
             (let ts = workspace_tables q
              in Box
                [BentoHeader revisions p t,
                 map_ui (\<lambda>_. W_documentation) (DocumentationPreview (pd_documentation p) (pd_can_edit p)),
                 map_ui W_schema (ConsumeSnippet (pd_default_import_snippet p)),
                 Txt (js ''Tables''),
                 show_if (pd_can_edit p) (Btn (js ''Edit'') False W_edit),
                 (if length ts = 0 then
                    Txt (js ''No tables yet.'' @
                      (if pd_can_edit p then js '' Use '' @ [0x201C] @ js ''Edit'' @ [0x201D] @ js '' to add some.'' else []))
                  else Box
                    [Box (map (\<lambda>x. Btn (tr_table_name x) False (W_table (workspace_tableKey x))) ts),
                     (case activeTable ts (ws_activeKey w) of
                        None \<Rightarrow> Box [] | Some x \<Rightarrow> TableSchemaPanel lower schema x)]),
                 show_if (ws_editOpen w) (map_ui W_modal (EditProductModal lower catalog em))])
         | _ \<Rightarrow> Box [Txt (js ''Failed to load data product''), Btn (js ''Retry'') False W_retry]))"

text \<open>
  The workspace offers to open the edit modal only for a product the server lets the user
  edit, and to start a description edit only then too; the active table is always one of the
  product's, and there is one exactly when the product has tables.
\<close>

theorem workspace_rights:
  assumes "tp_canEdit (te_props t) = pd_can_edit p" and "q_data q = Some p"
  shows "(W_edit \<in> raises (DataProductWorkspace lower sel q schema catalog revisions t em w) \<longleftrightarrow>
      pd_can_edit p \<and> truthy sel \<noteq> None \<and> \<not> q_loading q \<and> \<not> q_error q) \<and>
    (if W_title (Inl Start_edit) \<in> raises (DataProductWorkspace lower sel q schema catalog revisions t em w)
     then pd_can_edit p else True) \<and>
    (let k = active_table_effect (pd_tables p) (ws_activeKey w) in
       if pd_tables p = [] then activeTable (pd_tables p) k = None
       else \<exists>x. activeTable (pd_tables p) k = Some x \<and> x \<in> set (pd_tables p))"
proof -
  let ?v = "DataProductWorkspace lower sel q schema catalog revisions t em w"
  have panel: "W_edit \<notin> raises (TableSchemaPanel lower schema x)"
    "W_title y \<notin> raises (TableSchemaPanel lower schema x)" for x y
    by (auto simp: TableSchemaPanel_def split: bool.splits option.splits)
  have edit: "W_edit \<in> raises ?v \<longleftrightarrow> pd_can_edit p \<and> truthy sel \<noteq> None \<and> \<not> q_loading q \<and> \<not> q_error q"
    using assms(2) panel
    by (auto simp: DataProductWorkspace_def BentoHeader_def Let_def split: bool.splits option.splits)
  have start: "pd_can_edit p" if "W_title (Inl Start_edit) \<in> raises ?v"
  proof -
    have "Inl Start_edit \<in> raises (EditableTitle revisions t)"
      using that assms(2) panel
      by (auto simp: DataProductWorkspace_def BentoHeader_def Let_def split: bool.splits option.splits if_splits)
    then show ?thesis
      using assms(1) by (auto simp: EditableTitle_def Let_def split: if_splits)
  qed
  have active: "let k = active_table_effect (pd_tables p) (ws_activeKey w) in
       if pd_tables p = [] then activeTable (pd_tables p) k = None
       else \<exists>x. activeTable (pd_tables p) k = Some x \<and> x \<in> set (pd_tables p)"
  proof (cases "pd_tables p = []")
    case False
    then obtain x where x: "activeTable (pd_tables p) (active_table_effect (pd_tables p) (ws_activeKey w)) = Some x"
      using workspace_selection.effect_selects unfolding activeTable_def by blast
    then have "x \<in> set (pd_tables p)" unfolding activeTable_def by (auto simp: find_Some_iff)
    with False x show ?thesis by (simp add: Let_def)
  qed (simp add: activeTable_def)
  from edit start active show ?thesis by simp
qed

theorem workspace_rights_witness:
  "let t = init_title \<lparr>tp_pipelineId = js ''p1'', tp_description = None, tp_isSaving = False, tp_canEdit = True\<rparr>;
       q = \<lparr>q_data = Some demo_detail, q_loading = False, q_error = False\<rparr>
   in W_edit \<in> raises (DataProductWorkspace (\<lambda>s. s) (Some (js ''p1'')) q \<lparr>q_data = None, q_loading = True, q_error = False\<rparr>
        demo_tables (Box []) t (open_edit demo_detail) \<lparr>ws_activeKey = None, ws_editOpen = False\<rparr>)"
proof -
  let ?t = "init_title \<lparr>tp_pipelineId = js ''p1'', tp_description = None, tp_isSaving = False, tp_canEdit = True\<rparr>"
  let ?q = "\<lparr>q_data = Some demo_detail, q_loading = False, q_error = False\<rparr>"
  have "tp_canEdit (te_props ?t) = pd_can_edit demo_detail" "q_data ?q = Some demo_detail"
    by (simp_all add: init_title_def demo_detail_def)
  from workspace_rights [OF this, where sel = "Some (js ''p1'')"] show ?thesis
    by (simp add: Let_def demo_detail_def)
qed

end
