(* ===== verification/Palette.thy ===== *)
theory Palette
  imports Catalog Navigation
begin

text \<open>
  The command palette (\<^verbatim>\<open>components/shared/CommandPalette.tsx\<close>): its window and input key
  handlers, the debounced search with the requests in flight, the effects of a render, and what a
  selected result does to the navigation and catalog stores.
\<close>

(* src: frontend/src/components/shared/CommandPalette.tsx 9-14 SearchResult *)
record search_result =
  sr_id :: jsstr
  sr_productId :: jsstr
  sr_label :: jsstr
  sr_sublabel :: "jsstr option"

text \<open>The pending timer keeps the query its callback closes over and the milliseconds left; a
  request in flight is its query.\<close>

(* src: frontend/src/components/shared/CommandPalette.tsx 17-27 useState *)
record palette =
  pl_open :: bool
  pl_query :: jsstr
  pl_results :: "search_result list"
  pl_index :: int
  pl_loading :: bool
  pl_timer :: "(jsstr \<times> nat) option"
  pl_inflight :: "jsstr list"
  pl_nav :: nav_state
  pl_catalog :: catalog_state

(* src: frontend/src/components/shared/CommandPalette.tsx 17-27 useState *)
definition init_palette :: "nav_state \<Rightarrow> catalog_state \<Rightarrow> palette" where
  "init_palette n c = \<lparr>pl_open = False, pl_query = [], pl_results = [], pl_index = 0, pl_loading = False,
     pl_timer = None, pl_inflight = [], pl_nav = n, pl_catalog = c\<rparr>"

section \<open>Effects\<close>

(* src: frontend/src/components/shared/CommandPalette.tsx 44-52 useEffect *)
definition reset_effect :: "palette \<Rightarrow> palette" where
  "reset_effect s = (if pl_open s then s\<lparr>pl_query := [], pl_results := [], pl_index := 0\<rparr> else s)"

(* src: frontend/src/components/shared/CommandPalette.tsx 69-97 useEffect *)
definition search_effect :: "jsstr \<Rightarrow> palette \<Rightarrow> palette" where
  "search_effect query s =
     (if \<not> pl_open s then s
      else
        (let s1 = s\<lparr>pl_timer := None\<rparr>
         in if trim query = [] then s1\<lparr>pl_results := []\<rparr>
            else s1\<lparr>pl_timer := Some (query, 200)\<rparr>))"

text \<open>
  The effects of the render after an event: opening runs both, on the query of that render; when
  the reset changed the query, the render it causes runs the search effect on the new one.
\<close>

definition rerender :: "palette \<Rightarrow> palette \<Rightarrow> palette" where
  "rerender old s =
     (let opened = pl_open s \<noteq> pl_open old;
          s1 = (if opened then reset_effect s else s);
          s2 = (if opened \<or> pl_query s \<noteq> pl_query old then search_effect (pl_query s) s1 else s1)
      in if pl_query s2 \<noteq> pl_query s then search_effect (pl_query s2) s2 else s2)"

section \<open>Handlers\<close>

(* src: frontend/src/components/shared/CommandPalette.tsx 54-58 close *)
definition close_palette :: "palette \<Rightarrow> palette" where
  "close_palette s = s\<lparr>pl_open := False, pl_query := [], pl_results := []\<rparr>"

(* src: frontend/src/components/shared/CommandPalette.tsx 60-67 selectResult *)
definition selectResult :: "jsstr \<Rightarrow> palette \<Rightarrow> palette" where
  "selectResult productId s =
     close_palette (s\<lparr>pl_nav := setActiveTab Data_products (pl_nav s),
       pl_catalog := setSelectedProductId (Some productId) (pl_catalog s)\<rparr>)"

(* src: frontend/src/components/shared/CommandPalette.tsx 31-39 handler *)
definition window_key :: "jsstr \<Rightarrow> bool \<Rightarrow> palette \<Rightarrow> palette" where
  "window_key key ctrl s =
     (let s1 = (if ctrl \<and> key = js ''k'' then s\<lparr>pl_open := \<not> pl_open s\<rparr> else s)
      in if key = js ''Escape'' \<and> pl_open s then s1\<lparr>pl_open := False\<rparr> else s1)"

(* src: frontend/src/components/shared/CommandPalette.tsx 99-111 onKeyDown *)
definition input_key :: "jsstr \<Rightarrow> palette \<Rightarrow> palette" where
  "input_key key s =
     (if key = js ''ArrowDown'' then s\<lparr>pl_index := min (pl_index s + 1) (int (length (pl_results s)) - 1)\<rparr>
      else if key = js ''ArrowUp'' then s\<lparr>pl_index := max (pl_index s - 1) 0\<rparr>
      else if key = js ''Enter'' \<and> 0 \<le> pl_index s \<and> pl_index s < int (length (pl_results s))
      then selectResult (sr_productId (pl_results s ! nat (pl_index s))) s
      else s)"

(* src: frontend/src/components/shared/CommandPalette.tsx 84-89 map *)
definition result_of :: "list_item \<Rightarrow> search_result" where
  "result_of p = \<lparr>sr_id = js ''product-'' @ li_id p, sr_productId = li_id p, sr_label = stripDummy (li_name p),
     sr_sublabel = li_team p\<rparr>"

(* src: frontend/src/components/shared/CommandPalette.tsx 79-82 setTimeout *)
definition timer_fires :: "palette \<Rightarrow> palette \<times> request list" where
  "timer_fires s =
     (case pl_timer s of
        None \<Rightarrow> (s, [])
      | Some (q, _) \<Rightarrow>
          (s\<lparr>pl_timer := None, pl_loading := True, pl_inflight := pl_inflight s @ [q]\<rparr>,
           [fetchPipelines (Some q) 0 12 [] None]))"

text \<open>The continuation of the callback: the answer to the \<open>k\<close>-th request in flight, or its failure.\<close>

(* src: frontend/src/components/shared/CommandPalette.tsx 83-95 setTimeout *)
definition response :: "nat \<Rightarrow> list_item list option \<Rightarrow> palette \<Rightarrow> palette" where
  "response k items s =
     (if k < length (pl_inflight s)
      then s\<lparr>pl_inflight := take k (pl_inflight s) @ drop (Suc k) (pl_inflight s),
             pl_results := (case items of None \<Rightarrow> [] | Some ps \<Rightarrow> map result_of ps),
             pl_index := 0, pl_loading := False\<rparr>
      else s)"

section \<open>The view\<close>

datatype palette_event = P_close | P_type jsstr | P_select jsstr

(* src: frontend/src/components/shared/CommandPalette.tsx 121-196 CommandPalette *)
definition CommandPalette :: "palette \<Rightarrow> palette_event ui option" where
  "CommandPalette s =
     (let typed = trim (pl_query s) \<noteq> []
      in if \<not> pl_open s then None
         else Some (Box
           [Btn [] False P_close,
            Inp (pl_query s) False P_type,
            show_if (pl_loading s \<and> typed) (Txt (js ''Searching...'')),
            show_if (\<not> pl_loading s \<and> typed \<and> pl_results s = [])
              (Txt (js ''No results for '' @ [0x201C] @ pl_query s @ [0x201D])),
            show_if (\<not> pl_loading s \<and> pl_results s \<noteq> [])
              (Box (map (\<lambda>r. Box [Btn (sr_label r) False (P_select (sr_productId r)),
                 (case truthy (sr_sublabel r) of Some t \<Rightarrow> Txt t | None \<Rightarrow> Box [])]) (pl_results s))),
            show_if (\<not> typed) (Txt (js ''Type to search data products''))]))"

primrec palette_clicked :: "palette_event \<Rightarrow> palette \<Rightarrow> palette" where
  "palette_clicked P_close s = close_palette s"
| "palette_clicked (P_type t) s = s\<lparr>pl_query := t\<rparr>"
| "palette_clicked (P_select i) s = selectResult i s"

section \<open>Runs\<close>

text \<open>
  Keys reach the window always and the input while the palette is open (the input first); a
  pointer enters a row; time passes; an answer arrives, in any order.
\<close>

datatype palette_run =
    Window_key jsstr bool
  | Input_key jsstr bool
  | Palette_click palette_event
  | Hover nat
  | Wait nat
  | Answer nat "list_item list option"

primrec palette_react :: "palette_run \<Rightarrow> palette \<Rightarrow> palette" where
  "palette_react (Window_key k c) s = window_key k c s"
| "palette_react (Input_key k c) s = (if pl_open s then window_key k c (input_key k s) else s)"
| "palette_react (Palette_click e) s =
     (case CommandPalette s of None \<Rightarrow> s | Some v \<Rightarrow> if e \<in> raises v then palette_clicked e s else s)"
| "palette_react (Hover i) s =
     (if pl_open s \<and> \<not> pl_loading s \<and> i < length (pl_results s) then s\<lparr>pl_index := int i\<rparr> else s)"
| "palette_react (Wait n) s =
     (case pl_timer s of
        None \<Rightarrow> s
      | Some (q, left) \<Rightarrow> if left \<le> n then fst (timer_fires s) else s\<lparr>pl_timer := Some (q, left - n)\<rparr>)"
| "palette_react (Answer k items) s = response k items s"

definition palette_step :: "palette_run \<Rightarrow> palette \<Rightarrow> palette" where
  "palette_step e s = rerender s (palette_react e s)"

definition palette_ok :: "palette \<Rightarrow> bool" where
  "palette_ok s \<longleftrightarrow> (pl_results s \<noteq> [] \<longrightarrow> 0 \<le> pl_index s \<and> pl_index s < int (length (pl_results s)))"

lemma rerender_results:
  "pl_results (rerender old s) = [] \<or> pl_results (rerender old s) = pl_results s \<and> pl_index (rerender old s) = pl_index s"
  by (auto simp: rerender_def reset_effect_def search_effect_def Let_def)

lemma rerender_stores [simp]:
  "pl_nav (rerender old s) = pl_nav s" "pl_catalog (rerender old s) = pl_catalog s" "pl_open (rerender old s) = pl_open s"
  by (auto simp: rerender_def reset_effect_def search_effect_def Let_def)

lemma palette_ok_window: "palette_ok s \<Longrightarrow> palette_ok (window_key k c s)"
  by (auto simp: palette_ok_def window_key_def Let_def)

lemma palette_ok_select: "palette_ok (selectResult i s)"
  by (simp add: palette_ok_def selectResult_def close_palette_def)

lemma palette_ok_input: "palette_ok s \<Longrightarrow> palette_ok (input_key k s)"
  using palette_ok_select by (auto simp: input_key_def) (auto simp: palette_ok_def)

lemma palette_ok_react: "palette_ok s \<Longrightarrow> palette_ok (palette_react e s)"
proof (cases e)
  case (Palette_click c)
  assume "palette_ok s"
  with Palette_click show ?thesis
    by (cases c) (auto simp: palette_ok_select split: option.split, auto simp: palette_ok_def close_palette_def)
next
  case (Answer k items)
  assume "palette_ok s"
  with Answer show ?thesis
    by (auto simp: palette_ok_def response_def split: option.splits)
qed (auto simp: palette_ok_window palette_ok_input, auto simp: palette_ok_def timer_fires_def split: option.splits)

interpretation palette_machine: event_machine palette_step "init_palette n c" palette_ok for n c
proof unfold_locales
  show "palette_ok s \<Longrightarrow> palette_ok (palette_step e s)" for e s
    using palette_ok_react [of s e] rerender_results [of s "palette_react e s"]
    by (auto simp: palette_ok_def palette_step_def)
qed (simp add: palette_ok_def init_palette_def)

text \<open>
  Whenever the palette lists results, one of them is highlighted and the enter key opens
  exactly that one: the data products tab becomes active, that product selected, and the palette
  closes; without results the enter key does nothing.
\<close>

theorem palette_enter_opens_highlighted:
  "let s = fold palette_step es (init_palette n c); s' = palette_step (Input_key (js ''Enter'') False) s in
     if pl_open s \<and> pl_results s \<noteq> []
     then 0 \<le> pl_index s \<and> pl_index s < int (length (pl_results s)) \<and> \<not> pl_open s' \<and>
       activeTab (pl_nav s') = Data_products \<and>
       selectedProductId (pl_catalog s') = Some (sr_productId (pl_results s ! nat (pl_index s)))
     else s' = s"
proof -
  define s where "s = fold palette_step es (init_palette n c)"
  have ok: "palette_ok s" unfolding s_def by (rule palette_machine.inv_run)
  have stay: "rerender s s = s" by (simp add: rerender_def Let_def)
  show ?thesis
    using ok
    by (auto simp: s_def [symmetric] Let_def palette_step_def input_key_def window_key_def stay palette_ok_def
        selectResult_def close_palette_def setActiveTab_def setSelectedProductId_def)
qed

text \<open>The steps of a search, as equations.\<close>

lemma step_opens:
  "\<not> pl_open s \<Longrightarrow> palette_step (Window_key (js ''k'') True) s =
     s\<lparr>pl_open := True, pl_query := [], pl_results := [], pl_index := 0, pl_timer := None\<rparr>"
  by (auto simp: palette_step_def window_key_def rerender_def reset_effect_def search_effect_def Let_def trim_def)

lemma step_types:
  assumes "pl_open s" and "t \<noteq> pl_query s" and "trim t \<noteq> []"
  shows "palette_step (Palette_click (P_type t)) s = s\<lparr>pl_query := t, pl_timer := Some (t, 200)\<rparr>"
proof -
  obtain v where "CommandPalette s = Some v" "P_type t \<in> raises v"
    using assms(1) by (simp add: CommandPalette_def Let_def)
  with assms show ?thesis
    by (simp add: palette_step_def rerender_def search_effect_def Let_def)
qed

lemma rerender_same: "pl_open s = pl_open old \<Longrightarrow> pl_query s = pl_query old \<Longrightarrow> rerender old s = s"
  by (simp add: rerender_def Let_def)

lemma step_waits:
  "pl_timer s = Some (q, left) \<Longrightarrow> left \<le> n \<Longrightarrow>
     palette_step (Wait n) s = s\<lparr>pl_timer := None, pl_loading := True, pl_inflight := pl_inflight s @ [q]\<rparr>"
  by (simp add: palette_step_def timer_fires_def rerender_same)

lemma step_answers: "palette_step (Answer k items) s = response k items s"
  by (simp add: palette_step_def rerender_same response_def)

text \<open>
  An answer that arrives late wins: when the text is changed while a search is in flight,
  the answer to the old text, arriving last, replaces the results of the new one, and the
  palette shows it for the new text with nothing loading and nothing left to correct it.
\<close>

theorem late_answer_wins:
  assumes "trim a \<noteq> []" and "trim b \<noteq> []" and "a \<noteq> b"
  shows "let s = fold palette_step
      [Window_key (js ''k'') True, Palette_click (P_type a), Wait 200, Palette_click (P_type b), Wait 200,
       Answer 1 (Some new), Answer 0 (Some old)] (init_palette n c)
    in pl_open s \<and> pl_query s = b \<and> pl_results s = map result_of old \<and> \<not> pl_loading s \<and>
       pl_timer s = None \<and> pl_inflight s = []"
proof -
  have "a \<noteq> []" using assms by (auto simp: trim_def)
  with assms show ?thesis
    by (simp add: init_palette_def step_opens step_types step_waits step_answers response_def Let_def)
qed

theorem late_answer_wins_witness:
  "pl_query (fold palette_step
      [Window_key (js ''k'') True, Palette_click (P_type (js ''a'')), Wait 200, Palette_click (P_type (js ''ab'')), Wait 200,
       Answer 1 (Some []), Answer 0 (Some [demo_product ''1'' ''a'' ''ops''])]
      (init_palette (init_nav []) (init_catalog []))) = js ''ab''"
  using late_answer_wins [of "js ''a''" "js ''ab''" "[]" "[demo_product ''1'' ''a'' ''ops'']"]
  by (simp only: Let_def) (simp add: trim_def is_ws_def js_def)

end
