(* ===== verification/Date_Range.thy ===== *)
theory Date_Range
  imports Iso_Time
begin

text \<open>
  The date range: its store (\<^verbatim>\<open>stores/date-range-store.ts\<close>) and the picker
  (\<^verbatim>\<open>components/shared/DateRangePicker.tsx\<close>).  ISO texts are those of \<open>Iso_Time\<close>; the conversions of
  the browser's local time are the environment's (\<open>clock\<close>).
\<close>

(* src: frontend/src/stores/date-range-store.ts 3-3 DatePreset *)
datatype preset = Last_24h | Last_7d | Last_30d | Last_90d

(* src: frontend/src/stores/date-range-store.ts 3-3 DatePreset *)
datatype date_preset = Preset preset | Custom

primrec preset_name :: "preset \<Rightarrow> jsstr" where
  "preset_name Last_24h = js ''24h''"
| "preset_name Last_7d = js ''7d''"
| "preset_name Last_30d = js ''30d''"
| "preset_name Last_90d = js ''90d''"

(* src: frontend/src/stores/date-range-store.ts 5-10 PRESET_MS *)
primrec PRESET_MS :: "preset \<Rightarrow> int" where
  "PRESET_MS Last_24h = 24 * 60 * 60 * 1000"
| "PRESET_MS Last_7d = 7 * 24 * 60 * 60 * 1000"
| "PRESET_MS Last_30d = 30 * 24 * 60 * 60 * 1000"
| "PRESET_MS Last_90d = 90 * 24 * 60 * 60 * 1000"

text \<open>The presets in the order of their lengths.\<close>

lemma PRESET_MS_inject: "PRESET_MS p = PRESET_MS q \<longleftrightarrow> p = q"
  by (cases p; cases q) simp_all

instantiation preset :: linorder
begin

definition less_eq_preset :: "preset \<Rightarrow> preset \<Rightarrow> bool" where
  "p \<le> q \<longleftrightarrow> PRESET_MS p \<le> PRESET_MS q"

definition less_preset :: "preset \<Rightarrow> preset \<Rightarrow> bool" where
  "p < q \<longleftrightarrow> PRESET_MS p < PRESET_MS q"

instance
  by standard (auto simp: less_eq_preset_def less_preset_def PRESET_MS_inject)

end

text \<open>
  \<open>ck_parse\<close> is \<^verbatim>\<open>new Date(s).getTime()\<close> on texts other than the ones \<^verbatim>\<open>toISOString\<close> makes (the
  local times of the inputs among them), with \<open>None\<close> for \<^verbatim>\<open>NaN\<close>; \<open>ck_local\<close> the local year, month
  (from 1), day, hours and minutes of a time.
\<close>

record clock =
  ck_parse :: "jsstr \<Rightarrow> int option"
  ck_local :: "int \<Rightarrow> int \<times> int \<times> int \<times> int \<times> int"

definition date_of :: "clock \<Rightarrow> jsstr \<Rightarrow> int option" where
  "date_of ck s = (case read_iso s of Some t \<Rightarrow> Some t | None \<Rightarrow> ck_parse ck s)"

text \<open>\<open>None\<close>: one of the two conversions throws, the time being outside the range of \<^verbatim>\<open>Date\<close>.\<close>

(* src: frontend/src/stores/date-range-store.ts 12-18 computeRange *)
definition computeRange :: "int \<Rightarrow> preset \<Rightarrow> (jsstr \<times> jsstr) option" where
  "computeRange now p =
     (case (toISOString (now - PRESET_MS p), toISOString now) of
        (Some f, Some t) \<Rightarrow> Some (f, t) | _ \<Rightarrow> None)"

(* src: frontend/src/stores/date-range-store.ts 20-26 DateRangeState *)
record date_range =
  dr_preset :: date_preset
  dr_dateFrom :: jsstr
  dr_dateTo :: jsstr

(* src: frontend/src/stores/date-range-store.ts 34-37 setPreset *)
definition setPreset :: "int \<Rightarrow> preset \<Rightarrow> date_range \<Rightarrow> date_range" where
  "setPreset now p s =
     (case computeRange now p of
        None \<Rightarrow> s
      | Some (f, t) \<Rightarrow> s\<lparr>dr_preset := Preset p, dr_dateFrom := f, dr_dateTo := t\<rparr>)"

(* src: frontend/src/stores/date-range-store.ts 38-40 setCustomRange *)
definition setCustomRange :: "jsstr \<Rightarrow> jsstr \<Rightarrow> date_range \<Rightarrow> date_range" where
  "setCustomRange f t s = s\<lparr>dr_preset := Custom, dr_dateFrom := f, dr_dateTo := t\<rparr>"

(* src: frontend/src/stores/date-range-store.ts 28-42 useDateRangeStore *)
definition init_date_range :: "int \<Rightarrow> date_range option" where
  "init_date_range now =
     map_option (\<lambda>initial. \<lparr>dr_preset = Preset Last_30d, dr_dateFrom = fst initial, dr_dateTo = snd initial\<rparr>)
       (computeRange now Last_30d)"

(* src: frontend/src/stores/date-range-store.ts 49-53 useDateParams *)
definition useDateParams :: "date_range \<Rightarrow> (jsstr \<times> jsstr) list option" where
  "useDateParams s =
     (if dr_preset s = Preset Last_30d then None
      else Some [(js ''date_from'', dr_dateFrom s), (js ''date_to'', dr_dateTo s)])"

(* src: frontend/src/stores/date-range-store.ts 56-58 usePeriodLabel *)
definition usePeriodLabel :: "date_range \<Rightarrow> jsstr" where
  "usePeriodLabel s = (case dr_preset s of Custom \<Rightarrow> js ''custom'' | Preset p \<Rightarrow> preset_name p)"

section \<open>The picker\<close>

(* src: frontend/src/components/shared/DateRangePicker.tsx 20-28 useState *)
record date_picker =
  dk_range :: date_range
  dk_showCustom :: bool
  dk_localFrom :: jsstr
  dk_localTo :: jsstr

text \<open>The fields of an invalid date are all \<^verbatim>\<open>NaN\<close>.\<close>

(* src: frontend/src/components/shared/DateRangePicker.tsx 128-133 toLocalInput *)
definition toLocalInput :: "clock \<Rightarrow> jsstr \<Rightarrow> jsstr" where
  "toLocalInput ck ts =
     (if ts = [] then []
      else (case date_of ck ts of
              None \<Rightarrow> js ''NaN-NaN-NaNTNaN:NaN''
            | Some time \<Rightarrow>
                (case ck_local ck time of (y, mo, d, h, mi) \<Rightarrow>
                  num_str y @ js ''-'' @ pad2 (num_str mo) @ js ''-'' @ pad2 (num_str d) @ js ''T'' @
                  pad2 (num_str h) @ js '':'' @ pad2 (num_str mi))))"

text \<open>Runs when the preset or one of the dates changed.\<close>

(* src: frontend/src/components/shared/DateRangePicker.tsx 30-36 useEffect *)
definition sync_effect :: "clock \<Rightarrow> date_range \<Rightarrow> date_picker \<Rightarrow> date_picker" where
  "sync_effect ck old s =
     (if dk_range s \<noteq> old \<and> dr_preset (dk_range s) = Custom
      then s\<lparr>dk_localFrom := toLocalInput ck (dr_dateFrom (dk_range s)),
             dk_localTo := toLocalInput ck (dr_dateTo (dk_range s))\<rparr>
      else s)"

text \<open>An input that is no date makes \<^verbatim>\<open>toISOString\<close> throw: the handler ends there.\<close>

(* src: frontend/src/components/shared/DateRangePicker.tsx 50-58 handleApplyCustom *)
definition handleApplyCustom :: "clock \<Rightarrow> date_picker \<Rightarrow> date_picker" where
  "handleApplyCustom ck s =
     (if dk_localFrom s \<noteq> [] \<and> dk_localTo s \<noteq> [] then
        (case (Option.bind (date_of ck (dk_localFrom s)) toISOString, Option.bind (date_of ck (dk_localTo s)) toISOString) of
           (Some f, Some t) \<Rightarrow> s\<lparr>dk_range := setCustomRange f t (dk_range s), dk_showCustom := False\<rparr>
         | _ \<Rightarrow> s)
      else s)"

datatype picker_event = Pick preset | Toggle_custom | From jsstr | To jsstr | Apply | Outside

(* src: frontend/src/components/shared/DateRangePicker.tsx 60-125 DateRangePicker *)
definition DateRangePicker :: "date_picker \<Rightarrow> picker_event ui" where
  "DateRangePicker s =
     Box [Box (map (\<lambda>p. Btn (preset_name p) False (Pick p)) [Last_24h, Last_7d, Last_30d, Last_90d]),
       Btn (js ''Custom'') False Toggle_custom,
       show_if (dk_showCustom s)
         (Box [Txt (js ''From''), Inp (dk_localFrom s) False From, Txt (js ''To''), Inp (dk_localTo s) False To,
            Btn (js ''Apply'') (dk_localFrom s = [] \<or> dk_localTo s = []) Apply])]"

(* src: frontend/src/components/shared/DateRangePicker.tsx 62-116 onClick onChange *)
primrec picker_react :: "clock \<Rightarrow> int \<Rightarrow> picker_event \<Rightarrow> date_picker \<Rightarrow> date_picker" where
  "picker_react ck now (Pick p) s =
     (if computeRange now p = None then s
      else s\<lparr>dk_range := setPreset now p (dk_range s), dk_showCustom := False\<rparr>)"
| "picker_react ck now Toggle_custom s = s\<lparr>dk_showCustom := \<not> dk_showCustom s\<rparr>"
| "picker_react ck now (From t) s = s\<lparr>dk_localFrom := t\<rparr>"
| "picker_react ck now (To t) s = s\<lparr>dk_localTo := t\<rparr>"
| "picker_react ck now Apply s = handleApplyCustom ck s"
| "picker_react ck now Outside s = s\<lparr>dk_showCustom := False\<rparr>"

text \<open>A run: at each event the current time.\<close>

definition picker_turn :: "clock \<Rightarrow> int \<times> picker_event \<Rightarrow> date_picker \<Rightarrow> date_picker" where
  "picker_turn ck te s =
     sync_effect ck (dk_range s)
       (if snd te = Outside \<or> snd te \<in> raises (DateRangePicker s) then picker_react ck (fst te) (snd te) s else s)"

definition init_picker :: "date_range \<Rightarrow> date_picker" where
  "init_picker r = \<lparr>dk_range = r, dk_showCustom = False, dk_localFrom = [], dk_localTo = []\<rparr>"

definition range_ok :: "date_range \<Rightarrow> bool" where
  "range_ok s \<longleftrightarrow> (\<exists>f t. read_iso (dr_dateFrom s) = Some f \<and> read_iso (dr_dateTo s) = Some t \<and>
     (case dr_preset s of Preset p \<Rightarrow> t - f = PRESET_MS p | Custom \<Rightarrow> True))"

lemma toISOString_reads: "toISOString t = Some s \<Longrightarrow> read_iso s = Some t"
  by (auto simp: toISOString_def read_iso_text split: if_splits)

lemma computeRange_reads:
  "computeRange now p = Some (f, t) \<Longrightarrow> read_iso f = Some (now - PRESET_MS p) \<and> read_iso t = Some now"
  by (auto simp: computeRange_def toISOString_reads split: option.splits)

lemma range_ok_preset: "range_ok s \<Longrightarrow> range_ok (setPreset now p s)"
  by (auto simp: setPreset_def range_ok_def dest!: computeRange_reads split: option.splits)

lemma range_ok_custom: "toISOString a = Some f \<Longrightarrow> toISOString b = Some t \<Longrightarrow> range_ok (setCustomRange f t s)"
  by (auto simp: range_ok_def setCustomRange_def toISOString_reads)

lemma range_ok_init: "init_date_range now = Some r \<Longrightarrow> range_ok r"
  by (auto simp: init_date_range_def range_ok_def dest!: computeRange_reads)

lemma sync_effect_range [simp]: "dk_range (sync_effect ck old s) = dk_range s"
  by (simp add: sync_effect_def)

lemma range_ok_turn: "range_ok (dk_range s) \<Longrightarrow> range_ok (dk_range (picker_turn ck te s))"
  by (cases "snd te")
    (auto simp: picker_turn_def handleApplyCustom_def range_ok_preset range_ok_custom
      split: option.splits Option.bind_splits)

text \<open>The start of the run: the store of a page loaded at the start of 1970.\<close>

definition epoch_range :: date_range where
  "epoch_range = \<lparr>dr_preset = Preset Last_30d, dr_dateFrom = iso_text (- 2592000000), dr_dateTo = iso_text 0\<rparr>"

lemma epoch_range_init: "init_date_range 0 = Some epoch_range"
  by (simp add: init_date_range_def computeRange_def toISOString_def time_valid_def epoch_range_def)

interpretation picker_machine: event_machine "picker_turn ck" "init_picker epoch_range" "\<lambda>s. range_ok (dk_range s)"
  for ck
  by unfold_locales (simp_all add: range_ok_turn init_picker_def range_ok_init [OF epoch_range_init])



text \<open>A wider preset starts earlier and ends at the same time.\<close>

lemma wider_preset_starts_earlier:
  assumes "p \<le> q" and "computeRange now p = Some (f, t)" and "computeRange now q = Some (f', t')"
  shows "t' = t \<and> (\<exists>a a'. read_iso f = Some a \<and> read_iso f' = Some a' \<and> a' \<le> a)"
  using assms computeRange_reads [OF assms(2)] computeRange_reads [OF assms(3)]
  by (auto simp: less_eq_preset_def computeRange_def split: option.splits)

text \<open>Nothing keeps a custom range from ending before it starts.\<close>

lemma inverted_range_accepted:
  assumes "date_of ck a = Some u" and "date_of ck b = Some v" and "time_valid u" and "time_valid v"
    and "a \<noteq> []" and "b \<noteq> []"
  shows "dk_range (handleApplyCustom ck (s\<lparr>dk_localFrom := b, dk_localTo := a\<rparr>)) =
    setCustomRange (iso_text v) (iso_text u) (dk_range s)"
  using assms by (simp add: handleApplyCustom_def toISOString_def)

text \<open>
  The Custom button lies outside the popover, so pressing the mouse on it is first a press outside,
  which closes the popover, and then a click, which opens it again: the button only ever opens.
\<close>

lemma custom_button_only_opens:
  "dk_showCustom (picker_turn ck (now', Toggle_custom) (picker_turn ck (now, Outside) s))"
  by (simp add: picker_turn_def DateRangePicker_def sync_effect_def)

end
