(* ===== verification/Shell.thy ===== *)
theory Shell
  imports Onboarding Preferences Complex_Main
begin

text \<open>
  The frame of the application and the small shared views: the sidebar
  (\<^verbatim>\<open>components/layout/Sidebar.tsx\<close>), the error boundary, the error, empty and loading states and
  the initials of \<^verbatim>\<open>components/shared\<close>, and the placement of the tour's highlights
  (\<^verbatim>\<open>components/onboarding/*Spotlight*.tsx\<close>).  \<^verbatim>\<open>toUpperCase\<close> is the parameter \<open>upper\<close>.
\<close>

section \<open>Small views\<close>

(* src: frontend/src/components/shared/UserInitials.tsx 12-26 UserInitials *)
definition UserInitials :: "(jsstr \<Rightarrow> jsstr) \<Rightarrow> jsstr \<Rightarrow> 'e ui" where
  "UserInitials upper name = Txt (slice 0 2 (upper (concat (map (take 1) (split_on 32 name)))))"

(* src: frontend/src/components/shared/ErrorState.tsx 9-29 ErrorState *)
definition ErrorState :: "jsstr option \<Rightarrow> 'e option \<Rightarrow> 'e ui" where
  "ErrorState message onRetry =
     Box [Txt (case message of None \<Rightarrow> js ''Something went wrong'' | Some m \<Rightarrow> m),
       (case onRetry of None \<Rightarrow> Box [] | Some e \<Rightarrow> Btn (js ''Retry'') False e)]"

(* src: frontend/src/components/shared/EmptyState.tsx 5-13 EmptyState *)
definition EmptyState :: "jsstr option \<Rightarrow> 'e ui" where
  "EmptyState message = Txt (case message of None \<Rightarrow> js ''Select a pipeline to view details'' | Some m \<Rightarrow> m)"

(* src: frontend/src/components/shared/LoadingState.tsx 1-14 LoadingState *)
definition LoadingState :: "'e ui" where
  "LoadingState = Txt (js ''Initializing Registry...'')"

section \<open>The error boundary\<close>

(* src: frontend/src/components/shared/ErrorBoundary.tsx 8-17 ErrorBoundaryState *)
record boundary =
  eb_hasError :: bool
  eb_error :: "jsstr option"

(* src: frontend/src/components/shared/ErrorBoundary.tsx 14-17 constructor *)
definition init_boundary :: boundary where
  "init_boundary = \<lparr>eb_hasError = False, eb_error = None\<rparr>"

(* src: frontend/src/components/shared/ErrorBoundary.tsx 19-21 getDerivedStateFromError *)
definition getDerivedStateFromError :: "jsstr \<Rightarrow> boundary" where
  "getDerivedStateFromError message = \<lparr>eb_hasError = True, eb_error = Some message\<rparr>"

datatype 'e boundary_event = Reload | Child 'e

(* src: frontend/src/components/shared/ErrorBoundary.tsx 31-60 render *)
definition ErrorBoundary :: "bool \<Rightarrow> 'e ui \<Rightarrow> boundary \<Rightarrow> 'e boundary_event ui" where
  "ErrorBoundary production children b =
     (if eb_hasError b then Box
        [Txt (js ''Something went wrong''),
         Txt (js ''An unexpected error occurred. Please try reloading the page.''),
         (case eb_error b of
            None \<Rightarrow> Box []
          | Some m \<Rightarrow> Txt (if production then js ''An unexpected error occurred. Please reload the page.'' else m)),
         Btn (js ''Reload'') False Reload]
      else map_ui Child children)"

text \<open>
  Once an error was caught nothing of the application is rendered any more, only the reload
  button; and a production build shows the same texts whatever the error was.
\<close>

theorem boundary_contains_errors:
  "raises (ErrorBoundary production children (getDerivedStateFromError m)) = {Reload} \<and>
   shown (ErrorBoundary True children (getDerivedStateFromError m)) =
     shown (ErrorBoundary True children' (getDerivedStateFromError m'))"
  by (simp add: ErrorBoundary_def getDerivedStateFromError_def)

section \<open>The sidebar\<close>

datatype sidebar_event = Nav tab | Switch_theme | Restart_tour | Sign_out

record shell_world =
  sw_nav :: nav_state
  sw_theme :: theme_world
  sw_tour :: tour
  sw_auth :: auth_state
  sw_redirected :: bool

(* src: frontend/src/components/layout/NavIcon.tsx 14-35 NavIcon *)
definition NavIcon :: "tab \<Rightarrow> jsstr \<Rightarrow> sidebar_event ui" where
  "NavIcon t tooltip = Btn tooltip False (Nav t)"

(* src: frontend/src/components/layout/Sidebar.tsx 21-24 handleLogout *)
definition handleLogout :: "shell_world \<Rightarrow> shell_world" where
  "handleLogout w = w\<lparr>sw_auth := logout (sw_auth w), sw_redirected := True\<rparr>"

definition display_name :: "user_info \<Rightarrow> jsstr" where
  "display_name u = (case full_name u of Some n \<Rightarrow> if n \<noteq> [] then n else username u | None \<Rightarrow> username u)"

(* src: frontend/src/components/layout/Sidebar.tsx 44-149 Sidebar *)
definition Sidebar :: "(jsstr \<Rightarrow> jsstr) \<Rightarrow> shell_world \<Rightarrow> sidebar_event ui" where
  "Sidebar upper w =
     Box [NavIcon Data_products (js ''Data Products''), NavIcon Tables (js ''Tables''), NavIcon Ai (js ''AI Architect''),
       Btn ((if tw_theme (sw_theme w) = Dark then js ''Dark mode'' else js ''Light mode'') @ js '' (click to switch)'')
         False Switch_theme,
       Btn (js ''Restart tour'') False Restart_tour,
       (case user (sw_auth w) of
          None \<Rightarrow> Box []
        | Some u \<Rightarrow> Box
            [UserInitials upper (display_name u), Txt (display_name u), Txt (email u), Txt (role u),
             Txt (if length (teams u) > 0 then join (js '', '') (teams u) else js ''No team''),
             show_if (ssoEnabled (sw_auth w)) (Btn (js ''Sign out'') False Sign_out)])]"

(* src: frontend/src/components/layout/Sidebar.tsx 60-105 onClick *)
primrec sidebar_clicked :: "sidebar_event \<Rightarrow> shell_world \<Rightarrow> shell_world" where
  "sidebar_clicked (Nav t) w = w\<lparr>sw_nav := setActiveTab t (sw_nav w)\<rparr>"
| "sidebar_clicked Switch_theme w = w\<lparr>sw_theme := toggleTheme (sw_theme w)\<rparr>"
| "sidebar_clicked Restart_tour w = w\<lparr>sw_tour := startOnboarding (sw_tour w)\<rparr>"
| "sidebar_clicked Sign_out w = handleLogout w"

(* src: frontend/src/components/layout/AppShell.tsx 7-14 AppShell *)
definition AppShell :: "(jsstr \<Rightarrow> jsstr) \<Rightarrow> shell_world \<Rightarrow> pane list \<Rightarrow> sidebar_event ui \<times> pane list" where
  "AppShell upper w children = (Sidebar upper w, children)"

text \<open>
  The sidebar reaches every tab, offers signing out exactly to a signed-in user of a single
  sign-on session, and signing out leaves no user and no token behind.
\<close>

theorem sidebar_offers:
  "(\<forall>t. Nav t \<in> raises (Sidebar upper w)) \<and>
   (Sign_out \<in> raises (Sidebar upper w) \<longleftrightarrow> user (sw_auth w) \<noteq> None \<and> ssoEnabled (sw_auth w)) \<and>
   user (sw_auth (sidebar_clicked Sign_out w)) = None \<and> token (sw_auth (sidebar_clicked Sign_out w)) = None \<and>
   Sign_out \<notin> raises (Sidebar upper (sidebar_clicked Sign_out w))"
proof -
  have "Nav t \<in> raises (Sidebar upper w)" for t
    by (cases t) (simp_all add: Sidebar_def NavIcon_def)
  moreover have "Sign_out \<in> raises (Sidebar upper v) \<longleftrightarrow> user (sw_auth v) \<noteq> None \<and> ssoEnabled (sw_auth v)" for v
    by (auto simp: Sidebar_def NavIcon_def UserInitials_def split: option.splits)
  ultimately show ?thesis
    by (simp add: handleLogout_def logout_def)
qed

section \<open>Highlights of the tour\<close>

text \<open>Rectangles as \<^verbatim>\<open>getBoundingClientRect\<close> reports them, in pixels; \<open>None\<close> when the
  element is not in the document.\<close>

record rect =
  rc_top :: rat
  rc_left :: rat
  rc_width :: rat
  rc_height :: rat

definition grow :: "rat \<Rightarrow> rect \<Rightarrow> rect" where
  "grow padding r = \<lparr>rc_top = rc_top r - padding, rc_left = rc_left r - padding,
     rc_width = rc_width r + padding * 2, rc_height = rc_height r + padding * 2\<rparr>"

text \<open>The section highlight forgets its rectangle when the target changes, and whenever a
  measurement does not find the target; the sidebar highlight keeps the last one.\<close>

(* src: frontend/src/components/onboarding/SectionSpotlight.tsx 15-22 updatePosition *)
definition section_update :: "rect option \<Rightarrow> rect option \<Rightarrow> rect option" where
  "section_update el r = el"

(* src: frontend/src/components/onboarding/SectionSpotlight.tsx 46-66 SectionSpotlight *)
definition SectionSpotlight :: "rect option \<Rightarrow> rect option" where
  "SectionSpotlight r = map_option (grow 2) r"

(* src: frontend/src/components/onboarding/SidebarSpotlight.tsx 11-16 updatePosition *)
definition sidebar_update :: "rect option \<Rightarrow> rect option \<Rightarrow> rect option" where
  "sidebar_update el r = (case el of Some x \<Rightarrow> Some x | None \<Rightarrow> r)"

(* src: frontend/src/components/onboarding/SidebarSpotlight.tsx 31-46 SidebarSpotlight *)
definition SidebarSpotlight :: "rect option \<Rightarrow> rect option" where
  "SidebarSpotlight r = map_option (grow 6) r"

record line =
  ln_x1 :: rat
  ln_y1 :: rat
  ln_x2 :: rat
  ln_y2 :: rat

(* src: frontend/src/components/onboarding/SpotlightConnector.tsx 17-37 updateLine *)
definition updateLine :: "rect option \<Rightarrow> rect option \<Rightarrow> line option" where
  "updateLine nav panel =
     (case (nav, panel) of
        (Some n, Some p) \<Rightarrow> Some \<lparr>ln_x1 = rc_left p, ln_y1 = rc_top p + rc_height p / 2,
           ln_x2 = (rc_left n + rc_width n) + 4, ln_y2 = rc_top n + rc_height n / 2\<rparr>
      | _ \<Rightarrow> None)"

(* src: frontend/src/components/onboarding/OnboardingOverlay.tsx 15-46 getPanelStyle *)
definition getPanelStyle :: "panel_position \<Rightarrow> jsstr \<times> jsstr \<times> jsstr \<times> int \<times> jsstr option" where
  "getPanelStyle position = (case position of
     Center \<Rightarrow> (js ''50%'', js ''50%'', js ''translate(-50%, -50%)'', 720, Some (js ''calc(100vw - 48px)''))
   | Right \<Rightarrow> (js ''50%'', js ''calc(100vw - 480px - 28px)'', js ''translate(0%, -50%)'', 460, None)
   | Bottom_left \<Rightarrow> (js ''calc(100vh - 28px)'', js ''104px'', js ''translate(0%, -100%)'', 480, None)
   | Bottom_right \<Rightarrow> (js ''calc(100vh - 28px)'', js ''calc(100vw - 520px - 28px)'', js ''translate(0%, -100%)'', 500, None))"

definition inside :: "rect \<Rightarrow> rect \<Rightarrow> bool" where
  "inside r s \<longleftrightarrow> rc_left s \<le> rc_left r \<and> rc_top s \<le> rc_top r \<and>
     rc_left r + rc_width r \<le> rc_left s + rc_width s \<and> rc_top r + rc_height r \<le> rc_top s + rc_height s"

text \<open>A highlight covers its target with the same margin on all sides.\<close>

lemma spotlight_covers: "0 \<le> p \<Longrightarrow> inside r (grow p r)"
  by (simp add: inside_def grow_def)

end
