(* ===== verification/Spotlight.thy ===== *)
theory Spotlight
  imports Shell
begin

text \<open>
  The highlights of the tour over time (\<^verbatim>\<open>components/onboarding/*Spotlight*.tsx\<close>): each keeps the
  rectangle or the line it measured last, and measures again when its target changes, when a timer or
  an animation frame that it asked for comes, when the size of the body is reported, and when the
  window is resized.  What the page's selector finds at that moment is an argument of the event.
\<close>

record 'a highlight =
  hl_target :: jsstr
  hl_shown :: "'a option"
  hl_timer :: "nat option"
  hl_frame :: bool

text \<open>
  Events: another target, the observer's report (the first one comes as soon as the body is observed),
  the next animation frame, a resize of the window, and time passing.
\<close>

datatype 'm highlight_event =
    Retarget jsstr 'm
  | Observed 'm
  | Next_frame 'm
  | Resized 'm
  | Passes nat 'm

definition timer_due :: "nat \<Rightarrow> 'a highlight \<Rightarrow> bool" where
  "timer_due n s = (case hl_timer s of None \<Rightarrow> False | Some left \<Rightarrow> left \<le> n)"

definition let_pass :: "nat \<Rightarrow> 'a highlight \<Rightarrow> 'a highlight" where
  "let_pass n s = s\<lparr>hl_timer := (case hl_timer s of None \<Rightarrow> None | Some left \<Rightarrow> if left \<le> n then None else Some (left - n))\<rparr>"

section \<open>The section's cut-out\<close>

(* src: frontend/src/components/onboarding/SectionSpotlight.tsx 24-44 useEffect *)
definition section_retarget :: "jsstr \<Rightarrow> rect highlight \<Rightarrow> rect highlight" where
  "section_retarget t s =
     (if t = hl_target s then s
      else s\<lparr>hl_target := t, hl_shown := None, hl_timer := Some 500, hl_frame := False\<rparr>)"

type_synonym places = "jsstr \<Rightarrow> rect option"

primrec section_step :: "places highlight_event \<Rightarrow> rect highlight \<Rightarrow> rect highlight" where
  "section_step (Retarget t pg) s = section_retarget t s"
| "section_step (Observed pg) s = s\<lparr>hl_frame := True\<rparr>"
| "section_step (Next_frame pg) s =
     (if hl_frame s then s\<lparr>hl_frame := False, hl_shown := section_update (pg (hl_target s)) (hl_shown s)\<rparr> else s)"
| "section_step (Resized pg) s = s\<lparr>hl_shown := section_update (pg (hl_target s)) (hl_shown s)\<rparr>"
| "section_step (Passes n pg) s =
     (let s' = let_pass n s
      in if timer_due n s then s'\<lparr>hl_shown := section_update (pg (hl_target s)) (hl_shown s)\<rparr> else s')"

definition init_section :: "jsstr \<Rightarrow> rect highlight" where
  "init_section t = \<lparr>hl_target = t, hl_shown = None, hl_timer = Some 500, hl_frame = False\<rparr>"

section \<open>The ring of the sidebar\<close>

(* src: frontend/src/components/onboarding/SidebarSpotlight.tsx 18-29 useEffect *)
primrec sidebar_step :: "places highlight_event \<Rightarrow> rect highlight \<Rightarrow> rect highlight" where
  "sidebar_step (Retarget t pg) s =
     (if t = hl_target s then s else s\<lparr>hl_target := t, hl_shown := sidebar_update (pg t) (hl_shown s)\<rparr>)"
| "sidebar_step (Observed pg) s = s\<lparr>hl_shown := sidebar_update (pg (hl_target s)) (hl_shown s)\<rparr>"
| "sidebar_step (Next_frame pg) s = s"
| "sidebar_step (Resized pg) s = s\<lparr>hl_shown := sidebar_update (pg (hl_target s)) (hl_shown s)\<rparr>"
| "sidebar_step (Passes n pg) s = s"

section \<open>The line from the panel to the sidebar\<close>

text \<open>The sidebar's places and the panel's.\<close>

type_synonym scene = "places \<times> rect option"

definition measured_line :: "scene \<Rightarrow> line highlight \<Rightarrow> line option" where
  "measured_line sc s = updateLine (fst sc (hl_target s)) (snd sc)"

(* src: frontend/src/components/onboarding/SpotlightConnector.tsx 39-56 useEffect *)
primrec connector_step :: "scene highlight_event \<Rightarrow> line highlight \<Rightarrow> line highlight" where
  "connector_step (Retarget t sc) s =
     (if t = hl_target s then s else s\<lparr>hl_target := t, hl_timer := Some 550, hl_frame := False\<rparr>)"
| "connector_step (Observed sc) s = s\<lparr>hl_frame := True\<rparr>"
| "connector_step (Next_frame sc) s =
     (if hl_frame s then s\<lparr>hl_frame := False, hl_shown := measured_line sc s\<rparr> else s)"
| "connector_step (Resized sc) s = s\<lparr>hl_shown := measured_line sc s\<rparr>"
| "connector_step (Passes n sc) s =
     (let s' = let_pass n s in if timer_due n s then s'\<lparr>hl_shown := measured_line sc s\<rparr> else s')"

text \<open>What is drawn: the line, a dot at the panel and a dot at the target.\<close>

(* src: frontend/src/components/onboarding/SpotlightConnector.tsx 58-81 SpotlightConnector *)
definition SpotlightConnector :: "line highlight \<Rightarrow> (line \<times> (rat \<times> rat) list) option" where
  "SpotlightConnector s = map_option (\<lambda>l.
     (\<lparr>ln_x1 = ln_x2 l, ln_y1 = ln_y2 l, ln_x2 = ln_x1 l, ln_y2 = ln_y1 l\<rparr>,
      [(ln_x1 l, ln_y1 l), (ln_x2 l, ln_y2 l)])) (hl_shown s)"

section \<open>What is highlighted\<close>

text \<open>
  The cut-out is never that of an earlier target: whatever the places of the targets are, as long as
  each measurement finds a target at one of its places, a cut-out on show is at a place of the
  current target.
\<close>

definition shows_place :: "(jsstr \<Rightarrow> rect set) \<Rightarrow> rect highlight \<Rightarrow> bool" where
  "shows_place area s = (case hl_shown s of None \<Rightarrow> True | Some r \<Rightarrow> r \<in> area (hl_target s))"

primrec event_places :: "places highlight_event \<Rightarrow> places" where
  "event_places (Retarget t pg) = pg"
| "event_places (Observed pg) = pg"
| "event_places (Next_frame pg) = pg"
| "event_places (Resized pg) = pg"
| "event_places (Passes n pg) = pg"

definition found_at :: "(jsstr \<Rightarrow> rect set) \<Rightarrow> places highlight_event \<Rightarrow> bool" where
  "found_at area e \<longleftrightarrow> (\<forall>t. case event_places e t of None \<Rightarrow> True | Some r \<Rightarrow> r \<in> area t)"

lemma found_atD: "found_at area e \<Longrightarrow> event_places e t = Some r \<Longrightarrow> r \<in> area t"
  unfolding found_at_def by (drule spec [of _ t]) simp

interpretation section_cut_out: guarded_machine section_step "init_section t" "shows_place area" "found_at area" for t area
proof unfold_locales
  show "found_at area e \<Longrightarrow> shows_place area s \<Longrightarrow> shows_place area (section_step e s)" for e s
    using found_atD [of area e "hl_target s"]
    by (cases e)
      (auto simp: shows_place_def section_retarget_def section_update_def let_pass_def Let_def split: option.splits)
qed (simp add: shows_place_def init_section_def)

lemma cut_out_of_current_target:
  "list_all (found_at area) es \<Longrightarrow> hl_shown (fold section_step es (init_section t)) = Some r \<Longrightarrow>
     r \<in> area (hl_target (fold section_step es (init_section t)))"
  using section_cut_out.guarded_run [of area es t] by (simp add: shows_place_def)

text \<open>The ring is: a target that is not on the page leaves the ring where the last one was.\<close>

lemma ring_stays:
  "hl_target s \<noteq> t \<Longrightarrow> pg t = None \<Longrightarrow>
     hl_shown (sidebar_step (Retarget t pg) s) = hl_shown s \<and> hl_target (sidebar_step (Retarget t pg) s) = t"
  by (simp add: sidebar_update_def)

text \<open>
  The delays before the first measurement have no effect: the observer reports the body as soon as it
  observes it, so the next frame measures while the panel and the page are still moving.
\<close>

lemma observer_measures_at_once:
  "t \<noteq> hl_target s \<Longrightarrow>
     hl_shown (fold section_step [Retarget t pg, Observed pg, Next_frame pg] s) = pg t"
  "t \<noteq> hl_target c \<Longrightarrow>
     hl_shown (fold connector_step [Retarget t sc, Observed sc, Next_frame sc] c) = updateLine (fst sc t) (snd sc)"
  by (simp_all add: section_retarget_def section_update_def measured_line_def)

text \<open>When the timer comes, the measurement is made for good: with nothing moving any more it stays.\<close>

lemma measured_when_due:
  assumes "hl_timer s = Some k" and "k \<le> n"
  shows "hl_shown (section_step (Passes n pg) s) = pg (hl_target s)"
  using assms by (simp add: timer_due_def section_update_def let_pass_def)

end
