(* ===== verification/Server.thy ===== *)
theory Server
  imports Products Chat
begin

text \<open>
  The part of the service that answers the front end's product and chat requests
  (\<^verbatim>\<open>backend/app\<close>: the product router, service and repository, the request schemas, the edit
  guard), as far as the outcome of a request depends on it, and what the two sides make together.
  \<^verbatim>\<open>str.lower\<close> is the parameter \<open>lower\<close>, the database's text search \<open>matches\<close>, the time of an
  update \<open>now\<close>.  The service's users are the ones it describes to the front end (\<open>user_info\<close>).
\<close>

(* src: backend/app/models/data_product.py 18-38 DataProduct *)
record server_product =
  sp_id :: jsstr
  sp_name :: jsstr
  sp_description :: "jsstr option"
  sp_documentation :: "jsstr option"
  sp_team :: "jsstr option"
  sp_tables :: "jsstr list"
  sp_schedule :: "jsstr option"
  sp_created_by :: "jsstr option"
  sp_last_updated_by :: "jsstr option"
  sp_last_updated_at :: "jsstr option"

section \<open>Listing\<close>

(* src: backend/app/services/data_product_service.py 81-90 DataProductListItem *)
definition item_of :: "server_product \<Rightarrow> list_item" where
  "item_of p = \<lparr>li_id = sp_id p, li_name = sp_name p, li_description = sp_description p,
     li_schedule_type = sp_schedule p, li_team = sp_team p\<rparr>"

definition sql_in :: "jsstr list option \<Rightarrow> jsstr option \<Rightarrow> bool" where
  "sql_in fs v = (case fs of
     None \<Rightarrow> True
   | Some l \<Rightarrow> l = [] \<or> (case v of None \<Rightarrow> False | Some x \<Rightarrow> x \<in> set l))"

text \<open>\<open>collate\<close> compares two names in the database's collation.\<close>

(* src: backend/app/repositories/data_product_repo.py 32-72 list_products *)
definition list_products ::
  "(jsstr \<Rightarrow> jsstr \<Rightarrow> int) \<Rightarrow> (jsstr \<Rightarrow> server_product \<Rightarrow> bool) \<Rightarrow> jsstr option \<Rightarrow> jsstr list option
     \<Rightarrow> jsstr list option \<Rightarrow> nat \<Rightarrow> nat \<Rightarrow> server_product list \<Rightarrow> server_product list \<times> nat" where
  "list_products collate matches query team_names schedule_types skip limit rows =
     (let found = filter (\<lambda>p. (case truthy query of None \<Rightarrow> True | Some q \<Rightarrow> matches q p) \<and>
            sql_in team_names (sp_team p) \<and> sql_in schedule_types (sp_schedule p)) rows
      in (take limit (drop skip (sort_by (\<lambda>p q. collate (sp_name p) (sp_name q)) found)), length found))"

definition param_str :: "jsstr \<Rightarrow> request \<Rightarrow> jsstr option" where
  "param_str k r = (case map_of (rq_params r) k of Some (P_str s) \<Rightarrow> Some s | _ \<Rightarrow> None)"

definition param_num :: "jsstr \<Rightarrow> nat \<Rightarrow> request \<Rightarrow> nat" where
  "param_num k d r = (case map_of (rq_params r) k of Some (P_num n) \<Rightarrow> n | _ \<Rightarrow> d)"

definition param_list :: "jsstr \<Rightarrow> request \<Rightarrow> jsstr list option" where
  "param_list k r = (case map_of (rq_params r) k of Some (P_arr l) \<Rightarrow> Some l | _ \<Rightarrow> None)"

text \<open>\<open>None\<close>: the parameters do not validate.\<close>

(* src: backend/app/routers/data_products.py 53-69 list_data_products *)
definition list_data_products ::
  "(jsstr \<Rightarrow> jsstr \<Rightarrow> int) \<Rightarrow> (jsstr \<Rightarrow> server_product \<Rightarrow> bool) \<Rightarrow> server_product list \<Rightarrow> request
     \<Rightarrow> list_item response_page option" where
  "list_data_products collate matches rows r =
     (let limit = param_num (js ''limit'') 200 r
      in if 1 \<le> limit \<and> limit \<le> 500
         then (case list_products collate matches (param_str (js ''q'') r) (param_list (js ''team'') r)
                 (param_list (js ''schedule'') r) (param_num (js ''skip'') 0 r) limit rows of
             (ps, n) \<Rightarrow> Some \<lparr>pg_items = map item_of ps, pg_total = n\<rparr>)
         else None)"

section \<open>Who may edit\<close>

definition lower_set :: "(jsstr \<Rightarrow> jsstr) \<Rightarrow> jsstr list \<Rightarrow> jsstr set" where
  "lower_set lower ts = lower ` set ts"

(* src: backend/app/services/data_product_service.py 269-287 _can_edit *)
definition can_edit :: "(jsstr \<Rightarrow> jsstr) \<Rightarrow> user_info \<Rightarrow> server_product \<Rightarrow> bool" where
  "can_edit lower u p =
     (if is_master u then True
      else if role u = js ''viewer'' then False
      else (case truthy (sp_team p) of
              None \<Rightarrow> truthy (sp_created_by p) \<noteq> None \<and> sp_created_by p = Some (username u)
            | Some t \<Rightarrow> lower t \<in> lower_set lower (teams u)))"

text \<open>The dependency of every editing endpoint: \<open>None\<close> lets the request pass, a status refuses it.\<close>

(* src: backend/app/auth.py 172-205 _check *)
definition require_team_membership ::
  "(jsstr \<Rightarrow> jsstr) \<Rightarrow> user_info \<Rightarrow> server_product option \<Rightarrow> nat option" where
  "require_team_membership lower u product =
     (if is_master u then None
      else if role u = js ''viewer'' then Some 403
      else (case product of
              None \<Rightarrow> None
            | Some p \<Rightarrow>
                (case truthy (sp_team p) of
                   None \<Rightarrow> (case truthy (sp_created_by p) of
                       Some c \<Rightarrow> if c = username u then None else Some 403
                     | None \<Rightarrow> Some 403)
                 | Some t \<Rightarrow> if lower t \<notin> lower_set lower (teams u) then Some 403 else None)))"

lemma can_edit_passes: "can_edit lower u p \<longleftrightarrow> require_team_membership lower u (Some p) = None"
  by (auto simp: can_edit_def require_team_membership_def truthy_def split: option.splits)

lemma can_edit_frame:
  "sp_team q = sp_team p \<Longrightarrow> sp_created_by q = sp_created_by p \<Longrightarrow> can_edit lower u q = can_edit lower u p"
  by (simp only: can_edit_def)

section \<open>The detail of a product\<close>

(* src: backend/app/services/data_product_service.py 32-41 parse_fqn *)
definition parse_fqn :: "jsstr \<Rightarrow> table_ref" where
  "parse_fqn k =
     (case dropWhile (\<lambda>c. c \<noteq> 46) (rev k) of
        [] \<Rightarrow> \<lparr>tr_namespace = [], tr_table_name = k\<rparr>
      | _ # ns \<Rightarrow>
          (let t = rev (takeWhile (\<lambda>c. c \<noteq> 46) (rev k))
           in if t = [] then \<lparr>tr_namespace = [], tr_table_name = k\<rparr>
              else \<lparr>tr_namespace = rev ns, tr_table_name = t\<rparr>))"

(* src: backend/app/services/data_product_service.py 96-137 get_product_detail_for_user *)
definition get_product_detail_for_user ::
  "(jsstr \<Rightarrow> jsstr) \<Rightarrow> (jsstr \<Rightarrow> jsstr) \<Rightarrow> user_info \<Rightarrow> server_product \<Rightarrow> product_detail" where
  "get_product_detail_for_user lower snippet u p =
     \<lparr>pd_id = sp_id p, pd_name = sp_name p, pd_description = sp_description p,
      pd_tables = map parse_fqn (sp_tables p), pd_documentation = sp_documentation p,
      pd_last_updated_by = sp_last_updated_by p, pd_last_updated_at = sp_last_updated_at p, pd_team = sp_team p,
      pd_can_edit = can_edit lower u p, pd_default_import_snippet = snippet (sp_name p),
      pd_schedule_type = sp_schedule p\<rparr>"

lemma rev_split_at: "rev (dropWhile P (rev k)) @ rev (takeWhile P (rev k)) = k"
  by (metis rev_append rev_rev_ident takeWhile_dropWhile_id)

lemma tableKey_parse_fqn:
  assumes "46 \<in> set k" and "last k \<noteq> 46"
  shows "tableKey (parse_fqn k) = k"
proof -
  let ?P = "\<lambda>c :: code_unit. c \<noteq> 46"
  have "dropWhile ?P (rev k) \<noteq> []" using assms(1) by (auto simp: dropWhile_eq_Nil_conv)
  then obtain c ns where d: "dropWhile ?P (rev k) = c # ns" by (cases "dropWhile ?P (rev k)") auto
  then have c: "c = 46" using hd_dropWhile [of ?P "rev k"] by auto
  have t: "takeWhile ?P (rev k) \<noteq> []"
    using assms by (cases "rev k") (auto simp: last_rev [symmetric] hd_rev)
  have "rev ns @ [46] @ rev (takeWhile ?P (rev k)) = k"
    using rev_split_at [of ?P k] by (simp add: d c)
  then show ?thesis using t by (simp add: parse_fqn_def d Let_def tableKey_def)
qed

lemma parse_fqn_tableKey:
  assumes "46 \<notin> set (tr_table_name t)" and "tr_table_name t \<noteq> []"
  shows "parse_fqn (tableKey t) = t"
proof -
  let ?P = "\<lambda>c :: code_unit. c \<noteq> 46"
  have d: "dropWhile ?P (rev (tableKey t)) = 46 # rev (tr_namespace t)"
    and w: "takeWhile ?P (rev (tableKey t)) = rev (tr_table_name t)"
    unfolding tableKey_def using assms(1)
    by (simp, subst dropWhile_append2, auto, simp, subst takeWhile_append2, auto)
  show ?thesis using assms(2) by (simp add: parse_fqn_def d w Let_def)
qed

section \<open>Request bodies\<close>

definition body_field :: "jsstr \<Rightarrow> json \<Rightarrow> json option" where
  "body_field k j = (case j of JObj es \<Rightarrow> map_of es k | _ \<Rightarrow> None)"

definition is_object :: "json \<Rightarrow> bool" where
  "is_object j = (case j of JObj es \<Rightarrow> True | _ \<Rightarrow> False)"

definition body_str :: "jsstr \<Rightarrow> json \<Rightarrow> jsstr option" where
  "body_str k j = (case body_field k j of Some (JStr s) \<Rightarrow> Some s | _ \<Rightarrow> None)"

definition body_strs :: "jsstr \<Rightarrow> json \<Rightarrow> jsstr list option" where
  "body_strs k j =
     (if \<not> is_object j then None else (case body_field k j of None \<Rightarrow> Some [] | Some v \<Rightarrow> strings_of v))"

text \<open>An optional, nullable text field with a condition.\<close>

definition opt_text :: "(jsstr \<Rightarrow> bool) \<Rightarrow> jsstr \<Rightarrow> json \<Rightarrow> bool" where
  "opt_text ok k j = (case body_field k j of
     None \<Rightarrow> True | Some JNull \<Rightarrow> True | Some (JStr s) \<Rightarrow> ok s | _ \<Rightarrow> False)"

text \<open>The service counts characters, a pair of surrogates being one.\<close>

fun characters :: "jsstr \<Rightarrow> nat" where
  "characters (c # d # s) = (if high_surrogate c \<and> low_surrogate d then 1 + characters s else 1 + characters (d # s))"
| "characters [c] = 1"
| "characters [] = 0"

lemma characters_le_length: "characters s \<le> length s"
  by (induction s rule: characters.induct) auto

lemma characters_pos: "s \<noteq> [] \<Longrightarrow> 1 \<le> characters s"
  by (cases s rule: characters.cases) auto

(* src: backend/app/schemas/data_product.py 45-49 DataProductUpdateRequest *)
definition update_valid :: "json \<Rightarrow> bool" where
  "update_valid j \<longleftrightarrow> is_object j \<and>
     opt_text (\<lambda>s. 1 \<le> characters s \<and> characters s \<le> 255) (js ''name'') j \<and>
     opt_text (\<lambda>s. characters s \<le> 270) (js ''description'') j \<and>
     opt_text (\<lambda>s. characters s \<le> 100000) (js ''documentation'') j \<and>
     opt_text (\<lambda>s. s \<in> {js ''daily'', js ''hourly'', js ''stream''}) (js ''schedule_type'') j"

(* src: backend/app/repositories/data_product_repo.py 144-152 _dedupe *)
definition dedupe :: "jsstr list \<Rightarrow> jsstr list" where
  "dedupe ts = set_of_array (filter (\<lambda>t. t \<noteq> []) ts)"

(* src: backend/app/repositories/data_product_repo.py 101-127 update_metadata *)
definition update_metadata :: "jsstr \<Rightarrow> user_info \<Rightarrow> json \<Rightarrow> server_product \<Rightarrow> server_product" where
  "update_metadata now u j p =
     p\<lparr>sp_name := (case truthy (body_str (js ''name'') j) of Some n \<Rightarrow> n | None \<Rightarrow> sp_name p),
       sp_description := (if body_field (js ''description'') j \<noteq> None then body_str (js ''description'') j else sp_description p),
       sp_documentation :=
         (if body_field (js ''documentation'') j \<noteq> None then body_str (js ''documentation'') j else sp_documentation p),
       sp_schedule := (if body_field (js ''schedule_type'') j \<noteq> None then body_str (js ''schedule_type'') j else sp_schedule p),
       sp_last_updated_by := Some (username u), sp_last_updated_at := Some now\<rparr>"

definition put_row :: "server_product \<Rightarrow> server_product list \<Rightarrow> server_product list" where
  "put_row p rows = map (\<lambda>q. if sp_id q = sp_id p then p else q) rows"

section \<open>The editing endpoints\<close>

definition row_at :: "jsstr \<Rightarrow> jsstr \<Rightarrow> server_product list \<Rightarrow> server_product option" where
  "row_at path tail_of_path rows = find (\<lambda>p. path = product_path (sp_id p) @ tail_of_path) rows"

text \<open>Each gives the status and the rows afterwards: the guard first, then the body's validation,
  then the missing product, then the conflict of names.\<close>

(* src: backend/app/routers/data_products.py 136-162 update_data_product *)
definition update_data_product ::
  "(jsstr \<Rightarrow> jsstr) \<Rightarrow> jsstr \<Rightarrow> user_info \<Rightarrow> request \<Rightarrow> server_product list \<Rightarrow> nat \<times> server_product list" where
  "update_data_product lower now u r rows =
     (let product = row_at (rq_path r) [] rows
      in case require_team_membership lower u product of
           Some status \<Rightarrow> (status, rows)
         | None \<Rightarrow>
             (case rq_body r of
                None \<Rightarrow> (422, rows)
              | Some j \<Rightarrow>
                  if \<not> update_valid j then (422, rows)
                  else (case product of
                          None \<Rightarrow> (404, rows)
                        | Some p \<Rightarrow>
                            (let p' = update_metadata now u j p
                             in if list_ex (\<lambda>q. sp_id q \<noteq> sp_id p \<and> sp_name q = sp_name p') rows then (409, rows)
                                else (200, put_row p' rows)))))"

(* src: backend/app/routers/data_products.py 165-180 set_data_product_tables *)
definition set_data_product_tables ::
  "(jsstr \<Rightarrow> jsstr) \<Rightarrow> user_info \<Rightarrow> request \<Rightarrow> server_product list \<Rightarrow> nat \<times> server_product list" where
  "set_data_product_tables lower u r rows =
     (let product = row_at (rq_path r) (js ''/tables'') rows
      in case require_team_membership lower u product of
           Some status \<Rightarrow> (status, rows)
         | None \<Rightarrow>
             (case Option.bind (rq_body r) (body_strs (js ''tables'')) of
                None \<Rightarrow> (422, rows)
              | Some ts \<Rightarrow>
                  (case product of
                     None \<Rightarrow> (404, rows)
                   | Some p \<Rightarrow>
                       (200, put_row (p\<lparr>sp_tables := dedupe ts, sp_last_updated_by := Some (username u)\<rparr>) rows))))"

(* src: backend/app/routers/data_products.py 183-197 delete_data_product *)
definition delete_data_product ::
  "(jsstr \<Rightarrow> jsstr) \<Rightarrow> user_info \<Rightarrow> request \<Rightarrow> server_product list \<Rightarrow> nat \<times> server_product list" where
  "delete_data_product lower u r rows =
     (let product = row_at (rq_path r) [] rows
      in case require_team_membership lower u product of
           Some status \<Rightarrow> (status, rows)
         | None \<Rightarrow>
             (case product of
                None \<Rightarrow> (404, rows)
              | Some p \<Rightarrow> (200, filter (\<lambda>q. sp_id q \<noteq> sp_id p) rows)))"

text \<open>The router, on the methods that edit.\<close>

definition edit_product ::
  "(jsstr \<Rightarrow> jsstr) \<Rightarrow> jsstr \<Rightarrow> user_info \<Rightarrow> request \<Rightarrow> server_product list \<Rightarrow> nat \<times> server_product list" where
  "edit_product lower now u r rows =
     (case rq_method r of
        PATCH \<Rightarrow> update_data_product lower now u r rows
      | PUT \<Rightarrow> set_data_product_tables lower u r rows
      | DELETE \<Rightarrow> delete_data_product lower u r rows
      | _ \<Rightarrow> (405, rows))"

text \<open>What the front end's client makes of the answer: a refusal from status 400 on, without a
  text of the server's.\<close>

definition refusal :: "nat \<times> server_product list \<Rightarrow> jsstr option option" where
  "refusal answer = (if fst answer < 400 then None else Some None)"

lemmas body_defs = body_field_def body_str_def body_strs_def opt_text_def is_object_def

section \<open>A save stores what the modal shows\<close>

lemma product_path_inject [simp]: "product_path i = product_path j \<longleftrightarrow> i = j"
  by (simp add: product_path_def)

lemma row_at_product:
  assumes "p \<in> set rows" and "distinct (map sp_id rows)"
  shows "row_at (product_path (sp_id p) @ tail_of_path) tail_of_path rows = Some p"
  using assms
  by (induction rows) (auto simp: row_at_def rev_image_eqI)

lemma row_at_product_Nil:
  "p \<in> set rows \<Longrightarrow> distinct (map sp_id rows) \<Longrightarrow> row_at (product_path (sp_id p)) [] rows = Some p"
  using row_at_product [of p rows "[]"] by simp

lemma put_row_twice: "sp_id q = sp_id p \<Longrightarrow> put_row q (put_row p rows) = put_row q rows"
  by (simp add: put_row_def)

lemma ids_put_row [simp]: "map sp_id (put_row p rows) = map sp_id rows"
  by (simp add: put_row_def)

lemma put_row_member: "q \<in> set rows \<Longrightarrow> sp_id q = sp_id p \<Longrightarrow> p \<in> set (put_row p rows)"
  by (auto simp: put_row_def)

text \<open>What the modal's form makes of a product.\<close>

definition saved_product :: "jsstr \<Rightarrow> user_info \<Rightarrow> edit_modal \<Rightarrow> server_product \<Rightarrow> server_product" where
  "saved_product now u m p =
     p\<lparr>sp_name := trim (em_name m), sp_schedule := truthy (Some (em_scheduleType m)),
       sp_documentation := truthy (Some (em_documentation m)), sp_tables := dedupe (em_tables m),
       sp_last_updated_by := Some (username u), sp_last_updated_at := Some now\<rparr>"

definition form_fits :: "edit_modal \<Rightarrow> bool" where
  "form_fits m \<longleftrightarrow> trim (em_name m) \<noteq> [] \<and> characters (trim (em_name m)) \<le> 255 \<and>
     characters (em_documentation m) \<le> 100000 \<and> schedule_ok (em_scheduleType m)"

definition details_body :: "edit_modal \<Rightarrow> json" where
  "details_body m = JObj
     [(js ''name'', JStr (trim (em_name m))), (js ''schedule_type'', json_opt (truthy (Some (em_scheduleType m)))),
      (js ''documentation'', json_opt (truthy (Some (em_documentation m))))]"

lemma details_body_fields:
  "body_field (js ''name'') (details_body m) = Some (JStr (trim (em_name m)))"
  "body_field (js ''description'') (details_body m) = None"
  "body_field (js ''documentation'') (details_body m) = Some (json_opt (truthy (Some (em_documentation m))))"
  "body_field (js ''schedule_type'') (details_body m) = Some (json_opt (truthy (Some (em_scheduleType m))))"
  by (simp_all add: details_body_def body_field_def)

lemma is_object_details [simp]: "is_object (details_body m)"
  by (simp add: details_body_def is_object_def)

lemma body_str_json_opt: "body_field k j = Some (json_opt v) \<Longrightarrow> body_str k j = v"
  by (cases v) (simp_all add: body_str_def json_opt_def)

lemma details_body_valid: "form_fits m \<Longrightarrow> update_valid (details_body m)"
  using characters_pos [of "trim (em_name m)"]
  by (auto simp: update_valid_def form_fits_def opt_text_def details_body_fields json_opt_def schedule_ok_def split: option.splits)

lemma details_stored:
  assumes "form_fits m"
  shows "update_metadata now u (details_body m) p =
    p\<lparr>sp_name := trim (em_name m), sp_schedule := truthy (Some (em_scheduleType m)),
      sp_documentation := truthy (Some (em_documentation m)),
      sp_last_updated_by := Some (username u), sp_last_updated_at := Some now\<rparr>"
proof -
  have "body_str (js ''name'') (details_body m) = Some (trim (em_name m))"
    by (simp add: body_str_def details_body_fields)
  then show ?thesis
    using assms body_str_json_opt [OF details_body_fields(3)] body_str_json_opt [OF details_body_fields(4)]
    by (simp add: update_metadata_def details_body_fields form_fits_def)
qed

lemma save_requests_eq:
  "save_requests pid m =
     [send PATCH (product_path pid) (Some (details_body m)),
      send PUT (product_path pid @ js ''/tables'') (Some (JObj [(js ''tables'', JArr (map JStr (em_tables m)))]))]"
  by (simp add: save_requests_def details_body_def)

lemma patch_answer:
  assumes "p \<in> set rows" and "distinct (map sp_id rows)" and "can_edit lower u p" and "form_fits m"
    and "\<And>q. q \<in> set rows \<Longrightarrow> sp_id q \<noteq> sp_id p \<Longrightarrow> sp_name q \<noteq> trim (em_name m)"
  shows "edit_product lower now u (send PATCH (product_path (sp_id p)) (Some (details_body m))) rows =
    (200, put_row (update_metadata now u (details_body m) p) rows)"
proof -
  have "\<not> list_ex (\<lambda>q. sp_id q \<noteq> sp_id p \<and> sp_name q = trim (em_name m)) rows"
    using assms(5) by (auto simp: list_ex_iff)
  then show ?thesis
    using assms(3) row_at_product_Nil [OF assms(1,2)] details_body_valid [OF assms(4)]
    by (simp add: edit_product_def send_def update_data_product_def can_edit_passes details_stored [OF assms(4)])
qed

lemma put_answer:
  assumes "p \<in> set rows" and "distinct (map sp_id rows)" and "can_edit lower u p"
  shows "edit_product lower now u
      (send PUT (product_path (sp_id p) @ js ''/tables'') (Some (JObj [(js ''tables'', JArr (map JStr ts))]))) rows =
    (200, put_row (p\<lparr>sp_tables := dedupe ts, sp_last_updated_by := Some (username u)\<rparr>) rows)"
  using assms(3) row_at_product [OF assms(1,2)]
  by (simp add: edit_product_def send_def set_data_product_tables_def can_edit_passes body_strs_def is_object_def
      body_field_def)

text \<open>The server's rows after the accepted requests of a save, in order.\<close>

definition serve_all ::
  "(jsstr \<Rightarrow> jsstr) \<Rightarrow> jsstr \<Rightarrow> user_info \<Rightarrow> request list \<Rightarrow> server_product list \<Rightarrow> server_product list" where
  "serve_all lower now u rs rows = fold (\<lambda>r rows. snd (edit_product lower now u r rows)) rs rows"

lemma save_served:
  assumes "p \<in> set rows" and "distinct (map sp_id rows)" and "can_edit lower u p" and "form_fits m"
    and "\<And>q. q \<in> set rows \<Longrightarrow> sp_id q \<noteq> sp_id p \<Longrightarrow> sp_name q \<noteq> trim (em_name m)"
  shows "let out = run_save (\<lambda>r. refusal (edit_product lower now u r rows)) (sp_id p) m
    in oe_closed out \<and> oe_accepted out = save_requests (sp_id p) m \<and>
       serve_all lower now u (oe_accepted out) rows = put_row (saved_product now u m p) rows"
proof -
  let ?p1 = "update_metadata now u (details_body m) p"
  have id1: "sp_id ?p1 = sp_id p" by (simp add: update_metadata_def)
  have in1: "?p1 \<in> set (put_row ?p1 rows)" using put_row_member [OF assms(1)] id1 by simp
  have ed1: "can_edit lower u ?p1"
    using assms(3) by (subst can_edit_frame [of _ p]) (simp_all add: update_metadata_def)
  have saved: "?p1\<lparr>sp_tables := dedupe (em_tables m), sp_last_updated_by := Some (username u)\<rparr> = saved_product now u m p"
    by (cases p) (simp add: details_stored [OF assms(4)] saved_product_def)
  have final: "put_row (?p1\<lparr>sp_tables := dedupe (em_tables m), sp_last_updated_by := Some (username u)\<rparr>)
      (put_row ?p1 rows) = put_row (saved_product now u m p) rows"
    unfolding saved by (rule put_row_twice) (simp add: id1 saved_product_def)
  have put: "edit_product lower now u (save_requests (sp_id p) m ! 1) (put_row ?p1 rows) =
      (200, put_row (?p1\<lparr>sp_tables := dedupe (em_tables m), sp_last_updated_by := Some (username u)\<rparr>) (put_row ?p1 rows))"
    using put_answer [OF in1 _ ed1, of now "em_tables m"] assms(2) id1 by (simp add: save_requests_eq)
  show ?thesis
    using patch_answer [OF assms] put_answer [OF assms(1,2,3)] put final
    by (simp add: run_save_def save_requests_eq refusal_def Let_def serve_all_def)
qed

text \<open>A row as this application leaves it: a trimmed name, no empty texts, a known schedule, and table
  names of the form \<^verbatim>\<open>namespace.table\<close>, none twice.\<close>

definition row_ok :: "server_product \<Rightarrow> bool" where
  "row_ok p \<longleftrightarrow> sp_name p \<noteq> [] \<and> trim (sp_name p) = sp_name p \<and> characters (sp_name p) \<le> 255 \<and>
     sp_documentation p \<noteq> Some [] \<and> characters (or_empty (sp_documentation p)) \<le> 100000 \<and>
     sp_schedule p \<in> {None, Some (js ''daily''), Some (js ''hourly''), Some (js ''stream'')} \<and>
     distinct (sp_tables p) \<and> list_all (\<lambda>k. 46 \<in> set k \<and> last k \<noteq> 46) (sp_tables p)"

lemma set_of_array_distinct: "distinct xs \<Longrightarrow> set_of_array xs = xs"
proof -
  have "distinct (ys @ xs) \<Longrightarrow> fold set_add xs ys = ys @ xs" for ys
    by (induction xs arbitrary: ys) (auto simp: set_add_def)
  then show "distinct xs \<Longrightarrow> set_of_array xs = xs" by (simp add: set_of_array_def)
qed

lemma dedupe_ok: "distinct ts \<Longrightarrow> [] \<notin> set ts \<Longrightarrow> dedupe ts = ts"
  unfolding dedupe_def by (subst filter_True) (auto simp: set_of_array_distinct)

lemma truthy_or_empty: "v \<noteq> Some [] \<Longrightarrow> truthy (Some (or_empty v)) = v"
  by (cases v) (simp_all add: or_empty_def)

lemma open_edit_row:
  fixes lower snippet :: "jsstr \<Rightarrow> jsstr" and u :: user_info
  assumes "row_ok p"
  defines "m \<equiv> open_edit (get_product_detail_for_user lower snippet u p)"
  shows "form_fits m" and "trim (em_name m) = sp_name p"
    and "saved_product now u m p = p\<lparr>sp_last_updated_by := Some (username u), sp_last_updated_at := Some now\<rparr>"
proof -
  have tables: "map tableKey (map parse_fqn (sp_tables p)) = sp_tables p"
    using assms(1) by (auto simp: row_ok_def list_all_iff tableKey_parse_fqn intro!: map_idI)
  have fields: "em_name m = sp_name p" "em_scheduleType m = or_empty (sp_schedule p)"
    "em_documentation m = or_empty (sp_documentation p)" "em_tables m = sp_tables p"
    using tables by (simp_all add: m_def open_edit_def get_product_detail_for_user_def)
  have schedule: "schedule_ok (or_empty (sp_schedule p))"
    using assms(1) by (cases "sp_schedule p") (simp_all add: row_ok_def schedule_ok_def or_empty_def)
  have "[] \<notin> set (sp_tables p)" using assms(1) by (auto simp: row_ok_def list_all_iff)
  then have "dedupe (sp_tables p) = sp_tables p" using assms(1) by (simp add: row_ok_def dedupe_ok)
  moreover have "truthy (Some (or_empty (sp_schedule p))) = sp_schedule p"
    "truthy (Some (or_empty (sp_documentation p))) = sp_documentation p"
    using assms(1) truthy_or_empty [of "sp_schedule p"] truthy_or_empty [of "sp_documentation p"]
    by (auto simp: row_ok_def)
  ultimately show "saved_product now u m p = p\<lparr>sp_last_updated_by := Some (username u), sp_last_updated_at := Some now\<rparr>"
    using assms(1) by (cases p) (simp add: saved_product_def fields row_ok_def)
  show "form_fits m" "trim (em_name m) = sp_name p"
    using assms(1) schedule by (simp_all add: form_fits_def fields row_ok_def)
qed


definition demo_row :: server_product where
  "demo_row = \<lparr>sp_id = js ''p1'', sp_name = js ''Logins'', sp_description = None, sp_documentation = None,
     sp_team = Some (js ''ops''), sp_tables = [js ''vault.logins''], sp_schedule = Some (js ''daily''),
     sp_created_by = Some (js ''ann''), sp_last_updated_by = None, sp_last_updated_at = None\<rparr>"

definition demo_member :: user_info where
  "demo_member = \<lparr>username = js ''bob'', full_name = None, email = [], role = js ''member'', is_master = False,
     teams = [js ''ops'']\<rparr>"

lemma demo_row_ok: "row_ok demo_row" "can_edit (\<lambda>s. s) demo_member demo_row"
proof -
  have "trim (js ''Logins'') = js ''Logins''" by (rule trim_id) (simp add: js_def is_ws_def)
  moreover have "characters (js ''Logins'') \<le> 255"
    using characters_le_length [of "js ''Logins''"] by simp
  ultimately show "row_ok demo_row"
    by (simp add: row_ok_def demo_row_def or_empty_def) (simp add: js_def)
  show "can_edit (\<lambda>s. s) demo_member demo_row"
    by (simp add: can_edit_def demo_member_def demo_row_def lower_set_def)
qed


section \<open>What is offered is what is allowed\<close>

text \<open>
  C3: the workspace of a product offers to edit it exactly when the service lets that user's
  edits pass; to a user it is not offered to, the service answers every edit, table change and
  deletion of that product with status 403 and changes nothing.
\<close>

theorem edit_offered_iff_allowed:
  assumes "p \<in> set rows" and "distinct (map sp_id rows)" and "sp_id p \<noteq> []"
  shows "let q = \<lparr>q_data = Some (get_product_detail_for_user lower snippet u p), q_loading = False, q_error = False\<rparr>;
             offered = W_edit \<in> raises (DataProductWorkspace low (Some (sp_id p)) q schema catalog revisions t em w)
    in (offered \<longleftrightarrow> require_team_membership lower u (Some p) = None) \<and>
       (if offered then True
        else \<forall>r \<in> set (send DELETE (product_path (sp_id p)) None # save_requests (sp_id p) m).
          edit_product lower now u r rows = (403, rows))"
proof -
  have panel: "W_edit \<notin> raises (TableSchemaPanel low schema x)" for x
    by (auto simp: TableSchemaPanel_def split: bool.splits option.splits)
  let ?q = "\<lparr>q_data = Some (get_product_detail_for_user lower snippet u p), q_loading = False, q_error = False\<rparr>"
  have offered: "W_edit \<in> raises (DataProductWorkspace low (Some (sp_id p)) ?q schema catalog revisions t em w)
      \<longleftrightarrow> can_edit lower u p"
    using assms(3) panel
    by (auto simp: DataProductWorkspace_def BentoHeader_def Let_def get_product_detail_for_user_def split: option.splits)
  have status: "require_team_membership lower u (Some p) = Some 403" if "\<not> can_edit lower u p"
    using that by (auto simp: can_edit_def require_team_membership_def truthy_def split: option.splits if_splits)
  have refused: "edit_product lower now u r rows = (403, rows)"
    if "\<not> can_edit lower u p" "r \<in> set (send DELETE (product_path (sp_id p)) None # save_requests (sp_id p) m)" for r
    using that(2) status [OF that(1)] row_at_product_Nil [OF assms(1,2)] row_at_product [OF assms(1,2)]
    by (auto simp: save_requests_eq edit_product_def send_def update_data_product_def set_data_product_tables_def
        delete_data_product_def)
  show ?thesis
    unfolding Let_def offered using refused can_edit_passes by auto
qed

theorem edit_offered_iff_allowed_witness:
  "edit_product (\<lambda>s. s) [] (demo_member\<lparr>teams := []\<rparr>) (send DELETE (product_path (js ''p1'')) None) [demo_row] =
     (403, [demo_row])"
proof -
  have "\<not> can_edit (\<lambda>s. s) (demo_member\<lparr>teams := []\<rparr>) demo_row"
    by (simp add: can_edit_def demo_member_def demo_row_def lower_set_def)
  moreover have "sp_id demo_row \<noteq> []" "sp_id demo_row = js ''p1''" by (simp_all add: demo_row_def)
  ultimately show ?thesis
    using edit_offered_iff_allowed [of demo_row "[demo_row]" "\<lambda>s. s" "\<lambda>s. s" "demo_member\<lparr>teams := []\<rparr>" "\<lambda>s. s"
        "\<lparr>q_data = None, q_loading = True, q_error = False\<rparr>" demo_tables "Box []" _ _ _ _ "[]"]
    by (auto simp: Let_def can_edit_passes split: if_splits)
qed

section \<open>What is listed is what passes the filters\<close>

text \<open>The rows a search and a choice of filters stand for.\<close>

definition chosen_rows ::
  "(jsstr \<Rightarrow> jsstr \<Rightarrow> int) \<Rightarrow> (jsstr \<Rightarrow> server_product \<Rightarrow> bool) \<Rightarrow> jsstr \<Rightarrow> catalog_state \<Rightarrow> server_product list \<Rightarrow> server_product list" where
  "chosen_rows collate matches q s rows =
     sort_by (\<lambda>p q. collate (sp_name p) (sp_name q))
       (filter (\<lambda>p. (q = [] \<or> matches q p) \<and> passes (teamFilters s) (sp_team p) \<and>
          passes (scheduleFilters s) (sp_schedule p)) rows)"

lemma sql_in_passes: "[] \<notin> set fs \<Longrightarrow> sql_in (if length fs > 0 then Some fs else None) v \<longleftrightarrow> passes fs v"
  by (auto simp: sql_in_def passes_def truthy_def split: option.splits)

lemma list_params:
  fixes q :: jsstr and s :: catalog_state and skip :: nat
  defines "r \<equiv> fetchPipelines (truthy (Some q)) skip 50 [] (serverFilters s)"
  shows "param_num (js ''limit'') 200 r = 50" and "param_num (js ''skip'') 0 r = skip"
    and "truthy (param_str (js ''q'') r) = truthy (Some q)"
    and "param_list (js ''team'') r = (if length (teamFilters s) > 0 then Some (teamFilters s) else None)"
    and "param_list (js ''schedule'') r = (if length (scheduleFilters s) > 0 then Some (scheduleFilters s) else None)"
  by (simp_all add: r_def fetchPipelines_def get_def param_num_def param_str_def param_list_def serverFilters_def
      Let_def truthy_def)

lemma list_page:
  assumes "[] \<notin> set (teamFilters s)" and "[] \<notin> set (scheduleFilters s)"
  shows "list_data_products collate matches rows (the (qs_request (useDataProducts q (serverFilters s) skip))) =
    Some (served (map item_of (chosen_rows collate matches q s rows)) 50 skip)"
proof -
  have query: "(case truthy (Some q) of None \<Rightarrow> True | Some t \<Rightarrow> matches t p) \<longleftrightarrow> q = [] \<or> matches q p" for p
    by (simp add: truthy_def)
  show ?thesis
    unfolding list_data_products_def useDataProducts_def query_spec.select_convs option.sel list_params list_products_def
      query sql_in_passes [OF assms(1)] sql_in_passes [OF assms(2)]
    by (simp add: Let_def served_def chosen_rows_def take_map drop_map)
qed

lemma filtered_chosen:
  "filteredProducts s (take n (map item_of (chosen_rows collate matches q s rows))) = take n (map item_of (chosen_rows collate matches q s rows))"
  unfolding filteredProducts_eq
  by (rule filter_True) (auto simp: chosen_rows_def item_of_def dest!: in_set_takeD)

text \<open>
  C28: the filters of the registry mean the same to the server and to the list: after any number of
  clicks on \<open>Load more\<close> the loaded products are the first pages of exactly the rows that match the
  search and pass the chosen filters, in the order of their names, and filtering them again in the browser removes none.
\<close>

theorem server_and_client_filters_agree:
  assumes "[] \<notin> set (teamFilters s)" and "[] \<notin> set (scheduleFilters s)"
  shows "let server = (\<lambda>skip. the (list_data_products collate matches rows
               (the (qs_request (useDataProducts q (serverFilters s) skip)))));
             loaded = loaded_products (Some ((fetchNextPage server ^^ Suc n) []))
    in loaded = take (50 * Suc n) (map item_of (chosen_rows collate matches q s rows)) \<and>
       filteredProducts s loaded = loaded \<and> \<not> isFiltered s loaded"
proof -
  let ?X = "map item_of (chosen_rows collate matches q s rows)"
  have server: "(\<lambda>skip. the (list_data_products collate matches rows
      (the (qs_request (useDataProducts q (serverFilters s) skip))))) = served ?X 50"
    by (rule ext) (simp only: list_page [OF assms] option.sel)
  have "loaded_products (Some ((fetchNextPage (served ?X 50) ^^ Suc n) [])) = take (50 * Suc n) ?X"
    using pages_items [where l = 50 and xs = ?X and n = n] by (simp add: loaded_products_def del: funpow.simps)
  then show ?thesis
    unfolding server Let_def by (simp add: filtered_chosen isFiltered_def del: funpow.simps)
qed

theorem server_and_client_filters_agree_witness:
  "map li_id (loaded_products (Some ((fetchNextPage (\<lambda>skip. the (list_data_products unit_cmp (\<lambda>q p. True)
     [demo_row, demo_row\<lparr>sp_id := js ''p2'', sp_team := None\<rparr>]
     (the (qs_request (useDataProducts [] (serverFilters ((init_catalog [])\<lparr>teamFilters := [js ''ops'']\<rparr>)) skip))))) ^^ Suc 0) [])))
     = [js ''p1'']"
  using server_and_client_filters_agree [of "(init_catalog [])\<lparr>teamFilters := [js ''ops'']\<rparr>" unit_cmp "\<lambda>q p. True"
      "[demo_row, demo_row\<lparr>sp_id := js ''p2'', sp_team := None\<rparr>]" "[]" 0]
  by (simp add: init_catalog_def Let_def chosen_rows_def passes_def demo_row_def truthy_def item_of_def sort_by_def)

section \<open>Creating a product\<close>

text \<open>Python's \<^verbatim>\<open>str.strip\<close>.\<close>

definition py_space :: "code_unit \<Rightarrow> bool" where
  "py_space c \<longleftrightarrow> c \<in> set [9, 10, 11, 12, 13, 28, 29, 30, 31, 32, 0x85, 160, 0x1680, 0x2000, 0x2001, 0x2002,
     0x2003, 0x2004, 0x2005, 0x2006, 0x2007, 0x2008, 0x2009, 0x200A, 0x2028, 0x2029, 0x202F, 0x205F, 0x3000]"

definition strip :: "jsstr \<Rightarrow> jsstr" where
  "strip s = rev (dropWhile py_space (rev (dropWhile py_space s)))"

(* src: backend/app/routers/data_products.py 34-43 DataProductCreateRequest *)
definition create_valid :: "json \<Rightarrow> bool" where
  "create_valid j \<longleftrightarrow> is_object j \<and> body_str (js ''name'') j \<noteq> None \<and>
     opt_text (\<lambda>s. True) (js ''description'') j \<and> opt_text (\<lambda>s. True) (js ''documentation'') j \<and>
     opt_text (\<lambda>s. True) (js ''schedule_type'') j \<and> opt_text (\<lambda>s. True) (js ''team'') j \<and>
     body_strs (js ''tables'') j \<noteq> None"

text \<open>The owning team of a new product, or the status that refuses it.\<close>

(* src: backend/app/routers/data_products.py 104-120 create_data_product *)
definition owning_team :: "(jsstr \<Rightarrow> jsstr) \<Rightarrow> user_info \<Rightarrow> jsstr option \<Rightarrow> nat + jsstr option" where
  "owning_team lower u chosen =
     (case truthy (map_option strip (truthy chosen)) of
        Some t \<Rightarrow>
          if \<not> is_master u \<and> lower t \<notin> lower_set lower (teams u) then Inl 403 else Inr (Some t)
      | None \<Rightarrow>
          (case teams u of
             [] \<Rightarrow> Inr None
           | [t] \<Rightarrow> Inr (Some t)
           | _ \<Rightarrow> Inl 400))"

text \<open>
  \<open>db_error\<close>: the database rejects the row for a reason other than its name, such as a text that is
  too long for its column; \<open>i\<close> is the identifier it is given.
\<close>

(* src: backend/app/routers/data_products.py 93-133 create_data_product *)
definition create_data_product ::
  "(jsstr \<Rightarrow> jsstr) \<Rightarrow> (server_product \<Rightarrow> bool) \<Rightarrow> jsstr \<Rightarrow> jsstr \<Rightarrow> user_info \<Rightarrow> request
     \<Rightarrow> server_product list \<Rightarrow> nat \<times> server_product list" where
  "create_data_product lower db_error i now u r rows =
     (case rq_body r of
        None \<Rightarrow> (422, rows)
      | Some j \<Rightarrow>
          if \<not> create_valid j then (422, rows)
          else
            (let is_privileged = role u = js ''admin'' \<or> is_master u
             in if \<not> is_privileged \<and> role u = js ''viewer'' then (403, rows)
                else (case owning_team lower u (body_str (js ''team'') j) of
                        Inl status \<Rightarrow> (status, rows)
                      | Inr team \<Rightarrow>
                          (let p = \<lparr>sp_id = i, sp_name = the (body_str (js ''name'') j),
                                 sp_description = body_str (js ''description'') j,
                                 sp_documentation = body_str (js ''documentation'') j, sp_team = team,
                                 sp_tables = dedupe (the (body_strs (js ''tables'') j)),
                                 sp_schedule = body_str (js ''schedule_type'') j,
                                 sp_created_by = Some (username u), sp_last_updated_by = Some (username u),
                                 sp_last_updated_at = Some now\<rparr>
                           in if db_error p then (500, rows)
                              else if list_ex (\<lambda>q. sp_name q = sp_name p) rows then (409, rows)
                              else (201, rows @ [p])))))"

text \<open>What the create modal's form stands for.\<close>

definition created_row :: "jsstr \<Rightarrow> jsstr \<Rightarrow> user_info \<Rightarrow> create_form \<Rightarrow> server_product" where
  "created_row i now u f = \<lparr>sp_id = i, sp_name = cf_name f, sp_description = truthy (Some (cf_description f)),
     sp_documentation = truthy (Some (cf_documentation f)),
     sp_team = (case teams u of [] \<Rightarrow> None | [t] \<Rightarrow> Some t | _ \<Rightarrow> Some (cf_team f)),
     sp_tables = dedupe (cf_tables f), sp_schedule = truthy (Some (cf_scheduleType f)),
     sp_created_by = Some (username u), sp_last_updated_by = Some (username u), sp_last_updated_at = Some now\<rparr>"

definition create_body :: "create_form \<Rightarrow> json" where
  "create_body f = JObj
     [(js ''name'', JStr (cf_name f)), (js ''description'', json_opt (truthy (Some (cf_description f)))),
      (js ''documentation'', json_opt (truthy (Some (cf_documentation f)))),
      (js ''schedule_type'', json_opt (truthy (Some (cf_scheduleType f)))),
      (js ''team'', json_opt (truthy (Some (cf_team f)))),
      (js ''tables'', JArr (map JStr (cf_tables f)))]"

lemma create_body_fields:
  "body_field (js ''name'') (create_body f) = Some (JStr (cf_name f))"
  "body_field (js ''description'') (create_body f) = Some (json_opt (truthy (Some (cf_description f))))"
  "body_field (js ''documentation'') (create_body f) = Some (json_opt (truthy (Some (cf_documentation f))))"
  "body_field (js ''schedule_type'') (create_body f) = Some (json_opt (truthy (Some (cf_scheduleType f))))"
  "body_field (js ''team'') (create_body f) = Some (json_opt (truthy (Some (cf_team f))))"
  "body_field (js ''tables'') (create_body f) = Some (JArr (map JStr (cf_tables f)))"
  by (simp_all add: create_body_def body_field_def)

lemma create_body_strs:
  "body_str (js ''name'') (create_body f) = Some (cf_name f)"
  "body_str (js ''description'') (create_body f) = truthy (Some (cf_description f))"
  "body_str (js ''documentation'') (create_body f) = truthy (Some (cf_documentation f))"
  "body_str (js ''schedule_type'') (create_body f) = truthy (Some (cf_scheduleType f))"
  "body_str (js ''team'') (create_body f) = truthy (Some (cf_team f))"
  "body_strs (js ''tables'') (create_body f) = Some (cf_tables f)"
  using body_str_json_opt [OF create_body_fields(2)] body_str_json_opt [OF create_body_fields(3)]
    body_str_json_opt [OF create_body_fields(4)] body_str_json_opt [OF create_body_fields(5)]
  by (simp_all add: body_str_def body_strs_def create_body_fields is_object_def) (simp_all add: create_body_def)

lemma create_body_valid: "create_valid (create_body f)"
  unfolding create_valid_def create_body_strs opt_text_def create_body_fields
  by (auto simp: json_opt_def is_object_def create_body_def split: option.split)

lemma owning_team_form:
  assumes "sendable (Some u) f" and "list_all (\<lambda>t. t \<noteq> [] \<and> strip t = t) (teams u)"
  shows "owning_team lower u (truthy (Some (cf_team f))) =
    Inr (case teams u of [] \<Rightarrow> None | [t] \<Rightarrow> Some t | _ \<Rightarrow> Some (cf_team f))"
proof (cases "mustChooseTeam (Some u)")
  case True
  then have t: "cf_team f \<in> set (teams u)" and ne: "cf_team f \<noteq> []"
    using assms(1) by (auto simp: sendable_def form_ok_def)
  have "strip (cf_team f) = cf_team f" using t assms(2) by (simp add: list_all_iff)
  then have "owning_team lower u (truthy (Some (cf_team f))) = Inr (Some (cf_team f))"
    using t ne by (simp add: owning_team_def lower_set_def truthy_def)
  with True show ?thesis
    by (auto simp: mustChooseTeam_def split: list.split)
next
  case False
  then have "cf_team f = []" using assms(1) by (simp add: sendable_def form_ok_def)
  with False show ?thesis
    by (auto simp: owning_team_def mustChooseTeam_def truthy_def split: list.split)
qed

lemma created_row_editable:
  assumes "sendable (Some u) f" and "is_master u \<or> role u \<noteq> js ''viewer''"
    and "list_all (\<lambda>t. t \<noteq> [] \<and> strip t = t) (teams u)" and "username u \<noteq> []"
  shows "can_edit lower u (created_row i now u f)"
proof -
  have "length (teams u) > 1 \<Longrightarrow> cf_team f \<in> set (teams u)"
    using assms(1) by (auto simp: sendable_def form_ok_def mustChooseTeam_def)
  then show ?thesis
    using assms(2,3,4)
    by (auto simp: can_edit_def created_row_def truthy_def lower_set_def split: list.splits)
qed

lemma create_answer:
  assumes "sendable (Some u) f" and "list_all (\<lambda>t. t \<noteq> [] \<and> strip t = t) (teams u)"
  shows "create_data_product lower db_error i now u (create_request f) rows =
    (if \<not> is_master u \<and> role u = js ''viewer'' then (403, rows)
     else if db_error (created_row i now u f) then (500, rows)
     else if list_ex (\<lambda>q. sp_name q = cf_name f) rows then (409, rows)
     else (201, rows @ [created_row i now u f]))"
proof -
  have body: "rq_body (create_request f) = Some (create_body f)"
    by (simp add: create_request_def create_body_def send_def)
  have row: "\<lparr>sp_id = i, sp_name = cf_name f, sp_description = truthy (Some (cf_description f)),
      sp_documentation = truthy (Some (cf_documentation f)),
      sp_team = (case teams u of [] \<Rightarrow> None | [t] \<Rightarrow> Some t | _ \<Rightarrow> Some (cf_team f)),
      sp_tables = dedupe (cf_tables f), sp_schedule = truthy (Some (cf_scheduleType f)),
      sp_created_by = Some (username u), sp_last_updated_by = Some (username u),
      sp_last_updated_at = Some now\<rparr> = created_row i now u f"
    by (simp add: created_row_def)
  have name: "sp_name (created_row i now u f) = cf_name f" by (simp add: created_row_def)
  have "js ''admin'' \<noteq> js ''viewer''" by simp
  then show ?thesis
    unfolding create_data_product_def body option.case create_body_strs owning_team_form [OF assms] sum.case
      option.sel row Let_def name
    by (auto simp: create_body_valid)
qed

lemma sent_sendable:
  assumes "distinct (map tableKey (tables_of q))"
  shows "list_all (sendable u) (cm_sent (fold (create_step lower q u) es init_create))"
proof -
  have "create_ok u m \<Longrightarrow> create_ok u (fold (create_step lower q u) es m)" for m
    by (induction es arbitrary: m) (auto intro: create_step_ok [OF assms])
  moreover have "create_ok u init_create"
    by (simp add: create_ok_def init_create_def empty_form_def form_ok_def schedule_ok_def)
  ultimately show ?thesis by (simp add: create_ok_def)
qed


definition named_form :: "create_form" where
  "named_form = empty_form\<lparr>cf_name := js ''Sales''\<rparr>"

lemma named_form_sent:
  "cm_sent (fold (create_step (\<lambda>s. s) demo_tables (Some demo_member))
     [R_open, R_user (C_name (js ''Sales'')), R_user C_create] init_create) = [named_form]"
proof -
  have "trim (js ''Sales'') \<noteq> []" by (simp add: trim_def js_def is_ws_def)
  then show ?thesis
    by (simp add: init_create_def CreateDataProductModal_def Let_def create_clicked_def named_form_def empty_form_def
        mustChooseTeam_def demo_member_def)
qed


section \<open>The chat's contract\<close>

(* src: backend/app/schemas/ai.py 6-13 AIChatRequest *)
definition chat_valid :: "ai_request \<Rightarrow> bool" where
  "chat_valid r \<longleftrightarrow> characters (ar_message r) \<le> 5000 \<and> length (ar_history r) \<le> 50 \<and>
     list_all (\<lambda>m. characters (cm_content m) \<le> 10000) (ar_history r)"

definition answers :: "chat_label list \<Rightarrow> nat" where
  "answers ls = length (filter (\<lambda>l. l = L_reply \<or> l = L_fail) ls)"

text \<open>Without clearing, each answered question has left two messages, and the requests in flight
  were made when all the answered ones had.\<close>

definition grown :: "nat \<Rightarrow> chat_world \<Rightarrow> bool" where
  "grown n w \<longleftrightarrow> 1 + 2 * n + length (cw_pending w) \<le> length (messages (cw_ai w)) \<and>
     list_all (\<lambda>r. 1 + 2 * n \<le> length (ar_history r)) (cw_pending w)"

lemma grown_init: "grown 0 init_chat"
  by (simp add: grown_def init_chat_def init_ai_def)

lemma chat_locked_init: "chat_locked init_chat"
  by (simp add: chat_locked_def init_chat_def init_ai_def)

lemma grown_submit: "grown n w \<Longrightarrow> grown n (handleSubmit fresh w)"
  by (auto simp: grown_def handleSubmit_def handleSend_def Let_def ai_ops onMutate_def chat_request_def)

lemma grown_step:
  assumes "chat_step w l w'" and "l \<noteq> L_clear" and "chat_locked w" and "grown n w"
  shows "grown (n + answers [l]) w'"
  using assms
proof (induction rule: chat_step.induct)
  case (submit w fresh)
  then show ?case by (simp add: grown_submit answers_def)
next
  case (greet w t)
  then show ?case by (cases "cw_pending w") (auto simp: grown_def ai_ops Let_def answers_def)
next
  case (reply w ps r qs content)
  then have "ps = [] \<and> qs = []" by (auto simp: chat_locked_def)
  with reply show ?case by (simp add: grown_def ai_ops onSettled_def onSuccess_def answers_def)
next
  case (fail w ps r qs code)
  then have "ps = [] \<and> qs = []" by (auto simp: chat_locked_def)
  with fail show ?case by (simp add: grown_def ai_ops onSettled_def onError_def answers_def Let_def)
qed (simp_all add: grown_def answers_def)

lemma grown_path:
  assumes "chat_path init_chat ls w" and "L_clear \<notin> set ls"
  shows "chat_locked w \<and> grown (answers ls) w"
  using assms
proof (induction "init_chat" ls w rule: chat_path.induct)
  case start
  then show ?case using grown_init chat_locked_init by (simp add: answers_def)
next
  case (step ls w l w')
  then have "chat_locked w" "grown (answers ls) w" by auto
  with step show ?case
    using chat_locked_step [of w l w'] grown_step [of w l w'] by (auto simp: answers_def)
qed

text \<open>
  C30: a conversation runs dry: the whole history is sent along with every question, and once 25
  questions have been answered (or have failed) without the history being cleared, every further
  request carries more messages than the service accepts, so it is refused, and its refusal is
  one more answer.
\<close>

theorem chat_runs_dry:
  assumes "chat_path init_chat ls w" and "L_clear \<notin> set ls" and "25 \<le> answers ls"
  shows "list_all (\<lambda>r. \<not> chat_valid r) (cw_pending w)"
  using grown_path [OF assms(1,2)] assms(3)
  unfolding grown_def by (auto simp: chat_valid_def elim!: list.pred_mono_strong)

text \<open>A conversation of \<open>n\<close> questions and answers, and one more question.\<close>

definition rounds :: "nat \<Rightarrow> chat_label list" where
  "rounds n = concat (replicate n [L_edit, L_submit, L_reply])"

lemma rounds_Suc: "rounds (Suc n) = ((rounds n @ [L_edit]) @ [L_submit]) @ [L_reply]"
  unfolding rounds_def by (simp add: replicate_append_same [symmetric])

lemma ask_step:
  assumes "chat_path init_chat ls w" and "cw_pending w = []" and "\<not> isTyping (cw_ai w)"
  shows "\<exists>w' r. chat_path init_chat ((ls @ [L_edit]) @ [L_submit]) w' \<and> cw_pending w' = [r]"
proof -
  let ?w = "handleSubmit False (w\<lparr>cw_value := js '' hi ''\<rparr>)"
  have "chat_path init_chat (ls @ [L_edit]) (w\<lparr>cw_value := js '' hi ''\<rparr>)"
    by (rule chat_path.step [OF assms(1) chat_step.edit])
  then have "chat_path init_chat ((ls @ [L_edit]) @ [L_submit]) ?w"
    by (rule chat_path.step [OF _ chat_step.submit])
  moreover have "\<exists>r. cw_pending ?w = [r]"
    using assms(2,3) by (simp add: handleSubmit_def handleSend_def trim_hi Let_def)
  ultimately show ?thesis by blast
qed

lemma rounds_path: "\<exists>w. chat_path init_chat (rounds n) w \<and> cw_pending w = [] \<and> \<not> isTyping (cw_ai w)"
proof (induction n)
  case 0
  show ?case using chat_path.start [of init_chat] by (auto simp: rounds_def init_chat_def init_ai_def)
next
  case (Suc n)
  then obtain w r where w: "chat_path init_chat ((rounds n @ [L_edit]) @ [L_submit]) w" "cw_pending w = [] @ r # []"
    using ask_step by fastforce
  show ?case
    using chat_path.step [OF w(1) chat_step.reply [OF w(2)]] unfolding rounds_Suc
    by (force simp: ai_ops onSettled_def onSuccess_def)
qed

theorem chat_runs_dry_witness:
  "\<exists>w r. chat_path init_chat ((rounds 25 @ [L_edit]) @ [L_submit]) w \<and> cw_pending w = [r] \<and> \<not> chat_valid r"
proof -
  obtain w r where w: "chat_path init_chat ((rounds 25 @ [L_edit]) @ [L_submit]) w" "cw_pending w = [r]"
    using rounds_path [of 25] ask_step by blast
  have n: "answers (rounds n) = n" for n by (induction n) (simp_all add: answers_def rounds_def)
  have "L_clear \<notin> set ((rounds 25 @ [L_edit]) @ [L_submit])" by (auto simp: rounds_def)
  moreover have "25 \<le> answers ((rounds 25 @ [L_edit]) @ [L_submit])" using n [of 25] by (simp add: answers_def)
  ultimately have "\<not> chat_valid r" using chat_runs_dry [OF w(1)] w(2) by simp
  with w show ?thesis by blast
qed

end
