(* ===== verification/History.thy ===== *)
theory History
  imports Server
begin

text \<open>
  The history of a product's texts: what the service records when a text is changed or restored
  (\<^verbatim>\<open>backend/app/services/data_product_service.py\<close>, \<^verbatim>\<open>repositories/revision_repo.py\<close>), together
  with the requests of the editing components.  The service's rows of the revision table are what
  it sends to the front end (\<open>revision\<close>); the parameter \<open>ids\<close> gives the identifier of each new one.
\<close>

record service =
  sv_rows :: "server_product list"
  sv_revs :: "revision list"

definition get_field :: "doc_field \<Rightarrow> server_product \<Rightarrow> jsstr option" where
  "get_field f p = (case f of Description \<Rightarrow> sp_description p | Documentation \<Rightarrow> sp_documentation p)"

definition set_field :: "doc_field \<Rightarrow> jsstr option \<Rightarrow> server_product \<Rightarrow> server_product" where
  "set_field f v p = (case f of
     Description \<Rightarrow> p\<lparr>sp_description := v\<rparr> | Documentation \<Rightarrow> p\<lparr>sp_documentation := v\<rparr>)"

text \<open>Revisions of fields that an update changes are recorded with the values before it.\<close>

definition new_revision ::
  "jsstr \<Rightarrow> jsstr \<Rightarrow> user_info \<Rightarrow> change_source \<Rightarrow> doc_field \<Rightarrow> server_product \<Rightarrow> revision" where
  "new_revision i now u src f p = \<lparr>rv_id = i, rv_product_id = sp_id p, rv_field_name = f, rv_content = get_field f p,
     rv_changed_by = username u, rv_change_source = src, rv_created_at = now\<rparr>"

definition changes :: "json \<Rightarrow> server_product \<Rightarrow> doc_field \<Rightarrow> bool" where
  "changes j p f \<longleftrightarrow> body_field (field_str f) j \<noteq> None \<and> body_str (field_str f) j \<noteq> get_field f p"

(* src: backend/app/services/data_product_service.py 181-193 update_product_metadata *)
definition snapshots ::
  "(nat \<Rightarrow> jsstr) \<Rightarrow> jsstr \<Rightarrow> user_info \<Rightarrow> json \<Rightarrow> server_product \<Rightarrow> revision list \<Rightarrow> revision list" where
  "snapshots ids now u j p revs =
     map (\<lambda>(k, f). new_revision (ids k) now u By_user f p)
       (enumerate (length revs) (filter (changes j p) [Description, Documentation]))"

(* src: backend/app/services/data_product_service.py 167-207 update_product_metadata *)
definition update_with_history ::
  "(jsstr \<Rightarrow> jsstr) \<Rightarrow> (nat \<Rightarrow> jsstr) \<Rightarrow> jsstr \<Rightarrow> user_info \<Rightarrow> request \<Rightarrow> service \<Rightarrow> nat \<times> service" where
  "update_with_history lower ids now u r st =
     (case update_data_product lower now u r (sv_rows st) of
        (status, rows) \<Rightarrow>
          if status \<noteq> 200 then (status, st)
          else (case (row_at (rq_path r) [] (sv_rows st), rq_body r) of
                  (Some p, Some j) \<Rightarrow>
                    (200, st\<lparr>sv_rows := rows, sv_revs := sv_revs st @ snapshots ids now u j p (sv_revs st)\<rparr>)
                | _ \<Rightarrow> (status, st)))"

text \<open>The product and the revision that a path names.\<close>

definition restore_route :: "jsstr \<Rightarrow> (jsstr \<times> jsstr) option" where
  "restore_route path = (case split_on 47 path of
     [r, c, pid, d, rid, e] \<Rightarrow>
       if [r, c, d, e] = [[], js ''data-products'', js ''revisions'', js ''restore''] then Some (pid, rid) else None
   | _ \<Rightarrow> None)"

(* src: backend/app/services/data_product_service.py 232-266 restore_revision *)
definition restore_revision ::
  "(jsstr \<Rightarrow> jsstr) \<Rightarrow> (nat \<Rightarrow> jsstr) \<Rightarrow> jsstr \<Rightarrow> user_info \<Rightarrow> request \<Rightarrow> service \<Rightarrow> nat \<times> service" where
  "restore_revision lower ids now u r st =
     (case restore_route (rq_path r) of
        None \<Rightarrow> (404, st)
      | Some (pid, rid) \<Rightarrow>
          (let product = find (\<lambda>p. sp_id p = pid) (sv_rows st)
           in case require_team_membership lower u product of
                Some status \<Rightarrow> (status, st)
              | None \<Rightarrow>
                  (case (product, find (\<lambda>v. rv_id v = rid) (sv_revs st)) of
                     (Some p, Some v) \<Rightarrow>
                       if rv_product_id v \<noteq> pid then (404, st)
                       else
                         (let f = rv_field_name v;
                              p' = (set_field f (rv_content v) p)
                                \<lparr>sp_last_updated_by := Some (username u), sp_last_updated_at := Some now\<rparr>
                          in (200, st\<lparr>sv_rows := put_row p' (sv_rows st),
                                sv_revs := sv_revs st @ [new_revision (ids (length (sv_revs st))) now u By_restore f p]\<rparr>))
                   | _ \<Rightarrow> (404, st))))"

text \<open>The newest first.\<close>

(* src: backend/app/repositories/revision_repo.py 33-55 list_by_product *)
definition list_by_product :: "jsstr \<Rightarrow> doc_field option \<Rightarrow> nat \<Rightarrow> nat \<Rightarrow> revision list \<Rightarrow> revision list \<times> nat" where
  "list_by_product pid field skip limit revs =
     (let found = filter (\<lambda>v. rv_product_id v = pid \<and> (case field of None \<Rightarrow> True | Some f \<Rightarrow> rv_field_name v = f)) revs
      in (take limit (drop skip (rev found)), length found))"

(* src: backend/app/routers/data_products.py 203-220 list_revisions *)
definition list_revisions :: "request \<Rightarrow> service \<Rightarrow> revision response_page option" where
  "list_revisions r st =
     (case row_at (rq_path r) (js ''/revisions'') (sv_rows st) of
        None \<Rightarrow> None
      | Some p \<Rightarrow>
          (let field = map_option (\<lambda>t. if t = field_str Description then Description else Documentation)
                 (param_str (js ''field'') r)
           in case list_by_product (sp_id p) field (param_num (js ''skip'') 0 r) (param_num (js ''limit'') 50 r) (sv_revs st) of
                (vs, n) \<Rightarrow> Some \<lparr>pg_items = vs, pg_total = n\<rparr>))"

text \<open>
  The service's surroundings: lower-casing, the identifiers of the revisions and of the next product,
  and which rows the database rejects.
\<close>

record surroundings =
  se_lower :: "jsstr \<Rightarrow> jsstr"
  se_ids :: "nat \<Rightarrow> jsstr"
  se_new :: "service \<Rightarrow> jsstr"
  se_error :: "server_product \<Rightarrow> bool"

text \<open>The requests that change something; deleting a product deletes its revisions.\<close>

definition serve :: "surroundings \<Rightarrow> jsstr \<Rightarrow> user_info \<Rightarrow> request \<Rightarrow> service \<Rightarrow> nat \<times> service" where
  "serve env now u r st =
     (case rq_method r of
        PATCH \<Rightarrow> update_with_history (se_lower env) (se_ids env) now u r st
      | POST \<Rightarrow>
          if rq_path r = js ''/data-products''
          then (case create_data_product (se_lower env) (se_error env) (se_new env st) now u r (sv_rows st) of
                  (status, rows) \<Rightarrow> (status, st\<lparr>sv_rows := rows\<rparr>))
          else restore_revision (se_lower env) (se_ids env) now u r st
      | PUT \<Rightarrow>
          (case set_data_product_tables (se_lower env) u r (sv_rows st) of (status, rows) \<Rightarrow> (status, st\<lparr>sv_rows := rows\<rparr>))
      | DELETE \<Rightarrow>
          (case delete_data_product (se_lower env) u r (sv_rows st) of
             (status, rows) \<Rightarrow>
               (status, st\<lparr>sv_rows := rows,
                  sv_revs := filter (\<lambda>v. status = 200 \<longrightarrow> product_path (rv_product_id v) \<noteq> rq_path r) (sv_revs st)\<rparr>))
      | _ \<Rightarrow> (405, st))"

section \<open>No version is lost\<close>

text \<open>The values of a field that can be had: the current one and the recorded ones.\<close>

definition product_at :: "jsstr \<Rightarrow> server_product list \<Rightarrow> server_product option" where
  "product_at pid rows = find (\<lambda>p. sp_id p = pid) rows"

definition versions :: "jsstr \<Rightarrow> doc_field \<Rightarrow> service \<Rightarrow> jsstr option set" where
  "versions pid f st =
     get_field f ` set_option (product_at pid (sv_rows st)) \<union>
     rv_content ` {v \<in> set (sv_revs st). rv_product_id v = pid \<and> rv_field_name v = f}"

lemma get_field_simps [simp]:
  "get_field f (p\<lparr>sp_last_updated_by := a, sp_last_updated_at := b\<rparr>) = get_field f p"
  "get_field f (p\<lparr>sp_tables := ts, sp_last_updated_by := a\<rparr>) = get_field f p"
  by (cases f; simp add: get_field_def)+

lemma get_set_field [simp]: "get_field g (set_field f v p) = (if g = f then v else get_field g p)"
  by (cases f; cases g) (simp_all add: get_field_def set_field_def)

lemma set_field_frame [simp]: "sp_id (set_field f v p) = sp_id p" "sp_team (set_field f v p) = sp_team p"
  "sp_created_by (set_field f v p) = sp_created_by p" "sp_name (set_field f v p) = sp_name p"
  by (cases f; simp add: set_field_def)+

lemma update_metadata_field:
  "get_field f (update_metadata now u j p) =
     (if body_field (field_str f) j \<noteq> None then body_str (field_str f) j else get_field f p)"
  by (cases f) (simp_all add: get_field_def update_metadata_def)

lemma update_metadata_id [simp]: "sp_id (update_metadata now u j p) = sp_id p"
  by (simp add: update_metadata_def)

lemma product_at_id: "product_at pid rows = Some p \<Longrightarrow> sp_id p = pid"
  by (auto simp: product_at_def find_Some_iff)

lemma product_at_put_row:
  "product_at pid (put_row p rows) =
     (if pid = sp_id p then map_option (\<lambda>q. p) (product_at pid rows) else product_at pid rows)"
  by (induction rows) (auto simp: product_at_def put_row_def)

lemma product_at_row: "row_at (product_path pid) [] rows = product_at pid rows"
  by (induction rows) (auto simp: row_at_def product_at_def)

lemma row_at_found: "row_at path rest rows = Some p \<Longrightarrow> path = product_path (sp_id p) @ rest \<and> product_at (sp_id p) rows = Some p"
  by (induction rows) (auto simp: row_at_def product_at_def split: if_splits)

text \<open>Replacing a product's row keeps the versions when the old values of changed fields are recorded.\<close>

lemma versions_put_row:
  assumes "product_at (sp_id p') (sv_rows st) = Some p"
    and "get_field f p = get_field f p' \<or>
      list_ex (\<lambda>v. rv_product_id v = sp_id p' \<and> rv_field_name v = f \<and> rv_content v = get_field f p) vs"
  shows "versions pid f st \<subseteq> versions pid f (st\<lparr>sv_rows := put_row p' (sv_rows st), sv_revs := sv_revs st @ vs\<rparr>)"
proof (cases "pid = sp_id p'")
  case True
  then show ?thesis
    using assms by (force simp: versions_def product_at_put_row list_ex_iff)
qed (auto simp: versions_def product_at_put_row)

lemma snapshot_recorded:
  assumes "changes j p f"
  shows "list_ex (\<lambda>v. rv_product_id v = sp_id p \<and> rv_field_name v = f \<and> rv_content v = get_field f p)
    (snapshots ids now u j p revs)"
proof -
  have "f \<in> set (filter (changes j p) [Description, Documentation])" using assms by (cases f) simp_all
  then obtain k where "(k, f) \<in> set (enumerate (length revs) (filter (changes j p) [Description, Documentation]))"
    by (metis in_set_impl_in_set_zip2 length_upt enumerate_eq_zip diff_add_inverse)
  then have "new_revision (ids k) now u By_user f p \<in> set (snapshots ids now u j p revs)"
    unfolding snapshots_def set_map by (rule image_eqI [rotated]) simp
  then show ?thesis unfolding list_ex_iff by (rule bexI [rotated]) (simp add: new_revision_def)
qed

lemma refusal_status: "require_team_membership lower u q = Some status \<Longrightarrow> status = 403"
  by (auto simp: require_team_membership_def split: if_splits option.splits)

lemma update_data_product_200:
  assumes "update_data_product lower now u r rows = (200, rows')"
  obtains p j where "row_at (rq_path r) [] rows = Some p" "rq_body r = Some j"
    "rows' = put_row (update_metadata now u j p) rows" "can_edit lower u p"
proof (cases "require_team_membership lower u (row_at (rq_path r) [] rows)")
  case (Some status)
  then show ?thesis using assms refusal_status [OF Some] by (simp add: update_data_product_def Let_def)
next
  case None
  with assms that show ?thesis
    by (cases "rq_body r"; cases "row_at (rq_path r) [] rows")
      (simp_all add: update_data_product_def can_edit_passes Let_def split: if_splits)
qed

lemma update_versions: "versions pid f st \<subseteq> versions pid f (snd (update_with_history lower ids now u r st))"
proof -
  obtain status rows where u: "update_data_product lower now u r (sv_rows st) = (status, rows)" by fastforce
  show ?thesis
  proof (cases "status = 200")
    case True
    obtain p j where r: "row_at (rq_path r) [] (sv_rows st) = Some p" "rq_body r = Some j"
      and rows: "rows = put_row (update_metadata now u j p) (sv_rows st)"
      using update_data_product_200 u True by metis
    have "get_field f p = get_field f (update_metadata now u j p) \<or> changes j p f"
      by (auto simp: update_metadata_field changes_def)
    then have "versions pid f st \<subseteq> versions pid f (st\<lparr>sv_rows := rows,
        sv_revs := sv_revs st @ snapshots ids now u j p (sv_revs st)\<rparr>)"
      unfolding rows using row_at_found [OF r(1)] snapshot_recorded [of j p f]
      by (intro versions_put_row [of _ _ p]) auto
    then show ?thesis using u True r by (simp add: update_with_history_def)
  qed (simp add: update_with_history_def u)
qed

lemma restore_versions: "versions pid f st \<subseteq> versions pid f (snd (restore_revision lower ids now u r st))"
proof (cases "restore_route (rq_path r)")
  case None
  then show ?thesis by (simp add: restore_revision_def)
next
  case (Some ids')
  obtain qid rid where q: "ids' = (qid, rid)" by fastforce
  show ?thesis
  proof (cases "require_team_membership lower u (product_at qid (sv_rows st)) = None \<and>
      product_at qid (sv_rows st) \<noteq> None \<and> find (\<lambda>v. rv_id v = rid) (sv_revs st) \<noteq> None")
    case True
    then obtain p v where p: "product_at qid (sv_rows st) = Some p" and v: "find (\<lambda>v. rv_id v = rid) (sv_revs st) = Some v"
      by blast
    have id: "sp_id p = qid" using p by (rule product_at_id)
    let ?p' = "(set_field (rv_field_name v) (rv_content v) p)
      \<lparr>sp_last_updated_by := Some (username u), sp_last_updated_at := Some now\<rparr>"
    let ?n = "new_revision (ids (length (sv_revs st))) now u By_restore (rv_field_name v) p"
    have "versions pid f st \<subseteq> versions pid f (st\<lparr>sv_rows := put_row ?p' (sv_rows st), sv_revs := sv_revs st @ [?n]\<rparr>)"
      by (rule versions_put_row [of _ _ p]) (simp_all add: p id new_revision_def)
    then show ?thesis
      using True p v by (simp add: restore_revision_def Some q product_at_def Let_def)
  next
    case False
    then show ?thesis
      by (auto simp: restore_revision_def Some q product_at_def Let_def split: option.split)
  qed
qed

lemma tables_versions:
  "versions pid f st \<subseteq> versions pid f (st\<lparr>sv_rows := snd (set_data_product_tables lower u r (sv_rows st))\<rparr>)"
proof -
  have same: "versions pid f st \<subseteq> versions pid f
      (st\<lparr>sv_rows := put_row (p\<lparr>sp_tables := ts, sp_last_updated_by := b\<rparr>) (sv_rows st)\<rparr>)"
    if "product_at (sp_id p) (sv_rows st) = Some p" for p ts b
    using versions_put_row [of "p\<lparr>sp_tables := ts, sp_last_updated_by := b\<rparr>" st p f "[]" pid] that by simp
  show ?thesis
    using row_at_found [of "rq_path r" "js ''/tables''" "sv_rows st"]
    by (auto simp: set_data_product_tables_def Let_def intro: same [THEN subsetD] split: option.split)
qed

lemma create_appends:
  "\<exists>ps. snd (create_data_product lower db_error i now u r rows) = rows @ ps"
  by (auto simp: create_data_product_def Let_def split: option.split sum.split)

lemma product_at_append: "product_at pid (rows @ ps) = (case product_at pid rows of None \<Rightarrow> product_at pid ps | Some p \<Rightarrow> Some p)"
  by (induction rows) (auto simp: product_at_def)

lemma create_versions:
  "versions pid f st \<subseteq> versions pid f (st\<lparr>sv_rows := snd (create_data_product lower db_error i now u r (sv_rows st))\<rparr>)"
proof -
  obtain ps where "snd (create_data_product lower db_error i now u r (sv_rows st)) = sv_rows st @ ps"
    using create_appends by blast
  then show ?thesis by (auto simp: versions_def product_at_append split: option.split)
qed

lemma serve_versions:
  assumes "rq_method r \<noteq> DELETE"
  shows "versions pid f st \<subseteq> versions pid f (snd (serve env now u r st))"
  using assms update_versions [of pid f st] restore_versions [of pid f st] tables_versions [of pid f st]
    create_versions [of pid f st]
  by (cases "rq_method r") (simp_all add: serve_def case_prod_beta)

text \<open>Requests of any users at any times, in the order in which they are served.\<close>

definition serve_run :: "surroundings \<Rightarrow> (jsstr \<times> user_info \<times> request) list \<Rightarrow> service \<Rightarrow> service" where
  "serve_run env rs st = fold (\<lambda>(now, u, r) st. snd (serve env now u r st)) rs st"


section \<open>Only editors change a product\<close>

lemma product_at_filter:
  "product_at pid (filter (\<lambda>q. sp_id q \<noteq> k) rows) = (if k = pid then None else product_at pid rows)"
  by (induction rows) (auto simp: product_at_def)

text \<open>A request changes the product of its path only, and that only if it passed the guard.\<close>

lemma update_other:
  assumes "product_at pid (sv_rows st) = Some p" and "\<not> can_edit lower u p"
  shows "product_at pid (sv_rows (snd (update_with_history lower ids now u r st))) = Some p"
proof -
  obtain status rows where u: "update_data_product lower now u r (sv_rows st) = (status, rows)" by fastforce
  show ?thesis
  proof (cases "status = 200")
    case True
    obtain q j where r: "row_at (rq_path r) [] (sv_rows st) = Some q" "rq_body r = Some j"
      and rows: "rows = put_row (update_metadata now u j q) (sv_rows st)" and "can_edit lower u q"
      using update_data_product_200 u True by metis
    then have "sp_id q \<noteq> pid" using assms row_at_found [OF r(1)] by auto
    then show ?thesis using assms(1) u True r by (simp add: update_with_history_def rows product_at_put_row)
  qed (use assms(1) in \<open>simp add: update_with_history_def u\<close>)
qed

lemma restore_other:
  assumes "product_at pid (sv_rows st) = Some p" and "\<not> can_edit lower u p"
  shows "product_at pid (sv_rows (snd (restore_revision lower ids now u r st))) = Some p"
proof (cases "restore_route (rq_path r)")
  case (Some ids')
  obtain qid rid where q: "ids' = (qid, rid)" by fastforce
  have "can_edit lower u q \<and> sp_id q = qid"
    if "require_team_membership lower u (product_at qid (sv_rows st)) = None" "product_at qid (sv_rows st) = Some q" for q
    using that product_at_id by (simp add: can_edit_passes)
  then show ?thesis
    using assms
    by (auto simp: restore_revision_def Some q product_at_def [symmetric] Let_def product_at_put_row split: option.split)
qed (use assms(1) in \<open>simp add: restore_revision_def\<close>)

lemma tables_other:
  assumes "product_at pid rows = Some p" and "\<not> can_edit lower u p"
  shows "product_at pid (snd (set_data_product_tables lower u r rows)) = Some p"
  using assms row_at_found [of "rq_path r" "js ''/tables''" rows]
  by (auto simp: set_data_product_tables_def Let_def product_at_put_row can_edit_passes split: option.split)

lemma delete_other:
  assumes "product_at pid rows = Some p" and "\<not> can_edit lower u p"
  shows "product_at pid (snd (delete_data_product lower u r rows)) = Some p"
  using assms row_at_found [of "rq_path r" "[]" rows]
  by (auto simp: delete_data_product_def Let_def product_at_filter can_edit_passes split: option.split)

lemma create_other:
  "product_at pid rows = Some p \<Longrightarrow> product_at pid (snd (create_data_product lower db_error i now u r rows)) = Some p"
  using create_appends [of lower db_error i now u r rows] by (auto simp: product_at_append)

lemma serve_other:
  assumes "product_at pid (sv_rows st) = Some p" and "\<not> can_edit (se_lower env) u p"
  shows "product_at pid (sv_rows (snd (serve env now u r st))) = Some p"
  using update_other [OF assms] restore_other [OF assms] tables_other [OF assms] delete_other [OF assms]
    create_other [OF assms(1)] assms(1)
  by (cases "rq_method r") (simp_all add: serve_def case_prod_beta)

text \<open>
  C6: a product is changed by its editors only: as long as every request comes from users who may
  not edit it, whatever the requests are, the product stays in the table with every field as it was.
\<close>

theorem only_editors_change:
  assumes "product_at pid (sv_rows st) = Some p"
    and "list_all (\<lambda>(now, u, r). \<not> can_edit (se_lower env) u p) rs"
  shows "product_at pid (sv_rows (serve_run env rs st)) = Some p"
  using assms
proof (induction rs arbitrary: st)
  case (Cons x rs)
  obtain now u r where x: "x = (now, u, r)" by (cases x)
  show ?case using Cons.prems Cons.IH serve_other [of pid st p env u now r] by (simp add: serve_run_def x)
qed (simp add: serve_run_def)

section \<open>Restoring undoes a save\<close>

lemma split_on_append: "d \<notin> set a \<Longrightarrow> split_on d (a @ d # b) = a # split_on d b"
  by (induction a) auto

lemma restore_route_of:
  assumes "47 \<notin> set pid" and "47 \<notin> set rid"
  shows "restore_route (product_path pid @ js ''/revisions/'' @ rid @ js ''/restore'') = Some (pid, rid)"
proof -
  have path: "product_path pid @ js ''/revisions/'' @ rid @ js ''/restore'' =
      [] @ 47 # js ''data-products'' @ 47 # pid @ 47 # js ''revisions'' @ 47 # rid @ 47 # js ''restore''"
    by (simp add: product_path_def js_def)
  have free: "47 \<notin> set (js ''data-products'')" "47 \<notin> set (js ''revisions'')" "47 \<notin> set (js ''restore'')"
    by (simp_all add: js_def)
  show ?thesis
    unfolding restore_route_def path
    by (simp only: split_on_append free assms split_on_free list.set empty_iff not_False_eq_True) simp
qed

text \<open>The service's tables: no product twice, and the identifiers of the revisions in order.\<close>

definition service_ok :: "(nat \<Rightarrow> jsstr) \<Rightarrow> service \<Rightarrow> bool" where
  "service_ok ids st \<longleftrightarrow> distinct (map sp_id (sv_rows st)) \<and> distinct (map sp_name (sv_rows st)) \<and>
     map rv_id (sv_revs st) = map ids [0..<length (sv_revs st)]"

definition doc_update :: "jsstr option \<Rightarrow> pipeline_update" where
  "doc_update d = no_update\<lparr>pu_documentation := Some d\<rparr>"

lemma doc_update_fields:
  "body_field (js ''name'') (update_json (doc_update d)) = None"
  "body_field (js ''description'') (update_json (doc_update d)) = None"
  "body_field (js ''documentation'') (update_json (doc_update d)) = Some (json_opt d)"
  "body_field (js ''schedule_type'') (update_json (doc_update d)) = None"
  "is_object (update_json (doc_update d))"
  by (simp_all add: doc_update_def update_json_def no_update_def body_field_def is_object_def map_filter_simps)

lemma doc_update_stored:
  "update_metadata now u (update_json (doc_update d)) p =
     p\<lparr>sp_documentation := d, sp_last_updated_by := Some (username u), sp_last_updated_at := Some now\<rparr>"
  using body_str_json_opt [OF doc_update_fields(3)]
  by (cases p) (simp add: update_metadata_def doc_update_fields body_str_def truthy_def)

lemma doc_save_served:
  assumes "service_ok (se_ids env) st" and "p \<in> set (sv_rows st)" and "can_edit (se_lower env) u p"
    and "characters (or_empty d) \<le> 100000" and "d \<noteq> sp_documentation p"
  shows "serve env now u (mu_request (useUpdatePipeline (sp_id p) (doc_update d))) st =
    (200, st\<lparr>sv_rows := put_row (p\<lparr>sp_documentation := d, sp_last_updated_by := Some (username u),
        sp_last_updated_at := Some now\<rparr>) (sv_rows st),
      sv_revs := sv_revs st @ [new_revision (se_ids env (length (sv_revs st))) now u By_user Documentation p]\<rparr>)"
proof -
  let ?r = "mu_request (useUpdatePipeline (sp_id p) (doc_update d))"
  let ?p = "p\<lparr>sp_documentation := d, sp_last_updated_by := Some (username u), sp_last_updated_at := Some now\<rparr>"
  have r: "rq_method ?r = PATCH" "rq_path ?r = product_path (sp_id p)" "rq_body ?r = Some (update_json (doc_update d))"
    by (simp_all add: useUpdatePipeline_def updatePipeline_def send_def)
  have row: "row_at (product_path (sp_id p)) [] (sv_rows st) = Some p"
    using assms(1,2) by (simp add: service_ok_def row_at_product_Nil)
  have valid: "update_valid (update_json (doc_update d))"
    using assms(4) by (cases d) (simp_all add: update_valid_def opt_text_def doc_update_fields json_opt_def or_empty_def)
  have names: "\<not> list_ex (\<lambda>q. sp_id q \<noteq> sp_id p \<and> sp_name q = sp_name p) (sv_rows st)"
    using assms(1,2) by (auto simp: service_ok_def list_ex_iff distinct_map dest: inj_onD)
  have "filter (changes (update_json (doc_update d)) p) [Description, Documentation] = [Documentation]"
    using assms(5) body_str_json_opt [OF doc_update_fields(3)]
    by (simp add: changes_def doc_update_fields get_field_def)
  then have snap: "snapshots (se_ids env) now u (update_json (doc_update d)) p (sv_revs st) =
      [new_revision (se_ids env (length (sv_revs st))) now u By_user Documentation p]"
    unfolding snapshots_def by (simp only:) simp
  have "update_data_product (se_lower env) now u ?r (sv_rows st) = (200, put_row ?p (sv_rows st))"
    using assms(3) row valid names by (simp add: update_data_product_def r can_edit_passes doc_update_stored)
  then show ?thesis
    by (simp add: serve_def r update_with_history_def row snap)
qed

lemma newest_listed:
  assumes "product_at (sp_id p) (sv_rows st) = Some q" and "sp_id p \<noteq> []" and "sv_revs st = vs @ [v]"
    and "rv_product_id v = sp_id p" and "rv_field_name v = Documentation"
  shows "hd (pg_items (the (list_revisions (the (qs_request (useRevisions (sp_id p) (Some Documentation) True))) st))) = v"
proof -
  let ?r = "fetchRevisions (sp_id p) (Some Documentation) 0 50"
  have q: "sp_id q = sp_id p" using assms(1) by (auto simp: product_at_def find_Some_iff)
  have "row_at (product_path (sp_id p) @ js ''/revisions'') (js ''/revisions'') (sv_rows st) = Some q"
    using assms(1) product_at_row [of "sp_id p" "sv_rows st"] by (simp add: row_at_def)
  moreover have "param_str (js ''field'') ?r = Some (js ''documentation'')" "param_num (js ''skip'') 0 ?r = 0"
    "param_num (js ''limit'') 50 ?r = 50" "rq_path ?r = product_path (sp_id p) @ js ''/revisions''"
    by (simp_all add: fetchRevisions_def get_def param_str_def param_num_def map_filter_simps)
  ultimately show ?thesis
    using assms(2,4,5) q
    by (simp add: useRevisions_def list_revisions_def list_by_product_def Let_def assms(3))
qed

lemma restore_served:
  assumes "product_at (sp_id p) (sv_rows st) = Some q" and "can_edit (se_lower env) u q" and "sv_revs st = vs @ [v]"
    and "rv_id v \<notin> rv_id ` set vs" and "rv_product_id v = sp_id p" and "rv_field_name v = Documentation"
    and "47 \<notin> set (sp_id p)" and "47 \<notin> set (rv_id v)"
  shows "serve env now u (mu_request (useRestoreRevision (sp_id p) (rv_id v))) st =
    (200, st\<lparr>sv_rows := put_row (q\<lparr>sp_documentation := rv_content v, sp_last_updated_by := Some (username u),
        sp_last_updated_at := Some now\<rparr>) (sv_rows st),
      sv_revs := sv_revs st @ [new_revision (se_ids env (length (sv_revs st))) now u By_restore Documentation q]\<rparr>)"
proof -
  have found: "find (\<lambda>w. rv_id w = rv_id v) (vs @ [v]) = Some v" using assms(4) by (induction vs) auto
  have "restore_route (js ''/data-products'') = None" by (simp add: restore_route_def js_def)
  then have "product_path (sp_id p) @ js ''/revisions/'' @ rv_id v @ js ''/restore'' \<noteq> js ''/data-products''"
    using restore_route_of [OF assms(7,8)] by auto
  then show ?thesis
    using assms(1,2,5,6) found restore_route_of [OF assms(7,8)]
    by (simp add: serve_def useRestoreRevision_def restoreRevision_def send_def restore_revision_def assms(3)
        product_at_def can_edit_passes set_field_def)
qed

text \<open>
  C7: a saved documentation can be taken back: right after the save the newest entry of the history
  shows the text before it, restoring that entry brings the product back to what it was, but for the
  note of who updated it when, and the text that was saved is now the newest entry.
\<close>

theorem restore_undoes_save:
  assumes "service_ok (se_ids env) st" and "p \<in> set (sv_rows st)" and "can_edit (se_lower env) u p"
    and "characters (or_empty d) \<le> 100000" and "d \<noteq> sp_documentation p"
    and "inj (se_ids env)" and "\<And>k. 47 \<notin> set (se_ids env k)" and "47 \<notin> set (sp_id p)" and "sp_id p \<noteq> []"
  shows "let newest = (\<lambda>s. hd (pg_items (the (list_revisions
               (the (qs_request (useRevisions (sp_id p) (Some Documentation) True))) s))));
             saved = snd (serve env now u (mu_request (useUpdatePipeline (sp_id p) (doc_update d))) st);
             restored = snd (serve env now' u (mu_request (useRestoreRevision (sp_id p) (rv_id (newest saved)))) saved)
    in rv_content (newest saved) = sp_documentation p \<and>
       product_at (sp_id p) (sv_rows restored) =
         Some (p\<lparr>sp_last_updated_by := Some (username u), sp_last_updated_at := Some now'\<rparr>) \<and>
       rv_content (newest restored) = d"
proof -
  define v where "v = new_revision (se_ids env (length (sv_revs st))) now u By_user Documentation p"
  define q where "q = p\<lparr>sp_documentation := d, sp_last_updated_by := Some (username u), sp_last_updated_at := Some now\<rparr>"
  define saved where "saved = st\<lparr>sv_rows := put_row q (sv_rows st), sv_revs := sv_revs st @ [v]\<rparr>"
  define w where "w = new_revision (se_ids env (length (sv_revs saved))) now' u By_restore Documentation q"
  define p' where "p' = p\<lparr>sp_last_updated_by := Some (username u), sp_last_updated_at := Some now'\<rparr>"
  define restored where "restored = saved\<lparr>sv_rows := put_row p' (sv_rows saved), sv_revs := sv_revs saved @ [w]\<rparr>"
  have v: "rv_id v = se_ids env (length (sv_revs st))" "rv_product_id v = sp_id p" "rv_field_name v = Documentation"
    "rv_content v = sp_documentation p"
    by (simp_all add: v_def new_revision_def get_field_def)
  have w: "rv_product_id w = sp_id p" "rv_field_name w = Documentation" "rv_content w = d"
    by (simp_all add: w_def q_def new_revision_def get_field_def)
  have id: "sp_id q = sp_id p" "sp_id p' = sp_id p" by (simp_all add: q_def p'_def)
  have "product_at (sp_id p) (sv_rows st) = Some p"
    using assms(1,2) row_at_product_Nil by (metis service_ok_def product_at_row)
  then have at: "product_at (sp_id p) (sv_rows saved) = Some q" "product_at (sp_id p) (sv_rows restored) = Some p'"
    by (simp_all add: saved_def restored_def product_at_put_row id)
  have edit: "can_edit (se_lower env) u q" using assms(3) by (subst can_edit_frame [of _ p]) (simp_all add: q_def)
  have "rv_id ` set (sv_revs st) = se_ids env ` {..<length (sv_revs st)}"
    using assms(1) by (metis service_ok_def list.set_map set_upt atLeast_upt lessThan_atLeast0)
  then have fresh: "rv_id v \<notin> rv_id ` set (sv_revs st)" using assms(6) by (auto simp: v(1) dest: injD)
  have back_row: "q\<lparr>sp_documentation := rv_content v, sp_last_updated_by := Some (username u), sp_last_updated_at := Some now'\<rparr> = p'"
    by (cases p) (simp add: q_def p'_def v(4))
  have s1: "serve env now u (mu_request (useUpdatePipeline (sp_id p) (doc_update d))) st = (200, saved)"
    unfolding saved_def v_def q_def by (rule doc_save_served [OF assms(1-5)])
  have s2: "serve env now' u (mu_request (useRestoreRevision (sp_id p) (rv_id v))) saved = (200, restored)"
    using restore_served [OF at(1) edit _ fresh v(2,3) assms(8), where now = now'] assms(7)
    by (simp add: back_row restored_def w_def v(1)) (simp add: saved_def)
  have "hd (pg_items (the (list_revisions (the (qs_request (useRevisions (sp_id p) (Some Documentation) True))) saved))) = v"
    by (rule newest_listed [OF at(1) assms(9) _ v(2,3)]) (simp add: saved_def)
  moreover have "hd (pg_items (the (list_revisions (the (qs_request (useRevisions (sp_id p) (Some Documentation) True))) restored))) = w"
    by (rule newest_listed [OF at(2) assms(9) _ w(1,2)]) (simp add: restored_def)
  ultimately show ?thesis
    by (simp add: Let_def s1 s2 v(4) w(3) at(2)) (simp add: p'_def)
qed

definition demo_ids :: "nat \<Rightarrow> jsstr" where
  "demo_ids k = replicate k 48"

definition demo_env :: surroundings where
  "demo_env = \<lparr>se_lower = (\<lambda>s. s), se_ids = demo_ids, se_new = (\<lambda>st. []), se_error = (\<lambda>p. False)\<rparr>"

definition demo_service :: service where
  "demo_service = \<lparr>sv_rows = [demo_row], sv_revs = []\<rparr>"

theorem restore_undoes_save_witness:
  "let saved = snd (serve demo_env (js ''t1'') demo_member
         (mu_request (useUpdatePipeline (js ''p1'') (doc_update (Some (js ''new''))))) demo_service);
       top = hd (pg_items (the (list_revisions
         (the (qs_request (useRevisions (js ''p1'') (Some Documentation) True))) saved)));
       restored = snd (serve demo_env (js ''t2'') demo_member
         (mu_request (useRestoreRevision (js ''p1'') (rv_id top))) saved)
   in map_option sp_documentation (product_at (js ''p1'') (sv_rows restored)) = Some None"
proof -
  have id: "sp_id demo_row = js ''p1''" and doc: "sp_documentation demo_row = None" by (simp_all add: demo_row_def)
  have env: "se_lower demo_env = (\<lambda>s. s)" "se_ids demo_env = demo_ids" by (simp_all add: demo_env_def)
  have h: "service_ok (se_ids demo_env) demo_service" "demo_row \<in> set (sv_rows demo_service)"
    by (simp_all add: service_ok_def demo_service_def)
  have "characters (or_empty (Some (js ''new''))) \<le> 100000"
    using characters_le_length [of "js ''new''"] by (simp add: or_empty_def)
  moreover have "Some (js ''new'') \<noteq> sp_documentation demo_row" by (simp add: doc)
  moreover have "inj demo_ids" by (rule injI) (metis demo_ids_def length_replicate)
  moreover have "47 \<notin> set (demo_ids k)" for k by (simp add: demo_ids_def)
  moreover have "47 \<notin> set (sp_id demo_row)" "sp_id demo_row \<noteq> []" by (simp_all add: id js_def)
  ultimately show ?thesis
    using restore_undoes_save [OF h, where u = demo_member and d = "Some (js ''new'')" and now = "js ''t1''"
        and now' = "js ''t2''"] demo_row_ok(2)
    by (simp add: Let_def id doc env)
qed


theorem only_editors_change_witness:
  "product_at (js ''p1'') (sv_rows (serve_run demo_env
     [(js ''t1'', demo_member\<lparr>teams := []\<rparr>, send DELETE (product_path (js ''p1'')) None)] demo_service)) = Some demo_row"
proof -
  have "\<not> can_edit (\<lambda>s. s) (demo_member\<lparr>teams := []\<rparr>) demo_row"
    by (simp add: can_edit_def demo_member_def demo_row_def lower_set_def)
  moreover have "product_at (js ''p1'') (sv_rows demo_service) = Some demo_row"
    by (simp add: demo_service_def product_at_def demo_row_def)
  ultimately show ?thesis
    using only_editors_change [of "js ''p1''" demo_service demo_row demo_env
        "[(js ''t1'', demo_member\<lparr>teams := []\<rparr>, send DELETE (product_path (js ''p1'')) None)]"]
    by (simp add: demo_env_def)
qed

end
