(* ===== verification/Revision_View.thy ===== *)
theory Revision_View
  imports History
begin

text \<open>
  The two histories on screen over the service's table of revisions: the panel of the documentation
  and the list of the description (\<^verbatim>\<open>RevisionHistoryPanel.tsx\<close>), fed by the answer to the query of
  \<^verbatim>\<open>use-revisions.ts\<close>.
\<close>

text \<open>The query with the service's answer, and the revisions of a field, newest first.\<close>

definition answered :: "jsstr \<Rightarrow> doc_field \<Rightarrow> service \<Rightarrow> revision list query" where
  "answered pid f st = \<lparr>q_data = Option.bind (qs_request (useRevisions pid (Some f) True))
     (\<lambda>r. map_option pg_items (list_revisions r st)), q_loading = False, q_error = False\<rparr>"

definition recorded :: "jsstr \<Rightarrow> doc_field \<Rightarrow> service \<Rightarrow> revision list" where
  "recorded pid f st = rev (filter (\<lambda>v. rv_product_id v = pid \<and> rv_field_name v = f) (sv_revs st))"

lemma revisions_answer:
  assumes "product_at pid (sv_rows st) = Some q" and "pid \<noteq> []"
  shows "q_data (answered pid f st) = Some (take 50 (recorded pid f st))"
proof -
  let ?r = "fetchRevisions pid (Some f) 0 50"
  have q: "sp_id q = pid" using assms(1) by (rule product_at_id)
  have "row_at (product_path pid @ js ''/revisions'') (js ''/revisions'') (sv_rows st) = Some q"
    using assms(1) product_at_row [of pid "sv_rows st"] by (simp add: row_at_def)
  moreover have "param_str (js ''field'') ?r = Some (field_str f)" "param_num (js ''skip'') 0 ?r = 0"
    "param_num (js ''limit'') 50 ?r = 50" "rq_path ?r = product_path pid @ js ''/revisions''"
    by (simp_all add: fetchRevisions_def get_def param_str_def param_num_def map_filter_simps)
  moreover have "(if field_str f = field_str Description then Description else Documentation) = f"
    by (cases f) simp_all
  ultimately show ?thesis
    using assms(2) q
    by (simp add: answered_def useRevisions_def list_revisions_def list_by_product_def recorded_def Let_def del: field_str.simps)
qed

lemma panel_asks:
  "q_loading q = False \<Longrightarrow> {i. Ask i \<in> raises (RevisionHistoryPanel env q True busy None)} =
     rv_id ` set (case q_data q of None \<Rightarrow> [] | Some rs \<Rightarrow> rs)"
  by (auto simp: RevisionHistoryPanel_def Let_def SourceBadge_def split: option.splits)

lemma list_restores:
  "q_loading q = False \<Longrightarrow> {i. Restore_now i \<in> raises (CompactRevisionList env q True False)} =
     rv_id ` set (slice 0 10 (case q_data q of None \<Rightarrow> [] | Some rs \<Rightarrow> rs))"
  by (auto simp: CompactRevisionList_def Let_def SourceBadge_def split: option.splits)

text \<open>
  Of the revisions of a product's documentation the panel offers an editor the 50 newest to
  restore, of those of its description the list offers the 10 newest, whatever the service has
  recorded; a reader is offered none.
\<close>

theorem history_offers_newest:
  assumes "product_at pid (sv_rows st) = Some q" and "pid \<noteq> []"
  shows "{i. Ask i \<in> raises (RevisionHistoryPanel env (answered pid Documentation st) True busy None)} =
      rv_id ` set (take 50 (recorded pid Documentation st)) \<and>
    {i. Restore_now i \<in> raises (CompactRevisionList env (answered pid Description st) True False)} =
      rv_id ` set (take 10 (recorded pid Description st)) \<and>
    raises (RevisionHistoryPanel env (answered pid Documentation st) False busy c) = {} \<and>
    raises (CompactRevisionList env (answered pid Description st) False busy) = {}"
proof -
  have loaded: "q_loading (answered pid f st) = False" for f by (simp add: answered_def)
  have readers: "raises (RevisionHistoryPanel env s False busy c) = {}" "raises (CompactRevisionList env s False busy) = {}" for s
    by (auto simp: RevisionHistoryPanel_def CompactRevisionList_def Let_def SourceBadge_def split: option.splits)
  show ?thesis
    using panel_asks [of "answered pid Documentation st" env busy] list_restores [of "answered pid Description st" env]
    by (simp add: loaded readers revisions_answer [OF assms] slice_def)
qed

text \<open>The number over the panel is that of the revisions it has loaded.\<close>

lemma panel_counts_loaded:
  assumes "product_at pid (sv_rows st) = Some q" and "pid \<noteq> []" and "50 \<le> length (recorded pid Documentation st)"
  shows "hd (shown (RevisionHistoryPanel env (answered pid Documentation st) e busy c)) = num_str 50 @ js '' revisions''"
proof -
  have "take 50 (recorded pid Documentation st) \<noteq> []" "length (take 50 (recorded pid Documentation st)) = 50"
    using assms(3) by auto
  then show ?thesis
    using revisions_answer [OF assms(1,2), of Documentation]
    by (simp add: RevisionHistoryPanel_def answered_def Let_def js_def)
qed

definition long_history :: service where
  "long_history = demo_service\<lparr>sv_revs :=
     map (\<lambda>k. new_revision (demo_ids k) (js ''t'') demo_member By_user Documentation demo_row) [0..<51]\<rparr>"

theorem history_offers_newest_witness:
  "{i. Ask i \<in> raises (RevisionHistoryPanel Formatting.demo_env (answered (js ''p1'') Documentation long_history) True False None)} =
     demo_ids ` {1..50}"
proof -
  let ?v = "\<lambda>k. new_revision (demo_ids k) (js ''t'') demo_member By_user Documentation demo_row"
  have "product_at (js ''p1'') (sv_rows long_history) = Some demo_row"
    by (simp add: long_history_def demo_service_def product_at_def demo_row_def)
  moreover have "recorded (js ''p1'') Documentation long_history = rev (map ?v [0..<51])"
    by (simp add: recorded_def long_history_def new_revision_def demo_row_def comp_def del: upt_Suc upt_rec_numeral)
  moreover have "set (take 50 (rev (map ?v [0..<51]))) = ?v ` {1..50}"
    by (simp add: take_rev drop_map del: upt_Suc upt_rec_numeral) auto
  moreover have "rv_id ` ?v ` {1..50} = demo_ids ` {1..50}"
    by (simp add: image_image new_revision_def)
  ultimately show ?thesis
    using history_offers_newest [of "js ''p1''" long_history demo_row Formatting.demo_env False None] by simp
qed

end
