(* ===== verification/Doc_Session.thy ===== *)
theory Doc_Session
  imports History
begin

text \<open>
  Editing the documentation end to end: the card and the modal of the workspace, the update mutation
  with its requests in flight, the service with its history, and the other users of the service, as
  one run.  A request is served at one moment and answered at a later one; a fetch brings the stored
  text to the modal.
\<close>

record doc_world =
  dw_service :: service
  dw_modal :: doc_modal
  dw_inflight :: "jsstr list"
  dw_answers :: "(jsstr \<times> bool) list"
  dw_stored :: "jsstr list"
  dw_toasts :: "effect list"

datatype doc_world_event =
    Open_card
  | Key jsstr bool
  | Click "textarea option" doc_event
  | Saving_flag bool
  | Served nat jsstr
  | Answered nat
  | Fetched
  | Others jsstr user_info request

(* src: frontend/src/components/bento-workspace/DocumentationPreview.tsx 51-57 onClick *)
definition open_card :: "doc_modal \<Rightarrow> doc_modal" where
  "open_card m = doc_new_props ((dm_props m)\<lparr>dp_open := True\<rparr>) m"

(* src: frontend/src/components/data-products/DataProductWorkspace.tsx 87-87 onSave *)
definition save_mutation :: "jsstr \<Rightarrow> jsstr \<Rightarrow> mutation" where
  "save_mutation pid doc = useUpdatePipeline pid (doc_update (Some doc))"

text \<open>The saves of an action of the modal go to the mutation.\<close>

definition acted :: "doc_modal \<Rightarrow> doc_world \<Rightarrow> doc_world" where
  "acted m w = w\<lparr>dw_modal := m, dw_inflight := dw_inflight w @ drop (length (dm_saves (dw_modal w))) (dm_saves m)\<rparr>"

definition remove_at :: "nat \<Rightarrow> 'a list \<Rightarrow> 'a list" where
  "remove_at k xs = take k xs @ drop (Suc k) xs"

primrec doc_world_step ::
  "surroundings \<Rightarrow> user_info \<Rightarrow> jsstr \<Rightarrow> jsstr \<Rightarrow> doc_event ui \<Rightarrow> doc_world_event \<Rightarrow> doc_world \<Rightarrow> doc_world" where
  "doc_world_step env u pid nm hist Open_card w = w\<lparr>dw_modal := open_card (dw_modal w)\<rparr>"
| "doc_world_step env u pid nm hist (Key k c) w = acted (doc_step nm hist (Doc_key k c) (dw_modal w)) w"
| "doc_world_step env u pid nm hist (Click ref e) w = acted (doc_step nm hist (Doc_click ref e) (dw_modal w)) w"
| "doc_world_step env u pid nm hist (Saving_flag b) w =
     w\<lparr>dw_modal := doc_new_props ((dm_props (dw_modal w))\<lparr>dp_isSaving := b\<rparr>) (dw_modal w)\<rparr>"
| "doc_world_step env u pid nm hist (Served k now) w =
     (if k < length (dw_inflight w)
      then (case serve env now u (mu_request (save_mutation pid (dw_inflight w ! k))) (dw_service w) of
              (status, st) \<Rightarrow>
                w\<lparr>dw_service := st, dw_inflight := remove_at k (dw_inflight w),
                  dw_answers := dw_answers w @ [(dw_inflight w ! k, status = 200)]\<rparr>)
      else w)"
| "doc_world_step env u pid nm hist (Answered k) w =
     (if k < length (dw_answers w)
      then (case dw_answers w ! k of
              (d, ok) \<Rightarrow>
                w\<lparr>dw_answers := remove_at k (dw_answers w),
                  dw_stored := (if ok then dw_stored w @ [d] else dw_stored w),
                  dw_toasts := dw_toasts w @ (if ok then mu_success (save_mutation pid d) else mu_error (save_mutation pid d))\<rparr>)
      else w)"
| "doc_world_step env u pid nm hist Fetched w =
     (case product_at pid (sv_rows (dw_service w)) of
        None \<Rightarrow> w
      | Some p \<Rightarrow>
          w\<lparr>dw_modal := doc_new_props ((dm_props (dw_modal w))\<lparr>dp_documentation := sp_documentation p\<rparr>) (dw_modal w)\<rparr>)"
| "doc_world_step env u pid nm hist (Others now v r) w = w\<lparr>dw_service := snd (serve env now v r (dw_service w))\<rparr>"

definition init_doc_world :: "service \<Rightarrow> doc_modal \<Rightarrow> doc_world" where
  "init_doc_world st m = \<lparr>dw_service = st, dw_modal = m, dw_inflight = [], dw_answers = [], dw_stored = [], dw_toasts = []\<rparr>"

section \<open>A stored text is a version\<close>

lemma served_text_is_version:
  assumes "serve env now u (mu_request (save_mutation pid d)) st = (200, st')"
  shows "Some d \<in> versions pid Documentation st'"
proof -
  let ?r = "mu_request (save_mutation pid d)"
  have r: "rq_method ?r = PATCH" "rq_path ?r = product_path pid" "rq_body ?r = Some (update_json (doc_update (Some d)))"
    by (simp_all add: save_mutation_def useUpdatePipeline_def updatePipeline_def send_def)
  obtain status rows where u: "update_data_product (se_lower env) now u ?r (sv_rows st) = (status, rows)"
    by (metis surj_pair)
  have ok: "status = 200" using assms u by (auto simp: serve_def r update_with_history_def split: if_splits)
  obtain p j where p: "product_at pid (sv_rows st) = Some p" and j: "j = update_json (doc_update (Some d))"
    and rows: "rows = put_row (update_metadata now u j p) (sv_rows st)"
    using update_data_product_200 [OF u [unfolded ok]] r by (metis option.inject product_at_row)
  have st': "st' = st\<lparr>sv_rows := rows, sv_revs := sv_revs st @ snapshots (se_ids env) now u j p (sv_revs st)\<rparr>"
    using assms u ok p by (simp add: serve_def r update_with_history_def product_at_row j)
  have id: "sp_id p = pid" using p by (rule product_at_id)
  have "get_field Documentation (update_metadata now u j p) = Some d"
    using body_str_json_opt [OF doc_update_fields(3), of "Some d"]
    by (simp add: update_metadata_field j doc_update_fields)
  then show ?thesis
    using p by (simp add: versions_def st' rows product_at_put_row id)
qed

definition kept :: "jsstr \<Rightarrow> doc_world \<Rightarrow> bool" where
  "kept pid w \<longleftrightarrow> (\<forall>d. d \<in> set (dw_stored w) \<or> (d, True) \<in> set (dw_answers w) \<longrightarrow>
     Some d \<in> versions pid Documentation (dw_service w))"

primrec spares :: "doc_world_event \<Rightarrow> bool" where
  "spares Open_card = True"
| "spares (Key k c) = True"
| "spares (Click ref e) = True"
| "spares (Saving_flag b) = True"
| "spares (Served k now) = True"
| "spares (Answered k) = True"
| "spares Fetched = True"
| "spares (Others now v r) = (rq_method r \<noteq> DELETE)"

lemma set_remove_at: "set (remove_at k xs) \<subseteq> set xs"
  using set_take_subset [of k xs] set_drop_subset [of "Suc k" xs] by (auto simp: remove_at_def)

lemma kept_grows:
  "kept pid w \<Longrightarrow> versions pid Documentation (dw_service w) \<subseteq> versions pid Documentation st \<Longrightarrow>
     kept pid (w\<lparr>dw_service := st\<rparr>)"
  by (auto simp: kept_def)

lemma kept_frame:
  "dw_service w' = dw_service w \<Longrightarrow> dw_stored w' = dw_stored w \<Longrightarrow> dw_answers w' = dw_answers w \<Longrightarrow> kept pid w' = kept pid w"
  by (simp add: kept_def)

lemma kept_served:
  assumes "kept pid w"
  shows "kept pid (doc_world_step env u pid nm hist (Served k now) w)"
proof (cases "k < length (dw_inflight w)")
  case True
  let ?d = "dw_inflight w ! k"
  obtain status st where s: "serve env now u (mu_request (save_mutation pid ?d)) (dw_service w) = (status, st)"
    by (metis surj_pair)
  have "rq_method (mu_request (save_mutation pid ?d)) \<noteq> DELETE"
    by (simp add: save_mutation_def useUpdatePipeline_def updatePipeline_def send_def)
  from serve_versions [OF this, of pid Documentation "dw_service w" env now u]
  have "kept pid (w\<lparr>dw_service := st\<rparr>)" using kept_grows [OF assms] by (simp add: s)
  moreover have "Some ?d \<in> versions pid Documentation st" if "status = 200"
    using served_text_is_version s that by blast
  ultimately show ?thesis using True by (auto simp: s kept_def)
qed (simp add: assms)

lemma kept_answered:
  assumes "kept pid w"
  shows "kept pid (doc_world_step env u pid nm hist (Answered k) w)"
proof (cases "k < length (dw_answers w)")
  case True
  obtain d ok where x: "dw_answers w ! k = (d, ok)" by (cases "dw_answers w ! k")
  have "(d, ok) \<in> set (dw_answers w)" using nth_mem [OF True] by (simp add: x)
  then show ?thesis
    using assms True set_remove_at [of k "dw_answers w"] by (auto simp: x kept_def)
qed (simp add: assms)

interpretation doc_saves: guarded_machine "doc_world_step env u pid nm hist" "init_doc_world st m" "kept pid" spares
  for env u pid nm hist st m
proof unfold_locales
  show "kept pid (doc_world_step env u pid nm hist e w)" if e: "spares e" and w: "kept pid w" for e w
  proof (cases e)
    case (Others now v r)
    then show ?thesis
      using e kept_grows [OF w serve_versions, of r env now v] by simp
  next
    case (Served k now)
    then show ?thesis using kept_served [OF w] by blast
  next
    case (Answered k)
    then show ?thesis using kept_answered [OF w] by blast
  qed (use w in \<open>simp_all add: kept_def acted_def split: option.split\<close>)
qed (simp add: kept_def init_doc_world_def)


text \<open>
  The modal closes when it sends a save and forgets the draft when it is opened again: a save that the
  service refuses loses the text.
\<close>

lemma refused_save_loses_draft:
  "let m' = open_card (doc_clicked ref Save m) in
     dm_editValue m' = or_empty (dp_documentation (dm_props m)) \<and> dm_activeTab m' = Preview"
  by (simp add: open_card_def doc_clicked_def doc_save_def doc_on_save_def doc_close_def doc_new_props_def Let_def)

section \<open>A concrete run\<close>

definition demo_modal :: doc_modal where
  "demo_modal = \<lparr>dm_activeTab = Preview, dm_editValue = [], dm_cheatsheet = False,
     dm_props = \<lparr>dp_open = False, dp_documentation = None, dp_isSaving = False, dp_canEdit = True\<rparr>, dm_saves = []\<rparr>"

definition writing :: "doc_world_event list" where
  "writing = [Open_card, Click None Show_edit, Click None (Editor (editor_event.Edit (js ''new''))), Click None Save]"

definition serving :: "doc_world_event list" where
  "serving = [Served 0 (js ''t1''),
     Others (js ''t2'') demo_member (mu_request (useUpdatePipeline (js ''p1'') (doc_update (Some (js ''other''))))),
     Answered 0, Fetched]"

abbreviation demo_step :: "doc_world_event \<Rightarrow> doc_world \<Rightarrow> doc_world" where
  "demo_step \<equiv> doc_world_step demo_env demo_member (js ''p1'') (js ''P'') (Box [])"

lemma open_modal:
  "DocumentationModal nm hist (m\<lparr>dm_props := p\<rparr>) = None \<longleftrightarrow> \<not> dp_open p"
  by (simp add: DocumentationModal_def Let_def)

lemma written:
  "let w = fold demo_step writing (init_doc_world demo_service demo_modal) in
     dw_inflight w = [js ''new''] \<and> dw_service w = demo_service \<and> dw_answers w = [] \<and> dw_stored w = []"
  by (simp add: writing_def init_doc_world_def demo_modal_def acted_def open_card_def doc_new_props_def
      DocumentationModal_def doc_clicked_def doc_save_def doc_on_save_def doc_close_def or_empty_def
      MarkdownEditor_def Let_def)

lemma demo_save_served:
  "fst (serve demo_env (js ''t1'') demo_member (mu_request (save_mutation (js ''p1'') (js ''new''))) demo_service) = 200"
proof -
  have id: "sp_id demo_row = js ''p1''" by (simp add: demo_row_def)
  have "service_ok (se_ids demo_env) demo_service" "demo_row \<in> set (sv_rows demo_service)"
    by (simp_all add: service_ok_def demo_service_def)
  moreover have "can_edit (se_lower demo_env) demo_member demo_row"
    by (simp add: demo_env_def can_edit_def demo_member_def demo_row_def lower_set_def)
  moreover have "characters (or_empty (Some (js ''new''))) \<le> 100000"
    using characters_le_length [of "js ''new''"] by (simp add: or_empty_def)
  moreover have "Some (js ''new'') \<noteq> sp_documentation demo_row" by (simp add: demo_row_def)
  ultimately show ?thesis
    using doc_save_served [of demo_env demo_service demo_row demo_member "Some (js ''new'')" "js ''t1''"]
    by (simp add: save_mutation_def id)
qed


end
