(* ===== verification/Session_Run.thy ===== *)
theory Session_Run
  imports Sessions Query_Client
begin

text \<open>
  The signed-in application as one run: the guard (\<open>Sessions\<close>) and the queries that the
  components make through the HTTP client (\<open>Query_Client\<close>) share the session store.  The identity
  provider and the service are the environment; every header that is sent is recorded.
\<close>

record app =
  ap_guard :: guard
  ap_sent :: "jsstr option list"

datatype app_event =
    Provider oidc
  | Profile "jsstr \<Rightarrow> user_info query"
  | Render
  | Query "nat \<Rightarrow> http_env" nat "jsstr option"

text \<open>The store after the calls of a query, and the headers of their attempts.\<close>

definition store_after :: "(rat \<times> http_result) list \<Rightarrow> auth_state" where
  "store_after calls = hr_store (snd (last calls))"

definition headers :: "(rat \<times> http_result) list \<Rightarrow> jsstr option list" where
  "headers calls = concat (map (\<lambda>(d, r). map (rc_authorization \<circ> fst) (hr_trace r)) calls)"

primrec app_step :: "app_event \<Rightarrow> app \<Rightarrow> app" where
  "app_step (Provider o') a = a\<lparr>ap_guard := guard_step (Oidc o') (ap_guard a)\<rparr>"
| "app_step (Profile me) a = a\<lparr>ap_guard := guard_step (Me me) (ap_guard a)\<rparr>"
| "app_step Render a = a\<lparr>ap_guard := guard_step Commit (ap_guard a)\<rparr>"
| "app_step (Query env n m) a =
     (let g = ap_guard a; calls = query_calls env n 0 (gd_auth g) (fresh_config m None)
      in a\<lparr>ap_guard := g\<lparr>gd_auth := store_after calls\<rparr>, ap_sent := ap_sent a @ headers calls\<rparr>)"

definition start_app :: "oidc \<Rightarrow> (jsstr \<Rightarrow> user_info query) \<Rightarrow> app" where
  "start_app o' me = \<lparr>ap_guard = mount_guard o' me (setSsoEnabled True init_auth), ap_sent = []\<rparr>"

section \<open>The client is a guard event\<close>

lemma query_calls_nonempty [simp]: "query_calls env n k s cfg \<noteq> []"
  by (subst query_calls.simps) (simp add: Let_def)

lemma store_after_0: "store_after (query_calls env 0 k s cfg) = hr_store (api_call (env k) 0 s cfg)"
  by (simp add: store_after_def query_calls_0)

lemma store_after_Suc: "store_after (query_calls env (Suc n) k s cfg) =
    (let r = api_call (env k) 0 s cfg
     in if hr_delivered r then hr_store r else store_after (query_calls env n (Suc k) (hr_store r) cfg))"
  by (simp add: store_after_def query_calls_Suc Let_def)

text \<open>What one call does to the store is nothing, a refresh or a loss of the session.\<close>

lemma call_as_events:
  "\<exists>es. set es \<subseteq> range Refreshed \<union> {Session_lost} \<and>
     fold guard_step es g = g\<lparr>gd_auth := hr_store (api_call env i (gd_auth g) cfg)\<rparr>"
proof -
  let ?s = "hr_store (api_call env i (gd_auth g) cfg)"
  consider "?s = gd_auth g" | t where "?s = setToken (Some t) (gd_auth g)" | "?s = logout (gd_auth g)"
    using api_call_store [of env i "gd_auth g" cfg] by (auto simp: Let_def)
  then show ?thesis
  proof cases
    case 1
    then show ?thesis by (intro exI [of _ "[]"]) simp
  next
    case (2 t)
    then show ?thesis by (intro exI [of _ "[Refreshed (Some t)]"]) simp
  next
    case 3
    then show ?thesis by (intro exI [of _ "[Session_lost]"]) simp
  qed
qed

lemma query_as_events:
  "\<exists>es. set es \<subseteq> range Refreshed \<union> {Session_lost} \<and>
     fold guard_step es g = g\<lparr>gd_auth := store_after (query_calls env n k (gd_auth g) cfg)\<rparr>"
proof (induction n arbitrary: k g)
  case 0
  show ?case unfolding store_after_0 by (rule call_as_events)
next
  case (Suc n)
  obtain es where es: "set es \<subseteq> range Refreshed \<union> {Session_lost}"
    "fold guard_step es g = g\<lparr>gd_auth := hr_store (api_call (env k) 0 (gd_auth g) cfg)\<rparr>"
    using call_as_events by blast
  show ?case
  proof (cases "hr_delivered (api_call (env k) 0 (gd_auth g) cfg)")
    case True
    then show ?thesis using es by (auto simp: store_after_Suc Let_def)
  next
    case False
    obtain es' where "set es' \<subseteq> range Refreshed \<union> {Session_lost}"
      "fold guard_step es' (fold guard_step es g) = (fold guard_step es g)\<lparr>gd_auth :=
        store_after (query_calls env n (Suc k) (gd_auth (fold guard_step es g)) cfg)\<rparr>"
      using Suc by blast
    with es False show ?thesis
      by (intro exI [of _ "es @ es'"]) (simp add: store_after_Suc Let_def)
  qed
qed

text \<open>The guard events that an event of the application stands for.\<close>

definition client_event :: "guard_event \<Rightarrow> bool" where
  "client_event e = (case e of Refreshed t \<Rightarrow> True | Session_lost \<Rightarrow> True | _ \<Rightarrow> False)"

primrec stands_for :: "app_event \<Rightarrow> guard_event list \<Rightarrow> bool" where
  "stands_for (Provider o') es \<longleftrightarrow> es = [Oidc o']"
| "stands_for (Profile me) es \<longleftrightarrow> es = [Me me]"
| "stands_for Render es \<longleftrightarrow> es = [Commit]"
| "stands_for (Query env n m) es \<longleftrightarrow> list_all client_event es"

lemma app_step_refines: "\<exists>es. stands_for e es \<and> ap_guard (app_step e a) = fold guard_step es (ap_guard a)"
proof (cases e)
  case (Query env n m)
  obtain es where es: "set es \<subseteq> range Refreshed \<union> {Session_lost}" "fold guard_step es (ap_guard a) =
      (ap_guard a)\<lparr>gd_auth := store_after (query_calls env n 0 (gd_auth (ap_guard a)) (fresh_config m None))\<rparr>"
    using query_as_events by blast
  have "list_all client_event es" using es(1) by (auto simp: list_all_iff client_event_def)
  with es(2) show ?thesis by (intro exI [of _ es]) (simp add: Query Let_def)
qed simp_all


section \<open>Where the tokens come from\<close>

primrec issued :: "app_event \<Rightarrow> jsstr set" where
  "issued (Provider o') = set_option (oi_access_token o')"
| "issued (Profile me) = {}"
| "issued Render = {}"
| "issued (Query env n m) = {t. \<exists>k i. he_silent (env k) i = Silent_user (Some t)}"

definition bearer :: "jsstr set \<Rightarrow> jsstr option \<Rightarrow> bool" where
  "bearer T h \<longleftrightarrow> h = None \<or> h \<in> (\<lambda>t. Some (js ''Bearer '' @ t)) ` T"

definition tokens_ok :: "jsstr set \<Rightarrow> app \<Rightarrow> bool" where
  "tokens_ok T a \<longleftrightarrow> set_option (token (gd_auth (ap_guard a))) \<subseteq> T \<and>
     set_option (oi_access_token (gd_oidc (ap_guard a))) \<subseteq> T \<and> list_all (bearer T) (ap_sent a)"

lemma store_after_known: "known_token env (store_after (query_calls env n k s cfg)) t \<Longrightarrow> known_token env s t"
proof (induction n arbitrary: k s)
  case 0
  then show ?case unfolding store_after_0 by (rule call_store_known)
next
  case (Suc n)
  let ?r = "api_call (env k) 0 s cfg"
  have "known_token env (hr_store ?r) t"
    using Suc.prems Suc.IH [of "Suc k" "hr_store ?r"] by (simp add: store_after_Suc Let_def split: if_splits)
  then show ?case by (rule call_store_known)
qed

lemma headers_known:
  "h \<in> set (headers (query_calls env n k s (fresh_config m None))) \<Longrightarrow> h = None \<or> known_header env s h"
  using header_provenance [of env s n k m] by (fastforce simp: headers_def list_all_iff)

lemma bearer_mono: "bearer T h \<Longrightarrow> T \<subseteq> T' \<Longrightarrow> bearer T' h"
  unfolding bearer_def by blast

lemma tokens_ok_mono: "tokens_ok T a \<Longrightarrow> T \<subseteq> T' \<Longrightarrow> tokens_ok T' a"
  unfolding tokens_ok_def using bearer_mono [of T _ T'] by (auto elim!: list.pred_mono_strong)

lemma tokens_ok_step: "tokens_ok T a \<Longrightarrow> tokens_ok (T \<union> issued e) (app_step e a)"
proof (cases e)
  case (Provider o')
  assume "tokens_ok T a"
  then have "tokens_ok (T \<union> issued e) a" by (rule tokens_ok_mono) simp
  then show ?thesis by (simp add: Provider tokens_ok_def)
next
  case (Profile me)
  assume "tokens_ok T a"
  then show ?thesis by (simp add: Profile tokens_ok_def)
next
  case Render
  assume "tokens_ok T a"
  then show ?thesis
    by (auto simp: Render tokens_ok_def user_effect_def token_effect_def callback_effects_def Let_def auth_ops truthy_def
        split: option.splits if_splits)
next
  case (Query env n m)
  assume ok: "tokens_ok T a"
  have known: "known_token env (gd_auth (ap_guard a)) t \<Longrightarrow> t \<in> T \<union> issued e" for t
    using ok by (auto simp: known_token_def tokens_ok_def Query)
  have "token (store_after (query_calls env n 0 (gd_auth (ap_guard a)) (fresh_config m None))) = Some t \<Longrightarrow> t \<in> T \<union> issued e" for t
    using store_after_known [of env n 0 "gd_auth (ap_guard a)"] known by (metis known_token_def)
  moreover have "list_all (bearer (T \<union> issued e)) (headers (query_calls env n 0 (gd_auth (ap_guard a)) (fresh_config m None)))"
    using headers_known known by (force simp: list_all_iff bearer_def known_header_def)
  moreover have "tokens_ok (T \<union> issued e) a" by (rule tokens_ok_mono [OF ok]) simp
  ultimately show ?thesis by (auto simp: Query tokens_ok_def Let_def)
qed

text \<open>
  C13: every token that the application sends was issued by the identity provider: in every run,
  each Authorization header of each attempt is absent or bears an access token that the provider
  has reported, at the start or later, or that a silent sign-in of one of the queries has returned.
\<close>

theorem tokens_traceback:
  "list_all (bearer (set_option (oi_access_token o') \<union> \<Union> (issued ` set es)))
     (ap_sent (fold app_step es (start_app o' me)))"
proof -
  have "tokens_ok (set_option (oi_access_token o') \<union> \<Union> (issued ` set es)) (fold app_step es (start_app o' me))"
  proof (induction es rule: rev_induct)
    case Nil
    show ?case by (simp add: tokens_ok_def start_app_def mount_guard_def auth_ops init_auth_def)
  next
    case (snoc e es)
    then show ?case using tokens_ok_step [OF snoc, of e] by (simp add: ac_simps)
  qed
  then show ?thesis by (simp add: tokens_ok_def)
qed

section \<open>When a session ends\<close>

text \<open>At attempt \<open>j\<close> the service answered 401 and the silent sign-in brought no token.\<close>

definition refused_at :: "http_env \<Rightarrow> nat \<Rightarrow> (req_config \<times> outcome) list \<Rightarrow> nat \<Rightarrow> bool" where
  "refused_at env i trace j \<longleftrightarrow> j < length trace \<and> snd (trace ! j) = Failure True (Some 401) \<and>
     (case he_silent env (i + j) of Silent_user (Some t) \<Rightarrow> t = [] | _ \<Rightarrow> True)"

lemma call_ends_session:
  "isAuthenticated s \<Longrightarrow> \<not> isAuthenticated (hr_store (api_call env i s cfg)) \<Longrightarrow>
     \<exists>j. refused_at env i (hr_trace (api_call env i s cfg)) j"
proof (induction i s cfg rule: api_call_induct [where env = env])
  case (Success i s cfg)
  then show ?case by (simp add: api_call_steps)
next
  case (Reject i s cfg hc st s' so)
  then have "\<not> isAuthenticated s'" by (simp add: api_call_steps)
  then have "refused_at env i (hr_trace (api_call env i s cfg)) 0"
    using on_error_Reject_store [OF Reject(2)] Reject
    by (auto simp: refused_at_def api_call_steps split: silent_signin.split option.split)
  then show ?case ..
next
  case (Resend i s cfg hc st s' so cfg' d)
  have "isAuthenticated s'" using Resend(4) on_error_Resend_cases [OF Resend(2)] by (auto simp: setToken_def)
  moreover have "\<not> isAuthenticated (hr_store (api_call env (Suc i) s' cfg'))"
    using Resend(5) by (simp add: api_call_Resend [OF Resend(1,2)] Let_def)
  ultimately obtain j where "refused_at env (Suc i) (hr_trace (api_call env (Suc i) s' cfg')) j"
    using Resend(3) by blast
  then have "refused_at env i (hr_trace (api_call env i s cfg)) (Suc j)"
    by (simp add: refused_at_def api_call_Resend_trace(1) [OF Resend(1,2)])
  then show ?case ..
qed

lemma query_ends_session:
  "isAuthenticated s \<Longrightarrow> \<not> isAuthenticated (store_after (query_calls env n k s cfg)) \<Longrightarrow>
     \<exists>c j. c < length (query_calls env n k s cfg) \<and>
       refused_at (env (k + c)) 0 (hr_trace (snd (query_calls env n k s cfg ! c))) j"
proof (induction n arbitrary: k s)
  case 0
  then show ?case using call_ends_session unfolding store_after_0 by (fastforce simp: query_calls_0)
next
  case (Suc n)
  let ?r = "api_call (env k) 0 s cfg"
  show ?case
  proof (cases "isAuthenticated (hr_store ?r)")
    case True
    then have more: "\<not> hr_delivered ?r" "\<not> isAuthenticated (store_after (query_calls env n (Suc k) (hr_store ?r) cfg))"
      using Suc.prems(2) by (auto simp: store_after_Suc Let_def split: if_splits)
    obtain c j where "c < length (query_calls env n (Suc k) (hr_store ?r) cfg)"
      "refused_at (env (Suc k + c)) 0 (hr_trace (snd (query_calls env n (Suc k) (hr_store ?r) cfg ! c))) j"
      using Suc.IH [OF True more(2)] by blast
    with more(1) show ?thesis
      by (intro exI [of _ "Suc c"] exI [of _ j]) (simp add: query_calls_Suc Let_def)
  next
    case False
    then obtain j where "refused_at (env k) 0 (hr_trace ?r) j" using call_ends_session [OF Suc.prems(1)] by blast
    then show ?thesis
      by (intro exI [of _ 0] exI [of _ j]) (simp add: query_calls_Suc Let_def)
  qed
qed


definition expired_env :: http_env where
  "expired_env = \<lparr>he_server = (\<lambda>i c. Failure True (Some 401)), he_silent = (\<lambda>i. Silent_throws), he_random = (\<lambda>i. 0)\<rparr>"

definition signed_in_app :: app where
  "signed_in_app = \<lparr>ap_guard = mount_guard \<lparr>oi_loading = False, oi_authenticated = True, oi_access_token = None, oi_error = None\<rparr>
     (\<lambda>t. \<lparr>q_data = None, q_loading = False, q_error = False\<rparr>) (setUser (Some DEFAULT_USER) sample_store), ap_sent = []\<rparr>"

lemma expired_call: "hr_store (api_call expired_env 0 (setUser u sample_store) (fresh_config None None)) =
    logout (setUser u sample_store)"
  by (subst api_call.simps)
    (simp add: expired_env_def sample_store_def on_error_def setUser_def attach_token_def fresh_config_def Let_def)


end
