(* ===== verification/Page_Run.thy ===== *)
theory Page_Run
  imports Palette Products
begin

text \<open>
  The page as one run: the navigation store and the hash, the product registry with its query cache
  and its selection effects, the command palette, and the answers of the mutations of the create and
  edit modals.  The location hash is one: the navigation store, the catalog store and the user write
  it, and the listener of \<^verbatim>\<open>App.tsx\<close> reads it after each of these events.
\<close>

section \<open>The page\<close>

type_synonym products_key = "jsstr \<times> filter_params option"

text \<open>The palette's record holds the two stores; the cache holds the pages of each query key.\<close>

record page =
  pg_ui :: palette
  pg_cache :: "products_key \<Rightarrow> list_item response_page list option"
  pg_favs :: "jsstr list"

abbreviation page_nav :: "page \<Rightarrow> nav_state" where
  "page_nav p \<equiv> pl_nav (pg_ui p)"

abbreviation page_catalog :: "page \<Rightarrow> catalog_state" where
  "page_catalog p \<equiv> pl_catalog (pg_ui p)"

definition init_page :: "jsstr \<Rightarrow> jsstr list \<Rightarrow> page" where
  "init_page h favs = \<lparr>pg_ui = init_palette (init_nav h) (init_catalog h), pg_cache = (\<lambda>k. None), pg_favs = favs\<rparr>"

(* src: frontend/src/hooks/use-data-products.ts 9-9 queryKey *)
definition products_key :: "catalog_state \<Rightarrow> products_key" where
  "products_key s = (searchQuery s, serverFilters s)"

definition page_products :: "page \<Rightarrow> list_item list" where
  "page_products p = loaded_products (pg_cache p (products_key (page_catalog p)))"

definition listed :: "page \<Rightarrow> list_item list" where
  "listed p = filteredProducts (page_catalog p) (page_products p)"

definition registry_mounted :: "page \<Rightarrow> bool" where
  "registry_mounted p \<longleftrightarrow> Registry_and_workspace \<in> set (AppContent (page_nav p))"

text \<open>An operation of the catalog store, on the one hash.\<close>

definition on_catalog :: "(catalog_state \<Rightarrow> catalog_state) \<Rightarrow> page \<Rightarrow> page" where
  "on_catalog f p =
     (let c = f ((page_catalog p)\<lparr>cs_hash := location_hash (page_nav p)\<rparr>)
      in p\<lparr>pg_ui := (pg_ui p)\<lparr>pl_catalog := c, pl_nav := (page_nav p)\<lparr>location_hash := cs_hash c\<rparr>\<rparr>\<rparr>)"

definition on_nav :: "(nav_state \<Rightarrow> nav_state) \<Rightarrow> page \<Rightarrow> page" where
  "on_nav f p = p\<lparr>pg_ui := (pg_ui p)\<lparr>pl_nav := f (page_nav p)\<rparr>\<rparr>"

section \<open>Events\<close>

text \<open>
  A fetched query fills its key, and a key that is no longer used is dropped.  The answers to a
  creation and a deletion run the callbacks of their mutations, mounted or not.
\<close>

datatype page_event =
    In_palette palette_run
  | Tab_click tab
  | Address jsstr
  | Row jsstr
  | Filter dimension jsstr
  | Clear_all
  | Searched jsstr
  | Favourites "jsstr list"
  | Cached products_key "list_item response_page list option"
  | Created jsstr
  | Removed

(* src: frontend/src/components/data-products/DataProductRegistry.tsx 143-146 handleSelectProduct *)
definition handleSelectProduct :: "jsstr \<Rightarrow> page \<Rightarrow> page" where
  "handleSelectProduct i = on_catalog (setSelectedProductId (Some i))"

(* src: frontend/src/components/data-products/DataProductRegistry.tsx 275-278 onCreated *)
definition onCreated :: "jsstr \<Rightarrow> page \<Rightarrow> page" where
  "onCreated i = on_catalog (setSelectedProductId (Some i))"

(* src: frontend/src/components/data-products/DataProductWorkspace.tsx 225-230 onSuccess *)
definition onRemoved :: "page \<Rightarrow> page" where
  "onRemoved = on_catalog (setSelectedProductId None)"

primrec page_react :: "page_event \<Rightarrow> page \<Rightarrow> page" where
  "page_react (In_palette e) p = p\<lparr>pg_ui := palette_step e (pg_ui p)\<rparr>"
| "page_react (Tab_click t) p = on_nav (setActiveTab t) p"
| "page_react (Address h) p = on_nav (location_hash_update (\<lambda>_. h)) p"
| "page_react (Row i) p = (if registry_mounted p \<and> i \<in> li_id ` set (listed p) then handleSelectProduct i p else p)"
| "page_react (Filter d v) p = (if registry_mounted p then on_catalog (toggleFilter d v) p else p)"
| "page_react Clear_all p = (if registry_mounted p then on_catalog clearAllFilters p else p)"
| "page_react (Searched q) p = (if registry_mounted p then on_catalog (setSearchQuery q) p else p)"
| "page_react (Favourites fs) p = p\<lparr>pg_favs := fs\<rparr>"
| "page_react (Cached k pages) p = p\<lparr>pg_cache := (pg_cache p)(k := pages)\<rparr>"
| "page_react (Created i) p = onCreated i p"
| "page_react Removed p = onRemoved p"

text \<open>A render with the registry on the page runs its two effects; then the listener, and the render it causes.\<close>

definition render_registry :: "(jsstr \<Rightarrow> jsstr \<Rightarrow> int) \<Rightarrow> page \<Rightarrow> page" where
  "render_registry lc p =
     (if registry_mounted p then on_catalog (registry_effects lc (pg_favs p) (page_products p)) p else p)"

definition settle :: "(jsstr \<Rightarrow> jsstr \<Rightarrow> int) \<Rightarrow> page \<Rightarrow> page" where
  "settle lc p = render_registry lc (on_nav onHashChange (render_registry lc p))"

definition page_step :: "(jsstr \<Rightarrow> jsstr \<Rightarrow> int) \<Rightarrow> page_event \<Rightarrow> page \<Rightarrow> page" where
  "page_step lc e p = settle lc (page_react e p)"

text \<open>A choice in the palette writes the hash through both stores, the same one.\<close>

lemma palette_writes_agree:
  "location_hash (pl_nav (selectResult i s)) = cs_hash (pl_catalog (selectResult i s))"
  by (simp add: selectResult_def close_palette_def setActiveTab_def setSelectedProductId_def set_hash_def js_def)

section \<open>What a render leaves\<close>

lemma registry_mounted_iff: "registry_mounted p \<longleftrightarrow> activeTab (page_nav p) = Data_products"
  by (cases "activeTab (page_nav p)") (simp_all add: registry_mounted_def AppContent_def)

text \<open>The product that is opened when \<open>i\<close> is asked for, in a registry that lists \<open>fs\<close>.\<close>

definition opened :: "jsstr \<Rightarrow> list_item list \<Rightarrow> jsstr" where
  "opened i fs = (if fs = [] \<or> i \<in> li_id ` set fs then i else li_id (hd fs))"

lemma opened_twice: "opened (opened i fs) fs = opened i fs"
  by (auto simp: opened_def)

lemma registry_effects_opened:
  assumes "selectedProductId s = Some i" and "i \<noteq> []"
  shows "selectedProductId (registry_effects lc favs ps s) = Some (opened i (filteredProducts s ps))"
  using assms
  by (auto simp: registry_effects_def select_first_effect_def keep_visible_effect_def setSelectedProductId_def
      opened_def list_ex_iff Let_def)

lemma registry_effects_frame:
  "teamFilters (registry_effects lc favs ps s) = teamFilters s"
  "scheduleFilters (registry_effects lc favs ps s) = scheduleFilters s"
  "searchQuery (registry_effects lc favs ps s) = searchQuery s"
  "cs_hash (registry_effects lc favs ps s) \<in> {cs_hash s, js ''#data-products''}"
  by (simp_all add: registry_effects_def select_first_effect_def keep_visible_effect_def setSelectedProductId_def Let_def)

lemma home_hash: "parseHash (js ''#data-products'') = Data_products"
  using parse_built [of Data_products] by (simp add: set_hash_def js_def)

lemma serverFilters_frame:
  "teamFilters s' = teamFilters s \<Longrightarrow> scheduleFilters s' = scheduleFilters s \<Longrightarrow> serverFilters s' = serverFilters s"
  by (simp add: serverFilters_def Let_def)

text \<open>Only the filters, the search and the cache decide what is listed.\<close>

lemma listed_frame:
  assumes "teamFilters (page_catalog q) = teamFilters (page_catalog p)"
    and "scheduleFilters (page_catalog q) = scheduleFilters (page_catalog p)"
    and "searchQuery (page_catalog q) = searchQuery (page_catalog p)" and "pg_cache q = pg_cache p"
  shows "listed q = listed p" and "page_products q = page_products p"
proof -
  show products: "page_products q = page_products p"
    using assms serverFilters_frame [of "page_catalog q" "page_catalog p"]
    by (simp add: page_products_def products_key_def)
  show "listed q = listed p"
    unfolding listed_def products by (rule filteredProducts_frame) (simp_all add: assms)
qed

lemma on_nav_frame [simp]:
  "page_nav (on_nav f p) = f (page_nav p)" "page_catalog (on_nav f p) = page_catalog p"
  "pg_cache (on_nav f p) = pg_cache p" "pg_favs (on_nav f p) = pg_favs p" "pl_open (pg_ui (on_nav f p)) = pl_open (pg_ui p)"
  by (simp_all add: on_nav_def)

lemma on_nav_listed [simp]: "listed (on_nav f p) = listed p" "page_products (on_nav f p) = page_products p"
  by (rule listed_frame; simp)+

lemma render_registry_frame:
  "activeTab (page_nav (render_registry lc p)) = activeTab (page_nav p)"
  "pg_cache (render_registry lc p) = pg_cache p"
  "pl_open (pg_ui (render_registry lc p)) = pl_open (pg_ui p)"
  "listed (render_registry lc p) = listed p"
proof -
  show cache: "pg_cache (render_registry lc p) = pg_cache p"
    by (simp add: render_registry_def on_catalog_def Let_def)
  have "teamFilters (page_catalog (render_registry lc p)) = teamFilters (page_catalog p)"
    "scheduleFilters (page_catalog (render_registry lc p)) = scheduleFilters (page_catalog p)"
    "searchQuery (page_catalog (render_registry lc p)) = searchQuery (page_catalog p)"
    by (simp_all add: render_registry_def on_catalog_def Let_def registry_effects_frame)
  then show "listed (render_registry lc p) = listed p" by (rule listed_frame) (rule cache)
qed (simp_all add: render_registry_def on_catalog_def Let_def)

lemma render_registry_nav_ok: "nav_ok (page_nav p) \<Longrightarrow> nav_ok (page_nav (render_registry lc p))"
  using registry_effects_frame(4) [of lc "pg_favs p" "page_products p"
      "(page_catalog p)\<lparr>cs_hash := location_hash (page_nav p)\<rparr>"]
  by (auto simp: render_registry_def on_catalog_def Let_def nav_ok_def registry_mounted_iff home_hash)

lemma filteredProducts_hash [simp]: "filteredProducts (s\<lparr>cs_hash := h\<rparr>) ps = filteredProducts s ps"
  by (rule filteredProducts_frame) simp_all

lemma render_registry_opened:
  assumes "registry_mounted p" and "selectedProductId (page_catalog p) = Some i" and "i \<noteq> []"
  shows "selectedProductId (page_catalog (render_registry lc p)) = Some (opened i (listed p))"
  using assms by (simp add: render_registry_def on_catalog_def Let_def registry_effects_opened listed_def)

definition ids_ok :: "page \<Rightarrow> bool" where
  "ids_ok p \<longleftrightarrow> (\<forall>k. list_all (\<lambda>x. li_id x \<noteq> []) (loaded_products (pg_cache p k)))"

lemma ids_ok_listed: "ids_ok p \<Longrightarrow> x \<in> set (listed p) \<Longrightarrow> li_id x \<noteq> []"
  by (auto simp: ids_ok_def listed_def filteredProducts_eq page_products_def list_all_iff simp del: split_paired_All)

definition selection_listed :: "page \<Rightarrow> bool" where
  "selection_listed p \<longleftrightarrow> listed p = [] \<or> selectedProductId (page_catalog p) \<in> Some ` li_id ` set (listed p)"

lemma render_registry_listed:
  assumes "ids_ok p" and "registry_mounted p"
  shows "selection_listed (render_registry lc p)"
proof (cases "listed p = []")
  case False
  let ?s = "(page_catalog p)\<lparr>cs_hash := location_hash (page_nav p)\<rparr>"
  have f: "filteredProducts ?s (page_products p) = listed p" by (simp add: listed_def)
  have "selectedProductId (registry_effects lc (pg_favs p) (page_products p) ?s) \<in> Some ` li_id ` set (listed p)"
    using groupedProducts_first [OF False, of lc "pg_favs p"] False hd_in_set [OF False]
    unfolding registry_effects_def Let_def f
    by (auto simp: keep_visible_effect_def select_first_effect_def setSelectedProductId_def list_ex_iff truthy_eq_Some)
  with assms(2) show ?thesis
    unfolding selection_listed_def render_registry_frame
    by (simp add: render_registry_def on_catalog_def Let_def)
qed (simp add: selection_listed_def render_registry_frame)

section \<open>The invariant of the page\<close>

definition page_ok :: "page \<Rightarrow> bool" where
  "page_ok p \<longleftrightarrow> ids_ok p \<and> nav_ok (page_nav p) \<and> (if registry_mounted p then selection_listed p else True)"

lemma settle_frame: "pg_cache (settle lc p) = pg_cache p" "listed (settle lc p) = listed p"
    "pl_open (pg_ui (settle lc p)) = pl_open (pg_ui p)"
  by (simp_all add: settle_def render_registry_frame)

lemma settle_ok:
  assumes "ids_ok p"
  shows "page_ok (settle lc p)"
proof -
  let ?q = "on_nav onHashChange (render_registry lc p)"
  have ids: "ids_ok ?q" using assms by (simp add: ids_ok_def render_registry_frame)
  have "nav_ok (page_nav (settle lc p))"
    unfolding settle_def by (rule render_registry_nav_ok) (simp add: nav_ok_onHashChange)
  moreover have "registry_mounted (settle lc p) \<Longrightarrow> registry_mounted ?q"
    by (simp add: settle_def registry_mounted_iff render_registry_frame)
  ultimately show ?thesis
    using ids render_registry_listed [OF ids] assms
    by (auto simp: page_ok_def settle_def ids_ok_def render_registry_frame)
qed

lemma settle_tab: "nav_ok (page_nav p) \<Longrightarrow> activeTab (page_nav (settle lc p)) = activeTab (page_nav p)"
  by (simp add: settle_def render_registry_frame render_registry_nav_ok onHashChange_quiet)

primrec event_ok :: "page_event \<Rightarrow> bool" where
  "event_ok (In_palette e) = True"
| "event_ok (Tab_click t) = True"
| "event_ok (Address h) = True"
| "event_ok (Row i) = True"
| "event_ok (Filter d v) = True"
| "event_ok Clear_all = True"
| "event_ok (Searched q) = True"
| "event_ok (Favourites fs) = True"
| "event_ok (Cached k pages) = list_all (\<lambda>x. li_id x \<noteq> []) (loaded_products pages)"
| "event_ok (Created i) = (i \<noteq> [])"
| "event_ok Removed = True"

lemma react_ids_ok: "event_ok e \<Longrightarrow> ids_ok p \<Longrightarrow> ids_ok (page_react e p)"
  by (cases e) (auto simp: ids_ok_def on_catalog_def handleSelectProduct_def onCreated_def onRemoved_def Let_def)

interpretation page_machine: guarded_machine "page_step lc" "init_page h favs" page_ok event_ok for lc h favs
proof unfold_locales
  show "page_ok (init_page h favs)"
    by (simp add: page_ok_def init_page_def ids_ok_def init_palette_def nav_ok_init selection_listed_def listed_def
        page_products_def loaded_products_def filteredProducts_eq)
  show "event_ok e \<Longrightarrow> page_ok p \<Longrightarrow> page_ok (page_step lc e p)" for e p
    unfolding page_step_def by (rule settle_ok, rule react_ids_ok) (simp_all add: page_ok_def)
qed

text \<open>
  C16: in every run of the page the tab on show is the one the hash names, and while the registry is
  on show and lists products, the selected product is one of them; the user, the palette, the address
  bar, the fetches and the late answers of mutations may come in any order, as long as every product
  of an answer has an identifier.
\<close>

theorem page_selection_listed:
  assumes "list_all event_ok es"
  shows "let p = fold (page_step lc) es (init_page h favs) in
    parseHash (location_hash (page_nav p)) = activeTab (page_nav p) \<and>
    AppContent (page_nav p) = [case activeTab (page_nav p) of
      Data_products \<Rightarrow> Registry_and_workspace | Tables \<Rightarrow> Tables_view | Ai \<Rightarrow> Ai_view] \<and>
    (if activeTab (page_nav p) = Data_products \<and> listed p \<noteq> []
     then \<exists>x \<in> set (listed p). selectedProductId (page_catalog p) = Some (li_id x) else True)"
  using page_machine.guarded_run [OF assms, of lc h favs]
  by (auto simp: Let_def page_ok_def nav_ok_def AppContent_tab registry_mounted_iff selection_listed_def)

section \<open>Opening a product\<close>

lemma opened_nonempty: "ids_ok p \<Longrightarrow> i \<noteq> [] \<Longrightarrow> opened i (listed p) \<noteq> []"
  using ids_ok_listed [of p "hd (listed p)"] by (auto simp: opened_def)

lemma settle_opens:
  assumes ids: "ids_ok p" and sel: "selectedProductId (page_catalog p) = Some i" and i: "i \<noteq> []"
    and home: "parseHash (location_hash (page_nav p)) = Data_products"
  shows "activeTab (page_nav (settle lc p)) = Data_products \<and>
    selectedProductId (page_catalog (settle lc p)) = Some (opened i (listed p))"
proof (cases "registry_mounted p")
  case True
  let ?r = "render_registry lc p"
  have "nav_ok (page_nav p)" using True home by (simp add: nav_ok_def registry_mounted_iff)
  then have "on_nav onHashChange ?r = ?r"
    using render_registry_nav_ok [of p lc] by (simp add: on_nav_def onHashChange_quiet)
  then have "settle lc p = render_registry lc ?r" by (simp add: settle_def)
  moreover have "registry_mounted ?r" using True by (simp add: registry_mounted_iff render_registry_frame)
  ultimately show ?thesis
    using render_registry_opened [OF True sel i, of lc] opened_nonempty [OF ids i] True
      render_registry_opened [of ?r "opened i (listed p)" lc]
    by (simp add: render_registry_frame registry_mounted_iff opened_twice)
next
  case False
  let ?q = "on_nav onHashChange p"
  have q: "activeTab (page_nav ?q) = Data_products"
    using False home by (simp add: registry_mounted_iff onHashChange_def setActiveTab_def)
  have "settle lc p = render_registry lc ?q" using False by (simp add: settle_def render_registry_def)
  moreover have "registry_mounted ?q" using q by (simp add: registry_mounted_iff)
  ultimately show ?thesis
    using render_registry_opened [of ?q i lc] sel i q by (simp add: render_registry_frame)
qed

lemma reachable_ids: "list_all event_ok es \<Longrightarrow> ids_ok (fold (page_step lc) es (init_page h favs))"
  using page_machine.guarded_run by (simp add: page_ok_def)

lemma palette_select_step:
  assumes "CommandPalette s = Some v" and "P_select i \<in> raises v"
  shows "palette_step (Palette_click (P_select i)) s = rerender s (selectResult i s)"
  using assms by (simp add: palette_step_def)

lemma on_catalog_select:
  "page_catalog (on_catalog (setSelectedProductId j) p) =
     (page_catalog p)\<lparr>selectedProductId := j, cs_hash := js ''#data-products''\<rparr>"
  "page_nav (on_catalog (setSelectedProductId j) p) = (page_nav p)\<lparr>location_hash := js ''#data-products''\<rparr>"
  "pg_cache (on_catalog (setSelectedProductId j) p) = pg_cache p"
  "listed (on_catalog (setSelectedProductId j) p) = listed p"
  by (simp_all add: on_catalog_def setSelectedProductId_def Let_def, intro listed_frame(1)) simp_all

text \<open>
  C17: choosing a result of the palette, from any tab and in any run, closes the palette and brings up
  the data products tab, but opens the chosen product only if the registry lists it or lists nothing:
  when the registry's filters or its first pages leave the product out, the registry's own effect
  replaces the choice by the first product of its list.
\<close>

theorem palette_choice_opens:
  assumes "list_all event_ok es" and "i \<noteq> []"
    and "CommandPalette (pg_ui (fold (page_step lc) es (init_page h favs))) = Some v" and "P_select i \<in> raises v"
  shows "let p = fold (page_step lc) es (init_page h favs);
      p' = page_step lc (In_palette (Palette_click (P_select i))) p in
    \<not> pl_open (pg_ui p') \<and> activeTab (page_nav p') = Data_products \<and>
    selectedProductId (page_catalog p') =
      Some (if listed p = [] \<or> i \<in> li_id ` set (listed p) then i else li_id (hd (listed p)))"
proof -
  define p where "p = fold (page_step lc) es (init_page h favs)"
  let ?q = "p\<lparr>pg_ui := rerender (pg_ui p) (selectResult i (pg_ui p))\<rparr>"
  have step: "page_step lc (In_palette (Palette_click (P_select i))) p = settle lc ?q"
    using palette_select_step assms(3,4) unfolding p_def [symmetric] by (simp add: page_step_def)
  have "ids_ok ?q" using reachable_ids [OF assms(1)] by (simp add: ids_ok_def p_def)
  moreover have "selectedProductId (page_catalog ?q) = Some i"
    "parseHash (location_hash (page_nav ?q)) = Data_products"
    using parse_built [of Data_products]
    by (simp_all add: selectResult_def close_palette_def setSelectedProductId_def setActiveTab_def)
  moreover have "listed ?q = listed p"
    by (rule listed_frame) (simp_all add: selectResult_def close_palette_def setSelectedProductId_def)
  moreover have "\<not> pl_open (pg_ui (settle lc ?q))"
    by (simp add: settle_frame selectResult_def close_palette_def)
  ultimately show ?thesis
    using settle_opens [of ?q i lc] assms(2) unfolding p_def [symmetric] Let_def step by (simp add: opened_def)
qed

text \<open>
  C18: the answer to a creation brings up the data products tab from wherever the user has gone, and
  opens the new product only if the list already holds it or is empty: the list on show is still the
  one from before the creation, so in general the first product of that list is opened instead; the
  answer to a deletion brings up the tab likewise.
\<close>

theorem created_product_opens:
  assumes "list_all event_ok es" and "i \<noteq> []"
  shows "let p = fold (page_step lc) es (init_page h favs); p' = page_step lc (Created i) p in
    activeTab (page_nav p') = Data_products \<and>
    selectedProductId (page_catalog p') =
      Some (if listed p = [] \<or> i \<in> li_id ` set (listed p) then i else li_id (hd (listed p))) \<and>
    activeTab (page_nav (page_step lc Removed p)) = Data_products"
proof -
  define p where "p = fold (page_step lc) es (init_page h favs)"
  let ?q = "on_catalog (setSelectedProductId (Some i)) p" and ?r = "on_catalog (setSelectedProductId None) p"
  have ids: "ids_ok p" using reachable_ids [OF assms(1)] by (simp add: p_def)
  have home: "parseHash (location_hash (page_nav (on_catalog (setSelectedProductId j) p))) = Data_products" for j
    by (simp add: on_catalog_select home_hash)
  have "ids_ok ?q" using ids by (simp add: ids_ok_def on_catalog_select)
  then have "activeTab (page_nav (settle lc ?q)) = Data_products \<and>
      selectedProductId (page_catalog (settle lc ?q)) = Some (opened i (listed ?q))"
    by (rule settle_opens) (simp_all add: on_catalog_select assms(2) home_hash)
  moreover have "activeTab (page_nav (settle lc ?r)) = Data_products"
    using home [of None] render_registry_nav_ok [of ?r lc]
    by (cases "registry_mounted ?r")
      (auto simp: settle_def render_registry_frame registry_mounted_iff onHashChange_quiet nav_ok_def,
       simp add: render_registry_def registry_mounted_iff onHashChange_def setActiveTab_def)
  ultimately show ?thesis
    unfolding p_def [symmetric] Let_def page_step_def page_react.simps onCreated_def onRemoved_def
    by (simp add: on_catalog_select opened_def)
qed

section \<open>Concrete runs\<close>

lemma settle_palette:
  "pl_query (pg_ui (settle lc p)) = pl_query (pg_ui p)" "pl_results (pg_ui (settle lc p)) = pl_results (pg_ui p)"
  "pl_loading (pg_ui (settle lc p)) = pl_loading (pg_ui p)" "pl_timer (pg_ui (settle lc p)) = pl_timer (pg_ui p)"
  "pl_inflight (pg_ui (settle lc p)) = pl_inflight (pg_ui p)"
  by (simp_all add: settle_def render_registry_def on_catalog_def on_nav_def Let_def)

definition demo_pages :: "list_item response_page list option" where
  "demo_pages = Some [\<lparr>pg_items = [demo_product ''1'' ''a'' ''ops''], pg_total = 1\<rparr>]"

definition first_page :: page_event where
  "first_page = Cached ([], None) demo_pages"

lemma first_page_ok: "event_ok first_page"
  by (simp add: first_page_def demo_pages_def loaded_products_def demo_product_def)

lemma first_page_listed: "listed (page_step lc first_page (init_page h favs)) = [demo_product ''1'' ''a'' ''ops'']"
  unfolding page_step_def settle_frame first_page_def page_react.simps
  by (simp add: listed_def page_products_def products_key_def init_page_def init_palette_def init_catalog_def
      serverFilters_def demo_pages_def loaded_products_def filteredProducts_eq passes_iff)

theorem page_selection_listed_witness:
  "selectedProductId (page_catalog (fold (page_step unit_cmp) [first_page] (init_page [] []))) = Some (js ''1'')"
proof -
  have "activeTab (page_nav (fold (page_step unit_cmp) [first_page] (init_page [] []))) = Data_products"
    using nav_ok_init [of "[]"]
    by (simp add: page_step_def first_page_def settle_tab init_page_def init_palette_def)
      (simp add: init_nav_def parse_hash_cases)
  then show ?thesis
    using page_selection_listed [of "[first_page]" unit_cmp "[]" "[]"] first_page_ok
      first_page_listed [of unit_cmp "[]" "[]"]
    by (simp add: Let_def demo_product_def)
qed

theorem created_product_opens_witness:
  "selectedProductId (page_catalog (fold (page_step unit_cmp)
     [first_page, Tab_click Tables, Created (js ''9'')] (init_page [] []))) = Some (js ''1'')"
proof -
  have "listed (fold (page_step unit_cmp) [first_page, Tab_click Tables] (init_page [] [])) =
      [demo_product ''1'' ''a'' ''ops'']"
    using first_page_listed [of unit_cmp "[]" "[]"]
    by (simp add: page_step_def [of _ "Tab_click Tables"] settle_frame)
  then show ?thesis
    using created_product_opens [of "[first_page, Tab_click Tables]" "js ''9''" unit_cmp "[]" "[]"] first_page_ok
    by (simp add: Let_def demo_product_def)
qed

definition searching :: "page_event list" where
  "searching = map In_palette [Window_key (js ''k'') True, Palette_click (P_type (js ''a'')), Wait 200,
     Answer 0 (Some [demo_product ''9'' ''a'' ''ops''])]"

lemma searching_ok: "list_all event_ok (first_page # searching)"
  by (simp add: first_page_ok searching_def)

lemma palette_step_filters:
  "teamFilters (pl_catalog (palette_step e s)) = teamFilters (pl_catalog s)"
  "scheduleFilters (pl_catalog (palette_step e s)) = scheduleFilters (pl_catalog s)"
  "searchQuery (pl_catalog (palette_step e s)) = searchQuery (pl_catalog s)"
proof -
  have select: "teamFilters (pl_catalog (palette_clicked c s)) = teamFilters (pl_catalog s) \<and>
      scheduleFilters (pl_catalog (palette_clicked c s)) = scheduleFilters (pl_catalog s) \<and>
      searchQuery (pl_catalog (palette_clicked c s)) = searchQuery (pl_catalog s)" for c
    by (cases c) (simp_all add: close_palette_def selectResult_def setSelectedProductId_def)
  have "teamFilters (pl_catalog (palette_react e s)) = teamFilters (pl_catalog s) \<and>
      scheduleFilters (pl_catalog (palette_react e s)) = scheduleFilters (pl_catalog s) \<and>
      searchQuery (pl_catalog (palette_react e s)) = searchQuery (pl_catalog s)"
    using select
    by (cases e)
      (simp_all add: window_key_def input_key_def selectResult_def close_palette_def setSelectedProductId_def
        timer_fires_def response_def Let_def split: option.split prod.split)
  then show "teamFilters (pl_catalog (palette_step e s)) = teamFilters (pl_catalog s)"
    "scheduleFilters (pl_catalog (palette_step e s)) = scheduleFilters (pl_catalog s)"
    "searchQuery (pl_catalog (palette_step e s)) = searchQuery (pl_catalog s)"
    by (simp_all add: palette_step_def)
qed

lemma palette_listed: "listed (page_step lc (In_palette e) p) = listed p"
proof -
  have "listed (p\<lparr>pg_ui := palette_step e (pg_ui p)\<rparr>) = listed p"
    by (rule listed_frame) (simp_all add: palette_step_filters)
  then show ?thesis by (simp add: page_step_def settle_frame)
qed

lemma found_in_palette:
  fixes lc :: "jsstr \<Rightarrow> jsstr \<Rightarrow> int" and h :: jsstr and favs :: "jsstr list"
  defines "s \<equiv> pg_ui (fold (page_step lc) (first_page # searching) (init_page h favs))"
  shows "pl_open s" and "\<not> pl_loading s" and "pl_results s = [result_of (demo_product ''9'' ''a'' ''ops'')]"
proof -
  have a: "trim (js ''a'') \<noteq> []" by (simp add: trim_def is_ws_def js_def)
  have "pl_open s \<and> \<not> pl_loading s \<and> pl_results s = [result_of (demo_product ''9'' ''a'' ''ops'')]"
    by (simp add: s_def searching_def first_page_def page_step_def settle_palette settle_frame init_page_def
        init_palette_def step_opens step_types step_waits step_answers response_def a)
  then show "pl_open s" "\<not> pl_loading s" "pl_results s = [result_of (demo_product ''9'' ''a'' ''ops'')]" by simp_all
qed

theorem palette_choice_opens_witness:
  "selectedProductId (page_catalog (page_step unit_cmp (In_palette (Palette_click (P_select (js ''9''))))
     (fold (page_step unit_cmp) (first_page # searching) (init_page [] [])))) = Some (js ''1'')"
proof -
  let ?p = "fold (page_step unit_cmp) (first_page # searching) (init_page [] [])"
  obtain v where "CommandPalette (pg_ui ?p) = Some v" "P_select (js ''9'') \<in> raises v"
    using found_in_palette [of unit_cmp "[]" "[]"]
    by (simp add: CommandPalette_def Let_def result_of_def demo_product_def)
  from palette_choice_opens [OF searching_ok _ this]
  have "selectedProductId (page_catalog (page_step unit_cmp (In_palette (Palette_click (P_select (js ''9'')))) ?p)) =
      Some (if listed ?p = [] \<or> js ''9'' \<in> li_id ` set (listed ?p) then js ''9'' else li_id (hd (listed ?p)))"
    by (simp add: Let_def)
  moreover have "listed ?p = [demo_product ''1'' ''a'' ''ops'']"
    by (simp add: searching_def palette_listed first_page_listed)
  ultimately show ?thesis by (simp add: demo_product_def)
qed

end
