(* ===== verification/Prototype.thy ===== *)
theory Prototype
  imports Tables_View Chat
begin

text \<open>
  The design prototype (\<^verbatim>\<open>design_idea.ts\<close>), a single-file application over a fixed catalog: the
  registry with its search and workspace, the matrix of shared fields, and the chat.  A plain object
  is used as a map from field names; no field is named like a number or an inherited property, so it
  keeps the order of insertion.
\<close>

section \<open>The catalog\<close>

record etl =
  et_id :: jsstr
  et_name :: jsstr
  et_category :: jsstr
  et_description :: jsstr
  et_fields :: "jsstr list"
  et_airflowStatus :: jsstr
  et_schedule :: jsstr
  et_rowsPerDay :: jsstr
  et_sourceTables :: "jsstr list"
  et_destinationTables :: "jsstr list"

(* src: design_idea.ts 11-60 MOCK_CATALOG *)
definition MOCK_CATALOG :: "etl list" where
  "MOCK_CATALOG = [
   \<lparr>et_id = js ''etl-001'', et_name = js ''Shopify Sales Sync'', et_category = js ''E-commerce'',
    et_description = js ''Daily synchronization of e-commerce transactions, orders, and fulfillment statuses.'',
    et_fields = [js ''order_id'', js ''customer_id'', js ''email'', js ''total_amount'',
                 js ''created_at'', js ''currency'', js ''status''],
    et_airflowStatus = js ''success'', et_schedule = js ''Daily at 00:00 UTC'', et_rowsPerDay = js ''50k+'',
    et_sourceTables = [js ''ecommerce.raw_orders'', js ''ecommerce.raw_customers'', js ''etl.stripe_billing''],
    et_destinationTables = [js ''stg_shopify_orders'', js ''stg_shopify_customers'']\<rparr>,
   \<lparr>et_id = js ''etl-002'', et_name = js ''Zendesk Tickets Stream'', et_category = js ''Support'',
    et_description = js ''Real-time streaming of customer support tickets, CSAT scores, and agent interactions.'',
    et_fields = [js ''ticket_id'', js ''customer_id'', js ''email'', js ''status'', js ''priority'',
                 js ''created_at'', js ''resolution_time_hrs''],
    et_airflowStatus = js ''success'', et_schedule = js ''Real-time (Streaming)'', et_rowsPerDay = js ''12k+'',
    et_sourceTables = [js ''support.tickets_stream'', js ''support.agent_events''],
    et_destinationTables = [js ''raw_zendesk_tickets'', js ''raw_csat_scores'']\<rparr>,
   \<lparr>et_id = js ''etl-003'', et_name = js ''Stripe Billing Aggregator'', et_category = js ''Finance'',
    et_description = js ''Aggregates subscription lifecycle events, invoices, and payment failures.'',
    et_fields = [js ''invoice_id'', js ''customer_id'', js ''amount_due'', js ''status'',
                 js ''payment_date'', js ''subscription_tier''],
    et_airflowStatus = js ''success'', et_schedule = js ''Hourly'', et_rowsPerDay = js ''8k+'',
    et_sourceTables = [js ''etl.mixpanel_events'', js ''finance.invoices'', js ''finance.subscriptions''],
    et_destinationTables = [js ''finance_invoices'', js ''finance_subscriptions'']\<rparr>,
   \<lparr>et_id = js ''etl-004'', et_name = js ''Mixpanel User Events'', et_category = js ''Analytics'',
    et_description = js ''Raw user behavior events, feature usage, and session metadata from web and mobile.'',
    et_fields = [js ''event_id'', js ''user_id'', js ''email'', js ''event_name'', js ''timestamp'',
                 js ''device_type'', js ''country'', js ''session_duration''],
    et_airflowStatus = js ''failed'', et_schedule = js ''Every 4 Hours'', et_rowsPerDay = js ''2.5M+'',
    et_sourceTables = [js ''events.raw_telemetry'', js ''etl.core_backend''],
    et_destinationTables = [js ''fact_user_events'', js ''dim_sessions'']\<rparr>,
   \<lparr>et_id = js ''etl-005'', et_name = js ''Salesforce CRM Sync'', et_category = js ''Sales'',
    et_description = js ''Hourly sync of lead pipeline, account details, and opportunity stages.'',
    et_fields = [js ''account_id'', js ''lead_id'', js ''email'', js ''company_name'',
                 js ''opportunity_stage'', js ''arr_estimate'', js ''owner_id''],
    et_airflowStatus = js ''success'', et_schedule = js ''Hourly'', et_rowsPerDay = js ''5k+'',
    et_sourceTables = [js ''sales.account'', js ''sales.lead'', js ''sales.opportunity''],
    et_destinationTables = [js ''crm_accounts'', js ''crm_leads'', js ''crm_opportunities'']\<rparr>,
   \<lparr>et_id = js ''etl-006'', et_name = js ''PostgreSQL Production DB'', et_category = js ''Core Backend'',
    et_description = js ''Nightly snapshot of the core application database.'',
    et_fields = [js ''user_id'', js ''email'', js ''first_name'', js ''last_name'', js ''signup_date'',
                 js ''is_active'', js ''hashed_password''],
    et_airflowStatus = js ''success'', et_schedule = js ''Daily at 03:00 UTC'', et_rowsPerDay = js ''100k+'',
    et_sourceTables = [js ''public.users'', js ''public.profiles'', js ''public.settings''],
    et_destinationTables = [js ''core_users_snapshot'', js ''core_profiles_snapshot'']\<rparr>]"

section \<open>The registry\<close>

datatype proto_tab = Catalog_tab | Matrix_tab | Ai_tab

(* src: design_idea.ts 66-72 useState *)
record prototype =
  pr_activeTab :: proto_tab
  pr_catalog :: "etl list"
  pr_loading :: bool
  pr_searchQuery :: jsstr
  pr_selectedEtlId :: "jsstr option"

definition init_prototype :: prototype where
  "init_prototype = \<lparr>pr_activeTab = Catalog_tab, pr_catalog = [], pr_loading = True, pr_searchQuery = [],
     pr_selectedEtlId = None\<rparr>"

text \<open>The end of the simulated load.\<close>

(* src: design_idea.ts 74-83 fetchCatalog *)
definition fetchCatalog :: "prototype \<Rightarrow> prototype" where
  "fetchCatalog s = s\<lparr>pr_catalog := MOCK_CATALOG, pr_selectedEtlId := Some (et_id (hd MOCK_CATALOG)), pr_loading := False\<rparr>"

(* src: design_idea.ts 85-93 filteredCatalog *)
definition filteredCatalog :: "(jsstr \<Rightarrow> jsstr) \<Rightarrow> jsstr \<Rightarrow> etl list \<Rightarrow> etl list" where
  "filteredCatalog lower searchQuery catalog =
     (if searchQuery = [] then catalog
      else
        (let lowerQ = lower searchQuery
         in filter (\<lambda>e. str_includes (lower (et_name e)) lowerQ \<or> str_includes (lower (et_description e)) lowerQ \<or>
              list_ex (\<lambda>f. str_includes (lower f) lowerQ) (et_fields e)) catalog))"

(* src: design_idea.ts 95-97 selectedEtl *)
definition selectedEtl :: "prototype \<Rightarrow> etl option" where
  "selectedEtl s = find (\<lambda>c. Some (et_id c) = pr_selectedEtlId s) (pr_catalog s)"

section \<open>The workspace of a pipeline\<close>

(* src: design_idea.ts 242-249 getMockDataType *)
definition getMockDataType :: "(jsstr \<Rightarrow> jsstr) \<Rightarrow> jsstr \<Rightarrow> jsstr" where
  "getMockDataType lower fieldName =
     (let l = lower fieldName
      in if str_includes l (js ''id'') then js ''UUID''
         else if str_includes l (js ''amount'') \<or> str_includes l (js ''price'') then js ''FLOAT8''
         else if str_includes l (js ''date'') \<or> str_includes l (js ''time'') \<or> str_includes l (js ''created'')
         then js ''TIMESTAMP''
         else if str_includes l (js ''is_'') \<or> str_includes l (js ''has_'') then js ''BOOL''
         else js ''VARCHAR'')"

(* src: design_idea.ts 251-251 importName *)
definition importName :: "(jsstr \<Rightarrow> jsstr) \<Rightarrow> etl \<Rightarrow> jsstr" where
  "importName lower e = map (\<lambda>c. if c = 32 then 95 else c) (lower (et_name e))"

(* src: design_idea.ts 253-265 handleCopyCode *)
definition consume_code :: "(jsstr \<Rightarrow> jsstr) \<Rightarrow> etl \<Rightarrow> jsstr" where
  "consume_code lower e = js ''from etls import '' @ importName lower e @ [10, 10] @ importName lower e @
     js ''(\"2026-01-25\").consume()''"

(* src: design_idea.ts 267-272 relatedEtls *)
definition relatedEtls :: "etl \<Rightarrow> etl list \<Rightarrow> (etl \<times> jsstr list) list" where
  "relatedEtls e catalog =
     map (\<lambda>c. (c, filter (\<lambda>f. f \<in> set (et_fields e)) (et_fields c)))
       (filter (\<lambda>c. et_id c \<noteq> et_id e \<and> list_ex (\<lambda>f. f \<in> set (et_fields e)) (et_fields c)) catalog)"

datatype proto_event =
    Go proto_tab
  | Search_text jsstr
  | Select_etl jsstr
  | Copy_code
  | Prompt jsstr
  | Enter
  | Send

(* src: design_idea.ts 190-208 NavIcon *)
definition PrototypeNavIcon :: "jsstr \<Rightarrow> proto_tab \<Rightarrow> proto_event ui" where
  "PrototypeNavIcon tooltip t = Btn tooltip False (Go t)"

(* src: design_idea.ts 211-235 EtlListItem *)
definition EtlListItem :: "etl \<Rightarrow> proto_event ui" where
  "EtlListItem e = Box [Btn (et_name e) False (Select_etl (et_id e)), Txt (et_category e), Txt (et_schedule e),
     Txt (et_rowsPerDay e)]"

(* src: design_idea.ts 298-343 BentoWorkspace *)
definition BentoLineage :: "etl \<Rightarrow> proto_event ui" where
  "BentoLineage e = Box
     [Txt (js ''Pipeline Topology''), Txt (js ''Reads From''), Box (map Txt (et_sourceTables e)),
      Txt (js ''Writes To''), Box (map Txt (et_destinationTables e))]"

(* src: design_idea.ts 345-358 BentoWorkspace *)
definition BentoMetrics :: "etl \<Rightarrow> proto_event ui" where
  "BentoMetrics e = Box
     [Txt (js ''Volume Rate''), Txt (et_rowsPerDay e), Txt (js ''rows/day''), Txt (js ''Schedule''), Txt (et_schedule e)]"

(* src: design_idea.ts 360-380 BentoWorkspace *)
definition BentoSchema :: "(jsstr \<Rightarrow> jsstr) \<Rightarrow> etl \<Rightarrow> proto_event ui" where
  "BentoSchema lower e = Box
     [Txt (js ''Data Structure''), Box (map (\<lambda>f. Box [Txt f, Txt (getMockDataType lower f)]) (et_fields e))]"

(* src: design_idea.ts 385-404 BentoWorkspace *)
definition BentoConsume :: "(jsstr \<Rightarrow> jsstr) \<Rightarrow> etl \<Rightarrow> proto_event ui" where
  "BentoConsume lower e = Box
     [Txt (js ''Import & Consume''), Btn [] False Copy_code, Txt (js ''from etls import '' @ importName lower e),
      Txt (importName lower e @ js ''(\"2026-01-25\").consume()'')]"

(* src: design_idea.ts 406-445 BentoWorkspace *)
definition BentoJoins :: "etl \<Rightarrow> etl list \<Rightarrow> proto_event ui" where
  "BentoJoins e catalog =
     (let related = relatedEtls e catalog
      in Box
        [show_if (length related > 0) (Box
           [Txt (js ''Schema Matches''),
            Box (map (\<lambda>(c, shared). Box [Txt (et_name c), Txt (js ''ON:''), Box (map Txt shared)]) (slice 0 2 related))]),
         Txt (js ''AI Insight''),
         Txt (js ''Semantically, email in this pipeline uniquely maps to customer profiles in PostgreSQL Production DB. '' @
           js ''Joining these enables unified historical analysis without relying solely on IDs.'')])"

(* src: design_idea.ts 238-297 BentoWorkspace *)
definition BentoWorkspace :: "(jsstr \<Rightarrow> jsstr) \<Rightarrow> etl \<Rightarrow> etl list \<Rightarrow> proto_event ui" where
  "BentoWorkspace lower e catalog = Box
     [Txt (et_category e),
      Txt (if et_airflowStatus e = js ''success'' then js ''Airflow: Success'' else js ''Airflow: Failed''),
      Txt (et_name e), Txt (et_description e),
      BentoLineage e, BentoMetrics e, BentoSchema lower e, BentoConsume lower e, BentoJoins e catalog]"

section \<open>The field matrix\<close>

(* src: design_idea.ts 457-466 fieldMap *)
definition fieldMap :: "etl list \<Rightarrow> (jsstr \<times> etl list) list" where
  "fieldMap catalog =
     sort_by (\<lambda>a b. int (length (snd b)) - int (length (snd a)))
       (fold (\<lambda>e m. fold (\<lambda>f. map_push f e) (et_fields e) m) catalog [])"

(* src: design_idea.ts 468-468 commonFields *)
definition commonFields :: "etl list \<Rightarrow> (jsstr \<times> etl list) list" where
  "commonFields catalog = filter (\<lambda>(f, es). length es > 1) (fieldMap catalog)"

(* src: design_idea.ts 456-514 FieldMatrixView *)
definition FieldMatrixView :: "etl list \<Rightarrow> proto_event ui" where
  "FieldMatrixView catalog =
     Box
       [Txt (js ''Global Schema Matrix''),
        Txt (js ''Discover cross-product join keys automatically identified across all pipelines.''),
        Txt (js ''Entity Key''), Txt (js ''Freq''), Txt (js ''Present in Data Models''),
        Box (map (\<lambda>(f, es). Box [Txt f, Txt (num_str (int (length es))), Box (map (Txt \<circ> et_name) es)])
          (commonFields catalog))]"

text \<open>The rows of the matrix.\<close>

lemma map_of_push_all:
  "map_of (fold (\<lambda>f. map_push f e) fs m) k =
     (if k \<in> set fs then Some ((case map_of m k of None \<Rightarrow> [] | Some es \<Rightarrow> es) @ replicate (count_list fs k) e)
      else map_of m k)"
proof (induction fs arbitrary: m)
  case (Cons f fs)
  have "replicate (count_list fs k) e = []" if "k \<notin> set fs" using that by simp
  with Cons show ?case by (auto simp: map_of_map_push replicate_append_same split: option.split)
qed simp

lemma count_list_distinct: "distinct xs \<Longrightarrow> x \<in> set xs \<Longrightarrow> count_list xs x = 1"
  by (induction xs) auto

lemma map_of_field_rows:
  assumes "list_all (\<lambda>e. distinct (et_fields e)) catalog"
  shows "map_of (fold (\<lambda>e m. fold (\<lambda>f. map_push f e) (et_fields e) m) catalog m) k =
    (if list_ex (\<lambda>e. k \<in> set (et_fields e)) catalog
     then Some ((case map_of m k of None \<Rightarrow> [] | Some es \<Rightarrow> es) @ filter (\<lambda>e. k \<in> set (et_fields e)) catalog)
     else map_of m k)"
  using assms
proof (induction catalog arbitrary: m)
  case (Cons e catalog)
  have "count_list (et_fields e) k = 1" if "k \<in> set (et_fields e)"
    using that Cons.prems by (simp add: count_list_distinct)
  moreover have "filter (\<lambda>e. k \<in> set (et_fields e)) catalog = []"
    if "\<not> list_ex (\<lambda>e. k \<in> set (et_fields e)) catalog"
    using that by (simp add: list_ex_iff)
  ultimately show ?case
    using Cons by (auto simp: map_of_push_all split: option.split)
qed simp

lemma distinct_push_all: "distinct (map fst m) \<Longrightarrow> distinct (map fst (fold (\<lambda>f. map_push f e) fs m))"
  by (induction fs arbitrary: m) (simp_all add: distinct_map_push)

lemma distinct_field_rows:
  "distinct (map fst m) \<Longrightarrow> distinct (map fst (fold (\<lambda>e m. fold (\<lambda>f. map_push f e) (et_fields e) m) catalog m))"
  by (induction catalog arbitrary: m) (simp_all add: distinct_push_all)

interpretation frequency: comparator "\<lambda>a b. int (length (snd b)) - int (length (snd a))"
  by unfold_locales auto

lemma field_rows:
  assumes "list_all (\<lambda>e. distinct (et_fields e)) catalog"
  shows "distinct (map fst (fieldMap catalog))"
    and "(f, es) \<in> set (fieldMap catalog) \<longleftrightarrow> es \<noteq> [] \<and> es = filter (\<lambda>e. f \<in> set (et_fields e)) catalog"
    and "sorted_wrt (\<lambda>a b. length (snd b) \<le> length (snd a)) (fieldMap catalog)"
proof -
  let ?m = "fold (\<lambda>e m. fold (\<lambda>f. map_push f e) (et_fields e) m) catalog []"
  have d: "distinct (map fst ?m)" by (rule distinct_field_rows) simp
  have same: "mset (map fst (fieldMap catalog)) = mset (map fst ?m)" by (simp add: fieldMap_def)
  show "distinct (map fst (fieldMap catalog))" by (rule mset_eq_imp_distinct_iff [OF same, THEN iffD2, OF d])
  have "(f, es) \<in> set ?m \<longleftrightarrow> map_of ?m f = Some es" using d by simp
  then show "(f, es) \<in> set (fieldMap catalog) \<longleftrightarrow> es \<noteq> [] \<and> es = filter (\<lambda>e. f \<in> set (et_fields e)) catalog"
    by (auto simp: fieldMap_def map_of_field_rows [OF assms] list_ex_iff filter_empty_conv)
  show "sorted_wrt (\<lambda>a b. length (snd b) \<le> length (snd a)) (fieldMap catalog)"
    using frequency.sorted_sort_by unfolding fieldMap_def by (rule sorted_wrt_mono_rel [rotated]) simp
qed

text \<open>
  The field matrix lists every field that at least two pipelines have exactly once, with exactly
  those pipelines in the order of the catalog, the most frequent fields first.
\<close>

theorem field_matrix_complete:
  assumes "list_all (\<lambda>e. distinct (et_fields e)) catalog"
  shows "distinct (map fst (commonFields catalog)) \<and>
    sorted_wrt (\<lambda>a b. length (snd b) \<le> length (snd a)) (commonFields catalog) \<and>
    ((f, es) \<in> set (commonFields catalog) \<longleftrightarrow> es = filter (\<lambda>e. f \<in> set (et_fields e)) catalog \<and> length es > 1)"
  using field_rows [OF assms] by (auto simp: commonFields_def sorted_wrt_filter distinct_map_filter)

lemma mock_fields: "map et_fields MOCK_CATALOG = map (map js)
   [[''order_id'', ''customer_id'', ''email'', ''total_amount'', ''created_at'', ''currency'', ''status''],
    [''ticket_id'', ''customer_id'', ''email'', ''status'', ''priority'', ''created_at'', ''resolution_time_hrs''],
    [''invoice_id'', ''customer_id'', ''amount_due'', ''status'', ''payment_date'', ''subscription_tier''],
    [''event_id'', ''user_id'', ''email'', ''event_name'', ''timestamp'', ''device_type'', ''country'', ''session_duration''],
    [''account_id'', ''lead_id'', ''email'', ''company_name'', ''opportunity_stage'', ''arr_estimate'', ''owner_id''],
    [''user_id'', ''email'', ''first_name'', ''last_name'', ''signup_date'', ''is_active'', ''hashed_password'']]"
  by (simp only: MOCK_CATALOG_def list.map etl.simps)

lemma inj_js: "inj js"
  by (rule injI) simp

lemma mock_fields_distinct: "list_all (\<lambda>e. distinct (et_fields e)) MOCK_CATALOG"
proof -
  have "list_all distinct (map et_fields MOCK_CATALOG)"
    unfolding mock_fields list.pred_map comp_def
    by (simp only: distinct_map inj_on_subset [OF inj_js subset_UNIV]) code_simp
  then show ?thesis by (simp add: list.pred_map comp_def)
qed

lemma mock_email: "map (\<lambda>e. js ''email'' \<in> set (et_fields e)) MOCK_CATALOG = [True, True, False, True, True, True]"
proof -
  have "map (\<lambda>fs. js ''email'' \<in> set fs) (map et_fields MOCK_CATALOG) = [True, True, False, True, True, True]"
    unfolding mock_fields list.map(2) set_map inj_image_mem_iff [OF inj_js] by simp
  then show ?thesis by (simp add: comp_def)
qed

theorem field_matrix_complete_witness:
  "length (filter (\<lambda>e. js ''email'' \<in> set (et_fields e)) MOCK_CATALOG) = 5 \<and>
   (js ''email'', filter (\<lambda>e. js ''email'' \<in> set (et_fields e)) MOCK_CATALOG) \<in> set (commonFields MOCK_CATALOG)"
proof -
  have "length (filter (\<lambda>e. js ''email'' \<in> set (et_fields e)) MOCK_CATALOG) =
      length (filter id (map (\<lambda>e. js ''email'' \<in> set (et_fields e)) MOCK_CATALOG))"
    by (simp add: filter_map comp_def)
  then have "length (filter (\<lambda>e. js ''email'' \<in> set (et_fields e)) MOCK_CATALOG) = 5"
    unfolding mock_email by simp
  then show ?thesis
    using field_matrix_complete [OF mock_fields_distinct, of "js ''email''"
        "filter (\<lambda>e. js ''email'' \<in> set (et_fields e)) MOCK_CATALOG"] by simp
qed

text \<open>Relation by shared fields is symmetric, and both sides share the same fields.\<close>

lemma related_symmetric:
  assumes "a \<in> set catalog" and "(b, fs) \<in> set (relatedEtls a catalog)"
  shows "\<exists>gs. (a, gs) \<in> set (relatedEtls b catalog) \<and> set gs = set fs"
  using assms
  by (intro exI [of _ "filter (\<lambda>f. f \<in> set (et_fields b)) (et_fields a)"])
    (auto simp: relatedEtls_def list_ex_iff)

text \<open>The application guesses a column's type as the prototype did, but for the place of a boolean's mark.\<close>

lemma same_guess:
  assumes "pf_data_type f = None"
    and "starts_with (lower (pf_name f)) (js ''is_'') \<longleftrightarrow> str_includes (lower (pf_name f)) (js ''is_'')"
    and "starts_with (lower (pf_name f)) (js ''has_'') \<longleftrightarrow> str_includes (lower (pf_name f)) (js ''has_'')"
  shows "getDisplayDataType lower f = getMockDataType lower (pf_name f)"
  unfolding getDisplayDataType_def getMockDataType_def Let_def assms by (simp add: truthy_def)

section \<open>The architect's chat\<close>

text \<open>
  The answer of the language model, as its service documents it: the candidates, each with the
  texts of its content's parts if it has any content, or an error.
\<close>

record gemini_data =
  gd_candidates :: "jsstr list option list option"
  gd_error :: bool

(* src: design_idea.ts 518-522 useState *)
record proto_chat =
  pc_prompt :: jsstr
  pc_history :: "chat_message list"
  pc_typing :: bool
  pc_inflight :: "(jsstr \<times> jsstr) list"

definition init_proto_chat :: proto_chat where
  "init_proto_chat = \<lparr>pc_prompt = [],
     pc_history = [assistant (js ''SYSTEM INITIALIZED. I am your automated Data Architect. State your metric objective, '' @
       js ''and I will output the required pipeline joins and transformations.'')],
     pc_typing = False, pc_inflight = []\<rparr>"

definition entry_text :: "string \<Rightarrow> jsstr \<Rightarrow> jsstr" where
  "entry_text k v = quote (js k) @ 58 # v"

definition etl_text :: "etl \<Rightarrow> jsstr" where
  "etl_text e = 123 # join [44]
     [entry_text ''id'' (quote (et_id e)), entry_text ''name'' (quote (et_name e)),
      entry_text ''category'' (quote (et_category e)), entry_text ''description'' (quote (et_description e)),
      entry_text ''fields'' (stringify (et_fields e)), entry_text ''airflowStatus'' (quote (et_airflowStatus e)),
      entry_text ''schedule'' (quote (et_schedule e)), entry_text ''rowsPerDay'' (quote (et_rowsPerDay e)),
      entry_text ''sourceTables'' (stringify (et_sourceTables e)),
      entry_text ''destinationTables'' (stringify (et_destinationTables e))] @ [125]"

(* src: design_idea.ts 533-538 systemPrompt *)
definition systemPrompt :: "etl list \<Rightarrow> jsstr" where
  "systemPrompt catalog =
     join (10 # replicate 6 32)
       [js ''You are an expert Data Architect. The user wants to achieve a data goal.'',
        js ''Here is our current JSON catalog of available ETL pipelines: '' @
          91 # join [44] (map etl_text catalog) @ js ''].'',
        js ''Analyze their request and suggest:'',
        js ''1. Which specific ETLs they should use.'',
        js ''2. Exactly which fields to join on.'',
        js ''Format your response in clean, easy-to-read markdown. Keep it under 150 words.'']"

text \<open>What is sent, with the instruction made from the catalog of the render.\<close>

(* src: design_idea.ts 524-549 handleSend *)
definition proto_send :: "etl list \<Rightarrow> proto_chat \<Rightarrow> proto_chat" where
  "proto_send catalog c =
     (if trim (pc_prompt c) = [] then c
      else c\<lparr>pc_prompt := [], pc_history := pc_history c @ [\<lparr>cm_role = User, cm_content = pc_prompt c\<rparr>],
             pc_typing := True, pc_inflight := pc_inflight c @ [(pc_prompt c, systemPrompt catalog)]\<rparr>)"

text \<open>The text shown for an answer; \<^const>\<open>None\<close> is the exception of a missing candidate, content or part.\<close>

(* src: design_idea.ts 551-557 aiText *)
definition aiText :: "gemini_data \<Rightarrow> jsstr option" where
  "aiText d =
     (let otherwise = (if gd_error d
            then js ''*API Error:* Please ensure the Gemini API key is configured correctly.'' else js ''Query failed.'')
      in case gd_candidates d of
           None \<Rightarrow> Some otherwise
         | Some (Some (t # ts) # cs) \<Rightarrow> Some (if t \<noteq> [] then t else otherwise)
         | Some _ \<Rightarrow> None)"

text \<open>
  The end of the \<open>i\<close>-th request in flight; \<^const>\<open>None\<close> is a failed request or a body that is no
  JSON.
\<close>

(* src: design_idea.ts 550-564 handleSend *)
definition proto_settle :: "nat \<Rightarrow> gemini_data option \<Rightarrow> proto_chat \<Rightarrow> proto_chat" where
  "proto_settle i answer c =
     (let text = (case Option.bind answer aiText of None \<Rightarrow> js ''Connection to Architect Core severed.'' | Some t \<Rightarrow> t)
      in c\<lparr>pc_history := pc_history c @ [assistant text], pc_typing := False,
           pc_inflight := take i (pc_inflight c) @ drop (Suc i) (pc_inflight c)\<rparr>)"

fun split_stars :: "jsstr \<Rightarrow> jsstr list" where
  "split_stars (c # d # s) =
     (if c = 42 \<and> d = 42 then [] # split_stars s
      else (case split_stars (d # s) of [] \<Rightarrow> [[c]] | p # ps \<Rightarrow> (c # p) # ps))"
| "split_stars s = [s]"

(* src: design_idea.ts 588-604 message *)
definition PrototypeMessage :: "chat_message \<Rightarrow> proto_event ui" where
  "PrototypeMessage m = Box (map Txt (split_stars (cm_content m)))"

(* src: design_idea.ts 568-632 AIArchitectView *)
definition PrototypeArchitectView :: "proto_chat \<Rightarrow> proto_event ui" where
  "PrototypeArchitectView c =
     Box
       [Txt (js ''Architect_Terminal_v2.0''),
        Box (map PrototypeMessage (pc_history c)),
        show_if (pc_typing c) (Box []),
        Inp (pc_prompt c) False Prompt,
        Btn (js ''Enter'') False Enter,
        Btn [] (pc_typing c \<or> trim (pc_prompt c) = []) Send]"

section \<open>The application\<close>

text \<open>
  The chat lives while its tab is mounted: a conversation is lost when the user leaves the tab, and
  an answer that arrives later goes nowhere.
\<close>

record proto_page =
  pp_app :: prototype
  pp_chat :: "proto_chat option"

definition mounted :: "proto_page \<Rightarrow> proto_page" where
  "mounted p = p\<lparr>pp_chat :=
     (if \<not> pr_loading (pp_app p) \<and> pr_activeTab (pp_app p) = Ai_tab
      then Some (case pp_chat p of None \<Rightarrow> init_proto_chat | Some c \<Rightarrow> c) else None)\<rparr>"

definition handle_proto :: "proto_event \<Rightarrow> proto_page \<Rightarrow> proto_page" where
  "handle_proto e p = mounted
     (case e of
        Go t \<Rightarrow> p\<lparr>pp_app := (pp_app p)\<lparr>pr_activeTab := t\<rparr>\<rparr>
      | Search_text q \<Rightarrow> p\<lparr>pp_app := (pp_app p)\<lparr>pr_searchQuery := q\<rparr>\<rparr>
      | Select_etl i \<Rightarrow> p\<lparr>pp_app := (pp_app p)\<lparr>pr_selectedEtlId := Some i\<rparr>\<rparr>
      | Copy_code \<Rightarrow> p
      | Prompt v \<Rightarrow> p\<lparr>pp_chat := map_option (\<lambda>c. c\<lparr>pc_prompt := v\<rparr>) (pp_chat p)\<rparr>
      | Enter \<Rightarrow> p\<lparr>pp_chat := map_option (proto_send (pr_catalog (pp_app p))) (pp_chat p)\<rparr>
      | Send \<Rightarrow> p\<lparr>pp_chat := map_option (proto_send (pr_catalog (pp_app p))) (pp_chat p)\<rparr>)"

(* src: design_idea.ts 634-645 LoadingState *)
definition PrototypeLoading :: "proto_event ui" where
  "PrototypeLoading = Txt (js ''Initializing Registry...'')"

(* src: design_idea.ts 99-187 App *)
definition PrototypeApp :: "(jsstr \<Rightarrow> jsstr) \<Rightarrow> proto_page \<Rightarrow> proto_event ui" where
  "PrototypeApp lower p =
     (let s = pp_app p
      in Box
        [PrototypeNavIcon (js ''ETL Catalog'') Catalog_tab, PrototypeNavIcon (js ''Field Matrix'') Matrix_tab,
         PrototypeNavIcon (js ''AI Architect'') Ai_tab, Txt (js ''Airflow: Online''),
         if pr_loading s then PrototypeLoading
         else Box
           [show_if (pr_activeTab s = Catalog_tab) (Box
              [Txt (js ''Pipeline Registry''), Inp (pr_searchQuery s) False Search_text,
               Box (map EtlListItem (filteredCatalog lower (pr_searchQuery s) (pr_catalog s))),
               (case selectedEtl s of
                  Some e \<Rightarrow> BentoWorkspace lower e (pr_catalog s)
                | None \<Rightarrow> Txt (js ''Select a pipeline to view details''))]),
            show_if (pr_activeTab s = Matrix_tab) (FieldMatrixView (pr_catalog s)),
            (case pp_chat p of
               Some c \<Rightarrow> PrototypeArchitectView c
             | None \<Rightarrow> Box [])]])"

text \<open>A run: the load ends, events the view raises happen, requests of the mounted chat settle.\<close>

inductive proto_run :: "(jsstr \<Rightarrow> jsstr) \<Rightarrow> proto_page \<Rightarrow> bool" for lower where
  opened: "proto_run lower \<lparr>pp_app = init_prototype, pp_chat = None\<rparr>"
| loaded: "proto_run lower p \<Longrightarrow> pr_loading (pp_app p) \<Longrightarrow> proto_run lower (mounted (p\<lparr>pp_app := fetchCatalog (pp_app p)\<rparr>))"
| acted: "proto_run lower p \<Longrightarrow> e \<in> raises (PrototypeApp lower p) \<Longrightarrow> proto_run lower (handle_proto e p)"
| settled: "proto_run lower p \<Longrightarrow> pp_chat p = Some c \<Longrightarrow> i < length (pc_inflight c) \<Longrightarrow>
    proto_run lower (p\<lparr>pp_chat := Some (proto_settle i answer c)\<rparr>)"

lemma join_split_stars: "join [42, 42] (split_stars s) = s"
proof (induction s rule: split_stars.induct)
  case (1 c d s)
  then show ?case by (cases "split_stars (d # s)"; cases "split_stars s") (auto simp: join_Cons_unit)
qed simp_all

lemmas proto_views = PrototypeApp_def PrototypeNavIcon_def PrototypeLoading_def EtlListItem_def BentoWorkspace_def
  BentoLineage_def BentoMetrics_def BentoSchema_def BentoConsume_def BentoJoins_def
  FieldMatrixView_def PrototypeArchitectView_def PrototypeMessage_def

lemma filteredCatalog_subset: "set (filteredCatalog lower q catalog) \<subseteq> set catalog"
  by (auto simp: filteredCatalog_def Let_def)

lemma select_raises:
  assumes "Select_etl i \<in> raises (PrototypeApp lower p)"
  shows "i \<in> et_id ` set (pr_catalog (pp_app p))"
  using assms filteredCatalog_subset
  by (fastforce simp: proto_views Let_def split: option.splits if_splits)

text \<open>Once the catalog is there, a pipeline of it is selected, whatever the user does.\<close>

definition selection_ok :: "prototype \<Rightarrow> bool" where
  "selection_ok s \<longleftrightarrow> pr_loading s \<or>
     (pr_catalog s = MOCK_CATALOG \<and> (\<exists>e \<in> set MOCK_CATALOG. pr_selectedEtlId s = Some (et_id e)))"

lemma pp_app_mounted [simp]: "pp_app (mounted p) = pp_app p"
  by (simp add: mounted_def)

lemma mock_nonempty [simp]: "MOCK_CATALOG \<noteq> []"
  by (simp only: MOCK_CATALOG_def list.distinct simp_thms)

lemma run_selection_ok: "proto_run lower p \<Longrightarrow> selection_ok (pp_app p)"
proof (induction rule: proto_run.induct)
  case (loaded p)
  have "hd MOCK_CATALOG \<in> set MOCK_CATALOG" by simp
  then show ?case by (auto simp: selection_ok_def fetchCatalog_def)
next
  case (acted p e)
  then show ?case
    using select_raises [of _ lower p] by (cases e) (auto simp: selection_ok_def handle_proto_def image_iff)
qed (simp_all add: selection_ok_def init_prototype_def)

lemma selection_resolves:
  assumes "proto_run lower p" and "\<not> pr_loading (pp_app p)"
  shows "selectedEtl (pp_app p) \<noteq> None"
  using run_selection_ok [OF assms(1)] assms(2) by (auto simp: selection_ok_def selectedEtl_def find_None_iff)

text \<open>
  The button waits for the answer, the Enter key does not: two requests can be in flight, and the
  first to settle hides the indicator of the other.
\<close>

lemma enter_ignores_lock: "Enter \<in> raises (PrototypeArchitectView c)"
  by (simp add: PrototypeArchitectView_def)

lemma enter_sends_another:
  assumes "trim (pc_prompt c) \<noteq> []"
  shows "length (pc_inflight (proto_send catalog c)) = Suc (length (pc_inflight c))"
  using assms by (simp add: proto_send_def)

lemma settled_hides_the_other:
  assumes "length (pc_inflight c) = 2" and "i < 2"
  shows "\<not> pc_typing (proto_settle i answer c) \<and> length (pc_inflight (proto_settle i answer c)) = 1"
  using assms by (auto simp: proto_settle_def Let_def)

text \<open>Bold text is marked, not changed.\<close>

lemma message_text: "join [42, 42] (shown (PrototypeMessage m)) = cm_content m"
  by (simp add: PrototypeMessage_def comp_def concat_map_singleton join_split_stars)

end
