(* ===== verification/Primitives.thy ===== *)
theory Primitives
  imports Js_Prelude
begin

text \<open>
  The styled wrappers of \<^verbatim>\<open>frontend/src/components/ui\<close> and what the entry point mounts
  (\<^verbatim>\<open>main.tsx\<close>), with \<^verbatim>\<open>lib/utils.ts\<close>, \<^verbatim>\<open>lib/admin-styles.ts\<close> and
  \<^verbatim>\<open>lib/config.ts\<close>.  A wrapper takes a property object and returns an element of the component
  library below it; which of the caller's properties reach that element, under which name and
  with which value, is all it does.  The libraries it calls (\<^verbatim>\<open>clsx\<close>, \<^verbatim>\<open>tailwind-merge\<close>,
  \<^verbatim>\<open>class-variance-authority\<close>, Base UI's \<^verbatim>\<open>mergeProps\<close> and \<^verbatim>\<open>useRender\<close>) are the
  parameter \<open>lib\<close>.
\<close>

section \<open>Elements and properties\<close>

text \<open>
  An element is its type and its properties in the order they are written, children included; a
  handler is the event it raises.  A later entry of a property object overwrites an earlier one,
  so \<^verbatim>\<open>a={x} {...props}\<close> is \<open>[(''a'', x)] @ props\<close>, and JSX children, written last, win over
  a spread \<^verbatim>\<open>children\<close>.
\<close>

datatype 'e attr =
    A_undefined
  | A_text jsstr
  | A_num int
  | A_flag bool
  | A_handler 'e
  | A_elem "'e element"
  | A_elems "'e element list"
  | A_obj "(string \<times> 'e attr) list"
and 'e element = El string "(string \<times> 'e attr) list"

type_synonym 'e attrs = "(string \<times> 'e attr) list"

primrec attrs_of :: "'e element \<Rightarrow> 'e attrs" where
  "attrs_of (El t ps) = ps"

definition pick :: "string \<Rightarrow> 'e attrs \<Rightarrow> 'e attr option" where
  "pick k ps = map_of (rev ps) k"

text \<open>Destructuring: a parameter, one with a default, and the rest.\<close>

definition value_of :: "string \<Rightarrow> 'e attrs \<Rightarrow> 'e attr" where
  "value_of k ps = (case pick k ps of None \<Rightarrow> A_undefined | Some v \<Rightarrow> v)"

definition value_or :: "'e attr \<Rightarrow> string \<Rightarrow> 'e attrs \<Rightarrow> 'e attr" where
  "value_or d k ps = (case value_of k ps of A_undefined \<Rightarrow> d | v \<Rightarrow> v)"

definition rest :: "string list \<Rightarrow> 'e attrs \<Rightarrow> 'e attrs" where
  "rest ks ps = filter (\<lambda>(k, v). k \<notin> set ks) ps"

text \<open>The class-name libraries: \<open>cva\<close> takes the base classes, the variants, their defaults and the
  properties of one use.\<close>

record 'e library =
  clsx :: "'e attr list \<Rightarrow> jsstr"
  twMerge :: "jsstr \<Rightarrow> jsstr"
  cva :: "jsstr \<Rightarrow> (string \<times> (string \<times> jsstr) list) list \<Rightarrow> (string \<times> string) list
    \<Rightarrow> 'e attrs \<Rightarrow> jsstr"
  mergeProps :: "'e attrs \<Rightarrow> 'e attrs \<Rightarrow> 'e attrs"
  useRender :: "string \<Rightarrow> 'e attrs \<Rightarrow> 'e attr \<Rightarrow> 'e attrs \<Rightarrow> 'e element"

(* src: frontend/src/lib/utils.ts 4-6 cn *)
definition cn :: "'e library \<Rightarrow> 'e attr list \<Rightarrow> jsstr" where
  "cn lib inputs = twMerge lib (clsx lib inputs)"

(* src: frontend/src/lib/utils.ts 8-10 isApiPipeline *)
definition isApiPipeline :: "jsstr option \<Rightarrow> bool" where
  "isApiPipeline pipelineType \<longleftrightarrow> pipelineType = Some (js ''api'')"

lemma pick_Nil [simp]: "pick k [] = None"
  by (simp add: pick_def)

lemma pick_append: "pick k (ps @ qs) = (case pick k qs of None \<Rightarrow> pick k ps | Some v \<Rightarrow> Some v)"
  by (simp add: pick_def map_add_def split: option.splits)

lemma pick_Cons: "pick k ((a, v) # ps) =
    (case pick k ps of None \<Rightarrow> if k = a then Some v else None | Some w \<Rightarrow> Some w)"
  by (simp add: pick_def map_add_def split: option.splits)

lemma pick_rest: "pick k (rest ks ps) = (if k \<in> set ks then None else pick k ps)"
proof (induction ps)
  case (Cons p ps)
  then show ?case
    by (cases p) (auto simp: rest_def pick_Cons split: option.splits)
qed (simp add: rest_def)

lemma rest_Nil [simp]: "rest ks [] = []"
  by (simp add: rest_def)


section \<open>Cards, inputs, separators and skeletons\<close>

(* src: frontend/src/components/ui/card.tsx 5-21 Card *)
definition Card :: "'e library \<Rightarrow> 'e attrs \<Rightarrow> 'e element" where
  "Card lib props = El ''div''
     ([(''data-slot'', A_text (js ''card'')),
        (''data-size'', value_or (A_text (js ''default'')) ''size'' props),
        (''className'', A_text (cn lib [A_text (js ''group/card flex flex-col gap-4 overflow-hidden rounded-xl bg-card py-4 text-sm text-card-foreground ring-1 ring-foreground/10 has-data-[slot=card-footer]:pb-0 has-[>img:first-child]:pt-0 data-[size=sm]:gap-3 data-[size=sm]:py-3 data-[size=sm]:has-data-[slot=card-footer]:pb-0 *:[img:first-child]:rounded-t-xl *:[img:last-child]:rounded-b-xl''),
          value_of ''className'' props]))]
      @ rest [''className'', ''size''] props)"

(* src: frontend/src/components/ui/card.tsx 23-34 CardHeader *)
definition CardHeader :: "'e library \<Rightarrow> 'e attrs \<Rightarrow> 'e element" where
  "CardHeader lib props = El ''div''
     ([(''data-slot'', A_text (js ''card-header'')),
        (''className'', A_text (cn lib [A_text (js ''group/card-header @container/card-header grid auto-rows-min items-start gap-1 rounded-t-xl px-4 group-data-[size=sm]/card:px-3 has-data-[slot=card-action]:grid-cols-[1fr_auto] has-data-[slot=card-description]:grid-rows-[auto_auto] [.border-b]:pb-4 group-data-[size=sm]/card:[.border-b]:pb-3''),
          value_of ''className'' props]))]
      @ rest [''className''] props)"

(* src: frontend/src/components/ui/card.tsx 36-47 CardTitle *)
definition CardTitle :: "'e library \<Rightarrow> 'e attrs \<Rightarrow> 'e element" where
  "CardTitle lib props = El ''div''
     ([(''data-slot'', A_text (js ''card-title'')),
        (''className'', A_text (cn lib [A_text (js ''text-base leading-snug font-medium group-data-[size=sm]/card:text-sm''),
          value_of ''className'' props]))]
      @ rest [''className''] props)"

(* src: frontend/src/components/ui/card.tsx 49-57 CardDescription *)
definition CardDescription :: "'e library \<Rightarrow> 'e attrs \<Rightarrow> 'e element" where
  "CardDescription lib props = El ''div''
     ([(''data-slot'', A_text (js ''card-description'')),
        (''className'', A_text (cn lib [A_text (js ''text-sm text-muted-foreground''),
          value_of ''className'' props]))]
      @ rest [''className''] props)"

(* src: frontend/src/components/ui/card.tsx 59-70 CardAction *)
definition CardAction :: "'e library \<Rightarrow> 'e attrs \<Rightarrow> 'e element" where
  "CardAction lib props = El ''div''
     ([(''data-slot'', A_text (js ''card-action'')),
        (''className'', A_text (cn lib [A_text (js ''col-start-2 row-span-2 row-start-1 self-start justify-self-end''),
          value_of ''className'' props]))]
      @ rest [''className''] props)"

(* src: frontend/src/components/ui/card.tsx 72-80 CardContent *)
definition CardContent :: "'e library \<Rightarrow> 'e attrs \<Rightarrow> 'e element" where
  "CardContent lib props = El ''div''
     ([(''data-slot'', A_text (js ''card-content'')),
        (''className'', A_text (cn lib [A_text (js ''px-4 group-data-[size=sm]/card:px-3''),
          value_of ''className'' props]))]
      @ rest [''className''] props)"

(* src: frontend/src/components/ui/card.tsx 82-93 CardFooter *)
definition CardFooter :: "'e library \<Rightarrow> 'e attrs \<Rightarrow> 'e element" where
  "CardFooter lib props = El ''div''
     ([(''data-slot'', A_text (js ''card-footer'')),
        (''className'', A_text (cn lib [A_text (js ''flex items-center rounded-b-xl border-t bg-muted/50 p-4 group-data-[size=sm]/card:p-3''),
          value_of ''className'' props]))]
      @ rest [''className''] props)"

(* src: frontend/src/components/ui/input.tsx 6-18 Input *)
definition Input :: "'e library \<Rightarrow> 'e attrs \<Rightarrow> 'e element" where
  "Input lib props = El ''InputPrimitive''
     ([(''type'', value_of ''type'' props),
        (''data-slot'', A_text (js ''input'')),
        (''className'', A_text (cn lib [A_text (js ''h-8 w-full min-w-0 rounded-lg border border-input bg-transparent px-2.5 py-1 text-base transition-colors outline-none file:inline-flex file:h-6 file:border-0 file:bg-transparent file:text-sm file:font-medium file:text-foreground placeholder:text-muted-foreground focus-visible:border-ring focus-visible:ring-3 focus-visible:ring-ring/50 disabled:pointer-events-none disabled:cursor-not-allowed disabled:bg-input/50 disabled:opacity-50 aria-invalid:border-destructive aria-invalid:ring-3 aria-invalid:ring-destructive/20 md:text-sm dark:bg-input/30 dark:disabled:bg-input/80 dark:aria-invalid:border-destructive/50 dark:aria-invalid:ring-destructive/40''),
          value_of ''className'' props]))]
      @ rest [''className'', ''type''] props)"

(* src: frontend/src/components/ui/separator.tsx 5-21 Separator *)
definition Separator :: "'e library \<Rightarrow> 'e attrs \<Rightarrow> 'e element" where
  "Separator lib props = El ''SeparatorPrimitive''
     ([(''data-slot'', A_text (js ''separator'')),
        (''orientation'', value_or (A_text (js ''horizontal'')) ''orientation'' props),
        (''className'', A_text (cn lib [A_text (js ''shrink-0 bg-border data-horizontal:h-px data-horizontal:w-full data-vertical:w-px data-vertical:self-stretch''),
          value_of ''className'' props]))]
      @ rest [''className'', ''orientation''] props)"

(* src: frontend/src/components/ui/skeleton.tsx 3-11 Skeleton *)
definition Skeleton :: "'e library \<Rightarrow> 'e attrs \<Rightarrow> 'e element" where
  "Skeleton lib props = El ''div''
     ([(''data-slot'', A_text (js ''skeleton'')),
        (''className'', A_text (cn lib [A_text (js ''animate-pulse rounded-md bg-muted''),
          value_of ''className'' props]))]
      @ rest [''className''] props)"

section \<open>Scroll areas\<close>

(* src: frontend/src/components/ui/scroll-area.tsx 30-52 ScrollBar *)
definition ScrollBar :: "'e library \<Rightarrow> 'e attrs \<Rightarrow> 'e element" where
  "ScrollBar lib props = El ''ScrollAreaPrimitive.Scrollbar''
     ([(''data-slot'', A_text (js ''scroll-area-scrollbar'')),
        (''data-orientation'', value_or (A_text (js ''vertical'')) ''orientation'' props),
        (''orientation'', value_or (A_text (js ''vertical'')) ''orientation'' props),
        (''className'', A_text (cn lib [A_text (js ''flex touch-none p-px transition-colors select-none data-horizontal:h-2.5 data-horizontal:flex-col data-horizontal:border-t data-horizontal:border-t-transparent data-vertical:h-full data-vertical:w-2.5 data-vertical:border-l data-vertical:border-l-transparent''),
          value_of ''className'' props]))]
      @ rest [''className'', ''orientation''] props
      @ [(''children'', A_elems [El ''ScrollAreaPrimitive.Thumb'' [(''data-slot'', A_text (js ''scroll-area-thumb'')),
            (''className'', A_text (js ''relative flex-1 rounded-full bg-border''))]])])"

(* src: frontend/src/components/ui/scroll-area.tsx 7-28 ScrollArea *)
definition ScrollArea :: "'e library \<Rightarrow> 'e attrs \<Rightarrow> 'e element" where
  "ScrollArea lib props = El ''ScrollAreaPrimitive.Root''
     ([(''data-slot'', A_text (js ''scroll-area'')),
        (''className'', A_text (cn lib [A_text (js ''relative''),
          value_of ''className'' props]))]
      @ rest [''className'', ''children''] props
      @ [(''children'', A_elems [El ''ScrollAreaPrimitive.Viewport'' [(''data-slot'', A_text (js ''scroll-area-viewport'')),
          (''className'', A_text (js ''size-full rounded-[inherit] transition-[color,box-shadow] outline-none focus-visible:ring-[3px] focus-visible:ring-ring/50 focus-visible:outline-1'')),
          (''children'', value_of ''children'' props)],
          ScrollBar lib [], El ''ScrollAreaPrimitive.Corner'' []])])"

section \<open>Selects\<close>

(* src: frontend/src/components/ui/select.tsx 7-7 Select *)
definition Select :: "'e attrs \<Rightarrow> 'e element" where
  "Select props = El ''SelectPrimitive.Root'' props"

(* src: frontend/src/components/ui/select.tsx 9-17 SelectGroup *)
definition SelectGroup :: "'e library \<Rightarrow> 'e attrs \<Rightarrow> 'e element" where
  "SelectGroup lib props = El ''SelectPrimitive.Group''
     ([(''data-slot'', A_text (js ''select-group'')),
        (''className'', A_text (cn lib [A_text (js ''scroll-my-1 p-1''),
          value_of ''className'' props]))]
      @ rest [''className''] props)"

(* src: frontend/src/components/ui/select.tsx 19-27 SelectValue *)
definition SelectValue :: "'e library \<Rightarrow> 'e attrs \<Rightarrow> 'e element" where
  "SelectValue lib props = El ''SelectPrimitive.Value''
     ([(''data-slot'', A_text (js ''select-value'')),
        (''className'', A_text (cn lib [A_text (js ''flex flex-1 text-left''),
          value_of ''className'' props]))]
      @ rest [''className''] props)"

(* src: frontend/src/components/ui/select.tsx 29-55 SelectTrigger *)
definition SelectTrigger :: "'e library \<Rightarrow> 'e attrs \<Rightarrow> 'e element" where
  "SelectTrigger lib props = El ''SelectPrimitive.Trigger''
     ([(''data-slot'', A_text (js ''select-trigger'')),
        (''data-size'', value_or (A_text (js ''default'')) ''size'' props),
        (''className'', A_text (cn lib [A_text (js ''flex w-fit items-center justify-between gap-1.5 rounded-lg border border-input bg-transparent py-2 pr-2 pl-2.5 text-sm whitespace-nowrap transition-colors outline-none select-none focus-visible:border-ring focus-visible:ring-3 focus-visible:ring-ring/50 disabled:cursor-not-allowed disabled:opacity-50 aria-invalid:border-destructive aria-invalid:ring-3 aria-invalid:ring-destructive/20 data-placeholder:text-muted-foreground data-[size=default]:h-8 data-[size=sm]:h-7 data-[size=sm]:rounded-[min(var(--radius-md),10px)] *:data-[slot=select-value]:line-clamp-1 *:data-[slot=select-value]:flex *:data-[slot=select-value]:items-center *:data-[slot=select-value]:gap-1.5 dark:bg-input/30 dark:hover:bg-input/50 dark:aria-invalid:border-destructive/50 dark:aria-invalid:ring-destructive/40 [&_svg]:pointer-events-none [&_svg]:shrink-0 [&_svg:not([class*='size-'])]:size-4''),
          value_of ''className'' props]))]
      @ rest [''className'', ''size'', ''children''] props
      @ [(''children'', A_elems [El ''Fragment'' [(''children'', value_of ''children'' props)],
          El ''SelectPrimitive.Icon'' [(''render'', A_elem (El ''ChevronDownIcon'' [(''className'',
            A_text (js ''pointer-events-none size-4 text-muted-foreground''))]))]])])"

(* src: frontend/src/components/ui/select.tsx 150-167 SelectScrollUpButton *)
definition SelectScrollUpButton :: "'e library \<Rightarrow> 'e attrs \<Rightarrow> 'e element" where
  "SelectScrollUpButton lib props = El ''SelectPrimitive.ScrollUpArrow''
     ([(''data-slot'', A_text (js ''select-scroll-up-button'')),
        (''className'', A_text (cn lib [A_text (js ''top-0 z-10 flex w-full cursor-default items-center justify-center bg-popover py-1 [&_svg:not([class*='size-'])]:size-4''),
          value_of ''className'' props]))]
      @ rest [''className''] props
      @ [(''children'', A_elems [El ''ChevronUpIcon'' []])])"

(* src: frontend/src/components/ui/select.tsx 169-186 SelectScrollDownButton *)
definition SelectScrollDownButton :: "'e library \<Rightarrow> 'e attrs \<Rightarrow> 'e element" where
  "SelectScrollDownButton lib props = El ''SelectPrimitive.ScrollDownArrow''
     ([(''data-slot'', A_text (js ''select-scroll-down-button'')),
        (''className'', A_text (cn lib [A_text (js ''bottom-0 z-10 flex w-full cursor-default items-center justify-center bg-popover py-1 [&_svg:not([class*='size-'])]:size-4''),
          value_of ''className'' props]))]
      @ rest [''className''] props
      @ [(''children'', A_elems [El ''ChevronDownIcon'' []])])"

(* src: frontend/src/components/ui/select.tsx 57-94 SelectContent *)
definition SelectContent :: "'e library \<Rightarrow> 'e attrs \<Rightarrow> 'e element" where
  "SelectContent lib props = El ''SelectPrimitive.Portal'' [(''children'', A_elems [
     El ''SelectPrimitive.Positioner''
       ([(''side'', value_or (A_text (js ''bottom'')) ''side'' props),
           (''sideOffset'', value_or (A_num 4) ''sideOffset'' props),
           (''align'', value_or (A_text (js ''center'')) ''align'' props),
           (''alignOffset'', value_or (A_num 0) ''alignOffset'' props),
           (''alignItemWithTrigger'', value_or (A_flag True) ''alignItemWithTrigger'' props),
           (''className'', A_text (js ''isolate z-50''))]
        @ [(''children'', A_elems [
             El ''SelectPrimitive.Popup''
               ([(''data-slot'', A_text (js ''select-content'')),
             (''data-align-trigger'', value_or (A_flag True) ''alignItemWithTrigger'' props),
             (''className'', A_text (cn lib [A_text (js ''relative isolate z-50 max-h-(--available-height) w-(--anchor-width) min-w-36 origin-(--transform-origin) overflow-x-hidden overflow-y-auto rounded-lg bg-popover text-popover-foreground shadow-md ring-1 ring-foreground/10 duration-100 data-[align-trigger=true]:animate-none data-[side=bottom]:slide-in-from-top-2 data-[side=inline-end]:slide-in-from-left-2 data-[side=inline-start]:slide-in-from-right-2 data-[side=left]:slide-in-from-right-2 data-[side=right]:slide-in-from-left-2 data-[side=top]:slide-in-from-bottom-2 data-open:animate-in data-open:fade-in-0 data-open:zoom-in-95 data-closed:animate-out data-closed:fade-out-0 data-closed:zoom-out-95''),
          value_of ''className'' props]))]
                @ rest [''className'', ''children'', ''side'', ''sideOffset'', ''align'', ''alignOffset'', ''alignItemWithTrigger''] props
                @ [(''children'', A_elems [SelectScrollUpButton lib [],
                   El ''SelectPrimitive.List'' [(''children'', value_of ''children'' props)],
                   SelectScrollDownButton lib []])])])])])]"

(* src: frontend/src/components/ui/select.tsx 96-107 SelectLabel *)
definition SelectLabel :: "'e library \<Rightarrow> 'e attrs \<Rightarrow> 'e element" where
  "SelectLabel lib props = El ''SelectPrimitive.GroupLabel''
     ([(''data-slot'', A_text (js ''select-label'')),
        (''className'', A_text (cn lib [A_text (js ''px-1.5 py-1 text-xs text-muted-foreground''),
          value_of ''className'' props]))]
      @ rest [''className''] props)"

(* src: frontend/src/components/ui/select.tsx 109-135 SelectItem *)
definition SelectItem :: "'e library \<Rightarrow> 'e attrs \<Rightarrow> 'e element" where
  "SelectItem lib props = El ''SelectPrimitive.Item''
     ([(''data-slot'', A_text (js ''select-item'')),
        (''className'', A_text (cn lib [A_text (js ''relative flex w-full cursor-default items-center gap-1.5 rounded-md py-1 pr-8 pl-1.5 text-sm outline-hidden select-none focus:bg-accent focus:text-accent-foreground not-data-[variant=destructive]:focus:**:text-accent-foreground data-disabled:pointer-events-none data-disabled:opacity-50 [&_svg]:pointer-events-none [&_svg]:shrink-0 [&_svg:not([class*='size-'])]:size-4 *:[span]:last:flex *:[span]:last:items-center *:[span]:last:gap-2''),
          value_of ''className'' props]))]
      @ rest [''className'', ''children''] props
      @ [(''children'', A_elems [El ''SelectPrimitive.ItemText'' [(''className'', A_text (js ''flex flex-1 shrink-0 gap-2 whitespace-nowrap'')),
            (''children'', value_of ''children'' props)],
          El ''SelectPrimitive.ItemIndicator'' [(''render'', A_elem (El ''span'' [(''className'',
              A_text (js ''pointer-events-none absolute right-2 flex size-4 items-center justify-center''))])),
            (''children'', A_elems [El ''CheckIcon'' [(''className'', A_text (js ''pointer-events-none''))]])]])])"

(* src: frontend/src/components/ui/select.tsx 137-148 SelectSeparator *)
definition SelectSeparator :: "'e library \<Rightarrow> 'e attrs \<Rightarrow> 'e element" where
  "SelectSeparator lib props = El ''SelectPrimitive.Separator''
     ([(''data-slot'', A_text (js ''select-separator'')),
        (''className'', A_text (cn lib [A_text (js ''pointer-events-none -mx-1 my-1 h-px bg-border''),
          value_of ''className'' props]))]
      @ rest [''className''] props)"

section \<open>Tooltips\<close>

(* src: frontend/src/components/ui/tooltip.tsx 5-16 TooltipProvider *)
definition TooltipProvider :: "'e library \<Rightarrow> 'e attrs \<Rightarrow> 'e element" where
  "TooltipProvider lib props = El ''TooltipPrimitive.Provider''
     ([(''data-slot'', A_text (js ''tooltip-provider'')),
        (''delay'', value_or (A_num 0) ''delay'' props)]
      @ rest [''delay''] props)"

(* src: frontend/src/components/ui/tooltip.tsx 18-20 Tooltip *)
definition Tooltip :: "'e library \<Rightarrow> 'e attrs \<Rightarrow> 'e element" where
  "Tooltip lib props = El ''TooltipPrimitive.Root''
     ([(''data-slot'', A_text (js ''tooltip''))]
      @ props)"

(* src: frontend/src/components/ui/tooltip.tsx 22-24 TooltipTrigger *)
definition TooltipTrigger :: "'e library \<Rightarrow> 'e attrs \<Rightarrow> 'e element" where
  "TooltipTrigger lib props = El ''TooltipPrimitive.Trigger''
     ([(''data-slot'', A_text (js ''tooltip-trigger''))]
      @ props)"

(* src: frontend/src/components/ui/tooltip.tsx 26-62 TooltipContent *)
definition TooltipContent :: "'e library \<Rightarrow> 'e attrs \<Rightarrow> 'e element" where
  "TooltipContent lib props = El ''TooltipPrimitive.Portal'' [(''children'', A_elems [
     El ''TooltipPrimitive.Positioner''
       ([(''align'', value_or (A_text (js ''center'')) ''align'' props),
           (''alignOffset'', value_or (A_num 0) ''alignOffset'' props),
           (''side'', value_or (A_text (js ''top'')) ''side'' props),
           (''sideOffset'', value_or (A_num 4) ''sideOffset'' props),
           (''className'', A_text (js ''isolate z-50''))]
        @ [(''children'', A_elems [
             El ''TooltipPrimitive.Popup''
               ([(''data-slot'', A_text (js ''tooltip-content'')),
             (''className'', A_text (cn lib [A_text (js ''z-50 inline-flex w-fit max-w-xs origin-(--transform-origin) items-center gap-1.5 rounded-md bg-foreground px-3 py-1.5 text-xs text-background has-data-[slot=kbd]:pr-1.5 data-[side=bottom]:slide-in-from-top-2 data-[side=inline-end]:slide-in-from-left-2 data-[side=inline-start]:slide-in-from-right-2 data-[side=left]:slide-in-from-right-2 data-[side=right]:slide-in-from-left-2 data-[side=top]:slide-in-from-bottom-2 **:data-[slot=kbd]:relative **:data-[slot=kbd]:isolate **:data-[slot=kbd]:z-50 **:data-[slot=kbd]:rounded-sm data-[state=delayed-open]:animate-in data-[state=delayed-open]:fade-in-0 data-[state=delayed-open]:zoom-in-95 data-open:animate-in data-open:fade-in-0 data-open:zoom-in-95 data-closed:animate-out data-closed:fade-out-0 data-closed:zoom-out-95''),
          value_of ''className'' props]))]
                @ rest [''className'', ''side'', ''sideOffset'', ''align'', ''alignOffset'', ''children''] props
                @ [(''children'', A_elems [El ''Fragment'' [(''children'', value_of ''children'' props)],
                   El ''TooltipPrimitive.Arrow'' [(''className'', A_text (js ''z-50 size-2.5 translate-y-[calc(-50%-2px)] rotate-45 rounded-[2px] bg-foreground fill-foreground data-[side=bottom]:top-1 data-[side=inline-end]:top-1/2! data-[side=inline-end]:-left-1 data-[side=inline-end]:-translate-y-1/2 data-[side=inline-start]:top-1/2! data-[side=inline-start]:-right-1 data-[side=inline-start]:-translate-y-1/2 data-[side=left]:top-1/2! data-[side=left]:-right-1 data-[side=left]:-translate-y-1/2 data-[side=right]:top-1/2! data-[side=right]:-left-1 data-[side=right]:-translate-y-1/2 data-[side=top]:-bottom-2.5''))]])])])])])]"

section \<open>Variants: badges and buttons\<close>

(* src: frontend/src/components/ui/badge.tsx 7-28 badgeVariants *)
definition badgeVariants :: "'e library \<Rightarrow> 'e attrs \<Rightarrow> jsstr" where
  "badgeVariants lib = cva lib
     (js ''group/badge inline-flex h-5 w-fit shrink-0 items-center justify-center gap-1 overflow-hidden rounded-4xl border border-transparent px-2 py-0.5 text-xs font-medium whitespace-nowrap transition-all focus-visible:border-ring focus-visible:ring-[3px] focus-visible:ring-ring/50 has-data-[icon=inline-end]:pr-1.5 has-data-[icon=inline-start]:pl-1.5 aria-invalid:border-destructive aria-invalid:ring-destructive/20 dark:aria-invalid:ring-destructive/40 [&>svg]:pointer-events-none [&>svg]:size-3!'')
     [(''variant'', [(''default'',
          js ''bg-primary text-primary-foreground [a]:hover:bg-primary/80''),
        (''secondary'',
          js ''bg-secondary text-secondary-foreground [a]:hover:bg-secondary/80''),
        (''destructive'',
          js ''bg-destructive/10 text-destructive focus-visible:ring-destructive/20 dark:bg-destructive/20 dark:focus-visible:ring-destructive/40 [a]:hover:bg-destructive/20''),
        (''outline'',
          js ''border-border text-foreground [a]:hover:bg-muted [a]:hover:text-muted-foreground''),
        (''ghost'',
          js ''hover:bg-muted hover:text-muted-foreground dark:hover:bg-muted/50''),
        (''link'',
          js ''text-primary underline-offset-4 hover:underline'')])]
     [(''variant'', ''default'')]"

(* src: frontend/src/components/ui/button.tsx 6-41 buttonVariants *)
definition buttonVariants :: "'e library \<Rightarrow> 'e attrs \<Rightarrow> jsstr" where
  "buttonVariants lib = cva lib
     (js ''group/button inline-flex shrink-0 items-center justify-center rounded-lg border border-transparent bg-clip-padding text-sm font-medium whitespace-nowrap transition-all outline-none select-none focus-visible:border-ring focus-visible:ring-3 focus-visible:ring-ring/50 disabled:pointer-events-none disabled:opacity-50 aria-invalid:border-destructive aria-invalid:ring-3 aria-invalid:ring-destructive/20 dark:aria-invalid:border-destructive/50 dark:aria-invalid:ring-destructive/40 [&_svg]:pointer-events-none [&_svg]:shrink-0 [&_svg:not([class*='size-'])]:size-4'')
     [(''variant'', [(''default'',
          js ''bg-primary text-primary-foreground [a]:hover:bg-primary/80''),
        (''outline'',
          js ''border-border bg-background hover:bg-muted hover:text-foreground aria-expanded:bg-muted aria-expanded:text-foreground dark:border-input dark:bg-input/30 dark:hover:bg-input/50''),
        (''secondary'',
          js ''bg-secondary text-secondary-foreground hover:bg-secondary/80 aria-expanded:bg-secondary aria-expanded:text-secondary-foreground''),
        (''ghost'',
          js ''hover:bg-muted hover:text-foreground aria-expanded:bg-muted aria-expanded:text-foreground dark:hover:bg-muted/50''),
        (''destructive'',
          js ''bg-destructive/10 text-destructive hover:bg-destructive/20 focus-visible:border-destructive/40 focus-visible:ring-destructive/20 dark:bg-destructive/20 dark:hover:bg-destructive/30 dark:focus-visible:ring-destructive/40''),
        (''link'',
          js ''text-primary underline-offset-4 hover:underline'')]),
      (''size'', [(''default'',
          js ''h-8 gap-1.5 px-2.5 has-data-[icon=inline-end]:pr-2 has-data-[icon=inline-start]:pl-2''),
        (''xs'',
          js ''h-6 gap-1 rounded-[min(var(--radius-md),10px)] px-2 text-xs in-data-[slot=button-group]:rounded-lg has-data-[icon=inline-end]:pr-1.5 has-data-[icon=inline-start]:pl-1.5 [&_svg:not([class*='size-'])]:size-3''),
        (''sm'',
          js ''h-7 gap-1 rounded-[min(var(--radius-md),12px)] px-2.5 text-[0.8rem] in-data-[slot=button-group]:rounded-lg has-data-[icon=inline-end]:pr-1.5 has-data-[icon=inline-start]:pl-1.5 [&_svg:not([class*='size-'])]:size-3.5''),
        (''lg'',
          js ''h-9 gap-1.5 px-2.5 has-data-[icon=inline-end]:pr-3 has-data-[icon=inline-start]:pl-3''),
        (''icon'',
          js ''size-8''),
        (''icon-xs'',
          js ''size-6 rounded-[min(var(--radius-md),10px)] in-data-[slot=button-group]:rounded-lg [&_svg:not([class*='size-'])]:size-3''),
        (''icon-sm'',
          js ''size-7 rounded-[min(var(--radius-md),12px)] in-data-[slot=button-group]:rounded-lg''),
        (''icon-lg'',
          js ''size-9'')])]
     [(''variant'', ''default''), (''size'', ''default'')]"

(* src: frontend/src/components/ui/badge.tsx 30-50 Badge *)
definition Badge :: "'e library \<Rightarrow> 'e attrs \<Rightarrow> 'e element" where
  "Badge lib props =
     (let variant = value_or (A_text (js ''default'')) ''variant'' props
      in useRender lib ''span''
           (mergeProps lib
              [(''className'', A_text (cn lib [A_text (badgeVariants lib [(''variant'', variant)]),
                  value_of ''className'' props]))]
              (rest [''className'', ''variant'', ''render''] props))
           (value_of ''render'' props)
           [(''slot'', A_text (js ''badge'')), (''variant'', variant)])"

(* src: frontend/src/components/ui/button.tsx 43-56 Button *)
definition Button :: "'e library \<Rightarrow> 'e attrs \<Rightarrow> 'e element" where
  "Button lib props =
     (let variant = value_or (A_text (js ''default'')) ''variant'' props;
          size = value_or (A_text (js ''default'')) ''size'' props
      in El ''ButtonPrimitive''
           ([(''data-slot'', A_text (js ''button'')),
             (''className'', A_text (cn lib [A_text (buttonVariants lib
                [(''variant'', variant), (''size'', size),
                 (''className'', value_of ''className'' props)])]))]
            @ rest [''className'', ''variant'', ''size''] props))"

section \<open>Toasts\<close>

(* src: frontend/src/components/ui/sonner.tsx 4-42 Toaster *)
definition Toaster :: "'e attrs \<Rightarrow> 'e element" where
  "Toaster props = El ''Sonner''
     ([(''theme'', A_text (js ''dark'')),
       (''className'', A_text (js ''toaster group'')),
       (''icons'', A_obj
          [(''success'', A_elem (El ''CircleCheckIcon'' [(''className'', A_text (js ''size-4''))])),
           (''info'', A_elem (El ''InfoIcon'' [(''className'', A_text (js ''size-4''))])),
           (''warning'', A_elem (El ''TriangleAlertIcon'' [(''className'', A_text (js ''size-4''))])),
           (''error'', A_elem (El ''OctagonXIcon'' [(''className'', A_text (js ''size-4''))])),
           (''loading'', A_elem (El ''Loader2Icon'' [(''className'', A_text (js ''size-4 animate-spin''))]))]),
       (''style'', A_obj
          [(''--normal-bg'', A_text (js ''var(--popover)'')),
           (''--normal-text'', A_text (js ''var(--popover-foreground)'')),
           (''--normal-border'', A_text (js ''var(--border)'')),
           (''--border-radius'', A_text (js ''var(--radius)''))]),
       (''toastOptions'', A_obj [(''classNames'', A_obj [(''toast'', A_text (js ''cn-toast''))])])]
      @ props)"

section \<open>The entry point\<close>

text \<open>The page mounts the toaster of the toast library itself, not the wrapper above.\<close>

(* src: frontend/src/main.tsx 20-31 createRoot *)
definition mount :: "'e library \<Rightarrow> 'e attr \<Rightarrow> 'e element \<Rightarrow> 'e element" where
  "mount lib queryClient App =
     El ''StrictMode'' [(''children'', A_elems [
       El ''ErrorBoundary'' [(''children'', A_elems [
         El ''QueryClientProvider'' [(''client'', queryClient), (''children'', A_elems [
           TooltipProvider lib [(''delay'', A_num 200), (''children'', A_elems [
             App,
             El ''Toaster'' [(''theme'', A_text (js ''dark''))]])]])]])]])]"

(* src: frontend/src/lib/admin-styles.ts 1-5 ROLE_STYLES *)
definition ROLE_STYLES :: "(jsstr \<times> jsstr) list" where
  "ROLE_STYLES =
     [(js ''admin'', js ''text-rose-400 bg-rose-500/10 border-rose-500/20''),
      (js ''member'', js ''text-indigo-400 bg-indigo-500/10 border-indigo-500/20''),
      (js ''viewer'', js ''text-slate-400 bg-slate-500/10 border-slate-500/20'')]"

(* src: frontend/src/lib/admin-styles.ts 7-10 GRANT_LEVEL_STYLES *)
definition GRANT_LEVEL_STYLES :: "(jsstr \<times> jsstr) list" where
  "GRANT_LEVEL_STYLES =
     [(js ''editor'', js ''text-amber-400 bg-amber-500/10 border-amber-500/20''),
      (js ''viewer'', js ''text-slate-400 bg-white/[0.03] border-white/[0.06]'')]"

text \<open>The object \<^verbatim>\<open>config.js\<close> puts on the window, if it did; the build's variable, if set.\<close>

(* src: frontend/src/lib/config.ts 2-6 AIRFLOW_URL *)
definition AIRFLOW_URL :: "(jsstr \<times> jsstr) list option \<Rightarrow> jsstr option \<Rightarrow> jsstr" where
  "AIRFLOW_URL runtime build =
     (let runtimeConfig = (case runtime of None \<Rightarrow> [] | Some c \<Rightarrow> c)
      in case map_of runtimeConfig (js ''AIRFLOW_URL'') of
           Some u \<Rightarrow> u
         | None \<Rightarrow> (case build of Some u \<Rightarrow> u | None \<Rightarrow> js ''http://localhost:8080''))"

section \<open>Uses of the wrappers\<close>

(* src: frontend/src/App.tsx 26-32 TabSkeleton *)
definition TabSkeleton :: "'e library \<Rightarrow> 'e element" where
  "TabSkeleton lib = El ''div''
     [(''className'', A_text (js ''flex-1 flex items-center justify-center'')),
      (''children'', A_elems [Skeleton lib [(''className'', A_text (js ''h-64 w-96 bg-white/5 rounded-2xl''))]])]"

(* src: frontend/src/components/layout/Sidebar.tsx 17-42 SsoLogoutButton *)
definition SsoLogoutButton :: "'e library \<Rightarrow> 'e \<Rightarrow> 'e element" where
  "SsoLogoutButton lib handleLogout = Tooltip lib [(''children'', A_elems
     [TooltipTrigger lib
        [(''className'', A_text (js ''p-1.5 text-text-faint hover:text-red-400 hover:bg-red-500/10 rounded-lg transition-all duration-200 cursor-pointer'')),
         (''onClick'', A_handler handleLogout),
         (''children'', A_elems [El ''LogOut'' [(''className'', A_text (js ''size-4''))]])],
      TooltipContent lib
        [(''side'', A_text (js ''right'')),
         (''className'', A_text (js ''bg-card border-border-prominent text-foreground text-xs font-medium'')),
         (''children'', A_text (js ''Sign out''))]])]"

section \<open>What reaches the element\<close>

datatype primitive =
    P_Card | P_CardHeader | P_CardTitle | P_CardDescription | P_CardAction | P_CardContent
  | P_CardFooter | P_Input | P_Separator | P_Skeleton | P_ScrollBar | P_ScrollArea | P_Select
  | P_SelectGroup | P_SelectValue | P_SelectTrigger | P_SelectScrollUpButton
  | P_SelectScrollDownButton | P_SelectContent | P_SelectLabel | P_SelectItem
  | P_SelectSeparator | P_TooltipProvider | P_Tooltip | P_TooltipTrigger | P_TooltipContent
  | P_Button | P_Toaster

primrec component :: "'e library \<Rightarrow> primitive \<Rightarrow> 'e attrs \<Rightarrow> 'e element" where
  "component lib P_Card = Card lib"
| "component lib P_CardHeader = CardHeader lib"
| "component lib P_CardTitle = CardTitle lib"
| "component lib P_CardDescription = CardDescription lib"
| "component lib P_CardAction = CardAction lib"
| "component lib P_CardContent = CardContent lib"
| "component lib P_CardFooter = CardFooter lib"
| "component lib P_Input = Input lib"
| "component lib P_Separator = Separator lib"
| "component lib P_Skeleton = Skeleton lib"
| "component lib P_ScrollBar = ScrollBar lib"
| "component lib P_ScrollArea = ScrollArea lib"
| "component lib P_Select = Select"
| "component lib P_SelectGroup = SelectGroup lib"
| "component lib P_SelectValue = SelectValue lib"
| "component lib P_SelectTrigger = SelectTrigger lib"
| "component lib P_SelectScrollUpButton = SelectScrollUpButton lib"
| "component lib P_SelectScrollDownButton = SelectScrollDownButton lib"
| "component lib P_SelectContent = SelectContent lib"
| "component lib P_SelectLabel = SelectLabel lib"
| "component lib P_SelectItem = SelectItem lib"
| "component lib P_SelectSeparator = SelectSeparator lib"
| "component lib P_TooltipProvider = TooltipProvider lib"
| "component lib P_Tooltip = Tooltip lib"
| "component lib P_TooltipTrigger = TooltipTrigger lib"
| "component lib P_TooltipContent = TooltipContent lib"
| "component lib P_Button = Button lib"
| "component lib P_Toaster = Toaster"

text \<open>The properties a wrapper keeps for itself: the ones it destructures, and the children it
  writes.\<close>

fun own :: "primitive \<Rightarrow> string list" where
  "own P_Card = [''className'', ''size'']"
| "own P_Input = [''className'', ''type'']"
| "own P_Separator = [''className'', ''orientation'']"
| "own P_ScrollBar = [''className'', ''orientation'', ''children'']"
| "own P_ScrollArea = [''className'', ''children'']"
| "own P_Select = []"
| "own P_SelectTrigger = [''className'', ''size'', ''children'']"
| "own P_SelectScrollUpButton = [''className'', ''children'']"
| "own P_SelectScrollDownButton = [''className'', ''children'']"
| "own P_SelectContent = [''className'', ''children'', ''side'', ''sideOffset'', ''align'', ''alignOffset'',
     ''alignItemWithTrigger'']"
| "own P_SelectItem = [''className'', ''children'']"
| "own P_TooltipProvider = [''delay'']"
| "own P_Tooltip = []"
| "own P_TooltipTrigger = []"
| "own P_TooltipContent = [''className'', ''side'', ''sideOffset'', ''align'', ''alignOffset'', ''children'']"
| "own P_Button = [''className'', ''variant'', ''size'']"
| "own P_Toaster = []"
| "own _ = [''className'']"

text \<open>The element a wrapper stands for: the popup inside portal and positioner for the two
  overlays, else the outermost one.\<close>

definition only_child :: "'e element \<Rightarrow> 'e element" where
  "only_child e = (case pick ''children'' (attrs_of e) of Some (A_elems [c]) \<Rightarrow> c | _ \<Rightarrow> e)"

definition receiver :: "primitive \<Rightarrow> 'e element \<Rightarrow> 'e element" where
  "receiver p e = (if p = P_SelectContent \<or> p = P_TooltipContent then only_child (only_child e) else e)"

lemmas primitive_defs = Card_def CardHeader_def CardTitle_def CardDescription_def CardAction_def
  CardContent_def CardFooter_def Input_def Separator_def Skeleton_def ScrollBar_def ScrollArea_def
  Select_def SelectGroup_def SelectValue_def SelectTrigger_def SelectScrollUpButton_def
  SelectScrollDownButton_def SelectContent_def SelectLabel_def SelectItem_def SelectSeparator_def
  TooltipProvider_def Tooltip_def TooltipTrigger_def TooltipContent_def Button_def Toaster_def

lemmas pick_simps = pick_append pick_Cons pick_rest

lemma only_child_El: "pick ''children'' ps = Some (A_elems [c]) \<Longrightarrow> only_child (El t ps) = c"
  by (simp add: only_child_def)



text \<open>A library that only joins class names, for an example: the retry button of an error view, and a
  tooltip.\<close>

definition plain_library :: "nat library" where
  "plain_library = \<lparr>clsx = (\<lambda>cs. join [32] (List.map_filter (\<lambda>c. case c of A_text t \<Rightarrow> Some t | _ \<Rightarrow> None) cs)),
     twMerge = (\<lambda>s. s), cva = (\<lambda>b vs ds ps. b), mergeProps = (@), useRender = (\<lambda>t ps r st. El t ps)\<rparr>"


text \<open>The caller's class names are the last argument of \<^verbatim>\<open>cn\<close>, so that
  \<^verbatim>\<open>tailwind-merge\<close> lets them win.\<close>

lemma caller_classes_last:
  assumes "''className'' \<in> set (own p)" and "p \<noteq> P_Button"
  shows "\<exists>c. pick ''className'' (attrs_of (receiver p (component lib p props))) =
    Some (A_text (cn lib [A_text c, value_of ''className'' props]))"
  using assms by (cases p) (auto simp: primitive_defs receiver_def only_child_def pick_simps)

text \<open>Where an overlay opens is the positioner's business: it gets the caller's side and distance,
  or the defaults.\<close>

lemma select_positioned:
  "pick ''side'' (attrs_of (only_child (SelectContent lib props))) =
     Some (value_or (A_text (js ''bottom'')) ''side'' props)"
  "pick ''sideOffset'' (attrs_of (only_child (SelectContent lib props))) =
     Some (value_or (A_num 4) ''sideOffset'' props)"
  "pick ''align'' (attrs_of (only_child (SelectContent lib props))) =
     Some (value_or (A_text (js ''center'')) ''align'' props)"
  by (simp_all add: SelectContent_def only_child_def pick_simps)

lemma tooltip_positioned:
  "pick ''side'' (attrs_of (only_child (TooltipContent lib props))) =
     Some (value_or (A_text (js ''top'')) ''side'' props)"
  "pick ''sideOffset'' (attrs_of (only_child (TooltipContent lib props))) =
     Some (value_or (A_num 4) ''sideOffset'' props)"
  by (simp_all add: TooltipContent_def only_child_def pick_simps)

text \<open>A badge is what Base UI renders of the merged properties; where \<^verbatim>\<open>mergeProps\<close> lets the
  later object win outside event handlers, classes and styles, and \<^verbatim>\<open>useRender\<close> without a
  \<^verbatim>\<open>render\<close> makes the default tag with the properties given, a badge is transparent too.\<close>

lemma badge_props_reach_element:
  assumes merge: "\<And>a b. pick k (mergeProps lib a b) =
      (case pick k b of None \<Rightarrow> pick k a | Some v \<Rightarrow> Some v)"
    and render: "\<And>t ps st. useRender lib t ps A_undefined st = El t ps"
    and "k \<notin> {''className'', ''variant'', ''render''}" and "pick ''render'' props = None"
    and "pick k props = Some v"
  shows "pick k (attrs_of (Badge lib props)) = Some v"
  using assms(3-) by (simp add: Badge_def Let_def merge render value_of_def pick_rest)

text \<open>The page: an error boundary around everything that can fail, and tooltips after 200 ms.\<close>

lemma mount_tooltips:
  "pick ''delay'' (attrs_of (only_child (only_child (only_child (mount lib client App))))) = Some (A_num 200)"
  by (simp add: mount_def only_child_def TooltipProvider_def pick_simps value_or_def value_of_def)

lemma mount_boundary: "\<exists>ps. only_child (mount lib client App) = El ''ErrorBoundary'' ps"
  by (simp add: mount_def only_child_def pick_simps)

text \<open>Signing out: the click reaches the trigger, and its label opens on the right.\<close>

lemma logout_wired:
  "\<exists>trigger content. pick ''children'' (attrs_of (SsoLogoutButton lib h)) = Some (A_elems [trigger, content]) \<and>
     pick ''onClick'' (attrs_of trigger) = Some (A_handler h) \<and>
     pick ''side'' (attrs_of (only_child content)) = Some (A_text (js ''right''))"
  by (simp add: SsoLogoutButton_def Tooltip_def TooltipTrigger_def TooltipContent_def only_child_def pick_simps
      value_or_def value_of_def)

end
