(* ===== verification/Service_Auth.thy ===== *)
theory Service_Auth
  imports Server Sessions
begin

text \<open>
  Who a request speaks for (\<^verbatim>\<open>backend/app/auth.py\<close>, \<^verbatim>\<open>config.py\<close>,
  \<^verbatim>\<open>integrations/oidc_client.py\<close>, \<^verbatim>\<open>routers/auth.py\<close>, \<^verbatim>\<open>schemas/auth.py\<close>): the
  user made of a token's claims, the cache of the identity provider's signing keys, and the
  answers the front end signs in with.  \<^verbatim>\<open>str.lower\<close> is the parameter \<open>lower\<close>; reading a
  token's header and checking its signature are the JWT library's (\<open>jwt\<close>); the identity
  provider answers as the environment decides (\<open>provider\<close>).
\<close>

section \<open>Settings and claims\<close>

text \<open>The settings that the identity of a request, the key cache and the sign-in page depend on.\<close>

(* src: backend/app/config.py 83-138 Settings *)
record settings =
  st_app_name :: jsstr
  st_app_owner :: jsstr
  st_ai_greeting :: jsstr
  st_ai_request_timeout_seconds :: int
  st_jwks_cache_ttl_seconds :: int
  st_master_admin_usernames :: jsstr
  st_system_teams :: "jsstr list"
  st_sso_enabled :: bool
  st_sso_client_id :: jsstr
  st_sso_audience :: jsstr
  st_sso_groups_claim :: jsstr
  st_sso_group_map :: "(jsstr \<times> jsstr) list"
  st_sso_public_issuer_url :: jsstr
  st_sso_client_secret :: jsstr

text \<open>The claims of a token: a JSON object.  The standard claims read here are strings where they
  are present.\<close>

type_synonym claims = "(jsstr \<times> json) list"

definition claim :: "string \<Rightarrow> claims \<Rightarrow> jsstr option" where
  "claim k c = (case map_of c (js k) of Some (JStr s) \<Rightarrow> Some s | _ \<Rightarrow> None)"

text \<open>Python's \<^verbatim>\<open>or\<close> over texts that may be absent.\<close>

definition py_or :: "jsstr option \<Rightarrow> jsstr \<Rightarrow> jsstr" where
  "py_or a b = (case truthy a of Some s \<Rightarrow> s | None \<Rightarrow> b)"

(* src: backend/app/config.py 146-151 is_master_admin *)
definition is_master_admin :: "(jsstr \<Rightarrow> jsstr) \<Rightarrow> settings \<Rightarrow> jsstr \<Rightarrow> bool" where
  "is_master_admin lower st name =
     (if name = [] then False
      else lower name \<in> (\<lambda>m. lower (strip m)) `
             set (filter (\<lambda>m. strip m \<noteq> []) (split_on 44 (st_master_admin_usernames st))))"

(* src: backend/app/config.py 154-161 team_is_allowed *)
definition team_is_allowed :: "(jsstr \<Rightarrow> jsstr) \<Rightarrow> settings \<Rightarrow> jsstr \<Rightarrow> bool" where
  "team_is_allowed lower st t =
     (if t = [] then False
      else if st_system_teams st = [] \<or> js ''*'' \<in> set (st_system_teams st) then True
      else lower (strip t) \<in> (\<lambda>s. lower (strip s)) ` set (st_system_teams st))"

text \<open>Python's truth of a JSON value.\<close>

fun json_true :: "json \<Rightarrow> bool" where
  "json_true JNull = False"
| "json_true (JBool b) = b"
| "json_true (JNum q) = (q \<noteq> 0)"
| "json_true (JStr s) = (s \<noteq> [])"
| "json_true (JArr l) = (l \<noteq> [])"
| "json_true (JObj l) = (l \<noteq> [])"

definition group_name_of :: "settings \<Rightarrow> json \<Rightarrow> jsstr option" where
  "group_name_of st v =
     (case v of
        JStr g \<Rightarrow>
          (let stripped = dropWhile (\<lambda>c. c = 47) g
           in if st_sso_group_map st \<noteq> []
              then (case truthy (map_of (st_sso_group_map st) g) of
                      Some m \<Rightarrow> Some m
                    | None \<Rightarrow> map_of (st_sso_group_map st) stripped)
              else Some stripped)
      | _ \<Rightarrow> None)"

(* src: backend/app/integrations/oidc_client.py 252-289 extract_groups *)
definition extract_groups :: "settings \<Rightarrow> claims \<Rightarrow> jsstr list" where
  "extract_groups st c =
     (let raw = (case map_of c (st_sso_groups_claim st) of
                   None \<Rightarrow> []
                 | Some (JArr l) \<Rightarrow> l
                 | Some v \<Rightarrow> if json_true v then [v] else [])
      in List.map_filter (group_name_of st) raw)"

section \<open>The user of a token\<close>

(* src: backend/app/auth.py 39-57 AuthUser *)
record auth_user =
  au_username :: jsstr
  au_email :: jsstr
  au_role :: jsstr
  au_teams :: "jsstr list"
  au_full_name :: jsstr

(* src: backend/app/auth.py 61-61 _DEFAULT_ADMIN *)
definition DEFAULT_ADMIN :: auth_user where
  "DEFAULT_ADMIN = \<lparr>au_username = js ''admin'', au_email = js ''admin@local'', au_role = js ''admin'',
     au_teams = [], au_full_name = js ''Admin''\<rparr>"

text \<open>The loop that keeps the permitted groups, each once up to case: the state is what was seen
  and what was kept.\<close>

(* src: backend/app/auth.py 80-83 _user_from_claims *)
definition keep_team ::
  "(jsstr \<Rightarrow> jsstr) \<Rightarrow> settings \<Rightarrow> jsstr \<Rightarrow> jsstr set \<times> jsstr list \<Rightarrow> jsstr set \<times> jsstr list" where
  "keep_team lower st g s =
     (case s of (seen, kept) \<Rightarrow>
        if team_is_allowed lower st g \<and> lower g \<notin> seen then (insert (lower g) seen, kept @ [g])
        else (seen, kept))"

(* src: backend/app/auth.py 64-84 _user_from_claims *)
definition user_from_claims :: "(jsstr \<Rightarrow> jsstr) \<Rightarrow> settings \<Rightarrow> claims \<Rightarrow> auth_user" where
  "user_from_claims lower st c =
     (let name = py_or (claim ''preferred_username'' c) (py_or (claim ''name'' c)
            (py_or (claim ''email'' c) (py_or (claim ''sub'' c) [])));
          given = py_or (claim ''given_name'' c) [];
          family = py_or (claim ''family_name'' c) []
      in \<lparr>au_username = name,
          au_email = (case claim ''email'' c of Some e \<Rightarrow> e | None \<Rightarrow> []),
          au_role = (if is_master_admin lower st name then js ''admin'' else js ''member''),
          au_teams = snd (fold (keep_team lower st) (extract_groups st c) ({}, [])),
          au_full_name = py_or (claim ''name'' c) (py_or (Some (strip (given @ [32] @ family))) name)\<rparr>)"

(* src: backend/app/schemas/auth.py 38-47 user_to_response *)
definition user_to_response :: "(jsstr \<Rightarrow> jsstr) \<Rightarrow> settings \<Rightarrow> auth_user \<Rightarrow> user_info" where
  "user_to_response lower st u =
     \<lparr>username = au_username u, full_name = Some (au_full_name u), email = au_email u, role = au_role u,
      is_master = is_master_admin lower st (au_username u), teams = au_teams u\<rparr>"

(* src: backend/app/auth.py 132-143 require_role *)
definition require_role :: "jsstr list \<Rightarrow> auth_user \<Rightarrow> nat option" where
  "require_role roles u = (if au_role u \<notin> set roles then Some 403 else None)"

(* src: backend/app/routers/auth.py 12-29 get_auth_config *)
definition get_auth_config :: "settings \<Rightarrow> auth_config" where
  "get_auth_config st =
     \<lparr>sso_enabled = st_sso_enabled st, issuer_url = st_sso_public_issuer_url st,
      client_id = st_sso_client_id st, client_secret = Some (st_sso_client_secret st),
      audience = st_sso_audience st, ai_greeting = Some (st_ai_greeting st),
      app_name = Some (st_app_name st), app_owner = Some (st_app_owner st),
      ai_request_timeout_seconds = Some (st_ai_request_timeout_seconds st)\<rparr>"

lemma keep_team_cases:
  "keep_team lower st g (seen, kept) =
     (if team_is_allowed lower st g \<and> lower g \<notin> seen then (insert (lower g) seen, kept @ [g]) else (seen, kept))"
  by (simp add: keep_team_def)

lemma keep_teams:
  assumes "fold (keep_team lower st) gs (seen, kept) = (seen', kept')"
    and "seen = lower ` set kept" and "distinct (map lower kept)"
  shows "distinct (map lower kept') \<and>
    lower ` set kept' = lower ` set kept \<union> lower ` {g \<in> set gs. team_is_allowed lower st g} \<and>
    set kept' \<subseteq> set kept \<union> {g \<in> set gs. team_is_allowed lower st g}"
  using assms
proof (induction gs arbitrary: seen kept)
  case (Cons g gs)
  show ?case
  proof (cases "team_is_allowed lower st g \<and> lower g \<notin> seen")
    case True
    have "fold (keep_team lower st) gs (insert (lower g) seen, kept @ [g]) = (seen', kept')"
      using Cons.prems(1) True by (simp add: keep_team_cases)
    then show ?thesis
      using Cons.IH [of "insert (lower g) seen" "kept @ [g]"] Cons.prems(2,3) True by auto
  next
    case False
    then have "fold (keep_team lower st) gs (seen, kept) = (seen', kept')"
      using Cons.prems(1) by (simp only: fold_simps keep_team_cases if_False)
    then show ?thesis
      using Cons.IH [of seen kept] Cons.prems(2,3) False by auto
  qed
qed auto

lemma session_teams:
  "distinct (map lower (au_teams (user_from_claims lower st c)))"
  "lower ` set (au_teams (user_from_claims lower st c)) =
     lower ` {g \<in> set (extract_groups st c). team_is_allowed lower st g}"
  "set (au_teams (user_from_claims lower st c)) \<subseteq>
     {g \<in> set (extract_groups st c). team_is_allowed lower st g}"
proof -
  obtain seen kept where run: "fold (keep_team lower st) (extract_groups st c) ({}, []) = (seen, kept)"
    by (rule prod.exhaust)
  have teams: "au_teams (user_from_claims lower st c) = kept"
    by (simp add: user_from_claims_def Let_def run)
  note kept = keep_teams [OF run, simplified]
  from kept show "distinct (map lower (au_teams (user_from_claims lower st c)))"
    "lower ` set (au_teams (user_from_claims lower st c)) =
       lower ` {g \<in> set (extract_groups st c). team_is_allowed lower st g}"
    "set (au_teams (user_from_claims lower st c)) \<subseteq>
       {g \<in> set (extract_groups st c). team_is_allowed lower st g}"
    by (simp_all only: teams)
qed

lemma session_role:
  "au_role (user_from_claims lower st c) =
     (if is_master_admin lower st (au_username (user_from_claims lower st c)) then js ''admin'' else js ''member'')"
  by (simp add: user_from_claims_def Let_def)

section \<open>The signing keys\<close>

text \<open>
  The identity provider: what it answers when it is asked at a time, and how long the answer takes.
  \<open>D_silent\<close> and \<open>K_silent\<close> are the failures the client catches (no connection, an error status,
  a key without an identifier), \<open>D_garbled\<close> and \<open>K_garbled\<close> a body that is not JSON, whose
  exception it does not catch.  Times are in milliseconds.  The address a document is fetched from
  only selects the server that answers, so its rewriting to the internal host has no counterpart.
\<close>

datatype discovery = D_silent | D_garbled | D_document "jsstr option"
datatype 'k key_reply = K_silent | K_garbled | K_keys "(jsstr \<times> 'k) list"

record 'k provider =
  pv_discovery :: "int \<Rightarrow> discovery"
  pv_keys :: "int \<Rightarrow> 'k key_reply"
  pv_delay :: "int \<Rightarrow> nat"

text \<open>The JWT library: the key identifier in a token's header (\<open>None\<close>: no header can be read;
  an absent identifier is the empty text), and the claims of a token that a key signed and that has
  not expired.\<close>

record 'k jwt =
  jwt_kid :: "jsstr \<Rightarrow> jsstr option"
  jwt_decode :: "jsstr \<Rightarrow> 'k \<Rightarrow> int \<Rightarrow> claims option"

(* src: backend/app/integrations/oidc_client.py 58-64 __init__ *)
record 'k oidc_client =
  oc_jwks :: "(jsstr \<times> 'k) list"
  oc_jwks_fetched_at :: int
  oc_last_on_demand_refresh_at :: int
  oc_jwks_uri :: "jsstr option"
  oc_client :: bool
  oc_initialized :: bool

text \<open>The client, the clock it reads, and a record of when it asked for the keys and when it did so
  for the sake of an unknown key.\<close>

record 'k world =
  w_oidc :: "'k oidc_client"
  w_clock :: int
  w_fetches :: "int list"
  w_on_demand :: "int list"

definition new_world :: "int \<Rightarrow> 'k world" where
  "new_world t = \<lparr>w_oidc = \<lparr>oc_jwks = [], oc_jwks_fetched_at = 0, oc_last_on_demand_refresh_at = 0,
     oc_jwks_uri = None, oc_client = False, oc_initialized = False\<rparr>,
     w_clock = t, w_fetches = [], w_on_demand = []\<rparr>"

text \<open>The operations return whether they ended without an exception.\<close>

(* src: backend/app/integrations/oidc_client.py 154-163 _refresh_jwks *)
definition fetch_keys :: "'k provider \<Rightarrow> 'k world \<Rightarrow> bool \<times> 'k world" where
  "fetch_keys pv w =
     (let t = w_clock w;
          w1 = w\<lparr>w_clock := t + int (pv_delay pv t), w_fetches := w_fetches w @ [t]\<rparr>
      in case pv_keys pv t of
           K_keys ks \<Rightarrow>
             (True, w1\<lparr>w_oidc := (w_oidc w1)\<lparr>oc_jwks := ks, oc_jwks_fetched_at := w_clock w1\<rparr>\<rparr>)
         | K_silent \<Rightarrow> (True, w1)
         | K_garbled \<Rightarrow> (False, w1))"

definition discover :: "'k provider \<Rightarrow> 'k world \<Rightarrow> discovery \<times> 'k world" where
  "discover pv w = (pv_discovery pv (w_clock w), w\<lparr>w_clock := w_clock w + int (pv_delay pv (w_clock w))\<rparr>)"

definition set_oidc :: "('k oidc_client \<Rightarrow> 'k oidc_client) \<Rightarrow> 'k world \<Rightarrow> 'k world" where
  "set_oidc f w = w\<lparr>w_oidc := f (w_oidc w)\<rparr>"

(* src: backend/app/integrations/oidc_client.py 117-144 _refresh_jwks *)
definition refresh_jwks :: "'k provider \<Rightarrow> 'k world \<Rightarrow> bool \<times> 'k world" where
  "refresh_jwks pv w =
     (if \<not> oc_client (w_oidc w) then (True, w)
      else
        (case oc_jwks_uri (w_oidc w) of
           Some u \<Rightarrow> fetch_keys pv w
         | None \<Rightarrow>
             (case discover pv w of
                (D_silent, w1) \<Rightarrow> (True, w1)
              | (D_garbled, w1) \<Rightarrow> (False, w1)
              | (D_document u, w1) \<Rightarrow>
                  (let w2 = set_oidc (\<lambda>c. c\<lparr>oc_jwks_uri := truthy u\<rparr>) w1
                   in if truthy u = None then (True, w2) else fetch_keys pv w2))))"

(* src: backend/app/integrations/oidc_client.py 70-106 initialize *)
definition initialize :: "settings \<Rightarrow> 'k provider \<Rightarrow> 'k world \<Rightarrow> bool \<times> 'k world" where
  "initialize st pv w =
     (if \<not> st_sso_enabled st then (True, w)
      else
        (case discover pv (set_oidc (\<lambda>c. c\<lparr>oc_client := True\<rparr>) w) of
           (D_silent, w1) \<Rightarrow> (True, w1)
         | (D_garbled, w1) \<Rightarrow> (False, w1)
         | (D_document u, w1) \<Rightarrow>
             (case refresh_jwks pv (set_oidc (\<lambda>c. c\<lparr>oc_jwks_uri := truthy u\<rparr>) w1) of
                (False, w2) \<Rightarrow> (False, w2)
              | (True, w2) \<Rightarrow> (True, set_oidc (\<lambda>c. c\<lparr>oc_initialized := True\<rparr>) w2))))"

(* src: backend/app/integrations/oidc_client.py 165-167 _is_jwks_stale *)
definition is_jwks_stale :: "settings \<Rightarrow> 'k world \<Rightarrow> bool" where
  "is_jwks_stale st w \<longleftrightarrow> w_clock w - oc_jwks_fetched_at (w_oidc w) > 1000 * st_jwks_cache_ttl_seconds st"

(* src: backend/app/integrations/oidc_client.py 234-246 _get_signing_key *)
definition get_signing_key :: "jsstr \<Rightarrow> 'k world \<Rightarrow> 'k option" where
  "get_signing_key kid w = map_of (rev (oc_jwks (w_oidc w))) kid"

(* src: backend/app/integrations/oidc_client.py 28-28 _ON_DEMAND_REFRESH_COOLDOWN *)
definition ON_DEMAND_REFRESH_COOLDOWN :: int where
  "ON_DEMAND_REFRESH_COOLDOWN = 30000"

text \<open>The search for a token's key, up to and from the point where it waits for a refresh.\<close>

datatype 'k search = Cached 'k | Refresh_first int | Unknown_key

(* src: backend/app/integrations/oidc_client.py 214-218 validate_token *)
definition before_refresh :: "jsstr \<Rightarrow> 'k world \<Rightarrow> 'k search" where
  "before_refresh kid w =
     (case get_signing_key kid w of
        Some k \<Rightarrow> Cached k
      | None \<Rightarrow>
          (let now = w_clock w
           in if now - oc_last_on_demand_refresh_at (w_oidc w) \<ge> ON_DEMAND_REFRESH_COOLDOWN
              then Refresh_first now else Unknown_key))"

definition ask_on_demand :: "int \<Rightarrow> 'k world \<Rightarrow> 'k world" where
  "ask_on_demand now w = w\<lparr>w_on_demand := w_on_demand w @ [now]\<rparr>"

(* src: backend/app/integrations/oidc_client.py 220-220 validate_token *)
definition after_refresh :: "int \<Rightarrow> 'k world \<Rightarrow> 'k world" where
  "after_refresh now = set_oidc (\<lambda>c. c\<lparr>oc_last_on_demand_refresh_at := now\<rparr>)"

(* src: backend/app/integrations/oidc_client.py 219-220 validate_token *)
definition on_demand :: "'k provider \<Rightarrow> int \<Rightarrow> 'k world \<Rightarrow> bool \<times> 'k world" where
  "on_demand pv now w =
     (case refresh_jwks pv (ask_on_demand now w) of
        (False, w1) \<Rightarrow> (False, w1)
      | (True, w1) \<Rightarrow> (True, after_refresh now w1))"

(* src: backend/app/integrations/oidc_client.py 211-232 validate_token *)
definition check_signature :: "'k provider \<Rightarrow> 'k jwt \<Rightarrow> jsstr \<Rightarrow> 'k world \<Rightarrow> claims option \<times> 'k world" where
  "check_signature pv jw tok w =
     (case jwt_kid jw tok of
        None \<Rightarrow> (None, w)
      | Some kid \<Rightarrow>
          (case before_refresh kid w of
             Cached k \<Rightarrow> (jwt_decode jw tok k (w_clock w), w)
           | Unknown_key \<Rightarrow> (None, w)
           | Refresh_first now \<Rightarrow>
               (case on_demand pv now w of
                  (False, w1) \<Rightarrow> (None, w1)
                | (True, w1) \<Rightarrow>
                    (case get_signing_key kid w1 of
                       None \<Rightarrow> (None, w1)
                     | Some k \<Rightarrow> (jwt_decode jw tok k (w_clock w1), w1)))))"

(* src: backend/app/integrations/oidc_client.py 173-232 validate_token *)
definition validate_token ::
  "settings \<Rightarrow> 'k provider \<Rightarrow> 'k jwt \<Rightarrow> jsstr \<Rightarrow> 'k world \<Rightarrow> claims option \<times> 'k world" where
  "validate_token st pv jw tok w =
     (case (if oc_initialized (w_oidc w) then (True, w) else initialize st pv w) of
        (ok, w1) \<Rightarrow>
          if \<not> ok \<or> \<not> oc_initialized (w_oidc w1) then (None, w1)
          else
            (case (if is_jwks_stale st w1 then refresh_jwks pv w1 else (True, w1)) of
               (False, w2) \<Rightarrow> (None, w2)
             | (True, w2) \<Rightarrow> check_signature pv jw tok w2))"

(* src: backend/app/auth.py 92-109 get_current_user *)
definition get_current_user ::
  "(jsstr \<Rightarrow> jsstr) \<Rightarrow> settings \<Rightarrow> 'k provider \<Rightarrow> 'k jwt \<Rightarrow> jsstr option \<Rightarrow> 'k world
     \<Rightarrow> (nat + auth_user) \<times> 'k world" where
  "get_current_user lower st pv jw credentials w =
     (if \<not> st_sso_enabled st then (Inr DEFAULT_ADMIN, w)
      else
        (case credentials of
           None \<Rightarrow> (Inl 401, w)
         | Some tok \<Rightarrow>
             (case validate_token st pv jw tok w of
                (None, w1) \<Rightarrow> (Inl 401, w1)
              | (Some c, w1) \<Rightarrow> (Inr (user_from_claims lower st c), w1))))"

(* src: backend/app/auth.py 112-124 get_current_user_optional *)
definition get_current_user_optional ::
  "(jsstr \<Rightarrow> jsstr) \<Rightarrow> settings \<Rightarrow> 'k provider \<Rightarrow> 'k jwt \<Rightarrow> jsstr option \<Rightarrow> 'k world
     \<Rightarrow> auth_user option \<times> 'k world" where
  "get_current_user_optional lower st pv jw credentials w =
     (if \<not> st_sso_enabled st then (Some DEFAULT_ADMIN, w)
      else if credentials = None then (None, w)
      else
        (case get_current_user lower st pv jw credentials w of
           (Inl _, w1) \<Rightarrow> (None, w1)
         | (Inr u, w1) \<Rightarrow> (Some u, w1)))"

(* src: backend/app/routers/auth.py 32-35 get_me *)
definition get_me ::
  "(jsstr \<Rightarrow> jsstr) \<Rightarrow> settings \<Rightarrow> 'k provider \<Rightarrow> 'k jwt \<Rightarrow> jsstr option \<Rightarrow> 'k world
     \<Rightarrow> (nat + user_info) \<times> 'k world" where
  "get_me lower st pv jw credentials w =
     (case get_current_user lower st pv jw credentials w of
        (Inl status, w1) \<Rightarrow> (Inl status, w1)
      | (Inr u, w1) \<Rightarrow> (Inr (user_to_response lower st u), w1))"

section \<open>Invariants of the key cache\<close>

text \<open>
  What every request keeps of the client and its clock, from what the single actions keep: waiting,
  fetching the keys, learning their address, being initialised, and a refresh on demand.
\<close>

lemma refresh_client [simp]: "oc_client (w_oidc (snd (refresh_jwks pv w))) = oc_client (w_oidc w)"
  by (auto simp: refresh_jwks_def fetch_keys_def discover_def set_oidc_def Let_def
      split: option.splits discovery.splits key_reply.splits)

locale key_refresh =
  fixes pv :: "'k provider"
    and inv :: "'k world \<Rightarrow> bool"
  assumes inv_wait: "inv w \<Longrightarrow> inv (w\<lparr>w_clock := w_clock w + int d\<rparr>)"
    and inv_fetch: "inv w \<Longrightarrow> inv (snd (fetch_keys pv w))"
    and inv_address: "inv w \<Longrightarrow> inv (set_oidc (\<lambda>c. c\<lparr>oc_jwks_uri := u\<rparr>) w)"
begin

lemma inv_discover: "inv w \<Longrightarrow> inv (snd (discover pv w))"
  by (simp add: discover_def inv_wait)

lemma inv_refresh: "inv w \<Longrightarrow> inv (snd (refresh_jwks pv w))"
  using inv_discover [of w]
  by (cases "discover pv w") (auto simp: refresh_jwks_def Let_def inv_fetch inv_address
      split: option.splits discovery.splits)

end

locale key_cache = key_refresh pv inv
  for pv :: "'k provider" and inv :: "'k world \<Rightarrow> bool" +
  assumes inv_connect: "inv w \<Longrightarrow> inv (set_oidc (\<lambda>c. c\<lparr>oc_client := True\<rparr>) w)"
    and inv_ready: "inv w \<Longrightarrow> oc_client (w_oidc w) \<Longrightarrow> inv (set_oidc (\<lambda>c. c\<lparr>oc_initialized := True\<rparr>) w)"
    and inv_demand: "before_refresh kid w = Refresh_first now \<Longrightarrow> inv w \<Longrightarrow> inv (snd (on_demand pv now w))"
begin

lemma inv_initialize:
  assumes "inv w" shows "inv (snd (initialize st pv w))"
proof -
  let ?w0 = "set_oidc (\<lambda>c. c\<lparr>oc_client := True\<rparr>) w"
  obtain d w1 where d: "discover pv ?w0 = (d, w1)" by (rule prod.exhaust)
  have "inv w1" using inv_discover [OF inv_connect [OF assms]] d by simp
  moreover have "oc_client (w_oidc w1)" using d by (auto simp: discover_def set_oidc_def)
  ultimately have "inv (set_oidc f w1)" "oc_client (w_oidc (set_oidc f w1))"
    if "f = (\<lambda>c. c\<lparr>oc_jwks_uri := u\<rparr>)" for f u
    by (simp_all only: that inv_address) (simp add: set_oidc_def)
  note address = this [OF refl]
  have ready: "inv (set_oidc (\<lambda>c. c\<lparr>oc_initialized := True\<rparr>) w2)"
    if "refresh_jwks pv (set_oidc (\<lambda>c. c\<lparr>oc_jwks_uri := u\<rparr>) w1) = (ok, w2)" for u ok w2
    using inv_ready inv_refresh [OF address(1)] address(2) refresh_client that by (metis snd_conv)
  show ?thesis
    using assms \<open>inv w1\<close> inv_refresh [OF address(1)] ready
    by (auto simp: initialize_def d split: discovery.splits prod.splits bool.splits) (metis snd_conv)
qed

lemma inv_check:
  assumes "inv w" shows "inv (snd (check_signature pv jw tok w))"
proof (cases "jwt_kid jw tok")
  case (Some kid)
  show ?thesis
  proof (cases "before_refresh kid w")
    case (Refresh_first now)
    have "inv (snd (on_demand pv now w))" by (rule inv_demand [OF Refresh_first assms])
    then show ?thesis
      by (auto simp: check_signature_def Some Refresh_first split: prod.splits bool.splits option.splits)
  qed (simp_all add: check_signature_def Some assms)
qed (simp add: check_signature_def assms)

lemma inv_validate:
  assumes "inv w" shows "inv (snd (validate_token st pv jw tok w))"
proof -
  obtain ok w1 where 1: "(if oc_initialized (w_oidc w) then (True, w) else initialize st pv w) = (ok, w1)"
    by (rule prod.exhaust)
  have "inv w1" using 1 assms inv_initialize [OF assms, of st] by (auto split: if_splits)
  obtain ok' w2 where 2: "(if is_jwks_stale st w1 then refresh_jwks pv w1 else (True, w1)) = (ok', w2)"
    by (rule prod.exhaust)
  have "inv w2" using 2 \<open>inv w1\<close> inv_refresh [OF \<open>inv w1\<close>] by (auto split: if_splits)
  then show ?thesis
    using \<open>inv w1\<close> inv_check by (auto simp: validate_token_def 1 2 split: bool.splits)
qed

lemma inv_user: "inv w \<Longrightarrow> inv (snd (get_current_user lower st pv jw cred w))"
  using inv_validate [of w st jw]
  by (auto simp: get_current_user_def split: option.splits prod.splits) (metis snd_conv)+

end

text \<open>The requests of a run: the time until one arrives and the token it carries.\<close>

definition request_step ::
  "(jsstr \<Rightarrow> jsstr) \<Rightarrow> settings \<Rightarrow> 'k provider \<Rightarrow> 'k jwt \<Rightarrow> nat \<times> jsstr option \<Rightarrow> 'k world \<Rightarrow> 'k world" where
  "request_step lower st pv jw e w =
     snd (get_current_user lower st pv jw (snd e) (w\<lparr>w_clock := w_clock w + int (fst e)\<rparr>))"

definition started :: "settings \<Rightarrow> 'k provider \<Rightarrow> int \<Rightarrow> 'k world" where
  "started st pv t = snd (initialize st pv (new_world t))"

context key_cache
begin

lemma inv_request: "inv w \<Longrightarrow> inv (request_step lower st pv jw e w)"
  by (simp add: request_step_def inv_user inv_wait)

lemma inv_requests: "inv (new_world t) \<Longrightarrow> inv (fold (request_step lower st pv jw) es (started st pv t))"
proof -
  assume "inv (new_world t)"
  then have "inv (started st pv t)" unfolding started_def by (rule inv_initialize)
  moreover have "inv w \<Longrightarrow> inv (fold (request_step lower st pv jw) es w)" for w
    by (induction es arbitrary: w) (simp_all add: inv_request)
  ultimately show ?thesis by blast
qed

end

text \<open>The keys in the cache are one answer of the provider, dated when it arrived.\<close>

definition dated :: "'k provider \<Rightarrow> 'k world \<Rightarrow> bool" where
  "dated pv w \<longleftrightarrow> (oc_initialized (w_oidc w) \<longrightarrow> oc_client (w_oidc w)) \<and>
     (oc_jwks (w_oidc w) = [] \<or>
      (\<exists>t \<in> set (w_fetches w). pv_keys pv t = K_keys (oc_jwks (w_oidc w)) \<and>
         oc_jwks_fetched_at (w_oidc w) = t + int (pv_delay pv t)))"

lemma dated_frame:
  assumes "dated pv w" and "oc_jwks (w_oidc v) = oc_jwks (w_oidc w)"
    and "oc_jwks_fetched_at (w_oidc v) = oc_jwks_fetched_at (w_oidc w)"
    and "w_fetches v = w_fetches w" and "oc_initialized (w_oidc v) \<longrightarrow> oc_client (w_oidc v)"
  shows "dated pv v"
  using assms unfolding dated_def by auto

interpretation dated_refresh: key_refresh pv "dated pv" for pv
proof unfold_locales
  show "dated pv (snd (fetch_keys pv w))" if "dated pv w" for w
    using that by (auto simp: dated_def fetch_keys_def Let_def split: key_reply.split)
qed (auto simp: set_oidc_def dated_def)

lemma dated_demand:
  assumes "dated pv w" shows "dated pv (snd (on_demand pv now w))"
proof -
  have "dated pv (ask_on_demand now w)"
    using assms by (simp add: ask_on_demand_def dated_def)
  moreover obtain ok w1 where r: "refresh_jwks pv (ask_on_demand now w) = (ok, w1)" by (rule prod.exhaust)
  ultimately have "dated pv w1"
    using dated_refresh.inv_refresh [of pv "ask_on_demand now w"] by simp
  then show ?thesis
    by (cases ok) (simp_all add: on_demand_def r after_refresh_def set_oidc_def dated_def)
qed

interpretation dated: key_cache pv "dated pv" for pv
  by unfold_locales (auto simp: dated_demand, auto simp: dated_def set_oidc_def)

lemma dated_new: "dated pv (new_world t)"
  by (simp add: dated_def new_world_def)

text \<open>The refreshes for unknown keys lie a cooldown apart, the last one as the client remembers it.\<close>

definition spaced :: "'k world \<Rightarrow> bool" where
  "spaced w \<longleftrightarrow> sorted_wrt (\<lambda>a b. a + ON_DEMAND_REFRESH_COOLDOWN \<le> b) (w_on_demand w) \<and>
     (w_on_demand w = [] \<or> last (w_on_demand w) = oc_last_on_demand_refresh_at (w_oidc w))"

definition readable :: "'k provider \<Rightarrow> bool" where
  "readable pv \<longleftrightarrow> (\<forall>t. pv_discovery pv t \<noteq> D_garbled \<and> pv_keys pv t \<noteq> K_garbled)"

interpretation demand_frame: key_refresh pv
    "\<lambda>w. w_on_demand w = l \<and> oc_last_on_demand_refresh_at (w_oidc w) = x" for pv l x
  by unfold_locales (auto simp: fetch_keys_def set_oidc_def Let_def split: key_reply.split)

interpretation spaced_refresh: key_refresh pv spaced for pv
  by unfold_locales (auto simp: fetch_keys_def set_oidc_def Let_def spaced_def split: key_reply.split)

lemma readable_refresh: "readable pv \<Longrightarrow> fst (refresh_jwks pv w)"
  by (auto simp: readable_def refresh_jwks_def fetch_keys_def discover_def Let_def
      split: option.splits discovery.splits key_reply.splits)

lemma cooldown_chain:
  assumes "sorted_wrt (\<lambda>a b. a + (c::int) \<le> b) xs" and "xs = [] \<or> last xs + c \<le> y" and "0 \<le> c"
  shows "sorted_wrt (\<lambda>a b. a + c \<le> b) (xs @ [y])"
proof -
  have "x + c \<le> y" if "x \<in> set xs" for x
  proof -
    have "x \<le> last xs"
      using assms(1,3) that by (induction xs) (force dest: last_in_set split: if_splits)+
    then show ?thesis using assms(2) that by auto
  qed
  with assms(1) show ?thesis by (simp add: sorted_wrt_append)
qed

lemma spaced_demand:
  assumes "readable pv" and "before_refresh kid w = Refresh_first now" and "spaced w"
  shows "spaced (snd (on_demand pv now w))"
proof -
  obtain ok w1 where r: "refresh_jwks pv (ask_on_demand now w) = (ok, w1)" by (rule prod.exhaust)
  have ok using readable_refresh [OF assms(1)] r by (metis fst_conv)
  have log: "w_on_demand w1 = w_on_demand w @ [now]"
    using demand_frame.inv_refresh [of "ask_on_demand now w" "w_on_demand w @ [now]" _ pv] r
    by (auto simp: ask_on_demand_def)
  have "now - oc_last_on_demand_refresh_at (w_oidc w) \<ge> ON_DEMAND_REFRESH_COOLDOWN"
    using assms(2) by (auto simp: before_refresh_def Let_def split: option.splits if_splits)
  then have "sorted_wrt (\<lambda>a b. a + ON_DEMAND_REFRESH_COOLDOWN \<le> b) (w_on_demand w @ [now])"
    using assms(3) by (intro cooldown_chain) (auto simp: spaced_def ON_DEMAND_REFRESH_COOLDOWN_def)
  then show ?thesis
    using \<open>ok\<close> by (simp add: on_demand_def r after_refresh_def set_oidc_def spaced_def log)
qed

interpretation spaced: key_cache pv "\<lambda>w. readable pv \<longrightarrow> spaced w" for pv
proof unfold_locales
  show "readable pv \<longrightarrow> spaced (snd (on_demand pv now w))"
    if "before_refresh kid w = Refresh_first now" "readable pv \<longrightarrow> spaced w" for kid now w
    using that spaced_demand by blast
  show "readable pv \<longrightarrow> spaced (snd (fetch_keys pv w))" if "readable pv \<longrightarrow> spaced w" for w
    using that spaced_refresh.inv_fetch by blast
qed (simp_all add: spaced_def set_oidc_def)

lemma spaced_new: "spaced (new_world t)"
  by (simp add: spaced_def new_world_def)

section \<open>Which tokens are accepted\<close>

lemma check_accepts:
  assumes "check_signature pv jw tok w = (Some c, w')"
  shows "\<exists>kid k. jwt_kid jw tok = Some kid \<and> get_signing_key kid w' = Some k \<and>
    jwt_decode jw tok k (w_clock w') = Some c"
proof (cases "jwt_kid jw tok")
  case (Some kid)
  show ?thesis
  proof (cases "before_refresh kid w")
    case (Cached k)
    then have "get_signing_key kid w = Some k"
      by (auto simp: before_refresh_def Let_def split: option.splits if_splits)
    then show ?thesis using assms by (auto simp: check_signature_def Some Cached)
  next
    case (Refresh_first now)
    then show ?thesis
      using assms by (auto simp: check_signature_def Some split: prod.splits bool.splits option.splits)
  qed (use assms in \<open>simp add: check_signature_def Some\<close>)
qed (use assms in \<open>simp add: check_signature_def\<close>)

lemma validate_accepts:
  assumes "validate_token st pv jw tok w = (Some c, w')"
  shows "\<exists>w2. check_signature pv jw tok w2 = (Some c, w')"
  using assms by (auto simp: validate_token_def split: prod.splits if_splits bool.splits)

lemma user_accepted:
  assumes "get_current_user lower st pv jw cred w = (Inr u, w')" and "st_sso_enabled st"
  shows "\<exists>tok c. cred = Some tok \<and> validate_token st pv jw tok w = (Some c, w') \<and> u = user_from_claims lower st c"
  using assms by (auto simp: get_current_user_def split: option.splits prod.splits)

lemma dated_key:
  assumes "dated pv w" and "get_signing_key kid w = Some k"
  shows "\<exists>t ks. t \<in> set (w_fetches w) \<and> pv_keys pv t = K_keys ks \<and> map_of (rev ks) kid = Some k"
  using assms by (auto simp: dated_def get_signing_key_def)

text \<open>
  C20: after any requests, a request speaks for a user under single sign-on only if it carries a token
  whose key identifier the identity provider listed in an answer to one of the service's own fetches,
  and whose claims that listed key signed; the user is the one of these claims.
\<close>

theorem accepted_tokens_are_signed:
  assumes "st_sso_enabled st"
    and "get_current_user lower st pv jw cred (fold (request_step lower st pv jw) es (started st pv t0)) = (Inr u, w)"
  shows "\<exists>tok kid k t ks c. cred = Some tok \<and> jwt_kid jw tok = Some kid \<and> t \<in> set (w_fetches w) \<and>
    pv_keys pv t = K_keys ks \<and> map_of (rev ks) kid = Some k \<and>
    jwt_decode jw tok k (w_clock w) = Some c \<and> u = user_from_claims lower st c"
proof -
  have "dated pv w"
    using dated.inv_user [OF dated.inv_requests [OF dated_new, of pv lower st jw es t0], of lower st jw cred] assms(2)
    by simp
  obtain tok c where cred: "cred = Some tok" "u = user_from_claims lower st c"
    and valid: "validate_token st pv jw tok (fold (request_step lower st pv jw) es (started st pv t0)) = (Some c, w)"
    using user_accepted [OF assms(2,1)] by blast
  obtain w2 where "check_signature pv jw tok w2 = (Some c, w)"
    using validate_accepts [OF valid] by blast
  then obtain kid k where key: "jwt_kid jw tok = Some kid" "get_signing_key kid w = Some k"
    "jwt_decode jw tok k (w_clock w) = Some c"
    using check_accepts by blast
  obtain t ks where "t \<in> set (w_fetches w)" "pv_keys pv t = K_keys ks" "map_of (rev ks) kid = Some k"
    using dated_key [OF \<open>dated pv w\<close> key(2)] by blast
  with cred key(1,3) show ?thesis by (intro exI conjI)
qed

text \<open>A provider that is up: it has a document that names the keys' address, and lists keys.\<close>

definition answering :: "'k provider \<Rightarrow> bool" where
  "answering pv \<longleftrightarrow> (\<forall>t. (\<exists>u. pv_discovery pv t = D_document (Some u) \<and> u \<noteq> []) \<and> (\<exists>ks. pv_keys pv t = K_keys ks))"

lemma fetch_answering:
  assumes "answering pv"
  shows "\<exists>w' ks. fetch_keys pv w = (True, w') \<and> pv_keys pv (w_clock w) = K_keys ks \<and> oc_jwks (w_oidc w') = ks \<and>
    w_clock w \<le> w_clock w'"
proof -
  obtain ks where "pv_keys pv (w_clock w) = K_keys ks" using assms unfolding answering_def by blast
  then show ?thesis by (simp add: fetch_keys_def Let_def)
qed

lemma refresh_answering:
  assumes "answering pv" and "oc_client (w_oidc w)"
  shows "\<exists>w' t ks. refresh_jwks pv w = (True, w') \<and> w_clock w \<le> t \<and> t \<le> w_clock w' \<and>
    pv_keys pv t = K_keys ks \<and> oc_jwks (w_oidc w') = ks"
proof (cases "oc_jwks_uri (w_oidc w)")
  case None
  obtain u where u: "pv_discovery pv (w_clock w) = D_document (Some u)" "u \<noteq> []"
    using assms(1) unfolding answering_def by blast
  let ?v = "set_oidc (\<lambda>c. c\<lparr>oc_jwks_uri := truthy (Some u)\<rparr>) (snd (discover pv w))"
  have "refresh_jwks pv w = fetch_keys pv ?v"
    using assms(2) None u by (simp add: refresh_jwks_def discover_def)
  moreover have "w_clock w \<le> w_clock ?v" by (simp add: set_oidc_def discover_def)
  ultimately show ?thesis using fetch_answering [OF assms(1), of ?v] by auto
next
  case (Some u)
  then show ?thesis
    using fetch_answering [OF assms(1), of w] assms(2) by (auto simp: refresh_jwks_def)
qed

text \<open>A key that is not in the cache and no longer listed does not come back.\<close>

lemma check_refuses:
  assumes up: "answering pv" and "oc_client (w_oidc w)"
    and gone: "\<And>t ks. w_clock w \<le> t \<Longrightarrow> pv_keys pv t = K_keys ks \<Longrightarrow> kid \<notin> fst ` set ks"
    and "jwt_kid jw tok = Some kid" and "get_signing_key kid w = None"
  shows "fst (check_signature pv jw tok w) = None"
proof (cases "before_refresh kid w")
  case (Refresh_first now)
  have "oc_client (w_oidc (ask_on_demand now w))" "w_clock (ask_on_demand now w) = w_clock w"
    using assms(2) by (simp_all add: ask_on_demand_def)
  then obtain w1 t ks where "refresh_jwks pv (ask_on_demand now w) = (True, w1)" "w_clock w \<le> t"
    "pv_keys pv t = K_keys ks" "oc_jwks (w_oidc w1) = ks"
    using refresh_answering [OF up, of "ask_on_demand now w"] by auto
  moreover from this have "kid \<notin> fst ` set ks" using gone by blast
  ultimately have "get_signing_key kid (after_refresh now w1) = None"
    by (auto simp: get_signing_key_def after_refresh_def set_oidc_def map_of_eq_None_iff)
  then show ?thesis
    using assms(4) Refresh_first \<open>refresh_jwks pv (ask_on_demand now w) = (True, w1)\<close>
    by (simp add: check_signature_def on_demand_def)
next
  case (Cached k)
  then show ?thesis using assms(5) by (simp add: before_refresh_def Let_def split: if_splits)
qed (use assms(4) in \<open>simp add: check_signature_def\<close>)

interpretation clock_refresh: key_refresh pv "\<lambda>w. T \<le> w_clock w" for pv T
  by unfold_locales (auto simp: fetch_keys_def set_oidc_def Let_def split: key_reply.split)

lemma demand_clock: "T \<le> w_clock w \<Longrightarrow> T \<le> w_clock (snd (on_demand pv now w))"
  using clock_refresh.inv_refresh [of T "ask_on_demand now w" pv]
  by (auto simp: on_demand_def ask_on_demand_def after_refresh_def set_oidc_def split: prod.splits bool.splits)

interpretation clock_from: key_cache pv "\<lambda>w. T \<le> w_clock w" for pv T
  by unfold_locales (simp_all add: demand_clock, simp_all add: set_oidc_def)

text \<open>
  C21: a signing key that the identity provider no longer lists is refused, whatever was requested
  before, once the cache has had time to expire: while the provider answers, no token with its
  identifier is accepted later than the cache's lifetime, plus the time of one answer, after the key
  was withdrawn.
\<close>

theorem withdrawn_key_refused:
  assumes "st_sso_enabled st" and up: "answering pv" and delay: "\<forall>t. int (pv_delay pv t) \<le> D"
    and gone: "\<forall>t ks. T < t \<longrightarrow> pv_keys pv t = K_keys ks \<longrightarrow> kid \<notin> fst ` set ks"
    and kid: "jwt_kid jw tok = Some kid"
    and w: "w = fold (request_step lower st pv jw) es (started st pv t0)"
    and late: "T + D + 1000 * st_jwks_cache_ttl_seconds st < w_clock w" and "0 \<le> st_jwks_cache_ttl_seconds st"
  shows "fst (get_current_user lower st pv jw (Some tok) w) = Inl 401"
proof -
  have D: "0 \<le> D" using delay by (metis of_nat_0_le_iff order_trans)
  have dated: "dated pv w" unfolding w by (rule dated.inv_requests [OF dated_new])
  obtain ok w1 where 1: "(if oc_initialized (w_oidc w) then (True, w) else initialize st pv w) = (ok, w1)"
    by (rule prod.exhaust)
  have "dated pv w1" "w_clock w \<le> w_clock w1"
    using 1 dated dated.inv_initialize [OF dated, of st] clock_from.inv_initialize [OF order_refl, of w st pv]
    by (auto split: if_splits)
  have "fst (validate_token st pv jw tok w) = None"
  proof (cases "ok \<and> oc_initialized (w_oidc w1)")
    case True
    then have client: "oc_client (w_oidc w1)" using \<open>dated pv w1\<close> by (simp add: dated_def)
    obtain w2 where 2: "(if is_jwks_stale st w1 then refresh_jwks pv w1 else (True, w1)) = (True, w2)"
      and none: "get_signing_key kid w2 = None" and clock: "T < w_clock w2"
      and client2: "oc_client (w_oidc w2)"
    proof (cases "is_jwks_stale st w1")
      case True
      obtain w2 t ks where r: "refresh_jwks pv w1 = (True, w2)" "w_clock w1 \<le> t" "t \<le> w_clock w2"
        "pv_keys pv t = K_keys ks" "oc_jwks (w_oidc w2) = ks"
        using refresh_answering [OF up client] by blast
      have "T < t" using r(2) late \<open>w_clock w \<le> w_clock w1\<close> D assms(8) by linarith
      then have "kid \<notin> fst ` set ks" using gone r(4) by blast
      then show ?thesis
        using that [of w2] r True client \<open>T < t\<close> refresh_client [of pv w1]
        by (simp add: get_signing_key_def map_of_eq_None_iff)
    next
      case False
      have "kid \<notin> fst ` set (oc_jwks (w_oidc w1))"
        using \<open>dated pv w1\<close> unfolding dated_def
      proof (elim conjE disjE bexE)
        fix t assume t: "pv_keys pv t = K_keys (oc_jwks (w_oidc w1))"
          "oc_jwks_fetched_at (w_oidc w1) = t + int (pv_delay pv t)"
        have "int (pv_delay pv t) \<le> D" using delay by blast
        then have "T < t"
          using False t(2) late \<open>w_clock w \<le> w_clock w1\<close> unfolding is_jwks_stale_def by linarith
        then show ?thesis using gone t(1) by blast
      qed simp
      moreover have "T < w_clock w1" using late \<open>w_clock w \<le> w_clock w1\<close> D assms(8) by linarith
      ultimately show ?thesis
        using that [of w1] False client by (simp add: get_signing_key_def map_of_eq_None_iff)
    qed
    have "fst (check_signature pv jw tok w2) = None"
    proof (rule check_refuses [OF up client2 _ kid none])
      show "kid \<notin> fst ` set ks" if "w_clock w2 \<le> t" "pv_keys pv t = K_keys ks" for t ks
        using gone that clock by (meson order.strict_trans2)
    qed
    then show ?thesis using True by (simp add: validate_token_def 1 2)
  next
    case False
    then show ?thesis by (auto simp: validate_token_def 1)
  qed
  then show ?thesis
    using assms(1) by (auto simp: get_current_user_def split: prod.splits option.splits)
qed

lemma refresh_keeps_client: "refresh_jwks pv w = (ok, w1) \<Longrightarrow> oc_client (w_oidc w1) = oc_client (w_oidc w)"
  by (metis refresh_client snd_conv)

lemma set_oidc_sel: "w_oidc (set_oidc f w) = f (w_oidc w)"
  by (simp add: set_oidc_def)

lemma initialize_answering:
  assumes "answering pv" and "st_sso_enabled st"
  shows "\<exists>w1. initialize st pv w = (True, w1) \<and> oc_initialized (w_oidc w1) \<and> oc_client (w_oidc w1)"
proof -
  let ?v = "snd (discover pv (set_oidc (\<lambda>c. c\<lparr>oc_client := True\<rparr>) w))"
  obtain u where u: "pv_discovery pv (w_clock w) = D_document (Some u)" "u \<noteq> []"
    using assms(1) unfolding answering_def by blast
  let ?x = "set_oidc (\<lambda>c. c\<lparr>oc_jwks_uri := truthy (Some u)\<rparr>) ?v"
  have client: "oc_client (w_oidc ?x)" by (simp add: set_oidc_def discover_def)
  then obtain w2 where "refresh_jwks pv ?x = (True, w2)"
    using refresh_answering [OF assms(1)] by blast
  moreover have "oc_client (w_oidc w2)"
    using refresh_keeps_client [OF calculation] client by blast
  ultimately show ?thesis
    using assms(2) u by (simp add: initialize_def discover_def set_oidc_def)
qed

lemma initialize_last:
  "oc_last_on_demand_refresh_at (w_oidc (snd (initialize st pv w))) = oc_last_on_demand_refresh_at (w_oidc w)"
proof -
  obtain d w1 where d: "discover pv (set_oidc (\<lambda>c. c\<lparr>oc_client := True\<rparr>) w) = (d, w1)" by (rule prod.exhaust)
  have w1: "oc_last_on_demand_refresh_at (w_oidc w1) = oc_last_on_demand_refresh_at (w_oidc w)"
    using d by (auto simp: discover_def set_oidc_def)
  have "oc_last_on_demand_refresh_at (w_oidc w2) = oc_last_on_demand_refresh_at (w_oidc w)"
    if "refresh_jwks pv (set_oidc (\<lambda>c. c\<lparr>oc_jwks_uri := u\<rparr>) w1) = (ok, w2)" for u ok w2
    using demand_frame.inv_refresh [OF conjI [OF refl refl], of pv "set_oidc (\<lambda>c. c\<lparr>oc_jwks_uri := u\<rparr>) w1"] that w1
    by (simp add: set_oidc_def)
  then show ?thesis
    using w1 by (auto simp: initialize_def d set_oidc_sel split: discovery.splits prod.splits bool.splits)
qed

lemma check_finds:
  assumes up: "answering pv" and "oc_client (w_oidc w)" and "dated pv w"
    and listed: "\<And>t ks. w_clock w \<le> t \<Longrightarrow> pv_keys pv t = K_keys ks \<Longrightarrow> map_of (rev ks) kid = Some k"
    and unique: "\<And>t ks k'. pv_keys pv t = K_keys ks \<Longrightarrow> map_of (rev ks) kid = Some k' \<Longrightarrow> k' = k"
    and "jwt_kid jw tok = Some kid" and signed: "\<And>now. jwt_decode jw tok k now = Some c"
    and cool: "ON_DEMAND_REFRESH_COOLDOWN \<le> w_clock w - oc_last_on_demand_refresh_at (w_oidc w)"
  shows "fst (check_signature pv jw tok w) = Some c"
proof (cases "get_signing_key kid w")
  case None
  let ?v = "ask_on_demand (w_clock w) w"
  have "oc_client (w_oidc ?v)" "w_clock ?v = w_clock w" using assms(2) by (simp_all add: ask_on_demand_def)
  then obtain w1 t ks where r: "refresh_jwks pv ?v = (True, w1)" "w_clock w \<le> t"
    "pv_keys pv t = K_keys ks" "oc_jwks (w_oidc w1) = ks"
    using refresh_answering [OF up, of ?v] by auto
  then have "get_signing_key kid (after_refresh (w_clock w) w1) = Some k"
    using listed by (simp add: get_signing_key_def after_refresh_def set_oidc_def)
  then show ?thesis
    using None cool assms(6) r(1) signed
    by (simp add: check_signature_def before_refresh_def on_demand_def Let_def)
next
  case (Some k')
  then have "k' = k" using dated_key [OF assms(3) Some] unique by blast
  then show ?thesis using Some assms(6) signed by (simp add: check_signature_def before_refresh_def)
qed


section \<open>How often the provider is asked\<close>

text \<open>
  C26: requests that follow one another, with whatever tokens, make the service ask for the keys on
  account of an unknown one at most once in 30 seconds, as long as the provider's answers can be
  read.
\<close>

theorem refreshes_spaced:
  assumes "readable pv"
  shows "sorted_wrt (\<lambda>a b. a + 30000 \<le> b) (w_on_demand (fold (request_step lower st pv jw) es (started st pv t0)))"
proof -
  have "readable pv \<longrightarrow> spaced (fold (request_step lower st pv jw) es (started st pv t0))"
    by (rule spaced.inv_requests) (simp add: spaced_new)
  with assms show ?thesis by (simp add: spaced_def ON_DEMAND_REFRESH_COOLDOWN_def)
qed

text \<open>
  The cooldown is noted when the refresh has ended, and the event loop serves other requests while it
  is awaited: requests that interleave there each ask.  \<open>Arrive\<close> is a request up to the wait, the
  times of the waiting ones are kept in order, \<open>Answered\<close> takes the answer to the first of them.
\<close>

datatype herd_event = Arrive jsstr | Elapse nat | Answered

(* src: backend/app/integrations/oidc_client.py 214-220 validate_token *)
primrec herd_step :: "'k provider \<Rightarrow> herd_event \<Rightarrow> 'k world \<times> int list \<Rightarrow> 'k world \<times> int list" where
  "herd_step pv (Arrive kid) s =
     (case before_refresh kid (fst s) of
        Refresh_first now \<Rightarrow>
          ((ask_on_demand now (fst s))\<lparr>w_fetches := w_fetches (fst s) @ [now]\<rparr>, snd s @ [now])
      | _ \<Rightarrow> s)"
| "herd_step pv (Elapse d) s = ((fst s)\<lparr>w_clock := w_clock (fst s) + int d\<rparr>, snd s)"
| "herd_step pv Answered s =
     (case snd s of
        [] \<Rightarrow> s
      | now # waiting \<Rightarrow>
          ((case pv_keys pv now of
              K_garbled \<Rightarrow> fst s
            | K_silent \<Rightarrow> after_refresh now (fst s)
            | K_keys ks \<Rightarrow> after_refresh now
                (set_oidc (\<lambda>c. c\<lparr>oc_jwks := ks, oc_jwks_fetched_at := w_clock (fst s)\<rparr>) (fst s))), waiting))"

text \<open>A request alone is the sequential refresh.\<close>

lemma herd_alone:
  assumes "before_refresh kid w = Refresh_first now" and "oc_client (w_oidc w)" and "oc_jwks_uri (w_oidc w) = Some u"
  shows "fold (herd_step pv) [Arrive kid, Elapse (pv_delay pv now), Answered] (w, []) =
    (snd (on_demand pv now w), [])"
proof -
  have now: "now = w_clock w"
    using assms(1) by (auto simp: before_refresh_def Let_def split: option.splits if_splits)
  show ?thesis
    using assms
    by (auto simp: on_demand_def refresh_jwks_def fetch_keys_def ask_on_demand_def after_refresh_def set_oidc_def
        Let_def now split: key_reply.split)
qed

lemma concurrent_refreshes:
  assumes "get_signing_key kid w = None"
    and "ON_DEMAND_REFRESH_COOLDOWN \<le> w_clock w - oc_last_on_demand_refresh_at (w_oidc w)"
  shows "w_on_demand (fst (fold (herd_step pv) (replicate n (Arrive kid)) (w, ws))) =
    w_on_demand w @ replicate n (w_clock w)"
  using assms
proof (induction n arbitrary: w ws)
  case (Suc n)
  then have "before_refresh kid w = Refresh_first (w_clock w)"
    by (simp add: before_refresh_def Let_def)
  then show ?case
    using Suc.IH [of "(ask_on_demand (w_clock w) w)\<lparr>w_fetches := w_fetches w @ [w_clock w]\<rparr>" "ws @ [w_clock w]"] Suc.prems
    by (simp add: ask_on_demand_def get_signing_key_def)
qed simp

text \<open>Nor does the cooldown cover the refresh of an expired cache: while the provider is silent,
  every request asks it again.\<close>

lemma stale_refresh_repeats:
  assumes "oc_initialized (w_oidc w)" "oc_client (w_oidc w)" "oc_jwks_uri (w_oidc w) = Some u"
    and "is_jwks_stale st w" and "\<And>t. pv_keys pv t = K_silent" and "jwt_kid jw tok = Some kid"
    and "get_signing_key kid w = Some k"
  shows "w_fetches (snd (validate_token st pv jw tok w)) = w_fetches w @ [w_clock w] \<and>
    is_jwks_stale st (snd (validate_token st pv jw tok w))"
  using assms
  by (auto simp: validate_token_def refresh_jwks_def fetch_keys_def Let_def check_signature_def before_refresh_def
      get_signing_key_def is_jwks_stale_def)

section \<open>What the front end is told\<close>

text \<open>
  C23: whatever a token claims, the user the front end is told about is an administrator exactly when
  the service treats the name as a master administrator, and is a member otherwise, never a viewer,
  whatever roles the token carries; the teams are groups of the token that the settings permit, each
  once up to case, and no permitted group is lost; the front end's check for managing access agrees
  with the service.
\<close>

theorem session_user_shape:
  "let u = user_to_response lower st (user_from_claims lower st c) in
     role u = (if is_master u then js ''admin'' else js ''member'') \<and>
     canManageAccess (Some u) = is_master u \<and>
     distinct (map lower (teams u)) \<and>
     set (teams u) \<subseteq> {g \<in> set (extract_groups st c). team_is_allowed lower st g} \<and>
     lower ` set (teams u) = lower ` {g \<in> set (extract_groups st c). team_is_allowed lower st g}"
  using session_teams [of lower st c] session_role [of lower st c]
  by (auto simp: user_to_response_def Let_def canManageAccess_def isAdmin_def)

lemma session_teams_named: "[] \<notin> set (au_teams (user_from_claims lower st c))"
  using session_teams(3) [of lower st c] by (auto simp: team_is_allowed_def)

text \<open>The mode the front end starts in is the service's.\<close>

lemma bootstrap_follows_service:
  "ssoEnabled (bt_auth (loadConfig False (Inr (get_auth_config st)) b)) = st_sso_enabled st"
  by (auto simp: loadConfig_def get_auth_config_def Let_def sign_in_default_def auth_ops truthy_def)

text \<open>
  Without single sign-on the front end signs its own default user in, a master administrator; the
  service's is one only if the settings name it, and is refused every product that a team owns.
\<close>

lemma default_users_differ:
  assumes "st_master_admin_usernames st = []" and "sp_team p = Some t" "t \<noteq> []"
  shows "require_team_membership lower DEFAULT_USER (Some p) = None"
    and "require_team_membership lower (user_to_response lower st DEFAULT_ADMIN) (Some p) = Some 403"
  using assms
  by (simp_all add: require_team_membership_def DEFAULT_USER_def user_to_response_def DEFAULT_ADMIN_def
      is_master_admin_def strip_def lower_set_def)

section \<open>An example\<close>

text \<open>A provider that replaces its only key 40 seconds after the service has started, and a token
  signed with either.\<close>

definition demo_settings :: settings where
  "demo_settings = \<lparr>st_app_name = [], st_app_owner = [], st_ai_greeting = [], st_ai_request_timeout_seconds = 300,
     st_jwks_cache_ttl_seconds = 60, st_master_admin_usernames = [], st_system_teams = [js ''*''],
     st_sso_enabled = True, st_sso_client_id = [], st_sso_audience = [], st_sso_groups_claim = js ''groups'',
     st_sso_group_map = [], st_sso_public_issuer_url = [], st_sso_client_secret = []\<rparr>"

definition demo_claims :: claims where
  "demo_claims = [(js ''sub'', JStr (js ''ann''))]"

definition demo_provider :: "nat provider" where
  "demo_provider = \<lparr>pv_discovery = (\<lambda>t. D_document (Some (js ''certs''))),
     pv_keys = (\<lambda>t. K_keys (if t < 100000 then [(js ''a'', 1)] else [(js ''b'', 2)])), pv_delay = (\<lambda>t. 5)\<rparr>"

definition demo_jwt :: "nat jwt" where
  "demo_jwt = \<lparr>jwt_kid = (\<lambda>tok. Some tok),
     jwt_decode = (\<lambda>tok k now. if (tok, k) \<in> {(js ''a'', 1), (js ''b'', 2)} then Some demo_claims else None)\<rparr>"

lemmas demo_defs = demo_settings_def demo_provider_def demo_jwt_def started_def initialize_def new_world_def
  discover_def set_oidc_def refresh_jwks_def fetch_keys_def request_step_def get_current_user_def
  validate_token_def is_jwks_stale_def check_signature_def before_refresh_def get_signing_key_def on_demand_def
  ask_on_demand_def after_refresh_def ON_DEMAND_REFRESH_COOLDOWN_def Let_def

abbreviation demo_run :: "(nat \<times> jsstr option) list \<Rightarrow> nat world" where
  "demo_run es \<equiv> fold (request_step (\<lambda>s. s) demo_settings demo_provider demo_jwt) es
     (started demo_settings demo_provider 60000)"

lemma demo_answering: "answering demo_provider" "readable demo_provider"
  by (simp_all add: answering_def readable_def demo_provider_def)

theorem accepted_tokens_are_signed_witness:
  "\<exists>t ks. t \<in> {60005} \<and> pv_keys demo_provider t = K_keys ks \<and> map_of (rev ks) (js ''a'') = Some 1"
proof -
  have "get_current_user (\<lambda>s. s) demo_settings demo_provider demo_jwt (Some (js ''a'')) (demo_run []) =
      (Inr (user_from_claims (\<lambda>s. s) demo_settings demo_claims), started demo_settings demo_provider 60000)"
    by (simp add: demo_defs)
  moreover have "st_sso_enabled demo_settings" by (simp add: demo_settings_def)
  ultimately show ?thesis
    using accepted_tokens_are_signed [of demo_settings "\<lambda>s. s" demo_provider demo_jwt "Some (js ''a'')" "[]" 60000]
    by (fastforce simp: demo_defs split: if_splits)
qed

theorem withdrawn_key_refused_witness:
  "fst (get_current_user (\<lambda>s. s) demo_settings demo_provider demo_jwt (Some (js ''a''))
     (demo_run [(0, Some (js ''a'')), (200000, None)])) = Inl 401"
proof (rule withdrawn_key_refused [OF _ demo_answering(1) _ _ _ refl])
  show "100000 + 5 + 1000 * st_jwks_cache_ttl_seconds demo_settings
      < w_clock (demo_run [(0, Some (js ''a'')), (200000, None)])"
    by (simp add: demo_defs)
qed (simp_all add: demo_settings_def demo_provider_def demo_jwt_def)


theorem refreshes_spaced_witness:
  "w_on_demand (demo_run [(0, Some (js ''x'')), (10, Some (js ''y'')), (30000, Some (js ''z''))]) = [60010, 90025] \<and>
   sorted_wrt (\<lambda>a b. a + 30000 \<le> b)
     (w_on_demand (demo_run [(0, Some (js ''x'')), (10, Some (js ''y'')), (30000, Some (js ''z''))]))"
  by (rule conjI [OF _ refreshes_spaced [OF demo_answering(2)]]) (simp add: demo_defs)

text \<open>
  Group names keep the white space around them, but a chosen team loses it before it is compared: a
  user of two such groups cannot create a product for either.
\<close>

lemma padded_team_refused:
  "au_teams (user_from_claims (\<lambda>s. s) demo_settings
     [(js ''groups'', JArr [JStr (js ''ops ''), JStr (js ''web'')])]) = [js ''ops '', js ''web'']"
  "owning_team (\<lambda>s. s) (user_to_response (\<lambda>s. s) demo_settings
     (user_from_claims (\<lambda>s. s) demo_settings
       [(js ''sub'', JStr (js ''ann'')), (js ''groups'', JArr [JStr (js ''ops ''), JStr (js ''web'')])]))
     (Some (js ''ops '')) = Inl 403"
proof -
  have s: "dropWhile (\<lambda>c. c = 47) (js ''ops '') = js ''ops ''" "dropWhile (\<lambda>c. c = 47) (js ''web'') = js ''web''"
    by (simp_all add: js_def)
  have strip: "strip (js ''ops '') = js ''ops''" by (simp add: strip_def js_def py_space_def)
  note defs = user_from_claims_def extract_groups_def group_name_of_def demo_settings_def List.map_filter_def
    s keep_team_cases team_is_allowed_def claim_def py_or_def is_master_admin_def Let_def
  show "au_teams (user_from_claims (\<lambda>s. s) demo_settings
     [(js ''groups'', JArr [JStr (js ''ops ''), JStr (js ''web'')])]) = [js ''ops '', js ''web'']"
    by (simp add: defs)
  show "owning_team (\<lambda>s. s) (user_to_response (\<lambda>s. s) demo_settings
     (user_from_claims (\<lambda>s. s) demo_settings
       [(js ''sub'', JStr (js ''ann'')), (js ''groups'', JArr [JStr (js ''ops ''), JStr (js ''web'')])]))
     (Some (js ''ops '')) = Inl 403"
    by (simp add: owning_team_def user_to_response_def lower_set_def strip defs)
      (simp add: strip_def py_space_def)
qed

end
