(* ===== verification/Cache_Run.thy ===== *)
theory Cache_Run
  imports History
begin

text \<open>
  One query cache over the service: the product list, a product's detail and its revisions as the
  hooks of \<^verbatim>\<open>frontend/src/hooks\<close> cache them, and the mutations that change the service and make
  cached answers stale, as one run.  A mutation is served at one moment and its callback runs at a
  later one; other users write at any time; a query that is asked again gets the answer of that moment.
\<close>

section \<open>Queries and what the service answers\<close>

datatype cache_query =
    Q_list jsstr "filter_params option" nat
  | Q_detail jsstr
  | Q_revisions jsstr "doc_field option"

datatype answer =
    A_list "list_item response_page"
  | A_detail product_detail
  | A_revisions "revision response_page"

primrec spec_of :: "cache_query \<Rightarrow> query_spec" where
  "spec_of (Q_list s fs n) = useDataProducts s fs n"
| "spec_of (Q_detail i) = usePipelineDetail (Some i)"
| "spec_of (Q_revisions i f) = useRevisions i f True"

text \<open>The database's order and search, and the import snippet of a product, complete the
  surroundings of the service.\<close>

record reading =
  rd_collate :: "jsstr \<Rightarrow> jsstr \<Rightarrow> int"
  rd_matches :: "jsstr \<Rightarrow> server_product \<Rightarrow> bool"
  rd_snippet :: "jsstr \<Rightarrow> jsstr"

text \<open>The service's answer to a query, \<open>None\<close> where it is an error or the query is not enabled.\<close>

definition ask :: "surroundings \<Rightarrow> reading \<Rightarrow> user_info \<Rightarrow> cache_query \<Rightarrow> service \<Rightarrow> answer option" where
  "ask env rd u q st =
     (case qs_request (spec_of q) of
        None \<Rightarrow> None
      | Some r \<Rightarrow>
          (case q of
             Q_list s fs n \<Rightarrow> map_option A_list (list_data_products (rd_collate rd) (rd_matches rd) (sv_rows st) r)
           | Q_detail i \<Rightarrow>
               map_option (\<lambda>p. A_detail (get_product_detail_for_user (se_lower env) (rd_snippet rd) u p))
                 (row_at (rq_path r) [] (sv_rows st))
           | Q_revisions i f \<Rightarrow> map_option A_revisions (list_revisions r st)))"

section \<open>Mutations and what they invalidate\<close>

datatype change =
    Update jsstr pipeline_update
  | Restore jsstr jsstr
  | Save jsstr edit_modal
  | Remove jsstr
  | Create create_form

primrec requests_of :: "change \<Rightarrow> request list" where
  "requests_of (Update i body) = [mu_request (useUpdatePipeline i body)]"
| "requests_of (Restore i r) = [mu_request (useRestoreRevision i r)]"
| "requests_of (Save i m) = save_requests i m"
| "requests_of (Remove i) = [send DELETE (product_path i) None]"
| "requests_of (Create f) = [create_request f]"

(* src: frontend/src/components/data-products/CreateDataProductModal.tsx 42-43 onSuccess *)
definition created_effects :: "create_form \<Rightarrow> effect list" where
  "created_effects f = [Invalidate [JStr (js ''data-products'')],
     Toast_success (js ''Data product \"'' @ cf_name f @ js ''\" created'')]"

primrec effects_of :: "change \<Rightarrow> effect list" where
  "effects_of (Update i body) = mu_success (useUpdatePipeline i body)"
| "effects_of (Restore i r) = mu_success (useRestoreRevision i r)"
| "effects_of (Save i m) = oe_effects (run_save (\<lambda>r. None) i m)"
| "effects_of (Remove i) = oe_effects (run_remove (\<lambda>r. None) i)"
| "effects_of (Create f) = created_effects f"

text \<open>The requests of a mutation are awaited in turn; the first refusal ends it.\<close>

fun serve_requests ::
  "surroundings \<Rightarrow> jsstr \<Rightarrow> user_info \<Rightarrow> request list \<Rightarrow> service \<Rightarrow> bool \<times> service" where
  "serve_requests env now u [] st = (True, st)"
| "serve_requests env now u (r # rs) st =
     (case serve env now u r st of
        (status, st') \<Rightarrow> if status < 400 then serve_requests env now u rs st' else (False, st'))"

text \<open>
  What a mutation may change without making it stale: saving in the edit modal says nothing of the
  revisions, deleting nothing of the product's own queries, and a save whose second request is
  refused nothing at all.
\<close>

fun about :: "jsstr \<Rightarrow> cache_query \<Rightarrow> bool" where
  "about i (Q_list s fs n) = False"
| "about i (Q_detail j) = (j = i)"
| "about i (Q_revisions j f) = (j = i)"

fun is_list :: "cache_query \<Rightarrow> bool" where
  "is_list (Q_list s fs n) = True"
| "is_list _ = False"

fun is_history :: "cache_query \<Rightarrow> bool" where
  "is_history (Q_revisions j f) = True"
| "is_history _ = False"

fun gap :: "change \<Rightarrow> bool \<Rightarrow> cache_query \<Rightarrow> bool" where
  "gap (Save i m) ok q = (if ok then about i q \<and> is_history q else about i q \<or> is_list q)"
| "gap (Remove i) ok q = (ok \<and> about i q)"
| "gap _ ok q = False"

section \<open>The run\<close>

text \<open>An entry remembers whether it was invalidated, and whether a change passed it by: one of the
  gaps above, or another user's.\<close>

record entry =
  ce_answer :: answer
  ce_stale :: bool
  ce_missed :: bool

record cache_world =
  cw_service :: service
  cw_cache :: "cache_query \<Rightarrow> entry option"
  cw_pending :: "(change \<times> bool) list"

datatype cache_event =
    Fetch cache_query
  | Drop cache_query
  | Serve change jsstr
  | Settle nat
  | Other_user jsstr user_info request

definition on_entries :: "(cache_query \<Rightarrow> entry \<Rightarrow> entry) \<Rightarrow> cache_world \<Rightarrow> cache_world" where
  "on_entries f w = w\<lparr>cw_cache := (\<lambda>q. map_option (f q) (cw_cache w q))\<rparr>"

primrec cache_step ::
  "surroundings \<Rightarrow> reading \<Rightarrow> user_info \<Rightarrow> cache_event \<Rightarrow> cache_world \<Rightarrow> cache_world" where
  "cache_step env rd u (Fetch q) w =
     (case ask env rd u q (cw_service w) of
        None \<Rightarrow> w
      | Some a \<Rightarrow> w\<lparr>cw_cache := (cw_cache w)(q \<mapsto> \<lparr>ce_answer = a, ce_stale = False, ce_missed = False\<rparr>)\<rparr>)"
| "cache_step env rd u (Drop q) w = w\<lparr>cw_cache := (cw_cache w)(q := None)\<rparr>"
| "cache_step env rd u (Serve c now) w =
     (case serve_requests env now u (requests_of c) (cw_service w) of
        (ok, st) \<Rightarrow>
          on_entries (\<lambda>q e. if gap c ok q then e\<lparr>ce_missed := True\<rparr> else e)
            (w\<lparr>cw_service := st, cw_pending := cw_pending w @ [(c, ok)]\<rparr>))"
| "cache_step env rd u (Settle k) w =
     (if k < length (cw_pending w)
      then (case cw_pending w ! k of
              (c, ok) \<Rightarrow>
                (on_entries (\<lambda>q e. if ok \<and> invalidated (effects_of c) (qs_key (spec_of q)) then e\<lparr>ce_stale := True\<rparr> else e)
                  (w\<lparr>cw_pending := take k (cw_pending w) @ drop (Suc k) (cw_pending w)\<rparr>)))
      else w)"
| "cache_step env rd u (Other_user now v r) w =
     on_entries (\<lambda>q e. e\<lparr>ce_missed := True\<rparr>) (w\<lparr>cw_service := snd (serve env now v r (cw_service w))\<rparr>)"

definition empty_cache :: "service \<Rightarrow> cache_world" where
  "empty_cache st = \<lparr>cw_service = st, cw_cache = (\<lambda>q. None), cw_pending = []\<rparr>"

text \<open>Identifiers without a slash, as the service makes them.\<close>

fun sane :: "cache_event \<Rightarrow> bool" where
  "sane (Serve (Restore i r) now) = (47 \<notin> set i \<and> 47 \<notin> set r)"
| "sane _ = True"

section \<open>What a request leaves alone\<close>

text \<open>A product, by its identifier, is all that its detail and its history depend on.\<close>

lemma row_at_suffix: "row_at (product_path i @ s) s rows = product_at i rows"
  by (induction rows) (auto simp: row_at_def product_at_def)

lemma ask_detail:
  "ask env rd u (Q_detail i) st =
     (if i = [] then None
      else map_option (\<lambda>p. A_detail (get_product_detail_for_user (se_lower env) (rd_snippet rd) u p)) (product_at i (sv_rows st)))"
  by (simp add: ask_def usePipelineDetail_def fetchPipelineDetail_def get_def product_at_row)

definition history_of :: "jsstr \<Rightarrow> service \<Rightarrow> revision list" where
  "history_of i st = filter (\<lambda>v. rv_product_id v = i) (sv_revs st)"

text \<open>A history is asked of the product's own revisions.\<close>

lemma ask_revisions:
  "\<exists>g. \<forall>st. ask env rd u (Q_revisions i f) st =
     (if product_at i (sv_rows st) = None then None else g (history_of i st))"
proof -
  let ?r = "fetchRevisions i f 0 50"
  let ?field = "map_option (\<lambda>t. if t = field_str Description then Description else Documentation)
                 (param_str (js ''field'') ?r)"
  let ?in_field = "\<lambda>v. case ?field of None \<Rightarrow> True | Some f \<Rightarrow> rv_field_name v = f"
  define g where "g h = (if i = [] then None else Some (A_revisions
      \<lparr>pg_items = take (param_num (js ''limit'') 50 ?r) (drop (param_num (js ''skip'') 0 ?r) (rev (filter ?in_field h))),
       pg_total = length (filter ?in_field h)\<rparr>))" for h
  have path: "rq_path ?r = product_path i @ js ''/revisions''" by (simp add: fetchRevisions_def get_def)
  have "list_revisions ?r st = Some
      \<lparr>pg_items = take (param_num (js ''limit'') 50 ?r) (drop (param_num (js ''skip'') 0 ?r) (rev (filter ?in_field (history_of i st)))),
       pg_total = length (filter ?in_field (history_of i st))\<rparr>" if "product_at i (sv_rows st) = Some p" for st p
    using that product_at_id [OF that]
    by (simp add: list_revisions_def path row_at_suffix list_by_product_def history_of_def filter_filter Let_def
        conj_commute)
  moreover have "list_revisions ?r st = None" if "product_at i (sv_rows st) = None" for st
    using that by (simp add: list_revisions_def path row_at_suffix)
  ultimately have "ask env rd u (Q_revisions i f) st =
      (if product_at i (sv_rows st) = None then None else g (history_of i st))" for st
    by (cases "product_at i (sv_rows st)") (simp_all add: ask_def useRevisions_def g_def)
  then show ?thesis by blast
qed

text \<open>A change touches one product if the others, and their histories, are as before.\<close>

definition touches :: "jsstr \<Rightarrow> service \<Rightarrow> service \<Rightarrow> bool" where
  "touches i st st' \<longleftrightarrow> (\<forall>j. j \<noteq> i \<longrightarrow>
     product_at j (sv_rows st') = product_at j (sv_rows st) \<and> history_of j st' = history_of j st)"

lemma touches_refl [simp]: "touches i st st"
  by (simp add: touches_def)

lemma touches_trans: "touches i st st' \<Longrightarrow> touches i st' st'' \<Longrightarrow> touches i st st''"
  by (simp add: touches_def)

lemma ask_touched:
  assumes "touches i st st'" and "\<not> about i q" and "\<not> is_list q"
  shows "ask env rd u q st' = ask env rd u q st"
proof (cases q)
  case (Q_revisions j f)
  obtain g where "\<And>st. ask env rd u (Q_revisions j f) st =
      (if product_at j (sv_rows st) = None then None else g (history_of j st))"
    using ask_revisions by metis
  then show ?thesis using assms Q_revisions by (auto simp: touches_def)
qed (use assms in \<open>auto simp: ask_detail touches_def\<close>)

lemma touches_update:
  assumes "rq_path r = product_path i"
  shows "touches i st (snd (update_with_history lower ids now u r st))"
proof -
  obtain status rows where u: "update_data_product lower now u r (sv_rows st) = (status, rows)" by fastforce
  show ?thesis
  proof (cases "status = 200")
    case True
    obtain p j where r: "row_at (rq_path r) [] (sv_rows st) = Some p" "rq_body r = Some j"
      and rows: "rows = put_row (update_metadata now u j p) (sv_rows st)"
      using update_data_product_200 u True by metis
    have id: "sp_id p = i" using row_at_found [OF r(1)] assms by simp
    have "filter (\<lambda>v. rv_product_id v = k) (snapshots ids now u j p revs) = []" if "k \<noteq> i" for k revs
      using that id by (auto simp: snapshots_def new_revision_def filter_empty_conv)
    then show ?thesis
      using u True r id
      by (simp add: update_with_history_def rows touches_def product_at_put_row history_of_def)
  qed (simp add: update_with_history_def u)
qed

lemma touches_restore:
  assumes "restore_route (rq_path r) = Some (i, v)"
  shows "touches i st (snd (restore_revision lower ids now u r st))"
  using product_at_id [of i "sv_rows st"]
  by (auto simp: restore_revision_def assms Let_def product_at_def [symmetric] touches_def product_at_put_row
      history_of_def new_revision_def split: option.split)

lemma touches_tables:
  assumes "rq_path r = product_path i @ js ''/tables''"
  shows "touches i st (st\<lparr>sv_rows := snd (set_data_product_tables lower u r (sv_rows st))\<rparr>)"
  using row_at_found [of "rq_path r" "js ''/tables''" "sv_rows st"] assms
  by (auto simp: set_data_product_tables_def Let_def touches_def product_at_put_row history_of_def split: option.split)

lemma touches_delete:
  assumes "rq_path r = product_path i"
  shows "touches i st (st\<lparr>sv_rows := snd (delete_data_product lower u r (sv_rows st)),
    sv_revs := filter (\<lambda>v. P \<longrightarrow> product_path (rv_product_id v) \<noteq> rq_path r) (sv_revs st)\<rparr>)"
proof -
  have "filter (\<lambda>v. (P \<longrightarrow> rv_product_id v \<noteq> i) \<and> rv_product_id v = j) (sv_revs st) =
      filter (\<lambda>v. rv_product_id v = j) (sv_revs st)" if "j \<noteq> i" for j
    by (rule filter_cong) (use that in auto)
  then show ?thesis
    using row_at_found [of "rq_path r" "[]" "sv_rows st"] assms
    by (auto simp: delete_data_product_def Let_def touches_def product_at_filter history_of_def filter_filter
        split: option.split)
qed

text \<open>A refused request changes nothing.\<close>

lemma refused_unchanged:
  assumes "serve env now u r st = (status, st')" and "400 \<le> status"
  shows "st' = st"
proof (cases "rq_method r")
  case PATCH
  then show ?thesis
    using assms by (auto simp: serve_def update_with_history_def split: prod.splits if_splits option.splits)
next
  case POST
  then show ?thesis
    using assms
    by (auto simp: serve_def restore_revision_def create_data_product_def Let_def
        split: prod.splits if_splits option.splits sum.splits)
next
  case PUT
  then show ?thesis
    using assms by (auto simp: serve_def set_data_product_tables_def Let_def split: prod.splits if_splits option.splits)
next
  case DELETE
  then show ?thesis
    using assms
    by (auto simp: serve_def delete_data_product_def Let_def split: prod.splits if_splits option.splits)
qed (use assms in \<open>simp_all add: serve_def\<close>)

section \<open>Every change is announced\<close>

fun product_of :: "change \<Rightarrow> jsstr option" where
  "product_of (Update i body) = Some i"
| "product_of (Restore i r) = Some i"
| "product_of (Save i m) = Some i"
| "product_of (Remove i) = Some i"
| "product_of (Create f) = None"

lemma serve_touches:
  assumes "r \<in> set (requests_of c)" and "product_of c = Some i" and "sane (Serve c now)"
  shows "touches i st (snd (serve env now u r st))"
proof (cases c)
  case (Update j body)
  then show ?thesis
    using assms touches_update
    by (auto simp: useUpdatePipeline_def updatePipeline_def send_def serve_def)
next
  case (Restore j v)
  then have route: "restore_route (rq_path r) = Some (i, v)" and m: "rq_method r = POST"
    and path: "rq_path r = product_path i @ js ''/revisions/'' @ v @ js ''/restore''"
    using assms restore_route_of [of i v]
    by (auto simp: useRestoreRevision_def restoreRevision_def send_def)
  have "rq_path r \<noteq> js ''/data-products''" unfolding path by (simp add: product_path_def js_def)
  then show ?thesis using touches_restore [OF route] m by (simp add: serve_def)
next
  case (Save j m)
  with assms(1,2) consider "rq_method r = PATCH" "rq_path r = product_path i"
    | "rq_method r = PUT" "rq_path r = product_path i @ js ''/tables''"
    by (auto simp: save_requests_def send_def)
  then show ?thesis
  proof cases
    case 1
    then show ?thesis using touches_update by (simp add: serve_def)
  next
    case 2
    then show ?thesis using touches_tables [of r i st "se_lower env" u] by (simp add: serve_def case_prod_beta)
  qed
next
  case (Remove j)
  then show ?thesis
    using assms touches_delete [where r = r and i = i and st = st and lower = "se_lower env" and u = u]
    by (auto simp: send_def serve_def case_prod_beta)
qed (use assms in simp)

lemma serve_requests_touches:
  assumes "serve_requests env now u rs st = (ok, st')" and "\<And>r st. r \<in> set rs \<Longrightarrow> touches i st (snd (serve env now u r st))"
  shows "touches i st st'"
  using assms
proof (induction rs arbitrary: st)
  case (Cons r rs)
  obtain status st1 where r: "serve env now u r st = (status, st1)" by (rule prod.exhaust)
  have "touches i st st1" using Cons.prems(2) [of r st] r by simp
  moreover have "touches i st1 st'" if "status < 400"
    using Cons.IH [of st1] Cons.prems that by (simp add: r)
  moreover have "st' = st1" if "\<not> status < 400"
    using Cons.prems(1) that by (simp add: r)
  ultimately show ?case by (metis touches_trans touches_refl)
qed simp

lemma one_refused_unchanged:
  "serve_requests env now u [r] st = (False, st') \<Longrightarrow> st' = st"
  using refused_unchanged by (force split: prod.splits if_splits)

lemma invalidated_keys:
  "is_prefix [JStr (js ''data-products'')] (qs_key (spec_of q)) \<longleftrightarrow> is_list q"
  "is_prefix [JStr (js ''pipeline''), JStr i] (qs_key (spec_of q)) \<longleftrightarrow> about i q \<and> \<not> is_history q"
  "is_prefix [JStr (js ''revisions''), JStr i] (qs_key (spec_of q)) \<longleftrightarrow> about i q \<and> is_history q"
  by (cases q; auto simp: useDataProducts_def usePipelineDetail_def useRevisions_def)+

lemma announced:
  "invalidated (effects_of c) (qs_key (spec_of q)) \<longleftrightarrow>
     is_list q \<or>
     (case c of Update i b \<Rightarrow> about i q | Restore i r \<Rightarrow> about i q | Save i m \<Rightarrow> about i q \<and> \<not> is_history q
      | Remove i \<Rightarrow> False | Create f \<Rightarrow> False)"
  by (cases c) (auto simp: useUpdatePipeline_def useRestoreRevision_def run_save_def run_remove_def save_requests_def
      created_effects_def invalidated_keys simp del: is_prefix.simps)

lemma created_frame:
  assumes "serve_requests env now u [create_request f] st = (ok, st')" and "ask env rd u q st = Some a" and "\<not> is_list q"
  shows "ask env rd u q st' = Some a"
proof -
  have "rq_method (create_request f) = POST" "rq_path (create_request f) = js ''/data-products''"
    by (simp_all add: create_request_def send_def)
  then obtain ps where st': "sv_rows st' = sv_rows st @ ps" "sv_revs st' = sv_revs st"
    using assms(1) create_appends [of "se_lower env" "se_error env" "se_new env st" now u "create_request f" "sv_rows st"]
    by (auto simp: serve_def split: prod.splits if_splits)
  show ?thesis
  proof (cases q)
    case (Q_revisions j f)
    obtain g where "\<And>st. ask env rd u (Q_revisions j f) st =
        (if product_at j (sv_rows st) = None then None else g (history_of j st))"
      using ask_revisions by metis
    then show ?thesis
      using assms(2) Q_revisions by (auto simp: st' history_of_def product_at_append split: if_splits)
  qed (use assms(2,3) in \<open>auto simp: ask_detail st' product_at_append split: if_splits\<close>)
qed

lemma change_announced:
  assumes "sane (Serve c now)" and served: "serve_requests env now u (requests_of c) st = (ok, st')"
    and "ask env rd u q st = Some a"
  shows "ask env rd u q st' = Some a \<or> (ok \<and> invalidated (effects_of c) (qs_key (spec_of q))) \<or> gap c ok q"
proof (cases "product_of c")
  case None
  then obtain f where c: "c = Create f" by (cases c) auto
  show ?thesis
  proof (cases "is_list q")
    case True
    then show ?thesis
      using one_refused_unchanged [of env now u "create_request f" st st'] served assms(3) announced [of c q]
      unfolding c by (cases ok) (simp_all del: serve_requests.simps effects_of.simps)
  next
    case False
    then show ?thesis using created_frame served assms(3) by (simp add: c)
  qed
next
  case (Some i)
  have touch: "touches i st st'"
    using serve_requests_touches [OF served] serve_touches [OF _ Some assms(1)] by blast
  show ?thesis
  proof (cases "about i q \<or> is_list q")
    case True
    have single: "st' = st" if "\<not> ok" "requests_of c = [r]" for r
      using one_refused_unchanged served that by metis
    show ?thesis
      using True Some single assms(3) announced [of c q]
      by (cases c; cases ok) (auto simp del: effects_of.simps)
  next
    case False
    then show ?thesis using ask_touched [OF touch, of q env rd u] assms(3) by simp
  qed
qed

section \<open>The cache follows the service\<close>

definition current :: "surroundings \<Rightarrow> reading \<Rightarrow> user_info \<Rightarrow> cache_world \<Rightarrow> bool" where
  "current env rd u w \<longleftrightarrow> (\<forall>q e. cw_cache w q = Some e \<longrightarrow>
     ce_stale e \<or> ce_missed e \<or> ask env rd u q (cw_service w) = Some (ce_answer e) \<or>
     (\<exists>c. (c, True) \<in> set (cw_pending w) \<and> invalidated (effects_of c) (qs_key (spec_of q))))"

lemma currentI:
  assumes "\<And>q e. cw_cache w q = Some e \<Longrightarrow> \<not> ce_stale e \<Longrightarrow> \<not> ce_missed e \<Longrightarrow>
    ask env rd u q (cw_service w) = Some (ce_answer e) \<or>
    (\<exists>c. (c, True) \<in> set (cw_pending w) \<and> invalidated (effects_of c) (qs_key (spec_of q)))"
  shows "current env rd u w"
  using assms unfolding current_def by blast

lemma currentD:
  assumes "current env rd u w" and "cw_cache w q = Some e" and "\<not> ce_stale e" and "\<not> ce_missed e"
  shows "ask env rd u q (cw_service w) = Some (ce_answer e) \<or>
    (\<exists>c. (c, True) \<in> set (cw_pending w) \<and> invalidated (effects_of c) (qs_key (spec_of q)))"
  using assms unfolding current_def by blast

lemma on_entries_sel [simp]:
  "cw_service (on_entries f w) = cw_service w" "cw_pending (on_entries f w) = cw_pending w"
  "cw_cache (on_entries f w) q = map_option (f q) (cw_cache w q)"
  by (simp_all add: on_entries_def)

lemma current_serve:
  assumes "sane (Serve c now)" and cur: "current env rd u w"
  shows "current env rd u (cache_step env rd u (Serve c now) w)"
proof -
  obtain ok st where served: "serve_requests env now u (requests_of c) (cw_service w) = (ok, st)" by (rule prod.exhaust)
  show ?thesis
  proof (rule currentI)
    fix q e
    assume "cw_cache (cache_step env rd u (Serve c now) w) q = Some e" "\<not> ce_stale e" "\<not> ce_missed e"
    then obtain e0 where e0: "cw_cache w q = Some e0" "e = (if gap c ok q then e0\<lparr>ce_missed := True\<rparr> else e0)"
      by (auto simp: served)
    have "\<not> gap c ok q" using e0 \<open>\<not> ce_missed e\<close> by (cases e0) (auto split: if_splits)
    then have "e = e0" using e0(2) by simp
    from currentD [OF cur e0(1)] \<open>\<not> ce_stale e\<close> \<open>\<not> ce_missed e\<close>
    consider "ask env rd u q (cw_service w) = Some (ce_answer e)"
      | d where "(d, True) \<in> set (cw_pending w)" "invalidated (effects_of d) (qs_key (spec_of q))"
      unfolding \<open>e = e0\<close> by blast
    then show "ask env rd u q (cw_service (cache_step env rd u (Serve c now) w)) = Some (ce_answer e) \<or>
      (\<exists>d. (d, True) \<in> set (cw_pending (cache_step env rd u (Serve c now) w)) \<and>
         invalidated (effects_of d) (qs_key (spec_of q)))"
    proof cases
      case 1
      from change_announced [OF assms(1) served 1] \<open>\<not> gap c ok q\<close> show ?thesis by (auto simp: served)
    next
      case 2
      then show ?thesis by (auto simp: served)
    qed
  qed
qed

lemma current_settle:
  assumes cur: "current env rd u w"
  shows "current env rd u (cache_step env rd u (Settle k) w)"
proof (cases "k < length (cw_pending w)")
  case True
  obtain c ok where c: "cw_pending w ! k = (c, ok)" by (rule prod.exhaust)
  have split: "set (cw_pending w) = insert (c, ok) (set (take k (cw_pending w) @ drop (Suc k) (cw_pending w)))"
    using id_take_nth_drop [OF True] c by (metis Un_insert_right list.simps(15) set_append)
  show ?thesis
  proof (rule currentI)
    fix q e
    assume e: "cw_cache (cache_step env rd u (Settle k) w) q = Some e" "\<not> ce_stale e" "\<not> ce_missed e"
    let ?hit = "ok \<and> invalidated (effects_of c) (qs_key (spec_of q))"
    obtain e0 where e0: "cw_cache w q = Some e0" "e = (if ?hit then e0\<lparr>ce_stale := True\<rparr> else e0)"
      using e(1) True by (auto simp: c split del: if_split)
    have "\<not> ?hit" using e0(2) e(2) by (cases e0) (auto split: if_splits)
    then have "\<not> ?hit" "cw_cache w q = Some e" using e0 by (simp_all only: if_False simp_thms)
    then show "ask env rd u q (cw_service (cache_step env rd u (Settle k) w)) = Some (ce_answer e) \<or>
      (\<exists>d. (d, True) \<in> set (cw_pending (cache_step env rd u (Settle k) w)) \<and>
         invalidated (effects_of d) (qs_key (spec_of q)))"
      using currentD [OF cur _ e(2,3)] split True by (auto simp: c)
  qed
qed (use cur in simp)

interpretation cache_machine: guarded_machine "cache_step env rd u" "empty_cache st" "current env rd u" sane for env rd u st
proof unfold_locales
  show "current env rd u (empty_cache st)" by (simp add: current_def empty_cache_def)
  show "current env rd u (cache_step env rd u e w)" if "sane e" "current env rd u w" for e w
  proof (cases e)
    case (Fetch q)
    then show ?thesis using that(2) by (auto simp: current_def split: option.split)
  next
    case (Drop q)
    then show ?thesis using that(2) by (auto simp: current_def)
  next
    case (Serve c now)
    then show ?thesis using current_serve that by metis
  next
    case (Settle k)
    then show ?thesis using current_settle that(2) by metis
  next
    case (Other_user now v r)
    then show ?thesis by (auto simp: current_def)
  qed
qed

lemma entry_current:
  assumes "list_all sane es" and "w = fold (cache_step env rd u) es (empty_cache st)"
    and "list_all (\<lambda>(c, ok). \<not> ok) (cw_pending w)"
    and "cw_cache w q = Some e" "\<not> ce_stale e" "\<not> ce_missed e"
  shows "ask env rd u q (cw_service w) = Some (ce_answer e)"
proof -
  have "current env rd u w" unfolding assms(2) by (rule cache_machine.guarded_run [OF assms(1)])
  from currentD [OF this assms(4-6)] assms(3) show ?thesis by (auto simp: list_all_iff)
qed


text \<open>
  The registry and the workspace do not contradict each other: under the same conditions, a product's
  row in any cached page of any list shows the name, description, team and schedule of its cached
  detail.
\<close>

theorem list_and_detail_agree:
  assumes "list_all sane es" and "w = fold (cache_step env rd u) es (empty_cache st)"
    and "list_all (\<lambda>(c, ok). \<not> ok) (cw_pending w)"
    and "cw_cache w (Q_list s fs n) = Some e1" "\<not> ce_stale e1" "\<not> ce_missed e1" "ce_answer e1 = A_list pg"
    and "cw_cache w (Q_detail i) = Some e2" "\<not> ce_stale e2" "\<not> ce_missed e2" "ce_answer e2 = A_detail d"
    and "distinct (map sp_id (sv_rows (cw_service w)))"
    and "x \<in> set (pg_items pg)" and "li_id x = i"
  shows "li_name x = pd_name d \<and> li_description x = pd_description d \<and> li_team x = pd_team d \<and>
    li_schedule_type x = pd_schedule_type d"
proof -
  let ?rows = "sv_rows (cw_service w)"
  obtain p where p: "product_at i ?rows = Some p" and d: "d = get_product_detail_for_user (se_lower env) (rd_snippet rd) u p"
    using entry_current [OF assms(1-3,8-10)] assms(11) by (auto simp: ask_detail split: if_splits)
  obtain r where "list_data_products (rd_collate rd) (rd_matches rd) ?rows r = Some pg"
    using entry_current [OF assms(1-3,4-6)] assms(7) by (auto simp: ask_def split: option.splits)
  then have "set (pg_items pg) \<subseteq> item_of ` set ?rows"
    by (auto simp: list_data_products_def list_products_def Let_def split: if_splits dest!: in_set_takeD in_set_dropD)
  then obtain y where y: "y \<in> set ?rows" "x = item_of y" using assms(13) by blast
  have "sp_id y = i" using y(2) assms(14) by (simp add: item_of_def)
  then have "product_at i ?rows = Some y"
    using row_at_product_Nil [OF y(1) assms(12)] by (simp add: product_at_row)
  then show ?thesis using p d y(2) by (simp add: item_of_def get_product_detail_for_user_def)
qed

text \<open>Saving in the edit modal records the text it replaces, and leaves the cached history as it is.\<close>

lemma edit_modal_misses_history:
  assumes "serve env now u (hd (save_requests i m)) st = (200, st')" and "product_at i (sv_rows st) = Some p"
    and "truthy (Some (em_documentation m)) \<noteq> sp_documentation p"
  shows "history_of i st' \<noteq> history_of i st"
    and "\<not> invalidated (effects_of (Save i m)) (qs_key (spec_of (Q_revisions i f)))"
proof -
  show "\<not> invalidated (effects_of (Save i m)) (qs_key (spec_of (Q_revisions i f)))"
    by (subst announced) simp
  let ?r = "hd (save_requests i m)"
  have r: "?r = send PATCH (product_path i) (Some (details_body m))" by (simp add: save_requests_eq)
  have "body_str (js ''documentation'') (details_body m) = truthy (Some (em_documentation m))"
    using body_str_json_opt [OF details_body_fields(3)] by simp
  then have "changes (details_body m) p Documentation"
    using assms(3) by (simp add: changes_def get_field_def details_body_fields)
  then have new: "list_ex (\<lambda>v. rv_product_id v = i) (snapshots (se_ids env) now u (details_body m) p (sv_revs st))"
    using snapshot_recorded [of "details_body m" p Documentation "se_ids env" now u "sv_revs st"] product_at_id [OF assms(2)]
    unfolding list_ex_iff by blast
  obtain status rows where ur: "update_data_product (se_lower env) now u ?r (sv_rows st) = (status, rows)" by fastforce
  have "sv_revs st' = sv_revs st @ snapshots (se_ids env) now u (details_body m) p (sv_revs st)"
    using assms(1,2) ur
    by (auto simp: serve_def r send_def update_with_history_def product_at_row split: if_splits)
  then have "history_of i st' = history_of i st @
      filter (\<lambda>v. rv_product_id v = i) (snapshots (se_ids env) now u (details_body m) p (sv_revs st))"
    by (simp add: history_of_def)
  then show "history_of i st' \<noteq> history_of i st"
    using new by (auto simp: list_ex_iff filter_empty_conv)
qed

section \<open>An example\<close>

text \<open>The detail of a product is cached, and the deletion of another one refused.\<close>

definition demo_events :: "cache_event list" where
  "demo_events = [Fetch (Q_detail (js ''p1'')), Serve (Remove (js ''p2'')) []]"

definition demo_reading :: reading where
  "demo_reading = \<lparr>rd_collate = (\<lambda>s t. 0), rd_matches = (\<lambda>q p. True), rd_snippet = (\<lambda>s. s)\<rparr>"

lemma demo_product: "product_at (js ''p1'') [demo_row] = Some demo_row" "row_at (product_path (js ''p2'')) [] [demo_row] = None"
  by (simp_all add: product_at_row) (simp_all add: product_at_def demo_row_def)


end
