(* ===== verification/Spec2Isabelle.thy ===== *)
theory Spec2Isabelle
  imports Js_Prelude Json_Text Iso_Time Auth_Store Api_Client Query_Client App_Config Chat Navigation Web_Storage
    Preferences Onboarding Data_Api Sessions Catalog Tables_View Formatting Exporting Editing Markdown Products
    Palette Date_Range Shell Spotlight Server History Revision_View Doc_Session
    Session_Run Page_Run Prototype Primitives Service_Auth Cache_Run
begin

text \<open>
  Verification of the ETL Nexus front end (\<^verbatim>\<open>src/frontend/src\<close>, TypeScript and React).

  \<^bold>\<open>The program.\<close>  ETL Nexus is a registry of data products.  A single-page application shows
  them in three tabs (products, tables, an AI terminal) over a REST service.  Its logic lives in
  small global stores, in hooks that bind queries and mutations of the service to components, in
  component state with effects, and in pure helpers.  The parts interact as follows: the
  bootstrap reads the server's authentication mode and fills the session store; the guard keeps
  the session store in step with the identity provider and registers the callbacks by which the
  HTTP client refreshes a session or gives it up; every request passes through that client;
  components read the stores, compute derived lists, and repair selections by effects; mutations
  write their answers into the query cache and invalidate what they change.

  \<^bold>\<open>The method.\<close>  A store or a component's state is a record; an action, handler or effect is a
  function on it named as in the source; a component is a function from its state to an abstract
  view (\<open>'e ui\<close> in \<open>Js_Prelude\<close>): the texts it shows and the controls it offers, each control
  with the event it raises and whether it is disabled.  A user can raise exactly the events in
  \<open>raises\<close> of the current view, so guards that the code keeps in the view (a disabled or
  absent button) are guards of the model.  A run is a fold of events from the initial state, and
  \<open>event_machine\<close> turns an invariant of one step into an invariant of every run.  Effects run
  after the event that changes one of their dependencies, in the order of their declaration.

  \<^bold>\<open>Theories and sources.\<close>
  \<^item> \<open>Js_Prelude\<close>: strings as lists of UTF-16 code units and their methods, \<^verbatim>\<open>Set\<close> and
    \<^verbatim>\<open>Map\<close> with insertion order, the stable \<^verbatim>\<open>Array.prototype.sort\<close>, query results, views.
  \<^item> \<open>Json_Text\<close>, \<open>Iso_Time\<close>: \<^verbatim>\<open>JSON.stringify\<close> and \<^verbatim>\<open>JSON.parse\<close> on texts and arrays of texts, the
    calendar and \<^verbatim>\<open>Date.prototype.toISOString\<close>, each with a reader and its round trip.
  \<^item> \<open>Auth_Store\<close> (\<^verbatim>\<open>stores/auth-store.ts\<close>, \<^verbatim>\<open>lib/permissions.ts\<close>): session and roles.
  \<^item> \<open>Api_Client\<close> (\<^verbatim>\<open>api/client.ts\<close>): interceptors and the loop of resent requests.
  \<^item> \<open>Query_Client\<close> (\<^verbatim>\<open>main.tsx\<close>): the calls a query makes, and the attempts and tokens of them all.
  \<^item> \<open>App_Config\<close> (\<^verbatim>\<open>stores/app-config-store.ts\<close>): branding and timeouts.
  \<^item> \<open>Sessions\<close> (\<^verbatim>\<open>components/auth\<close>, \<^verbatim>\<open>hooks/use-auth.ts\<close>): bootstrap, guard, login page.
  \<^item> \<open>Chat\<close> (\<^verbatim>\<open>stores/ai-store.ts\<close>, \<^verbatim>\<open>hooks/use-ai-chat.ts\<close>, \<^verbatim>\<open>components/ai-terminal\<close>):
    the terminal as an inductive step relation over the store, the input and the requests in flight.
  \<^item> \<open>Navigation\<close> (\<^verbatim>\<open>stores/navigation-store.ts\<close>, \<^verbatim>\<open>App.tsx\<close>): tabs and hash.
  \<^item> \<open>Web_Storage\<close>, \<open>Preferences\<close> (\<^verbatim>\<open>stores/theme-store.ts\<close>, \<^verbatim>\<open>stores/favorites-store.ts\<close>):
    the browser's storage, which may refuse to read or write, and what is kept in it.
  \<^item> \<open>Onboarding\<close> (\<^verbatim>\<open>stores/onboarding-store.ts\<close>, \<^verbatim>\<open>components/onboarding\<close>): the guided tour.
  \<^item> \<open>Data_Api\<close> (\<^verbatim>\<open>api/pipelines.ts\<close>, \<^verbatim>\<open>api/tables.ts\<close>, \<^verbatim>\<open>api/auth.ts\<close>, \<^verbatim>\<open>hooks\<close>, \<^verbatim>\<open>types\<close>):
    request builders, queries with keys and enabling conditions, mutations with their cache effects.
  \<^item> \<open>Catalog\<close> (\<^verbatim>\<open>stores/data-product-store.ts\<close> and the registry list of
    \<^verbatim>\<open>components/data-products\<close>): filters, grouping by team, selection effects, debounced search.
  \<^item> \<open>Products\<close> (workspace and modals of \<^verbatim>\<open>components/data-products\<close>): creation, editing,
    deletion, the active table.
  \<^item> \<open>Tables_View\<close> (\<^verbatim>\<open>components/tables\<close>, \<^verbatim>\<open>TableSelect.tsx\<close>, \<^verbatim>\<open>SchemaViewer.tsx\<close>,
    \<^verbatim>\<open>ConsumeSnippet.tsx\<close>): the tables tab, the multi-select, the schema and snippet cards.
  \<^item> \<open>Editing\<close> (\<^verbatim>\<open>components/bento-workspace\<close>): markdown toolbar, documentation modal,
    description editor, revision history, copy button.
  \<^item> \<open>Markdown\<close> (\<^verbatim>\<open>documentation/markdown-components.tsx\<close>, \<^verbatim>\<open>ai-terminal/ChatMessage.tsx\<close>): the
    element tables over a tree, code blocks and what their button copies, the sanitising schema.
  \<^item> \<open>Formatting\<close>, \<open>Exporting\<close> (\<^verbatim>\<open>lib\<close>): durations, counts, relative times, status styles;
    CSV, SVG, PNG and HTML downloads.
  \<^item> \<open>Palette\<close>, \<open>Date_Range\<close>, \<open>Shell\<close> (\<^verbatim>\<open>components/shared\<close>, \<^verbatim>\<open>components/layout\<close>,
    \<^verbatim>\<open>stores/date-range-store.ts\<close>): command palette, date picker, sidebar, error boundary,
    highlights of the tour.
  \<^item> \<open>Spotlight\<close> (\<^verbatim>\<open>components/onboarding/*Spotlight*.tsx\<close>): when the highlights of the tour measure.
  \<^item> \<open>Server\<close> (\<^verbatim>\<open>src/backend/app\<close>: \<^verbatim>\<open>routers/data_products.py\<close>, \<^verbatim>\<open>services/data_product_service.py\<close>,
    \<^verbatim>\<open>repositories/data_product_repo.py\<close>, \<^verbatim>\<open>auth.py\<close>, \<^verbatim>\<open>schemas\<close>): what the service makes of the
    product requests and which chat requests it takes, and the theorems about both sides together.
  \<^item> \<open>History\<close> (\<^verbatim>\<open>update_product_metadata\<close> and \<^verbatim>\<open>restore_revision\<close> of the same service,
    \<^verbatim>\<open>repositories/revision_repo.py\<close>): the table of revisions, and the service as one state under all
    its writing routes.
  \<^item> \<open>Service_Auth\<close> (\<^verbatim>\<open>auth.py\<close>, \<^verbatim>\<open>config.py\<close>, \<^verbatim>\<open>integrations/oidc_client.py\<close>,
    \<^verbatim>\<open>routers/auth.py\<close>): the user of a token, the cache of the provider's signing keys under any
    requests, and what the front end is told at sign-in.
  \<^item> \<open>Revision_View\<close>: the history panel and the description's list over that table.
  \<^item> \<open>Cache_Run\<close>: the lists, details and histories in one query cache, every mutation of the application
    and the writes of other users as one run.
  \<^item> \<open>Doc_Session\<close>: the documentation modal, its saves in flight, the service and its other users as one run.
  \<^item> \<open>Session_Run\<close>: the guard, the session store and the queries with their retries as one run.
  \<^item> \<open>Page_Run\<close>: the navigation store with the one location hash, the registry with its query cache, the
    palette and the late answers of mutations as one run.
  \<^item> \<open>Primitives\<close> (\<^verbatim>\<open>components/ui\<close>, \<^verbatim>\<open>lib/utils.ts\<close>, \<^verbatim>\<open>lib/admin-styles.ts\<close>, \<^verbatim>\<open>lib/config.ts\<close>, what
    \<^verbatim>\<open>main.tsx\<close> mounts): each wrapper as a function from its property object to an element of the
    component library below, class names included.
  \<^item> \<open>Prototype\<close> (\<^verbatim>\<open>design_idea.ts\<close>): the design prototype, a single file over a fixed catalog.

  A comment of the form \<^verbatim>\<open>src: file first-last symbol\<close> before a definition names the lines it
  translates; a definition without one is a piece of the environment or an abbreviation of ours.

  \<^bold>\<open>What the lemmas show.\<close>
  \<^item> Requests: a call ends after at most four attempts, replays only safe methods, resends with
    the refreshed token, and its failure leaves the session in a stated condition; the paging
    parameters load each page once and all of them; a query as a whole is bounded in calls, attempts
    and waiting, and sends no token but the session's and those a silent sign-in returned.
  \<^item> Both sides: the filters mean the same to the list and to the service; editing is offered exactly
    where the service allows it, and only users it is offered to change a product; a save without changes
    stores nothing new; no version of a text is lost, whatever the users of the service do at the same
    time, restoring the newest one undoes a save, and the histories on screen offer the newest ones only; a
    request of the create modal is never refused for its team or its body; a long conversation outgrows
    what is accepted.
  \<^item> Sessions: a signed-in user reaches the application; the callbacks are registered exactly
    while the user is signed in; what the application shows after the session is lost.  Composed with
    the client and the queries: a run of the application is a run of the guard, each token sent comes
    from the identity provider, and a session ends only after a 401 answer that no refresh repaired.
  \<^item> The cache: once the callbacks have run, a cached answer that is not stale is the service's, so the rows
    of the registry and the workspace agree; the queries a mutation forgets are named.
  \<^item> Stores and selections: invariants over every run (one request in flight, hash and tab agree,
    the tour stands on one of its steps, a selected product or table is a listed one), with the
    functional behaviour of each action on every branch.
  \<^item> The page: whatever the order of the user's acts, fetches and late answers, the hash names the tab on
    show and the selected product is a listed one; what the palette and a creation therefore open.
  \<^item> Views: which requests can be raised in which state, hence that every creation request is
    valid, that deletion takes two clicks, that readers never save.
  \<^item> Helpers: round trips of CSV and durations, agreement of the two renderings of an age, the
    toolbar's text insertion and the selection it leaves; rendered markdown keeps the text and is inert.
  \<^item> The service's identity: a request speaks for a user only with a token that a listed key signed, a
    withdrawn key is refused once the cache has expired, a new one accepted without a restart, refreshes
    of requests in sequence keep the cooldown and those of interleaved requests do not; the roles and
    teams a session can have.
  \<^item> Wrappers: what a caller gives a wrapper reaches the element it stands for.
  \<^item> Refinement: runs of the favourites store, reloads and refused writes included, are runs of a set
    with a saved copy.
  \<^item> Where the code departs from what it means to do, a theorem states what it does.

  \<^bold>\<open>Interfaces.\<close>  \<open>comparator\<close> is what a sort asks of its comparison function;
  \<open>membership_toggle\<close> the contract of every filter, favourite and multi-select toggle, provided by
  \<open>toggleFilter\<close>, \<open>toggleFavorite\<close> and \<open>ts_toggle\<close>; \<open>event_machine\<close> is provided by each store and
  component with a run, \<open>guarded_machine\<close> the same for runs whose environment owes them something, provided
  by the page, by the query cache, by the editing of documentation and by the cut-out of the tour; \<open>item_store\<close> is what the stores rely on from the browser's
  storage;
  \<open>table_contract\<close> what a table of markdown elements owes its trees, provided by both tables;
  \<open>key_refresh\<close> and \<open>key_cache\<close> what an invariant of the service's key cache owes its single actions, provided
  by the dating of the keys, the spacing of the refreshes and the clock;
  \<open>selection_keeper\<close> the contract of the effects that repair a selection.

  \<^bold>\<open>Termination and bounds.\<close>  The one definition with fuel is the reader of JSON text, called with
  twice the length of the text and one more; any greater amount gives the same answer, so a text it
  does not read is not JSON (\<open>read_value_bound\<close>), and it reads what is printed (\<open>parse_stringify\<close>).  The request loop recurses on a measure of
  the configuration (its unused session retry and its unused transient retries), which is the
  bound of four attempts; every other recursion follows its data.  Numbers of the code that are
  counters or positions are \<open>nat\<close> or \<open>int\<close>; durations are rationals, with the rounding to a
  double written out in the one place where it can be seen (\<open>formatCount\<close>).

  \<^bold>\<open>Environment.\<close>  Parameters stand for what is not in the sources: the server's answers, the OIDC
  library, \<^verbatim>\<open>Math.random\<close>, the clock and time zone, \<^verbatim>\<open>localeCompare\<close>, \<^verbatim>\<open>toLowerCase\<close> and
  \<^verbatim>\<open>toUpperCase\<close>, the parsing of typed dates, the tree the markdown libraries make of a text, the image
  renderer of the exports; the libraries below the wrappers; for the service, the database's text search
  and collation, the identity provider's answers and the JWT library.  Where a
  theorem relies on their documented behaviour, it is a hypothesis of that theorem.

  \<^bold>\<open>Not modelled.\<close>  Icons, animation, scrolling and focus, and class names outside the wrappers of
  \<^verbatim>\<open>components/ui\<close>: they change no state; the markdown and component libraries; the layout that remains of
  the views, static markup around the modelled texts and controls; of the service, the ingestion of
  table schemas, the language model, rate limits, metrics and health checks; the hooks package.  React
  is assumed to run effects after the render they belong to and before the next event, and to batch
  the updates of one handler; the query library to keep at most one fetch of a key, which an invalidation
  restarts, so that a fetch is one event.
\<close>

end
